(* ===== verification/Router_Prelude.thy ===== *)
theory Router_Prelude
  imports
    Complex_Main
    "HOL-Library.AList"
    "HOL-Library.Char_ord"
    "HOL-Library.List_Lexorder"
    "HOL-Library.Sublist"
begin

text \<open>
  Shared vocabulary of the router development: the collections of rewrite rules, Python's
  exceptions as values, JSON values, insertion-ordered dictionaries, the string operations
  the sources use and the outcome of an HTTP call. Every component theory imports this one.

  A Python \<^verbatim>\<open>dict\<close> is an association list with distinct keys in insertion order:
  \<open>map_of\<close> reads it, \<open>AList.update\<close> overwrites in place or appends at the end, and
  \<open>AList.delete\<close> removes a key, exactly as \<^verbatim>\<open>d[k] = v\<close> and \<^verbatim>\<open>del d[k]\<close> do.
  Times and averages are exact rationals: the rounding of floating point is not modelled.
\<close>

named_theorems result_simps \<open>rewriting of computations that may raise\<close>
named_theorems dict_simps \<open>rewriting of dictionary reads after writes\<close>

section \<open>Exceptions as values\<close>

datatype py_error =
    IndexError
  | KeyError string
  | ValueError string
  | TypeError string
  | AttributeError string
  | AssertionError string
  | RuntimeError string
  | ZeroDivisionError
  | UnboundLocalError string
  | FileNotFoundError string
  | JSONDecodeError
  | ClientResponseError int
  | OtherException string

type_synonym 'a result = "py_error + 'a"

definition bindE :: "'a result \<Rightarrow> ('a \<Rightarrow> 'b result) \<Rightarrow> 'b result" where
  "bindE m f = (case m of Inl e \<Rightarrow> Inl e | Inr x \<Rightarrow> f x)"

fun mapE :: "('a \<Rightarrow> 'b result) \<Rightarrow> 'a list \<Rightarrow> 'b list result" where
  "mapE f [] = Inr []"
| "mapE f (x # xs) = bindE (f x) (\<lambda>y. bindE (mapE f xs) (\<lambda>ys. Inr (y # ys)))"

fun filterE :: "('a \<Rightarrow> bool result) \<Rightarrow> 'a list \<Rightarrow> 'a list result" where
  "filterE p [] = Inr []"
| "filterE p (x # xs) =
     bindE (p x) (\<lambda>b. bindE (filterE p xs) (\<lambda>ys. Inr (if b then x # ys else ys)))"

text \<open>\<^verbatim>\<open>xs[i]\<close> for an index that is not negative.\<close>

definition py_nth :: "'a list \<Rightarrow> nat \<Rightarrow> 'a result" where
  "py_nth xs i = (if i < length xs then Inr (xs ! i) else Inl IndexError)"

section \<open>JSON values\<close>

datatype json =
    JNull
  | JBool bool
  | JInt int
  | JFloat rat
  | JStr string
  | JList "json list"
  | JObj "(string \<times> json) list"

type_synonym jobj = "(string \<times> json) list"

text \<open>Python's truth value of a decoded JSON value.\<close>

fun truthy :: "json \<Rightarrow> bool" where
  "truthy JNull = False"
| "truthy (JBool b) = b"
| "truthy (JInt i) = (i \<noteq> 0)"
| "truthy (JFloat r) = (r \<noteq> 0)"
| "truthy (JStr s) = (s \<noteq> [])"
| "truthy (JList xs) = (xs \<noteq> [])"
| "truthy (JObj kvs) = (kvs \<noteq> [])"

text \<open>Lists and dictionaries cannot be dictionary keys or set members.\<close>

fun hashable :: "json \<Rightarrow> bool" where
  "hashable (JList _) = False"
| "hashable (JObj _) = False"
| "hashable _ = True"

definition jget :: "jobj \<Rightarrow> string \<Rightarrow> json \<Rightarrow> json" where
  "jget d k dflt = (case map_of d k of None \<Rightarrow> dflt | Some v \<Rightarrow> v)"

text \<open>\<^verbatim>\<open>d.get(k, dflt)\<close>; \<^verbatim>\<open>d.setdefault(k, v)\<close>; and \<^verbatim>\<open>d[k] += 1\<close> after setting a missing entry to 0.\<close>

definition dget :: "('k \<times> 'v) list \<Rightarrow> 'k \<Rightarrow> 'v \<Rightarrow> 'v" where
  "dget d k dflt = (case map_of d k of None \<Rightarrow> dflt | Some v \<Rightarrow> v)"

definition setdefault :: "'k \<Rightarrow> 'v \<Rightarrow> ('k \<times> 'v) list \<Rightarrow> ('k \<times> 'v) list" where
  "setdefault k v d = (if k \<in> fst ` set d then d else AList.update k v d)"

definition dict_incr :: "'k \<Rightarrow> ('k \<times> int) list \<Rightarrow> ('k \<times> int) list" where
  "dict_incr k d = AList.update k (dget d k 0 + 1) d"

text \<open>\<^verbatim>\<open>d1 | d2\<close> on dictionaries: the entries of the second win.\<close>

definition dict_union :: "('k \<times> 'v) list \<Rightarrow> ('k \<times> 'v) list \<Rightarrow> ('k \<times> 'v) list" where
  "dict_union d1 d2 = fold (\<lambda>(k, v) d. AList.update k v d) d2 d1"

text \<open>Python's \<^verbatim>\<open>v == n\<close> between a decoded value and an integer literal.\<close>

fun json_eq_int :: "json \<Rightarrow> int \<Rightarrow> bool" where
  "json_eq_int (JInt i) n = (i = n)"
| "json_eq_int (JFloat r) n = (r = of_int n)"
| "json_eq_int (JBool b) n = (n = (if b then 1 else 0))"
| "json_eq_int _ n = False"

section \<open>Strings\<close>

fun starts_with :: "string \<Rightarrow> string \<Rightarrow> bool" where
  "starts_with s [] = True"
| "starts_with [] (c # p) = False"
| "starts_with (d # s) (c # p) = (d = c \<and> starts_with s p)"

definition ends_with :: "string \<Rightarrow> string \<Rightarrow> bool" where
  "ends_with s p = starts_with (rev s) (rev p)"

text \<open>Python's \<^verbatim>\<open>p in s\<close> on strings.\<close>

fun contains :: "string \<Rightarrow> string \<Rightarrow> bool" where
  "contains [] p = (p = [])"
| "contains (c # s) p = (starts_with (c # s) p \<or> contains s p)"

text \<open>\<^verbatim>\<open>s.split(c)\<close> for a one-character separator: never an empty list.\<close>

fun split_on :: "char \<Rightarrow> string \<Rightarrow> string list" where
  "split_on c [] = [[]]"
| "split_on c (d # s) =
     (if d = c then [] # split_on c s
      else (case split_on c s of [] \<Rightarrow> [[d]] | w # ws \<Rightarrow> (d # w) # ws))"

text \<open>\<^verbatim>\<open>s.split(p)\<close> for a separator of any length (an empty one raises in Python).\<close>

function split_str :: "string \<Rightarrow> string \<Rightarrow> string list" where
  "split_str p s =
     (case s of
        [] \<Rightarrow> [[]]
      | d # s' \<Rightarrow>
          (if p \<noteq> [] \<and> starts_with s p then [] # split_str p (drop (length p) s)
           else (case split_str p s' of [] \<Rightarrow> [[d]] | w # ws \<Rightarrow> (d # w) # ws)))"
  by pat_completeness auto
termination
  by (relation "measure (\<lambda>(p, s). length s)") (auto simp: neq_Nil_conv)

fun join :: "string \<Rightarrow> string list \<Rightarrow> string" where
  "join sep [] = []"
| "join sep [w] = w"
| "join sep (w # v # ws) = w @ sep @ join sep (v # ws)"

definition is_space :: "char \<Rightarrow> bool" where
  "is_space c = (of_char c \<in> {9, 10, 11, 12, 13, 28, 29, 30, 31, 32 :: nat})"

definition strip :: "string \<Rightarrow> string" where
  "strip s = rev (dropWhile is_space (rev (dropWhile is_space s)))"

definition lower_char :: "char \<Rightarrow> char" where
  "lower_char c = (let n = of_char c :: nat in if 65 \<le> n \<and> n \<le> 90 then char_of (n + 32) else c)"

definition lower :: "string \<Rightarrow> string" where
  "lower s = map lower_char s"

fun digit_char :: "nat \<Rightarrow> char" where
  "digit_char n = char_of (48 + n)"

fun show_nat :: "nat \<Rightarrow> string" where
  "show_nat n = (if n < 10 then [digit_char n] else show_nat (n div 10) @ [digit_char (n mod 10)])"

definition show_int :: "int \<Rightarrow> string" where
  "show_int i = (if i < 0 then ''-'' @ show_nat (nat (- i)) else show_nat (nat i))"

declare show_nat.simps [simp del]
declare split_str.simps [simp del]

section \<open>HTTP calls\<close>

text \<open>
  What a call of the \<^verbatim>\<open>requests\<close> library gives its caller: it raises, or it returns a response
  with a status code and a body that is or is not JSON.
\<close>

datatype http_outcome = HttpRaise | HttpResponse (http_status: int) (http_json: "json option")

text \<open>\<^verbatim>\<open>raise_for_status()\<close> raises exactly on 4xx and 5xx.\<close>

definition raises_for_status :: "int \<Rightarrow> bool" where
  "raises_for_status st = (400 \<le> st \<and> st < 600)"

section \<open>Lemmas on computations that may raise\<close>

lemma bindE_Inl [simp, result_simps]: "bindE (Inl e) f = Inl e"
  by (simp add: bindE_def)

lemma bindE_Inr [simp, result_simps]: "bindE (Inr x) f = f x"
  by (simp add: bindE_def)

lemma bindE_eq_Inr [result_simps]: "bindE m f = Inr y \<longleftrightarrow> (\<exists>x. m = Inr x \<and> f x = Inr y)"
  by (cases m) auto

lemma bindE_eq_Inl [result_simps]:
  "bindE m f = Inl e \<longleftrightarrow> m = Inl e \<or> (\<exists>x. m = Inr x \<and> f x = Inl e)"
  by (cases m) auto

lemma bindE_cong [fundef_cong]:
  "m = n \<Longrightarrow> (\<And>x. n = Inr x \<Longrightarrow> f x = g x) \<Longrightarrow> bindE m f = bindE n g"
  by (cases n) auto

lemma mapE_length: "mapE f xs = Inr ys \<Longrightarrow> length ys = length xs"
  by (induction xs arbitrary: ys) (auto simp: bindE_eq_Inr)

lemma mapE_total: "(\<And>x. x \<in> set xs \<Longrightarrow> f x = Inr (g x)) \<Longrightarrow> mapE f xs = Inr (map g xs)"
  by (induction xs) auto

lemma filterE_total:
  "(\<And>x. x \<in> set xs \<Longrightarrow> p x = Inr (q x)) \<Longrightarrow> filterE p xs = Inr (filter q xs)"
  by (induction xs) auto

lemma filterE_set: "filterE p xs = Inr ys \<Longrightarrow> set ys = {x \<in> set xs. p x = Inr True}"
  by (induction xs arbitrary: ys) (auto simp: bindE_eq_Inr split: if_splits)

lemma py_nth_in: "py_nth xs i = Inr x \<Longrightarrow> x \<in> set xs"
  by (auto simp: py_nth_def split: if_splits)

section \<open>Lemmas on dictionaries\<close>

lemma dict_get_set [simp, dict_simps]:
  "map_of (AList.update k v d) x = (if x = k then Some v else map_of d x)"
  by (simp add: update_conv')

lemma dict_get_del [simp, dict_simps]:
  "map_of (AList.delete k d) x = (if x = k then None else map_of d x)"
  by (simp add: delete_conv')

lemma dict_keys_set [simp, dict_simps]: "fst ` set (AList.update k v d) = insert k (fst ` set d)"
  by (induction d) auto

lemma dict_keys_del [simp, dict_simps]: "fst ` set (AList.delete k d) = fst ` set d - {k}"
  by (induction d) auto

lemma dict_distinct_set [simp, intro]:
  "distinct (map fst d) \<Longrightarrow> distinct (map fst (AList.update k v d))"
  by (rule distinct_update)

lemma dict_distinct_del [simp, intro]:
  "distinct (map fst d) \<Longrightarrow> distinct (map fst (AList.delete k d))"
  by (induction d) auto

lemma dict_set_mem: "p \<in> set (AList.update k v d) \<Longrightarrow> p = (k, v) \<or> p \<in> set d"
  by (induction d) (auto split: if_splits)

lemma dict_del_mem: "p \<in> set (AList.delete k d) \<Longrightarrow> p \<in> set d \<and> fst p \<noteq> k"
  by (induction d) (auto split: if_splits)

lemma dict_key_iff: "k \<in> fst ` set d \<longleftrightarrow> map_of d k \<noteq> None"
  by (auto simp: map_of_eq_None_iff)

lemma dget_set [simp, dict_simps]: "dget (AList.update k v d) x dflt = (if x = k then v else dget d x dflt)"
  by (simp add: dget_def)

lemma dget_incr [simp, dict_simps]:
  "dget (dict_incr k d) x dflt = (if x = k then dget d k 0 + 1 else dget d x dflt)"
  by (simp add: dict_incr_def)

lemma dict_keys_incr [simp, dict_simps]: "fst ` set (dict_incr k d) = insert k (fst ` set d)"
  by (simp add: dict_incr_def)

lemma map_of_setdefault [simp, dict_simps]:
  "map_of (setdefault k v d) x = (if x = k then Some (dget d k v) else map_of d x)"
  by (auto simp: setdefault_def dget_def dict_key_iff split: option.splits)

lemma dict_keys_setdefault [simp, dict_simps]: "fst ` set (setdefault k v d) = insert k (fst ` set d)"
  by (auto simp: setdefault_def)

lemma jget_present: "map_of d k = Some v \<Longrightarrow> jget d k dflt = v"
  by (simp add: jget_def)

lemma jget_absent: "map_of d k = None \<Longrightarrow> jget d k dflt = dflt"
  by (simp add: jget_def)

section \<open>Lemmas on strings\<close>

lemma starts_with_prefix: "starts_with s p \<longleftrightarrow> prefix p s"
  by (induction s p rule: starts_with.induct) auto

lemma ends_with_suffix: "ends_with s p \<longleftrightarrow> suffix p s"
  by (simp add: ends_with_def starts_with_prefix suffix_to_prefix)

lemma contains_sublist: "contains s p \<longleftrightarrow> sublist p s"
  by (induction s) (auto simp: starts_with_prefix sublist_Cons_right)

lemma split_on_nonempty [simp]: "split_on c s \<noteq> []"
  by (cases s) (auto split: list.splits)

lemma join_Cons: "ws \<noteq> [] \<Longrightarrow> join sep (w # ws) = w @ sep @ join sep ws"
  by (cases ws) auto

lemma join_split_on: "join [c] (split_on c s) = s"
proof (induction s)
  case Nil
  show ?case by simp
next
  case (Cons d s)
  obtain w ws where sp: "split_on c s = w # ws"
    by (cases "split_on c s") auto
  with Cons show ?case
    by (cases ws) (auto simp: join_Cons)
qed

lemma split_on_no_sep: "c \<notin> set w \<Longrightarrow> split_on c w = [w]"
  by (induction w) auto

lemma split_on_append: "split_on c (a @ c # b) = split_on c a @ split_on c b"
proof (induction a)
  case Nil
  show ?case by simp
next
  case (Cons d a)
  then show ?case by (cases "split_on c a") auto
qed

lemma split_on_append_sep:
  "c \<notin> set w \<Longrightarrow> split_on c (w @ c # s) = w # split_on c s"
  by (induction w) auto

lemma split_on_join:
  assumes "ws \<noteq> []" and "\<forall>w \<in> set ws. c \<notin> set w"
  shows "split_on c (join [c] ws) = ws"
  using assms
proof (induction ws)
  case Nil
  then show ?case by simp
next
  case (Cons w ws)
  then show ?case
    by (cases "ws = []") (auto simp: join_Cons split_on_no_sep split_on_append_sep)
qed

lemma split_on_parts: "w \<in> set (split_on c s) \<Longrightarrow> c \<notin> set w"
proof (induction s arbitrary: w)
  case Nil
  then show ?case by simp
next
  case (Cons d s)
  obtain v vs where sp: "split_on c s = v # vs"
    by (cases "split_on c s") auto
  with Cons show ?case by (auto split: if_splits)
qed

lemma split_on_length: "length (split_on c s) = Suc (count_list s c)"
proof (induction s)
  case Nil
  show ?case by simp
next
  case (Cons d s)
  then show ?case by (cases "split_on c s") auto
qed

end
