(* ===== verification/Endpoints.thy ===== *)
theory Endpoints
  imports Router_Prelude
begin

text \<open>
  The data every service discovery hands to the router
  (\<^verbatim>\<open>src/src/vllm_router/service_discovery.py\<close>): \<^verbatim>\<open>ModelInfo\<close> with its dictionary
  conversions, \<^verbatim>\<open>EndpointInfo\<close> with its queries, the label containers of the
  disaggregated-prefill options and the pair of client sessions kept in \<^verbatim>\<open>app.state\<close>.
  Values that come out of an engine's JSON answer (model ids, parents, the sleep flag) stay
  JSON values, since the code stores them unchecked.
\<close>

section \<open>Model information\<close>

record model_info =
  mi_id :: json
  mi_object :: json
  mi_created :: json
  mi_owned_by :: json
  mi_root :: json
  mi_parent :: json
  mi_is_adapter :: bool

definition ModelInfo_from_dict :: "int \<Rightarrow> jobj \<Rightarrow> model_info" where
  "ModelInfo_from_dict now data =
     \<lparr>mi_id = jget data ''id'' JNull,
      mi_object = jget data ''object'' (JStr ''model''),
      mi_created = jget data ''created'' (JInt now),
      mi_owned_by = jget data ''owned_by'' (JStr ''vllm''),
      mi_root = jget data ''root'' JNull,
      mi_parent = jget data ''parent'' JNull,
      mi_is_adapter = (jget data ''parent'' JNull \<noteq> JNull)\<rparr>"

definition ModelInfo_to_dict :: "model_info \<Rightarrow> jobj" where
  "ModelInfo_to_dict m =
     [(''id'', mi_id m),
      (''object'', mi_object m),
      (''created'', mi_created m),
      (''owned_by'', mi_owned_by m),
      (''root'', mi_root m),
      (''parent'', mi_parent m),
      (''is_adapter'', JBool (mi_is_adapter m))]"

definition wf_model_info :: "model_info \<Rightarrow> bool" where
  "wf_model_info m \<longleftrightarrow> mi_is_adapter m = (mi_parent m \<noteq> JNull)"

section \<open>Endpoints\<close>

type_synonym model_infos = "(json \<times> model_info) list"

record endpoint_info =
  ep_url :: string
  ep_model_names :: "json list"
  ep_Id :: string
  ep_added_timestamp :: int
  ep_model_label :: "string option"
  ep_sleep :: json
  ep_pod_name :: "string option"
  ep_service_name :: "string option"
  ep_namespace :: "string option"
  ep_model_info :: "model_infos option"

definition no_model_info :: "endpoint_info \<Rightarrow> bool" where
  "no_model_info e = (case ep_model_info e of None \<Rightarrow> True | Some d \<Rightarrow> d = [])"

definition model_info_items :: "endpoint_info \<Rightarrow> model_infos" where
  "model_info_items e = (case ep_model_info e of None \<Rightarrow> [] | Some d \<Rightarrow> d)"

definition get_base_models :: "endpoint_info \<Rightarrow> json list" where
  "get_base_models e =
     (if no_model_info e then []
      else map fst (filter (\<lambda>(model_id, info). \<not> truthy (mi_parent info)) (model_info_items e)))"

definition get_adapters :: "endpoint_info \<Rightarrow> json list" where
  "get_adapters e =
     (if no_model_info e then []
      else map fst (filter (\<lambda>(model_id, info). truthy (mi_parent info)) (model_info_items e)))"

definition get_adapters_for_model :: "endpoint_info \<Rightarrow> json \<Rightarrow> json list" where
  "get_adapters_for_model e base_model =
     (if no_model_info e then []
      else map fst (filter (\<lambda>(model_id, info). mi_parent info = base_model) (model_info_items e)))"

definition has_model :: "endpoint_info \<Rightarrow> json \<Rightarrow> bool" where
  "has_model e model_id \<longleftrightarrow> model_id \<in> set (ep_model_names e)"

definition get_model_info :: "endpoint_info \<Rightarrow> json \<Rightarrow> model_info option" where
  "get_model_info e model_id =
     (if no_model_info e then None else map_of (model_info_items e) model_id)"

section \<open>Label containers\<close>

text \<open>
  \<^verbatim>\<open>prefill_model_labels\<close> and \<^verbatim>\<open>decode_model_labels\<close> are annotated as lists. The dynamic
  configuration does pass lists, but \<^verbatim>\<open>initialize_all\<close> passes the command-line string
  unsplit, and then \<^verbatim>\<open>label in labels\<close> is Python's substring test, which raises
  \<^verbatim>\<open>TypeError\<close> when the endpoint has no label.
\<close>

datatype labels = LabelString string | LabelList "string list"

fun label_in :: "string option \<Rightarrow> labels \<Rightarrow> bool result" where
  "label_in (Some l) (LabelString s) = Inr (contains s l)"
| "label_in None (LabelString s) = Inl (TypeError ''in <string> requires string as left operand'')"
| "label_in (Some l) (LabelList ls) = Inr (l \<in> set ls)"
| "label_in None (LabelList ls) = Inr False"

section \<open>Client sessions in the application state\<close>

text \<open>
  \<^verbatim>\<open>app.state.prefill_client\<close> and \<^verbatim>\<open>app.state.decode_client\<close>: a session has an identity
  (its creation number) and a base URL. \<open>cs_closed\<close> records the sessions that were closed.
\<close>

record client_state =
  cs_prefill :: "(nat \<times> string) option"
  cs_decode :: "(nat \<times> string) option"
  cs_next :: nat
  cs_closed :: "nat set"

definition new_client_state :: client_state where
  "new_client_state = \<lparr>cs_prefill = None, cs_decode = None, cs_next = 0, cs_closed = {}\<rparr>"

definition open_prefill :: "string \<Rightarrow> client_state \<Rightarrow> client_state" where
  "open_prefill base_url c =
     c\<lparr>cs_prefill := Some (cs_next c, base_url), cs_next := Suc (cs_next c)\<rparr>"

definition open_decode :: "string \<Rightarrow> client_state \<Rightarrow> client_state" where
  "open_decode base_url c =
     c\<lparr>cs_decode := Some (cs_next c, base_url), cs_next := Suc (cs_next c)\<rparr>"

definition close_prefill :: "client_state \<Rightarrow> client_state" where
  "close_prefill c =
     (case cs_prefill c of None \<Rightarrow> c | Some (i, _) \<Rightarrow> c\<lparr>cs_closed := insert i (cs_closed c)\<rparr>)"

definition close_decode :: "client_state \<Rightarrow> client_state" where
  "close_decode c =
     (case cs_decode c of None \<Rightarrow> c | Some (i, _) \<Rightarrow> c\<lparr>cs_closed := insert i (cs_closed c)\<rparr>)"

text \<open>
  The loop of \<^verbatim>\<open>initialize_client_sessions\<close>: an endpoint whose label is among the prefill
  labels replaces the prefill session, otherwise one among the decode labels replaces the
  decode session. The static and the service-name discovery drop the old session, the pod-IP
  discovery closes it first (\<open>closing\<close>). A raising label test ends the loop; what was done
  before stays.
\<close>

fun sessions_loop ::
  "bool \<Rightarrow> labels \<Rightarrow> labels \<Rightarrow> endpoint_info list \<Rightarrow> client_state \<Rightarrow> client_state \<times> py_error option"
where
  "sessions_loop closing pl dl [] c = (c, None)"
| "sessions_loop closing pl dl (e # es) c =
     (case label_in (ep_model_label e) pl of
        Inl err \<Rightarrow> (c, Some err)
      | Inr True \<Rightarrow>
          sessions_loop closing pl dl es
            (open_prefill (ep_url e) (if closing then close_prefill c else c))
      | Inr False \<Rightarrow>
          (case label_in (ep_model_label e) dl of
             Inl err \<Rightarrow> (c, Some err)
           | Inr True \<Rightarrow>
               sessions_loop closing pl dl es
                 (open_decode (ep_url e) (if closing then close_decode c else c))
           | Inr False \<Rightarrow> sessions_loop closing pl dl es c))"

definition initialize_sessions ::
  "bool \<Rightarrow> labels option \<Rightarrow> labels option \<Rightarrow> endpoint_info list \<Rightarrow> client_state \<Rightarrow>
   client_state \<times> py_error option" where
  "initialize_sessions closing pl dl es c =
     (case (pl, dl) of
        (Some pls, Some dls) \<Rightarrow> sessions_loop closing pls dls es c
      | _ \<Rightarrow> (c, None))"

section \<open>Queries\<close>

lemma items_when_none: "no_model_info e \<Longrightarrow> model_info_items e = []"
  by (simp add: no_model_info_def model_info_items_def split: option.splits)

lemma fst_image_iff: "m \<in> fst ` A \<longleftrightarrow> (\<exists>v. (m, v) \<in> A)"
  by force

lemma get_base_models_iff:
  "m \<in> set (get_base_models e) \<longleftrightarrow>
   (\<exists>info. (m, info) \<in> set (model_info_items e) \<and> \<not> truthy (mi_parent info))"
  by (auto simp: get_base_models_def items_when_none fst_image_iff)

lemma get_adapters_iff:
  "m \<in> set (get_adapters e) \<longleftrightarrow>
   (\<exists>info. (m, info) \<in> set (model_info_items e) \<and> truthy (mi_parent info))"
  by (auto simp: get_adapters_def items_when_none fst_image_iff)

lemma get_adapters_for_model_iff:
  "m \<in> set (get_adapters_for_model e b) \<longleftrightarrow>
   (\<exists>info. (m, info) \<in> set (model_info_items e) \<and> mi_parent info = b)"
  by (auto simp: get_adapters_for_model_def items_when_none fst_image_iff)

lemma get_model_info_lookup: "get_model_info e m = map_of (model_info_items e) m"
  by (simp add: get_model_info_def items_when_none)

lemma base_models_adapters_cover:
  "set (get_base_models e) \<union> set (get_adapters e) = fst ` set (model_info_items e)"
  unfolding set_eq_iff Un_iff get_base_models_iff get_adapters_iff fst_eq_Domain Domain_iff
  by blast

lemma base_models_adapters_disjoint:
  "distinct (map fst (model_info_items e)) \<Longrightarrow>
   set (get_base_models e) \<inter> set (get_adapters e) = {}"
  by (fastforce simp: get_base_models_iff get_adapters_iff dest: eq_key_imp_eq_value)

section \<open>Dictionary conversions\<close>

lemma ModelInfo_from_dict_wf: "wf_model_info (ModelInfo_from_dict now data)"
  by (simp add: wf_model_info_def ModelInfo_from_dict_def)

text \<open>\<^verbatim>\<open>ModelInfo.to_dict\<close> followed by \<^verbatim>\<open>ModelInfo.from_dict\<close> gives the same
  \<^verbatim>\<open>ModelInfo\<close> back, whatever the clock says, for every value whose adapter flag agrees with
  its parent (which every value made by \<^verbatim>\<open>from_dict\<close> satisfies).\<close>

theorem model_info_dict_roundtrip:
  assumes "wf_model_info m"
  shows "ModelInfo_from_dict now (ModelInfo_to_dict m) = m"
  using assms
  by (simp add: ModelInfo_from_dict_def ModelInfo_to_dict_def jget_def wf_model_info_def)

theorem model_info_dict_roundtrip_witness:
  "ModelInfo_from_dict 7
     (ModelInfo_to_dict (ModelInfo_from_dict 5 [(''id'', JStr ''lora''), (''parent'', JStr ''base'')]))
   = \<lparr>mi_id = JStr ''lora'', mi_object = JStr ''model'', mi_created = JInt 5,
      mi_owned_by = JStr ''vllm'', mi_root = JNull, mi_parent = JStr ''base'', mi_is_adapter = True\<rparr>"
proof -
  let ?m = "ModelInfo_from_dict 5 [(''id'', JStr ''lora''), (''parent'', JStr ''base'')]"
  have "wf_model_info ?m" by (rule ModelInfo_from_dict_wf)
  from model_info_dict_roundtrip [OF this, of 7] show ?thesis
    by (simp add: ModelInfo_from_dict_def jget_def)
qed

section \<open>Sessions\<close>

text \<open>Sessions that were created, are not closed and are not in use: leaked connections.\<close>

definition leaked :: "client_state \<Rightarrow> nat set" where
  "leaked c = {i. i < cs_next c \<and> i \<notin> cs_closed c \<and>
                  i \<notin> fst ` set_option (cs_prefill c) \<and> i \<notin> fst ` set_option (cs_decode c)}"

definition wf_clients :: "client_state \<Rightarrow> bool" where
  "wf_clients c \<longleftrightarrow>
     (\<forall>i \<in> fst ` set_option (cs_prefill c) \<union> fst ` set_option (cs_decode c). i < cs_next c)"

lemma wf_clients_new [simp]: "wf_clients new_client_state"
  by (simp add: wf_clients_def new_client_state_def)

lemma leaked_new [simp]: "leaked new_client_state = {}"
  by (simp add: leaked_def new_client_state_def)

lemma replace_prefill_no_leak:
  assumes "wf_clients c" and "leaked c = {}"
  shows "wf_clients (open_prefill u (close_prefill c)) \<and> leaked (open_prefill u (close_prefill c)) = {}"
  using assms
  by (cases "cs_prefill c")
     (auto simp: wf_clients_def leaked_def open_prefill_def close_prefill_def less_Suc_eq)

lemma replace_decode_no_leak:
  assumes "wf_clients c" and "leaked c = {}"
  shows "wf_clients (open_decode u (close_decode c)) \<and> leaked (open_decode u (close_decode c)) = {}"
  using assms
  by (cases "cs_decode c")
     (auto simp: wf_clients_def leaked_def open_decode_def close_decode_def less_Suc_eq)

lemma sessions_loop_no_leak:
  assumes "wf_clients c" and "leaked c = {}"
  shows "wf_clients (fst (sessions_loop True pl dl es c)) \<and>
         leaked (fst (sessions_loop True pl dl es c)) = {}"
  using assms
proof (induction es arbitrary: c)
  case Nil
  then show ?case by simp
next
  case (Cons e es)
  note rp = replace_prefill_no_leak [OF Cons.prems]
  note rd = replace_decode_no_leak [OF Cons.prems]
  show ?case
    using Cons.IH rp rd Cons.prems by (auto split: sum.splits bool.splits)
qed

lemma initialize_sessions_no_leak:
  "wf_clients c \<Longrightarrow> leaked c = {} \<Longrightarrow>
   wf_clients (fst (initialize_sessions True pl dl es c)) \<and>
   leaked (fst (initialize_sessions True pl dl es c)) = {}"
  by (auto simp: initialize_sessions_def sessions_loop_no_leak split: option.splits)

text \<open>A list of labels never makes the loop raise, and what it leaves as the prefill session
  points at the last endpoint with a prefill label.\<close>

lemma label_in_list: "label_in l (LabelList ls) = Inr (l \<in> Some ` set ls)"
  by (cases l) auto

lemma sessions_loop_list_total: "snd (sessions_loop b (LabelList pl) (LabelList dl) es c) = None"
  by (induction es arbitrary: c) (auto simp: label_in_list split: bool.splits)

lemma close_prefill_prefill [simp]: "cs_prefill (close_prefill c) = cs_prefill c"
  by (simp add: close_prefill_def split: option.splits)

lemma close_decode_prefill [simp]: "cs_prefill (close_decode c) = cs_prefill c"
  by (simp add: close_decode_def split: option.splits)

lemma sessions_loop_prefill_target:
  "map_option snd (cs_prefill (fst (sessions_loop b (LabelList pl) dl' es c))) =
   (case filter (\<lambda>e. ep_model_label e \<in> Some ` set pl) es of
      [] \<Rightarrow> map_option snd (cs_prefill c)
    | ms \<Rightarrow> Some (ep_url (last ms)))"
  if "dl' = LabelList dl"
  using that
proof (induction es arbitrary: c)
  case Nil
  then show ?case by simp
next
  case (Cons e es)
  then show ?case
    by (auto simp: label_in_list open_prefill_def open_decode_def split: bool.splits list.splits)
qed

end
