(* ===== verification/Regex_Match.thy ===== *)
theory Regex_Match
  imports Router_Prelude
begin

text \<open>
  The fragment of Python's \<^verbatim>\<open>re\<close> that the sources use for validation: classes, sequence,
  alternative, repetition. Matching is by derivatives and executable; \<open>matches_iff\<close> shows
  that it decides the language of the expression, so the order in which Python backtracks
  does not matter for the boolean answer.
\<close>

datatype rexp =
    Nothing
  | Epsilon
  | Cls "char \<Rightarrow> bool"
  | Seq rexp rexp
  | Alt rexp rexp
  | Rep rexp

fun nullable :: "rexp \<Rightarrow> bool" where
  "nullable Nothing = False"
| "nullable Epsilon = True"
| "nullable (Cls p) = False"
| "nullable (Seq r s) = (nullable r \<and> nullable s)"
| "nullable (Alt r s) = (nullable r \<or> nullable s)"
| "nullable (Rep r) = True"

fun deriv :: "char \<Rightarrow> rexp \<Rightarrow> rexp" where
  "deriv c Nothing = Nothing"
| "deriv c Epsilon = Nothing"
| "deriv c (Cls p) = (if p c then Epsilon else Nothing)"
| "deriv c (Seq r s) =
     (if nullable r then Alt (Seq (deriv c r) s) (deriv c s) else Seq (deriv c r) s)"
| "deriv c (Alt r s) = Alt (deriv c r) (deriv c s)"
| "deriv c (Rep r) = Seq (deriv c r) (Rep r)"

fun matches :: "rexp \<Rightarrow> string \<Rightarrow> bool" where
  "matches r [] = nullable r"
| "matches r (c # s) = matches (deriv c r) s"

definition lit :: "string \<Rightarrow> rexp" where
  "lit w = foldr (\<lambda>c r. Seq (Cls (\<lambda>d. d = c)) r) w Epsilon"

definition opt :: "rexp \<Rightarrow> rexp" where
  "opt r = Alt Epsilon r"

definition some1 :: "rexp \<Rightarrow> rexp" where
  "some1 r = Seq r (Rep r)"

fun rep_n :: "nat \<Rightarrow> rexp \<Rightarrow> rexp" where
  "rep_n 0 r = Epsilon"
| "rep_n (Suc n) r = Seq r (rep_n n r)"

text \<open>The meaning of an expression, by inference rules.\<close>

inductive in_lang :: "rexp \<Rightarrow> string \<Rightarrow> bool" where
  eps: "in_lang Epsilon []"
| cls: "p c \<Longrightarrow> in_lang (Cls p) [c]"
| seq: "in_lang r u \<Longrightarrow> in_lang s v \<Longrightarrow> in_lang (Seq r s) (u @ v)"
| altl: "in_lang r u \<Longrightarrow> in_lang (Alt r s) u"
| altr: "in_lang s u \<Longrightarrow> in_lang (Alt r s) u"
| rep0: "in_lang (Rep r) []"
| rep1: "in_lang r u \<Longrightarrow> in_lang (Rep r) v \<Longrightarrow> in_lang (Rep r) (u @ v)"

inductive_simps in_lang_simps [simp]:
  "in_lang Nothing u" "in_lang Epsilon u" "in_lang (Cls p) u" "in_lang (Seq r s) u"
  "in_lang (Alt r s) u"

inductive_cases in_lang_RepE: "in_lang (Rep r) u"

lemma nullable_iff: "nullable r \<longleftrightarrow> in_lang r []"
  by (induction r) (auto intro: in_lang.rep0)

lemma rep_Cons:
  assumes "in_lang (Rep r) (c # w)"
  shows "\<exists>u v. w = u @ v \<and> in_lang r (c # u) \<and> in_lang (Rep r) v"
  using assms
proof (induction "Rep r" "c # w" arbitrary: w rule: in_lang.induct)
  case (rep1 u v)
  then show ?case
    by (cases u) auto
qed

lemma deriv_iff: "in_lang (deriv c r) w \<longleftrightarrow> in_lang r (c # w)"
proof (induction r arbitrary: w)
  case (Seq r s)
  have "in_lang (Seq r s) (c # w) \<longleftrightarrow>
        (\<exists>u v. w = u @ v \<and> in_lang r (c # u) \<and> in_lang s v) \<or> (in_lang r [] \<and> in_lang s (c # w))"
    by (auto simp: Cons_eq_append_conv)
  with Seq show ?case by (auto simp: nullable_iff)
next
  case (Rep r)
  show ?case
  proof
    assume "in_lang (deriv c (Rep r)) w"
    then obtain u v where "w = u @ v" "in_lang r (c # u)" "in_lang (Rep r) v"
      using Rep by auto
    then show "in_lang (Rep r) (c # w)"
      using in_lang.rep1 [of r "c # u" v] by simp
  next
    assume "in_lang (Rep r) (c # w)"
    then show "in_lang (deriv c (Rep r)) w"
      using rep_Cons Rep by fastforce
  qed
qed auto

theorem matches_iff: "matches r s \<longleftrightarrow> in_lang r s"
  by (induction r s rule: matches.induct) (simp_all add: nullable_iff deriv_iff)

lemma in_lang_lit [simp]: "in_lang (lit w) s \<longleftrightarrow> s = w"
proof (induction w arbitrary: s)
  case Nil
  show ?case by (simp add: lit_def)
next
  case (Cons c w)
  then show ?case by (auto simp: lit_def)
qed

lemma in_lang_opt [simp]: "in_lang (opt r) s \<longleftrightarrow> s = [] \<or> in_lang r s"
  by (auto simp: opt_def)

end
