(* ===== verification/Router_Utils.thy ===== *)
theory Router_Utils
  imports Regex_Match
begin

text \<open>
  \<^verbatim>\<open>src/src/vllm_router/utils.py\<close>: the singleton metaclasses, the model types with the
  requests of the backend health check, URL validation, the parsers of the comma-separated
  command-line options, the rewriting of a request body and the open-file limit.
\<close>

section \<open>Singletons\<close>

text \<open>
  A call of a singleton class: the stored instance if there is one; otherwise \<^verbatim>\<open>None\<close> when the
  keyword \<^verbatim>\<open>_create\<close> (\<^verbatim>\<open>create\<close> in \<^verbatim>\<open>SingletonABCMeta\<close>) is \<^verbatim>\<open>False\<close>, and else the
  constructor runs and its result is stored, unless it raises.
\<close>

definition SingletonMeta_call ::
  "('c \<times> 'i) list \<Rightarrow> 'c \<Rightarrow> bool \<Rightarrow> 'i result \<Rightarrow> ('c \<times> 'i) list \<times> 'i option result" where
  "SingletonMeta_call instances cls create_is_False ctor =
     (case map_of instances cls of
        Some i \<Rightarrow> (instances, Inr (Some i))
      | None \<Rightarrow>
          if create_is_False then (instances, Inr None)
          else (case ctor of
                  Inl e \<Rightarrow> (instances, Inl e)
                | Inr i \<Rightarrow> (AList.update cls i instances, Inr (Some i))))"

definition SingletonABCMeta_call ::
  "('c \<times> 'i) list \<Rightarrow> 'c \<Rightarrow> bool \<Rightarrow> 'i result \<Rightarrow> ('c \<times> 'i) list \<times> 'i option result" where
  "SingletonABCMeta_call instances cls create_is_False ctor =
     (case map_of instances cls of
        Some i \<Rightarrow> (instances, Inr (Some i))
      | None \<Rightarrow>
          if create_is_False then (instances, Inr None)
          else (case ctor of
                  Inl e \<Rightarrow> (instances, Inl e)
                | Inr i \<Rightarrow> (AList.update cls i instances, Inr (Some i))))"

section \<open>The silent recording of the transcription health check\<close>

fun le_bytes :: "nat \<Rightarrow> nat \<Rightarrow> string" where
  "le_bytes 0 n = []"
| "le_bytes (Suc k) n = char_of (n mod 256) # le_bytes k (n div 256)"

text \<open>A WAV file as Python's \<^verbatim>\<open>wave\<close> module writes it: one channel, two bytes a sample, a
  frame rate and the frames.\<close>

definition wave_file :: "nat \<Rightarrow> nat \<Rightarrow> nat \<Rightarrow> string \<Rightarrow> string" where
  "wave_file nchannels sampwidth framerate frames =
     ''RIFF'' @ le_bytes 4 (36 + length frames) @ ''WAVE'' @
     ''fmt '' @ le_bytes 4 16 @ le_bytes 2 1 @ le_bytes 2 nchannels @ le_bytes 4 framerate @
     le_bytes 4 (nchannels * framerate * sampwidth) @ le_bytes 2 (nchannels * sampwidth) @
     le_bytes 2 (sampwidth * 8) @ ''data'' @ le_bytes 4 (length frames) @ frames"

definition SILENT_WAV_BYTES :: string where
  "SILENT_WAV_BYTES = wave_file 1 2 16000 (concat (replicate 1600 [CHR 0x00, CHR 0x00]))"

section \<open>Model types\<close>

datatype model_type =
  MT_chat | MT_completion | MT_embeddings | MT_rerank | MT_score | MT_transcription | MT_vision

definition model_type_names :: "(string \<times> model_type) list" where
  "model_type_names =
     [(''chat'', MT_chat), (''completion'', MT_completion), (''embeddings'', MT_embeddings),
      (''rerank'', MT_rerank), (''score'', MT_score), (''transcription'', MT_transcription),
      (''vision'', MT_vision)]"

definition model_type_lookup :: "string \<Rightarrow> model_type result" where
  "model_type_lookup name =
     (case map_of model_type_names name of None \<Rightarrow> Inl (KeyError name) | Some t \<Rightarrow> Inr t)"

definition get_all_fields :: "string list" where
  "get_all_fields = map fst model_type_names"

fun model_type_url :: "model_type \<Rightarrow> string" where
  "model_type_url MT_chat = ''/v1/chat/completions''"
| "model_type_url MT_vision = ''/v1/chat/completions''"
| "model_type_url MT_completion = ''/v1/completions''"
| "model_type_url MT_embeddings = ''/v1/embeddings''"
| "model_type_url MT_rerank = ''/v1/rerank''"
| "model_type_url MT_score = ''/v1/score''"
| "model_type_url MT_transcription = ''/v1/audio/transcriptions''"

definition ModelType_get_url :: "string \<Rightarrow> string result" where
  "ModelType_get_url name = bindE (model_type_lookup name) (\<lambda>t. Inr (model_type_url t))"

datatype payload = JsonPayload jobj | FilePayload string string string

fun model_type_payload :: "model_type \<Rightarrow> payload" where
  "model_type_payload MT_chat =
     JsonPayload
       [(''messages'', JList [JObj [(''role'', JStr ''user''), (''content'', JStr ''Hello'')]]),
        (''temperature'', JFloat 0),
        (''max_tokens'', JInt 3)]"
| "model_type_payload MT_completion =
     JsonPayload [(''prompt'', JStr ''Hello''), (''max_tokens'', JInt 3)]"
| "model_type_payload MT_embeddings = JsonPayload [(''input'', JStr ''Hello'')]"
| "model_type_payload MT_rerank =
     JsonPayload [(''query'', JStr ''Hello''), (''documents'', JList [JStr ''Test''])]"
| "model_type_payload MT_score =
     JsonPayload
       [(''encoding_format'', JStr ''float''), (''text_1'', JStr ''Test''), (''test_2'', JStr ''Test2'')]"
| "model_type_payload MT_transcription = FilePayload ''empty.wav'' SILENT_WAV_BYTES ''audio/wav''"
| "model_type_payload MT_vision =
     JsonPayload
       [(''messages'',
         JList [JObj
           [(''role'', JStr ''user''),
            (''content'',
             JList
               [JObj [(''type'', JStr ''text''),
                      (''text'', JStr ''This is a test. Just reply with yes'')],
                JObj [(''type'', JStr ''image_url''),
                      (''image_url'', JObj [(''url'',
                        JStr ''data:image/jpeg;base64,iVBORw0KGgoAAAANSUhEUgAAAAIAAAACCAIAAAD91JpzAAAAG0lEQVR4nGLinfJq851wJn69udZSvIAAAAD//yf3BLKCfW8HAAAAAElFTkSuQmCC'')])]])]])]"

definition ModelType_get_test_payload :: "string \<Rightarrow> payload result" where
  "ModelType_get_test_payload name = bindE (model_type_lookup name) (\<lambda>t. Inr (model_type_payload t))"

section \<open>URL validation and option parsing\<close>

definition word_char :: "char \<Rightarrow> bool" where
  "word_char c = (let n = of_char c :: nat in
     (97 \<le> n \<and> n \<le> 122) \<or> (65 \<le> n \<and> n \<le> 90))"

definition digit_class :: "char \<Rightarrow> bool" where
  "digit_class c = (let n = of_char c :: nat in 48 \<le> n \<and> n \<le> 57)"

definition host_char :: "char \<Rightarrow> bool" where
  "host_char c = (word_char c \<or> digit_class c \<or> c = CHR ''_'' \<or> c = CHR ''-'')"

definition octet :: rexp where
  "octet = Seq (Cls digit_class) (Seq (opt (Cls digit_class)) (opt (Cls digit_class)))"

definition url_regex :: rexp where
  "url_regex =
     Seq (Alt (lit ''http'') (lit ''https''))
    (Seq (lit ''://'')
    (Seq (Alt (Seq (some1 (Seq (some1 (Cls host_char)) (lit ''.'')))
                   (Seq (Cls word_char) (some1 (Cls word_char))))
         (Alt (lit ''localhost'')
              (Seq octet (rep_n 3 (Seq (lit ''.'') octet)))))
    (Seq (opt (Seq (lit '':'') (some1 (Cls digit_class))))
         (opt (Seq (lit ''/'') (Rep (Cls (\<lambda>c. c \<noteq> CHR 0x0A))))))))"

text \<open>\<^verbatim>\<open>$\<close> also matches just before a newline that ends the string.\<close>

definition validate_url :: "string \<Rightarrow> bool" where
  "validate_url url =
     (matches url_regex url \<or>
      (url \<noteq> [] \<and> last url = CHR 0x0A \<and> matches url_regex (butlast url)))"

definition parse_static_urls :: "string \<Rightarrow> string list" where
  "parse_static_urls static_backends = filter validate_url (split_on CHR '','' static_backends)"

definition parse_comma_separated_args :: "string option \<Rightarrow> string list option" where
  "parse_comma_separated_args s =
     (case s of None \<Rightarrow> None | Some cs \<Rightarrow> Some (split_on CHR '','' cs))"

text \<open>The tuple assignment raises \<^verbatim>\<open>ValueError\<close> unless the item splits into exactly two.\<close>

fun aliases_loop :: "(string \<times> string) list \<Rightarrow> string list \<Rightarrow> (string \<times> string) list result" where
  "aliases_loop aliases [] = Inr aliases"
| "aliases_loop aliases (item # items) =
     (case split_on CHR '':'' item of
        [alias, model] \<Rightarrow> aliases_loop (AList.update alias model aliases) items
      | _ \<Rightarrow> Inl (ValueError ''values to unpack''))"

definition parse_static_aliases :: "string \<Rightarrow> (string \<times> string) list result" where
  "parse_static_aliases static_aliases = aliases_loop [] (split_on CHR '','' static_aliases)"

section \<open>Request bodies and headers\<close>

definition replace_model_in_request_body ::
  "(json \<Rightarrow> string) \<Rightarrow> jobj \<Rightarrow> json \<Rightarrow> jobj \<times> string" where
  "replace_model_in_request_body json_dumps request_json model =
     (let request_json' = AList.update ''model'' model request_json
      in (request_json', json_dumps (JObj request_json')))"

text \<open>Starlette keeps header names in lower case.\<close>

definition update_content_length :: "(string \<times> string) list \<Rightarrow> string \<Rightarrow> (string \<times> string) list" where
  "update_content_length headers request_body =
     AList.update ''content-length'' (show_nat (length request_body)) headers"

section \<open>Health of one static backend\<close>

datatype health_request =
    HealthMultipart payload "(string \<times> string) list"
  | HealthJson jobj

definition is_model_healthy ::
  "(string \<Rightarrow> health_request \<Rightarrow> http_outcome) \<Rightarrow> string \<Rightarrow> string \<Rightarrow> string \<Rightarrow> bool result" where
  "is_model_healthy post url model model_type =
     bindE (ModelType_get_url model_type) (\<lambda>model_url.
     bindE (ModelType_get_test_payload model_type) (\<lambda>test_payload.
       let response =
         (if model_type = ''transcription''
          then post (url @ model_url) (HealthMultipart test_payload [(''model'', model)])
          else (case test_payload of
                  JsonPayload d \<Rightarrow>
                    post (url @ model_url) (HealthJson (dict_union [(''model'', JStr model)] d))
                | FilePayload _ _ _ \<Rightarrow> HttpRaise))
       in (case response of
             HttpRaise \<Rightarrow> Inr False
           | HttpResponse st body \<Rightarrow>
               if raises_for_status st then Inr False
               else if model_type = ''transcription'' then Inr True
               else Inr (body \<noteq> None))))"

section \<open>Open-file limit\<close>

text \<open>\<^verbatim>\<open>RLIM_INFINITY\<close> is \<open>-1\<close>; \<^verbatim>\<open>setrlimit\<close> raises \<^verbatim>\<open>ValueError\<close> when the soft limit
  would exceed a finite hard limit, and the code then only logs.\<close>

definition set_ulimit :: "int \<Rightarrow> int \<times> int \<Rightarrow> int \<times> int" where
  "set_ulimit target_soft_limit limits =
     (case limits of (current_soft, current_hard) \<Rightarrow>
        if current_soft < target_soft_limit then
          (if current_hard \<noteq> -1 \<and> current_hard < target_soft_limit
           then (current_soft, current_hard)
           else (target_soft_limit, current_hard))
        else (current_soft, current_hard))"

section \<open>Properties\<close>

lemma singleton_call_stable:
  assumes "SingletonMeta_call ins cls b c = (ins', Inr (Some i))"
  shows "SingletonMeta_call ins' cls b' c' = (ins', Inr (Some i))"
  using assms by (auto simp: SingletonMeta_call_def split: option.splits if_splits sum.splits)

lemma singleton_abc_call_stable:
  assumes "SingletonABCMeta_call ins cls b c = (ins', Inr (Some i))"
  shows "SingletonABCMeta_call ins' cls b' c' = (ins', Inr (Some i))"
  using assms by (auto simp: SingletonABCMeta_call_def split: option.splits if_splits sum.splits)

lemma length_le_bytes [simp]: "length (le_bytes k n) = k"
  by (induction k arbitrary: n) auto

lemma length_wave_file: "length (wave_file c w r f) = 44 + length f"
  by (simp add: wave_file_def)

lemma model_type_lookup_iff: "(\<exists>t. model_type_lookup n = Inr t) \<longleftrightarrow> n \<in> set get_all_fields"
  by (auto simp: model_type_lookup_def get_all_fields_def model_type_names_def split: if_splits)

lemma model_type_lookup_unknown:
  "n \<notin> set get_all_fields \<Longrightarrow> model_type_lookup n = Inl (KeyError n)"
  by (simp add: model_type_lookup_def get_all_fields_def flip: map_of_eq_None_iff)

lemma is_model_healthy_total:
  "n \<in> set get_all_fields \<Longrightarrow> \<exists>b. is_model_healthy post url model n = Inr b"
  by (auto simp: is_model_healthy_def ModelType_get_url_def ModelType_get_test_payload_def Let_def
      simp flip: model_type_lookup_iff split: http_outcome.splits)

lemma is_model_healthy_unknown_type:
  "n \<notin> set get_all_fields \<Longrightarrow> is_model_healthy post url model n = Inl (KeyError n)"
  by (simp add: is_model_healthy_def ModelType_get_url_def model_type_lookup_unknown)

lemma validate_url_scheme:
  assumes "validate_url u"
  shows "prefix ''http://'' u \<or> prefix ''https://'' u"
proof -
  have *: "prefix ''http://'' w \<or> prefix ''https://'' w" if "in_lang url_regex w" for w
    using that by (auto simp: url_regex_def)
  from assms consider "in_lang url_regex u" | "u \<noteq> []" "in_lang url_regex (butlast u)"
    by (auto simp: validate_url_def matches_iff)
  then show ?thesis
  proof cases
    case 1
    then show ?thesis by (rule *)
  next
    case 2
    from 2(1) have "u = butlast u @ [last u]" by simp
    then have pu: "prefix (butlast u) u" by (rule prefixI)
    from * [OF 2(2)] show ?thesis
      using prefix_order.trans [OF _ pu] by (elim disjE) (simp_all only: simp_thms)
  qed
qed

lemma parse_static_urls_valid: "u \<in> set (parse_static_urls s) \<Longrightarrow> validate_url u \<and> CHR '','' \<notin> set u"
  by (auto simp: parse_static_urls_def dest: split_on_parts)

lemma parse_static_urls_join:
  assumes "us \<noteq> []" and "\<forall>u \<in> set us. CHR '','' \<notin> set u \<and> validate_url u"
  shows "parse_static_urls (join '','' us) = us"
  using assms by (simp add: parse_static_urls_def split_on_join)

lemma aliases_loop_pairs:
  assumes "\<forall>(a, m) \<in> set ps. CHR '':'' \<notin> set a \<and> CHR '':'' \<notin> set m"
    and "distinct (map fst ps)" and "fst ` set ps \<inter> fst ` set acc = {}"
  shows "aliases_loop acc (map (\<lambda>(a, m). a @ '':'' @ m) ps) = Inr (acc @ ps)"
  using assms
proof (induction ps arbitrary: acc)
  case Nil
  then show ?case by simp
next
  case (Cons p ps)
  obtain a m where p: "p = (a, m)" by (cases p)
  from Cons.prems p have am: "CHR '':'' \<notin> set a" "CHR '':'' \<notin> set m" "a \<notin> fst ` set acc"
    by auto
  have "AList.update a m acc = acc @ [(a, m)]"
    using am(3) by (induction acc) auto
  with Cons p am show ?case
    by (auto simp: split_on_append_sep split_on_no_sep)
qed

end
