(* ===== verification/Static_Discovery.thy ===== *)
theory Static_Discovery
  imports Endpoints Router_Utils
begin

text \<open>
  \<^verbatim>\<open>StaticServiceDiscovery\<close> of \<^verbatim>\<open>src/src/vllm_router/service_discovery.py\<close>: a fixed list of
  backends, an optional periodic health check that hides the backends whose test request
  fails, and the client sessions of disaggregated prefill. The identifiers of
  \<^verbatim>\<open>uuid.uuid4\<close>, the clock, the MD5 digest and the engine's answers are arguments.
\<close>

record static_sd =
  ssd_urls :: "string list"
  ssd_models :: "string list"
  ssd_aliases :: "(string \<times> string) list option"
  ssd_model_labels :: "string list option"
  ssd_model_types :: "string list option"
  ssd_engines_id :: "string list"
  ssd_added_timestamp :: int
  ssd_unhealthy_endpoint_hashes :: "string list"
  ssd_running :: bool
  ssd_health_task :: bool
  ssd_prefill_model_labels :: "labels option"
  ssd_decode_model_labels :: "labels option"

definition StaticServiceDiscovery_init ::
  "(nat \<Rightarrow> string) \<Rightarrow> int \<Rightarrow> string list \<Rightarrow> string list option \<Rightarrow> (string \<times> string) list option \<Rightarrow>
   string list option \<Rightarrow> string list option \<Rightarrow> bool \<Rightarrow> labels option \<Rightarrow> labels option \<Rightarrow>
   static_sd result" where
  "StaticServiceDiscovery_init uuid4 now urls models aliases model_labels model_types
     static_backend_health_checks prefill_model_labels decode_model_labels =
     (case models of
        None \<Rightarrow> Inl (TypeError ''object of type NoneType has no len()'')
      | Some ms \<Rightarrow>
          if length urls \<noteq> length ms
          then Inl (AssertionError ''URLs and models should have the same length'')
          else Inr \<lparr>ssd_urls = urls, ssd_models = ms, ssd_aliases = aliases,
                    ssd_model_labels = model_labels, ssd_model_types = model_types,
                    ssd_engines_id = map uuid4 [0 ..< length urls],
                    ssd_added_timestamp = now,
                    ssd_unhealthy_endpoint_hashes = [],
                    ssd_running = True,
                    ssd_health_task = static_backend_health_checks,
                    ssd_prefill_model_labels = prefill_model_labels,
                    ssd_decode_model_labels = decode_model_labels\<rparr>)"

definition get_model_endpoint_hash :: "(string \<Rightarrow> string) \<Rightarrow> string \<Rightarrow> string \<Rightarrow> string" where
  "get_model_endpoint_hash md5 url model = md5 (url @ model)"

text \<open>
  \<^verbatim>\<open>zip(..., strict=True)\<close> yields the common prefix and then raises \<^verbatim>\<open>ValueError\<close> when the
  lengths differ; the handler keeps what was collected. Any other exception goes on to the
  caller.
\<close>

fun unhealthy_loop ::
  "(string \<Rightarrow> string) \<Rightarrow> (string \<Rightarrow> string \<Rightarrow> string \<Rightarrow> bool result) \<Rightarrow>
   string list \<Rightarrow> string list \<Rightarrow> string list \<Rightarrow> string list \<Rightarrow> string list result" where
  "unhealthy_loop md5 healthy (url # urls) (model # models) (mt # mts) acc =
     (case healthy url model mt of
        Inl (ValueError _) \<Rightarrow> Inr acc
      | Inl e \<Rightarrow> Inl e
      | Inr True \<Rightarrow> unhealthy_loop md5 healthy urls models mts acc
      | Inr False \<Rightarrow>
          unhealthy_loop md5 healthy urls models mts (acc @ [get_model_endpoint_hash md5 url model]))"
| "unhealthy_loop md5 healthy urls models mts acc = Inr acc"

definition get_unhealthy_endpoint_hashes ::
  "(string \<Rightarrow> string) \<Rightarrow> (string \<Rightarrow> health_request \<Rightarrow> http_outcome) \<Rightarrow> static_sd \<Rightarrow> string list result" where
  "get_unhealthy_endpoint_hashes md5 post sd =
     (case ssd_model_types sd of
        None \<Rightarrow> Inl (TypeError ''NoneType object is not iterable'')
      | Some mts \<Rightarrow>
          unhealthy_loop md5 (is_model_healthy post) (ssd_urls sd) (ssd_models sd) mts [])"

text \<open>
  One pass of the loop of \<^verbatim>\<open>check_model_health\<close>. The flag says whether the pass reached
  \<^verbatim>\<open>await asyncio.sleep(60)\<close>: the sleep is inside the \<^verbatim>\<open>try\<close>, so a pass that raises
  goes straight to the next one.
\<close>

definition check_model_health_pass ::
  "(string \<Rightarrow> string) \<Rightarrow> (string \<Rightarrow> health_request \<Rightarrow> http_outcome) \<Rightarrow> static_sd \<Rightarrow> static_sd \<times> bool" where
  "check_model_health_pass md5 post sd =
     (if ssd_running sd then
        (case get_unhealthy_endpoint_hashes md5 post sd of
           Inl e \<Rightarrow> (sd, False)
         | Inr hs \<Rightarrow> (sd\<lparr>ssd_unhealthy_endpoint_hashes := hs\<rparr>, True))
      else (sd, False))"

definition static_get_model_info :: "int \<Rightarrow> string \<Rightarrow> model_infos" where
  "static_get_model_info now model =
     [(JStr model,
       \<lparr>mi_id = JStr model, mi_object = JStr ''model'', mi_created = JInt now,
        mi_owned_by = JStr ''vllm'', mi_root = JNull, mi_parent = JNull, mi_is_adapter = False\<rparr>)]"

definition static_model_label :: "static_sd \<Rightarrow> nat \<Rightarrow> string result" where
  "static_model_label sd i =
     (case ssd_model_labels sd of
        None \<Rightarrow> Inr ''default''
      | Some ls \<Rightarrow> if ls = [] then Inr ''default'' else py_nth ls i)"

fun static_endpoints_loop ::
  "(string \<Rightarrow> string) \<Rightarrow> int \<Rightarrow> static_sd \<Rightarrow> nat \<Rightarrow> string list \<Rightarrow> string list \<Rightarrow> endpoint_info list result"
where
  "static_endpoints_loop md5 now sd i (url # urls) (model # models) =
     (if get_model_endpoint_hash md5 url model \<in> set (ssd_unhealthy_endpoint_hashes sd)
      then static_endpoints_loop md5 now sd (Suc i) urls models
      else
        bindE (static_model_label sd i) (\<lambda>model_label.
        bindE (py_nth (ssd_engines_id sd) i) (\<lambda>engine_id.
        bindE (static_endpoints_loop md5 now sd (Suc i) urls models) (\<lambda>rest.
          Inr (\<lparr>ep_url = url, ep_model_names = [JStr model], ep_Id = engine_id,
                ep_added_timestamp = ssd_added_timestamp sd,
                ep_model_label = Some model_label, ep_sleep = JBool False,
                ep_pod_name = None, ep_service_name = None, ep_namespace = None,
                ep_model_info = Some (static_get_model_info now model)\<rparr> # rest)))))"
| "static_endpoints_loop md5 now sd i urls models = Inr []"

definition static_get_endpoint_info ::
  "(string \<Rightarrow> string) \<Rightarrow> int \<Rightarrow> static_sd \<Rightarrow> endpoint_info list result" where
  "static_get_endpoint_info md5 now sd =
     static_endpoints_loop md5 now sd 0 (ssd_urls sd) (ssd_models sd)"

definition static_initialize_client_sessions ::
  "(string \<Rightarrow> string) \<Rightarrow> int \<Rightarrow> static_sd \<Rightarrow> client_state \<Rightarrow> client_state \<times> py_error option" where
  "static_initialize_client_sessions md5 now sd c =
     (if ssd_prefill_model_labels sd \<noteq> None \<and> ssd_decode_model_labels sd \<noteq> None then
        (case static_get_endpoint_info md5 now sd of
           Inl e \<Rightarrow> (c, Some e)
         | Inr es \<Rightarrow>
             initialize_sessions False (ssd_prefill_model_labels sd) (ssd_decode_model_labels sd) es c)
      else (c, None))"

definition static_close :: "static_sd \<Rightarrow> static_sd" where
  "static_close sd = sd\<lparr>ssd_running := False, ssd_health_task := False\<rparr>"

section \<open>What the constructor guarantees\<close>

text \<open>The shape of every constructed value; the label list, where given, must cover the URLs
  (the constructor does not check that).\<close>

definition wf_static :: "static_sd \<Rightarrow> bool" where
  "wf_static sd \<longleftrightarrow>
     length (ssd_models sd) = length (ssd_urls sd) \<and>
     length (ssd_engines_id sd) = length (ssd_urls sd) \<and>
     (case ssd_model_labels sd of None \<Rightarrow> True | Some ls \<Rightarrow> ls = [] \<or> length (ssd_urls sd) \<le> length ls)"

lemma init_wf_static:
  assumes "StaticServiceDiscovery_init uuid4 now urls models al ml mt hc pl dl = Inr sd"
    and "case ml of None \<Rightarrow> True | Some ls \<Rightarrow> ls = [] \<or> length urls \<le> length ls"
  shows "wf_static sd"
  using assms
  by (auto simp: StaticServiceDiscovery_init_def wf_static_def split: option.splits if_splits)

lemma static_model_label_total:
  "wf_static sd \<Longrightarrow> i < length (ssd_urls sd) \<Longrightarrow> \<exists>l. static_model_label sd i = Inr l"
  by (auto simp: static_model_label_def wf_static_def py_nth_def split: option.splits)

section \<open>The endpoints handed out\<close>

abbreviation static_hidden :: "(string \<Rightarrow> string) \<Rightarrow> static_sd \<Rightarrow> string \<times> string \<Rightarrow> bool" where
  "static_hidden md5 sd \<equiv>
     \<lambda>(u, m). get_model_endpoint_hash md5 u m \<in> set (ssd_unhealthy_endpoint_hashes sd)"

lemma static_endpoints_loop_spec:
  assumes "wf_static sd" and "i + length urls = length (ssd_urls sd)" and "length models = length urls"
  shows "\<exists>es. static_endpoints_loop md5 now sd i urls models = Inr es \<and>
              map (\<lambda>e. (ep_url e, ep_model_names e)) es =
              map (\<lambda>(u, m). (u, [JStr m])) (filter (\<lambda>p. \<not> static_hidden md5 sd p) (zip urls models)) \<and>
              (\<forall>e \<in> set es. \<not> truthy (ep_sleep e) \<and> ep_pod_name e = None)"
  using assms
proof (induction urls arbitrary: i models)
  case Nil
  then show ?case by simp
next
  case (Cons u urls)
  then obtain m ms where ms: "models = m # ms" by (cases models) auto
  with Cons.prems have "Suc i + length urls = length (ssd_urls sd)" "length ms = length urls"
    by auto
  with Cons.IH [OF Cons.prems(1)] obtain es where
    es: "static_endpoints_loop md5 now sd (Suc i) urls ms = Inr es"
        "map (\<lambda>e. (ep_url e, ep_model_names e)) es =
         map (\<lambda>(u, m). (u, [JStr m])) (filter (\<lambda>p. \<not> static_hidden md5 sd p) (zip urls ms))"
        "\<forall>e \<in> set es. \<not> truthy (ep_sleep e) \<and> ep_pod_name e = None"
    by blast
  from Cons.prems have i: "i < length (ssd_urls sd)" by simp
  then obtain l where "static_model_label sd i = Inr l"
    using static_model_label_total Cons.prems(1) by blast
  moreover from i Cons.prems(1) have "\<exists>x. py_nth (ssd_engines_id sd) i = Inr x"
    by (simp add: py_nth_def wf_static_def)
  ultimately show ?case using ms es by auto
qed

lemma static_get_endpoint_info_spec:
  assumes "wf_static sd"
  shows "\<exists>es. static_get_endpoint_info md5 now sd = Inr es \<and>
              map (\<lambda>e. (ep_url e, ep_model_names e)) es =
              map (\<lambda>(u, m). (u, [JStr m]))
                (filter (\<lambda>p. \<not> static_hidden md5 sd p) (zip (ssd_urls sd) (ssd_models sd))) \<and>
              (\<forall>e \<in> set es. \<not> truthy (ep_sleep e) \<and> ep_pod_name e = None)"
  unfolding static_get_endpoint_info_def
  by (rule static_endpoints_loop_spec) (use assms in \<open>auto simp: wf_static_def\<close>)

section \<open>The health check\<close>

lemma unhealthy_loop_spec:
  assumes "length models = length urls" and "length mts = length urls"
    and "\<And>u m t. ((u, m), t) \<in> set (zip (zip urls models) mts) \<Longrightarrow> healthy u m t = Inr (h u m t)"
  shows "unhealthy_loop md5 healthy urls models mts acc =
         Inr (acc @ map (\<lambda>((u, m), t). get_model_endpoint_hash md5 u m)
                     (filter (\<lambda>((u, m), t). \<not> h u m t) (zip (zip urls models) mts)))"
  using assms
proof (induction urls arbitrary: models mts acc)
  case Nil
  then show ?case by simp
next
  case (Cons u urls)
  then obtain m ms t ts where "models = m # ms" "mts = t # ts"
    by (metis length_Suc_conv)
  with Cons show ?case
    by (auto split: bool.splits)
qed

abbreviation backends :: "static_sd \<Rightarrow> (string \<times> string) list" where
  "backends sd \<equiv> zip (ssd_urls sd) (ssd_models sd)"

definition unhealthy_hashes ::
  "(string \<Rightarrow> string) \<Rightarrow> (string \<Rightarrow> health_request \<Rightarrow> http_outcome) \<Rightarrow> static_sd \<Rightarrow> string list \<Rightarrow> string list" where
  "unhealthy_hashes md5 post sd mts =
     map (\<lambda>((u, m), t). get_model_endpoint_hash md5 u m)
       (filter (\<lambda>((u, m), t). is_model_healthy post u m t \<noteq> Inr True) (zip (backends sd) mts))"

lemma health_pass_hashes:
  assumes wf: "wf_static sd" and running: "ssd_running sd"
    and types: "ssd_model_types sd = Some mts" "length mts = length (ssd_urls sd)"
               "set mts \<subseteq> set get_all_fields"
  shows "fst (check_model_health_pass md5 post sd) =
         sd\<lparr>ssd_unhealthy_endpoint_hashes := unhealthy_hashes md5 post sd mts\<rparr>"
proof -
  let ?h = "\<lambda>u m t. is_model_healthy post u m t = Inr True"
  have lens: "length (ssd_models sd) = length (ssd_urls sd)"
    using wf by (simp add: wf_static_def)
  have total: "is_model_healthy post u m t = Inr (?h u m t)"
    if "((u, m), t) \<in> set (zip (backends sd) mts)" for u m t
  proof -
    from that have "t \<in> set mts" by (rule set_zip_rightD)
    with types(3) have "t \<in> set get_all_fields" by blast
    then obtain b where "is_model_healthy post u m t = Inr b"
      using is_model_healthy_total by blast
    then show ?thesis by simp
  qed
  have "get_unhealthy_endpoint_hashes md5 post sd = Inr (unhealthy_hashes md5 post sd mts)"
    unfolding get_unhealthy_endpoint_hashes_def types(1) unhealthy_hashes_def
    using unhealthy_loop_spec [OF lens types(2) total, where acc = "[]"] by simp
  then show ?thesis using running by (simp add: check_model_health_pass_def)
qed

lemma unhealthy_hashes_iff:
  assumes inj: "inj_on (\<lambda>(u, m). get_model_endpoint_hash md5 u m) (set (backends sd))"
    and um: "(u, m) \<in> set (backends sd)"
  shows "get_model_endpoint_hash md5 u m \<in> set (unhealthy_hashes md5 post sd mts) \<longleftrightarrow>
         \<not> (\<forall>t. ((u, m), t) \<in> set (zip (backends sd) mts) \<longrightarrow> is_model_healthy post u m t = Inr True)"
proof -
  have separate: "u' = u \<and> m' = m"
    if "(u', m') \<in> set (backends sd)" "get_model_endpoint_hash md5 u m = get_model_endpoint_hash md5 u' m'" for u' m'
    using inj_onD [OF inj, of "(u, m)" "(u', m')"] that um by simp
  have "get_model_endpoint_hash md5 u m \<in> set (unhealthy_hashes md5 post sd mts) \<longleftrightarrow>
        (\<exists>u' m' t. ((u', m'), t) \<in> set (zip (backends sd) mts) \<and> is_model_healthy post u' m' t \<noteq> Inr True \<and>
           get_model_endpoint_hash md5 u m = get_model_endpoint_hash md5 u' m')"
    unfolding unhealthy_hashes_def by force
  also have "\<dots> \<longleftrightarrow> (\<exists>t. ((u, m), t) \<in> set (zip (backends sd) mts) \<and> is_model_healthy post u m t \<noteq> Inr True)"
    using separate by (metis set_zip_leftD)
  finally show ?thesis by blast
qed

text \<open>After one pass of the periodic health check over a configuration in which every
  backend has a known model type, \<^verbatim>\<open>get_endpoint_info\<close> returns, in order, exactly the
  configured backends all of whose test requests succeeded, provided the digest separates the
  configured backends.\<close>

theorem static_health_check_serves_exactly_healthy:
  assumes wf: "wf_static sd" and running: "ssd_running sd"
    and types: "ssd_model_types sd = Some mts" "length mts = length (ssd_urls sd)"
               "set mts \<subseteq> set get_all_fields"
    and inj: "inj_on (\<lambda>(u, m). get_model_endpoint_hash md5 u m) (set (zip (ssd_urls sd) (ssd_models sd)))"
  shows "\<exists>es. static_get_endpoint_info md5 now (fst (check_model_health_pass md5 post sd)) = Inr es \<and>
              map (\<lambda>e. (ep_url e, ep_model_names e)) es =
              map (\<lambda>(u, m). (u, [JStr m]))
                (filter (\<lambda>(u, m). \<forall>t. ((u, m), t) \<in> set (zip (zip (ssd_urls sd) (ssd_models sd)) mts) \<longrightarrow>
                                       is_model_healthy post u m t = Inr True)
                   (zip (ssd_urls sd) (ssd_models sd)))"
proof -
  let ?sd' = "sd\<lparr>ssd_unhealthy_endpoint_hashes := unhealthy_hashes md5 post sd mts\<rparr>"
  have wf': "wf_static ?sd'" using wf by (auto simp: wf_static_def split: option.splits)
  have eq: "filter (\<lambda>p. \<not> static_hidden md5 ?sd' p) (backends sd) =
      filter (\<lambda>(u, m). \<forall>t. ((u, m), t) \<in> set (zip (backends sd) mts) \<longrightarrow> is_model_healthy post u m t = Inr True)
        (backends sd)"
    using unhealthy_hashes_iff [OF inj] by (intro filter_cong refl) auto
  from static_get_endpoint_info_spec [OF wf', of md5 now] show ?thesis
    unfolding health_pass_hashes [OF wf running types] using eq by auto
qed

definition sample_static :: static_sd where
  "sample_static =
     \<lparr>ssd_urls = [''http://a:1'', ''http://b:1''], ssd_models = [''m'', ''m''], ssd_aliases = None,
      ssd_model_labels = None, ssd_model_types = Some [''chat'', ''chat''],
      ssd_engines_id = [''0'', ''1''], ssd_added_timestamp = 0,
      ssd_unhealthy_endpoint_hashes = [], ssd_running = True, ssd_health_task = True,
      ssd_prefill_model_labels = None, ssd_decode_model_labels = None\<rparr>"

definition sample_post :: "string \<Rightarrow> health_request \<Rightarrow> http_outcome" where
  "sample_post u r =
     (if u = ''http://a:1/v1/chat/completions'' then HttpResponse 200 (Some JNull) else HttpResponse 500 None)"

theorem static_health_check_witness:
  "\<exists>es. static_get_endpoint_info (\<lambda>s. s) 3 (fst (check_model_health_pass (\<lambda>s. s) sample_post sample_static)) = Inr es \<and>
        map (\<lambda>e. (ep_url e, ep_model_names e)) es = [(''http://a:1'', [JStr ''m''])]"
proof -
  have "wf_static sample_static" "ssd_running sample_static"
    "ssd_model_types sample_static = Some [''chat'', ''chat'']"
    "length [''chat'', ''chat''] = length (ssd_urls sample_static)"
    "set [''chat'', ''chat''] \<subseteq> set get_all_fields"
    "inj_on (\<lambda>(u, m). get_model_endpoint_hash (\<lambda>s. s) u m)
       (set (zip (ssd_urls sample_static) (ssd_models sample_static)))"
    by (simp_all add: sample_static_def wf_static_def get_all_fields_def model_type_names_def
        get_model_endpoint_hash_def)
  from static_health_check_serves_exactly_healthy [OF this, of 3 sample_post]
  show ?thesis
    by (simp add: sample_static_def sample_post_def is_model_healthy_def ModelType_get_url_def
        ModelType_get_test_payload_def model_type_lookup_def model_type_names_def
        raises_for_status_def Let_def)
qed

text \<open>Concatenation is ambiguous: two different backends whose URL and model run together to the
  same string share their digest whatever the digest function is, so that the failure of one
  hides the other although its own test request succeeds.\<close>

lemma hash_ambiguous:
  "u @ m = u' @ m' \<Longrightarrow> get_model_endpoint_hash md5 u m = get_model_endpoint_hash md5 u' m'"
  by (simp add: get_model_endpoint_hash_def)

text \<open>A pass that raises leaves the state alone and does not sleep, so the loop spins; a missing
  list of model types raises on every pass.\<close>

lemma health_pass_without_types_spins:
  "ssd_model_types sd = None \<Longrightarrow> check_model_health_pass md5 post sd = (sd, False)"
  by (simp add: check_model_health_pass_def get_unhealthy_endpoint_hashes_def)

end
