(* ===== verification/K8s_Watch.thy ===== *)
theory K8s_Watch
  imports Endpoints
begin

text \<open>
  What the two Kubernetes discoveries of \<^verbatim>\<open>src/src/vllm_router/service_discovery.py\<close> share:
  the cluster and the engines as an environment of answers, the questions asked of an engine
  over HTTP, the loop over a watch stream, and the contract of an event handler on the table
  of engines as the locale \<open>engine_table\<close>, which both discoveries interpret.
\<close>

section \<open>Cluster objects and the environment\<close>

datatype 'a api = ApiException | ApiOther string | ApiOk 'a

record container =
  ct_name :: string
  ct_command :: "string list option"

record pod =
  pod_meta_name :: string
  pod_ip :: "string option"
  pod_labels :: "(string \<times> string) list option"
  pod_deletion_timestamp :: "string option"
  pod_container_statuses :: "bool list option"
  pod_containers :: "container list"

record k8s_service =
  sv_name :: string
  sv_selector :: "(string \<times> string) list option"
  sv_labels :: "(string \<times> string) list option"

text \<open>
  Everything an event handler asks of the outside: the Kubernetes API, HTTP answers of the
  engines (given the URL and the authorization header), the clock, \<^verbatim>\<open>uuid5\<close>, the environment
  variable \<^verbatim>\<open>VLLM_API_KEY\<close> and whether \<^verbatim>\<open>app.state.event_loop\<close> is set yet.
\<close>

record k8s_env =
  env_read_pod :: "string \<Rightarrow> pod api"
  env_read_service :: "string \<Rightarrow> k8s_service api"
  env_list_pods :: "string \<Rightarrow> pod list api"
  env_read_endpoints :: "string \<Rightarrow> bool list option api"
  env_http_get :: "string \<Rightarrow> string option \<Rightarrow> http_outcome"
  env_api_key :: "string option"
  env_now :: int
  env_uuid5 :: "string \<Rightarrow> string"
  env_loop_ready :: bool

definition auth_header :: "k8s_env \<Rightarrow> string option" where
  "auth_header env =
     (case env_api_key env of
        None \<Rightarrow> None
      | Some k \<Rightarrow> if k = [] then None else Some (''Bearer '' @ k))"

section \<open>Questions to an engine\<close>

text \<open>\<^verbatim>\<open>response.json()[key]\<close> after \<^verbatim>\<open>raise_for_status()\<close>; \<open>None\<close> stands for any exception.\<close>

definition response_item :: "http_outcome \<Rightarrow> string \<Rightarrow> json option" where
  "response_item r key =
     (case r of
        HttpRaise \<Rightarrow> None
      | HttpResponse st body \<Rightarrow>
          if raises_for_status st then None
          else (case body of Some (JObj d) \<Rightarrow> map_of d key | _ \<Rightarrow> None))"

definition engine_sleep_status :: "k8s_env \<Rightarrow> string \<Rightarrow> string \<Rightarrow> json" where
  "engine_sleep_status env host port =
     (case response_item
             (env_http_get env (''http://'' @ host @ '':'' @ port @ ''/is_sleeping'') (auth_header env))
             ''is_sleeping'' of
        None \<Rightarrow> JBool False
      | Some s \<Rightarrow> s)"

text \<open>\<^verbatim>\<open>model["id"]\<close>: only an object with that key has an answer.\<close>

fun model_id_of :: "json \<Rightarrow> json option" where
  "model_id_of (JObj d) = map_of d ''id''"
| "model_id_of _ = None"

fun collect_ids :: "json list \<Rightarrow> json list option" where
  "collect_ids [] = Some []"
| "collect_ids (m # ms) =
     (case model_id_of m of
        None \<Rightarrow> None
      | Some i \<Rightarrow> map_option ((#) i) (collect_ids ms))"

definition engine_model_names :: "k8s_env \<Rightarrow> string \<Rightarrow> string \<Rightarrow> json list" where
  "engine_model_names env host port =
     (case response_item
             (env_http_get env (''http://'' @ host @ '':'' @ port @ ''/v1/models'') (auth_header env))
             ''data'' of
        Some (JList models) \<Rightarrow> (case collect_ids models of None \<Rightarrow> [] | Some ids \<Rightarrow> ids)
      | _ \<Rightarrow> [])"

fun collect_infos :: "int \<Rightarrow> model_infos \<Rightarrow> json list \<Rightarrow> model_infos option" where
  "collect_infos now acc [] = Some acc"
| "collect_infos now acc (m # ms) =
     (case m of
        JObj d \<Rightarrow>
          (case map_of d ''id'' of
             None \<Rightarrow> None
           | Some i \<Rightarrow>
               if hashable i
               then collect_infos now (AList.update i (ModelInfo_from_dict now d) acc) ms
               else None)
      | _ \<Rightarrow> None)"

definition engine_model_info :: "k8s_env \<Rightarrow> string \<Rightarrow> string \<Rightarrow> model_infos" where
  "engine_model_info env host port =
     (case response_item
             (env_http_get env (''http://'' @ host @ '':'' @ port @ ''/v1/models'') (auth_header env))
             ''data'' of
        Some (JList models) \<Rightarrow>
          (case collect_infos (env_now env) [] models of None \<Rightarrow> [] | Some infos \<Rightarrow> infos)
      | _ \<Rightarrow> [])"

section \<open>The loop over one watch stream\<close>

text \<open>The \<^verbatim>\<open>for event in stream\<close> loop inside \<^verbatim>\<open>try\<close>: the first exception ends the stream,
  and the state keeps what the handler did before raising.\<close>

fun run_stream ::
  "('s \<Rightarrow> 'e \<Rightarrow> 's \<times> py_error option) \<Rightarrow> 's \<Rightarrow> 'e list \<Rightarrow> 's \<times> py_error option" where
  "run_stream handle s [] = (s, None)"
| "run_stream handle s (e # es) =
     (case handle s e of
        (s', None) \<Rightarrow> run_stream handle s' es
      | (s', Some err) \<Rightarrow> (s', Some err))"

section \<open>The contract of an event handler\<close>

type_synonym engine_dict = "(string \<times> endpoint_info) list"

locale engine_table =
  fixes engines :: "'s \<Rightarrow> engine_dict"
    and handle :: "'s \<Rightarrow> 'e \<Rightarrow> 's \<times> py_error option"
    and subject :: "'e \<Rightarrow> string"
    and evicts :: "'e \<Rightarrow> bool"
  assumes frame: "k \<noteq> subject e \<Longrightarrow> map_of (engines (fst (handle s e))) k = map_of (engines s) k"
    and distinct_keys:
      "distinct (map fst (engines s)) \<Longrightarrow> distinct (map fst (engines (fst (handle s e))))"
    and evict: "evicts e \<Longrightarrow> snd (handle s e) = None \<and> map_of (engines (fst (handle s e))) (subject e) = None"
begin

lemma stream_frame:
  "k \<notin> subject ` set es \<Longrightarrow> map_of (engines (fst (run_stream handle s es))) k = map_of (engines s) k"
proof (induction es arbitrary: s)
  case Nil
  then show ?case by simp
next
  case (Cons e es)
  then have "map_of (engines (fst (handle s e))) k = map_of (engines s) k"
    by (intro frame) auto
  with Cons show ?case
    by (auto split: prod.splits option.splits)
qed

lemma stream_distinct_keys:
  "distinct (map fst (engines s)) \<Longrightarrow> distinct (map fst (engines (fst (run_stream handle s es))))"
proof (induction es arbitrary: s)
  case Nil
  then show ?case by simp
next
  case (Cons e es)
  from distinct_keys [OF Cons.prems, of e] Cons.IH show ?case
    by (auto split: prod.splits option.splits)
qed

lemma stream_append:
  assumes "run_stream handle s (xs @ ys) = (s', None)"
  shows "\<exists>s1. run_stream handle s xs = (s1, None) \<and> run_stream handle s1 ys = (s', None)"
  using assms by (induction xs arbitrary: s) (auto split: prod.splits option.splits)

lemma stream_evicted:
  assumes run: "run_stream handle s (xs @ e # ys) = (s', None)"
    and ev: "evicts e" and later: "subject e \<notin> subject ` set ys"
  shows "map_of (engines s') (subject e) = None"
proof -
  from stream_append [OF run] obtain s1 where s1: "run_stream handle s1 (e # ys) = (s', None)"
    by blast
  from evict [OF ev, of s1] obtain s2 where
    s2: "handle s1 e = (s2, None)" "map_of (engines s2) (subject e) = None"
    by (cases "handle s1 e") auto
  from s1 s2 have "s' = fst (run_stream handle s2 ys)" by simp
  with stream_frame [OF later, of s2] s2 show ?thesis by simp
qed

end

section \<open>Answers of an engine\<close>

lemma collect_ids_length: "collect_ids ms = Some ids \<Longrightarrow> length ids = length ms"
  by (induction ms arbitrary: ids) (auto split: option.splits)

lemma collect_infos_keys:
  "collect_infos now acc ms = Some infos \<Longrightarrow>
   \<exists>ids. collect_ids ms = Some ids \<and> fst ` set infos = fst ` set acc \<union> set ids \<and> (\<forall>i \<in> set ids. hashable i)"
proof (induction ms arbitrary: acc)
  case Nil
  then show ?case by simp
next
  case (Cons m ms)
  from Cons.prems obtain d i where m: "m = JObj d" "map_of d ''id'' = Some i" "hashable i"
    and rec: "collect_infos now (AList.update i (ModelInfo_from_dict now d) acc) ms = Some infos"
    by (auto split: json.splits option.splits if_splits)
  from Cons.IH [OF rec] m show ?case by auto
qed

text \<open>The names and the keys of a nonempty information dictionary taken from the same answer
  are the same set.\<close>

lemma engine_answers_agree:
  assumes "engine_model_info env host port \<noteq> []"
  shows "fst ` set (engine_model_info env host port) = set (engine_model_names env host port)"
  using assms
  by (auto simp: engine_model_info_def engine_model_names_def dest!: collect_infos_keys
      split: option.splits json.splits) force

end
