(* ===== verification/Pod_Discovery.thy ===== *)
theory Pod_Discovery
  imports K8s_Watch
begin

text \<open>
  \<^verbatim>\<open>K8sPodIPServiceDiscovery\<close> of \<^verbatim>\<open>src/src/vllm_router/service_discovery.py\<close>: the watcher
  thread that keeps the dictionary of available engines in step with pod events, the set of
  models ever seen, the sleep labels, and the client sessions it re-creates in \<^verbatim>\<open>app.state\<close>.
  The locks only make each dictionary access atomic; the watcher is the only writer.
\<close>

record pod_sd =
  psd_namespace :: string
  psd_port :: string
  psd_available_engines :: engine_dict
  psd_known_models :: "json set"
  psd_running :: bool
  psd_prefill_model_labels :: "labels option"
  psd_decode_model_labels :: "labels option"
  psd_app :: client_state

definition K8sPodIPServiceDiscovery_init ::
  "client_state \<Rightarrow> string \<Rightarrow> string \<Rightarrow> labels option \<Rightarrow> labels option \<Rightarrow> pod_sd" where
  "K8sPodIPServiceDiscovery_init app namespace port prefill_model_labels decode_model_labels =
     \<lparr>psd_namespace = namespace, psd_port = port, psd_available_engines = [],
      psd_known_models = {}, psd_running = True,
      psd_prefill_model_labels = prefill_model_labels,
      psd_decode_model_labels = decode_model_labels, psd_app = app\<rparr>"

definition check_pod_ready :: "bool list option \<Rightarrow> bool" where
  "check_pod_ready container_statuses =
     (case container_statuses of
        None \<Rightarrow> False
      | Some cs \<Rightarrow>
          if cs = [] then False else length (filter (\<lambda>ready. ready) cs) = length cs)"

definition is_pod_terminating :: "pod \<Rightarrow> bool" where
  "is_pod_terminating p \<longleftrightarrow> pod_deletion_timestamp p \<noteq> None"

text \<open>An f-string prints a missing IP as \<^verbatim>\<open>None\<close>.\<close>

definition ip_text :: "string option \<Rightarrow> string" where
  "ip_text ip = (case ip of None \<Rightarrow> ''None'' | Some a \<Rightarrow> a)"

definition pod_get_engine_sleep_status :: "k8s_env \<Rightarrow> pod_sd \<Rightarrow> string \<Rightarrow> json" where
  "pod_get_engine_sleep_status env sd ip = engine_sleep_status env ip (psd_port sd)"

definition pod_check_engine_sleep_mode :: "k8s_env \<Rightarrow> string \<Rightarrow> bool result" where
  "pod_check_engine_sleep_mode env name =
     (case env_read_pod env name of
        ApiException \<Rightarrow> Inr False
      | ApiOther msg \<Rightarrow> Inl (OtherException msg)
      | ApiOk p \<Rightarrow>
          (case find (\<lambda>c. ct_name c = ''vllm'') (pod_containers p) of
             None \<Rightarrow> Inr False
           | Some c \<Rightarrow>
               (case ct_command c of
                  None \<Rightarrow> Inr True
                | Some cmd \<Rightarrow> Inr (cmd = [] \<or> ''--enable-sleep-mode'' \<in> set cmd))))"

text \<open>The labels of the patch sent to the API, if one is sent.\<close>

definition pod_add_sleep_label :: "k8s_env \<Rightarrow> string \<Rightarrow> (string \<times> string option) list option result" where
  "pod_add_sleep_label env name =
     (case env_read_pod env name of
        ApiException \<Rightarrow> Inr None
      | ApiOther msg \<Rightarrow> Inl (OtherException msg)
      | ApiOk p \<Rightarrow>
          (case pod_labels p of
             None \<Rightarrow> Inl (AttributeError ''update'')
           | Some ls \<Rightarrow>
               Inr (Some (map (\<lambda>(k, v). (k, Some v)) (AList.update ''sleeping'' ''true'' ls)))))"

definition pod_remove_sleep_label :: "k8s_env \<Rightarrow> string \<Rightarrow> (string \<times> string option) list option result" where
  "pod_remove_sleep_label env name =
     (case env_read_pod env name of
        ApiException \<Rightarrow> Inr None
      | ApiOther msg \<Rightarrow> Inl (OtherException msg)
      | ApiOk p \<Rightarrow>
          (case pod_labels p of
             None \<Rightarrow> Inl (TypeError ''argument of type NoneType is not iterable'')
           | Some ls \<Rightarrow>
               if ''sleeping'' \<in> fst ` set ls then Inr (Some [(''sleeping'', None)]) else Inr None))"

definition pod_get_model_names :: "k8s_env \<Rightarrow> pod_sd \<Rightarrow> string option \<Rightarrow> json list" where
  "pod_get_model_names env sd ip = engine_model_names env (ip_text ip) (psd_port sd)"

definition pod_get_model_info :: "k8s_env \<Rightarrow> pod_sd \<Rightarrow> string \<Rightarrow> model_infos" where
  "pod_get_model_info env sd ip = engine_model_info env ip (psd_port sd)"

definition pod_get_model_label :: "pod \<Rightarrow> string option" where
  "pod_get_model_label p =
     (case pod_labels p of
        None \<Rightarrow> None
      | Some ls \<Rightarrow> if ls = [] then None else map_of ls ''model'')"

definition pod_get_endpoint_info :: "pod_sd \<Rightarrow> endpoint_info list" where
  "pod_get_endpoint_info sd = map snd (psd_available_engines sd)"

definition pod_initialize_client_sessions :: "pod_sd \<Rightarrow> pod_sd \<times> py_error option" where
  "pod_initialize_client_sessions sd =
     (case initialize_sessions True (psd_prefill_model_labels sd) (psd_decode_model_labels sd)
             (pod_get_endpoint_info sd) (psd_app sd) of
        (c, err) \<Rightarrow> (sd\<lparr>psd_app := c\<rparr>, err))"

text \<open>\<^verbatim>\<open>set.update\<close> adds one by one and raises at the first unhashable element.\<close>

fun set_update :: "json set \<Rightarrow> json list \<Rightarrow> json set \<times> py_error option" where
  "set_update K [] = (K, None)"
| "set_update K (m # ms) =
     (if hashable m then set_update (insert m K) ms else (K, Some (TypeError ''unhashable type'')))"

definition pod_add_engine ::
  "k8s_env \<Rightarrow> string \<Rightarrow> string \<Rightarrow> json list \<Rightarrow> string option \<Rightarrow> pod_sd \<Rightarrow> pod_sd \<times> py_error option" where
  "pod_add_engine env engine_name engine_ip model_names model_label sd =
     (let model_info = pod_get_model_info env sd engine_ip in
      case pod_check_engine_sleep_mode env engine_name of
        Inl err \<Rightarrow> (sd, Some err)
      | Inr enabled \<Rightarrow>
          let sleep_status =
                (if enabled then pod_get_engine_sleep_status env sd engine_ip else JBool False);
              ep = \<lparr>ep_url = ''http://'' @ engine_ip @ '':'' @ psd_port sd,
                    ep_model_names = model_names, ep_Id = env_uuid5 env engine_name,
                    ep_added_timestamp = env_now env, ep_model_label = model_label,
                    ep_sleep = sleep_status, ep_pod_name = Some engine_name,
                    ep_service_name = None, ep_namespace = Some (psd_namespace sd),
                    ep_model_info = Some model_info\<rparr>;
              sd1 = sd\<lparr>psd_available_engines := AList.update engine_name ep (psd_available_engines sd)\<rparr>;
              sd2 = (if env_loop_ready env then fst (pod_initialize_client_sessions sd1) else sd1)
          in (case set_update (psd_known_models sd2) model_names of
                (K, err) \<Rightarrow> (sd2\<lparr>psd_known_models := K\<rparr>, err)))"

definition pod_delete_engine :: "string \<Rightarrow> pod_sd \<Rightarrow> pod_sd" where
  "pod_delete_engine engine_name sd =
     sd\<lparr>psd_available_engines := AList.delete engine_name (psd_available_engines sd)\<rparr>"

abbreviation pod_known_engine :: "string \<Rightarrow> pod_sd \<Rightarrow> bool" where
  "pod_known_engine n sd \<equiv> n \<in> fst ` set (psd_available_engines sd)"

definition pod_on_engine_update ::
  "k8s_env \<Rightarrow> string \<Rightarrow> string option \<Rightarrow> string \<Rightarrow> bool \<Rightarrow> json list \<Rightarrow> string option \<Rightarrow> pod_sd \<Rightarrow>
   pod_sd \<times> py_error option" where
  "pod_on_engine_update env engine_name engine_ip event is_pod_ready model_names model_label sd =
     (if event = ''ADDED'' then
        (case engine_ip of
           None \<Rightarrow> (sd, None)
         | Some ip \<Rightarrow>
             if \<not> is_pod_ready then (sd, None)
             else if model_names = [] then (sd, None)
             else pod_add_engine env engine_name ip model_names model_label sd)
      else if event = ''DELETED'' then
        (if \<not> pod_known_engine engine_name sd then (sd, None)
         else (pod_delete_engine engine_name sd, None))
      else if event = ''MODIFIED'' then
        (case engine_ip of
           None \<Rightarrow> (sd, None)
         | Some ip \<Rightarrow>
             if is_pod_ready \<and> model_names \<noteq> []
             then pod_add_engine env engine_name ip model_names model_label sd
             else if pod_known_engine engine_name sd
             then (pod_delete_engine engine_name sd, None)
             else (sd, None))
      else (sd, None))"

text \<open>One event together with the answers the outside gives while it is handled.\<close>

record pod_event =
  pe_env :: k8s_env
  pe_type :: string
  pe_object :: pod

definition pod_ready :: "pod \<Rightarrow> bool" where
  "pod_ready p \<longleftrightarrow> check_pod_ready (pod_container_statuses p) \<and> \<not> is_pod_terminating p"

definition pod_handle_event :: "pod_sd \<Rightarrow> pod_event \<Rightarrow> pod_sd \<times> py_error option" where
  "pod_handle_event sd ev =
     (let p = pe_object ev; name = pod_meta_name p in
      if pe_type ev = ''DELETED'' then
        (if pod_known_engine name sd then (pod_delete_engine name sd, None) else (sd, None))
      else
        let is_ready = pod_ready p;
            model_names = (if is_ready then pod_get_model_names (pe_env ev) sd (pod_ip p) else []);
            model_label = (if is_ready then pod_get_model_label p else None)
        in pod_on_engine_update (pe_env ev) name (pod_ip p) (pe_type ev) is_ready
             model_names model_label sd)"

text \<open>\<^verbatim>\<open>_watch_engines\<close>: one stream after the other while \<^verbatim>\<open>running\<close>; an exception is logged and
  the next stream starts.\<close>

fun pod_watch_engines :: "pod_sd \<Rightarrow> pod_event list list \<Rightarrow> pod_sd" where
  "pod_watch_engines sd [] = sd"
| "pod_watch_engines sd (evs # streams) =
     (if psd_running sd
      then pod_watch_engines (fst (run_stream pod_handle_event sd evs)) streams
      else sd)"

definition pod_has_ever_seen_model :: "pod_sd \<Rightarrow> json \<Rightarrow> bool" where
  "pod_has_ever_seen_model sd model_name \<longleftrightarrow> model_name \<in> psd_known_models sd"

definition pod_get_known_models :: "pod_sd \<Rightarrow> json set" where
  "pod_get_known_models sd = psd_known_models sd"

definition pod_close :: "pod_sd \<Rightarrow> pod_sd" where
  "pod_close sd = sd\<lparr>psd_running := False\<rparr>"

section \<open>Readiness\<close>

lemma check_pod_ready_iff:
  "check_pod_ready cs \<longleftrightarrow> (\<exists>xs. cs = Some xs \<and> xs \<noteq> [] \<and> (\<forall>r \<in> set xs. r))"
proof -
  have "length (filter (\<lambda>r. r) xs) = length xs \<longleftrightarrow> (\<forall>r \<in> set xs. r)" for xs
    by (metis filter_True length_filter_less nat_less_le)
  then show ?thesis by (auto simp: check_pod_ready_def split: option.splits)
qed

section \<open>Effect of each operation on the table and the known models\<close>

lemma init_sessions_fields [simp]:
  "psd_available_engines (fst (pod_initialize_client_sessions sd)) = psd_available_engines sd"
  "psd_known_models (fst (pod_initialize_client_sessions sd)) = psd_known_models sd"
  "psd_namespace (fst (pod_initialize_client_sessions sd)) = psd_namespace sd"
  "psd_port (fst (pod_initialize_client_sessions sd)) = psd_port sd"
  "psd_running (fst (pod_initialize_client_sessions sd)) = psd_running sd"
  by (simp_all add: pod_initialize_client_sessions_def split: prod.splits)

lemma set_update_mono: "K \<subseteq> fst (set_update K ms)"
  by (induction ms arbitrary: K) (auto, blast)

lemma set_update_hashable:
  "(\<forall>m \<in> set ms. hashable m) \<Longrightarrow> set_update K ms = (K \<union> set ms, None)"
  by (induction ms arbitrary: K) auto

text \<open>What adding an engine leaves behind: the old state when the sleep-mode question raises,
  otherwise one new entry and the model names in the set of known models.\<close>

lemma pod_add_engine_cases:
  obtains (raised) err where
      "pod_add_engine env n ip names label sd = (sd, Some err)"
  | (added) ep app K err where
      "pod_add_engine env n ip names label sd =
         (sd\<lparr>psd_available_engines := AList.update n ep (psd_available_engines sd),
             psd_app := app, psd_known_models := K\<rparr>, err)"
      "ep_url ep = ''http://'' @ ip @ '':'' @ psd_port sd" "ep_model_names ep = names"
      "ep_pod_name ep = Some n" "ep_namespace ep = Some (psd_namespace sd)"
      "(K, err) = set_update (psd_known_models sd) names"
      "app = psd_app sd \<or>
       app = fst (initialize_sessions True (psd_prefill_model_labels sd) (psd_decode_model_labels sd)
               (map snd (AList.update n ep (psd_available_engines sd))) (psd_app sd))"
proof (cases "pod_check_engine_sleep_mode env n")
  case (Inl err)
  then show ?thesis by (intro raised) (simp add: pod_add_engine_def)
next
  case (Inr enabled)
  obtain K err where K: "set_update (psd_known_models sd) names = (K, err)"
    by (cases "set_update (psd_known_models sd) names")
  let ?ep = "\<lparr>ep_url = ''http://'' @ ip @ '':'' @ psd_port sd, ep_model_names = names,
     ep_Id = env_uuid5 env n, ep_added_timestamp = env_now env, ep_model_label = label,
     ep_sleep = (if enabled then pod_get_engine_sleep_status env sd ip else JBool False),
     ep_pod_name = Some n, ep_service_name = None, ep_namespace = Some (psd_namespace sd),
     ep_model_info = Some (pod_get_model_info env sd ip)\<rparr>"
  let ?app = "if env_loop_ready env
     then fst (initialize_sessions True (psd_prefill_model_labels sd) (psd_decode_model_labels sd)
            (map snd (AList.update n ?ep (psd_available_engines sd))) (psd_app sd))
     else psd_app sd"
  show ?thesis
    by (rule added [where ep = ?ep and app = ?app and K = K and err = err])
       (use Inr K in \<open>auto simp: pod_add_engine_def Let_def pod_initialize_client_sessions_def
          pod_get_endpoint_info_def split: prod.splits\<close>)
qed

lemma pod_handle_event_cases:
  obtains (same) "pod_handle_event sd ev = (sd, None)"
  | (deleted) "pod_handle_event sd ev = (pod_delete_engine (pod_meta_name (pe_object ev)) sd, None)"
  | (add) ip names label where
      "pod_handle_event sd ev =
         pod_add_engine (pe_env ev) (pod_meta_name (pe_object ev)) ip names label sd"
      "pod_ready (pe_object ev)" "pod_ip (pe_object ev) = Some ip" "names \<noteq> []"
      "names = pod_get_model_names (pe_env ev) sd (Some ip)"
      "pe_type ev \<in> {''ADDED'', ''MODIFIED''}"
  by (atomize_elim)
     (auto simp: pod_handle_event_def pod_on_engine_update_def Let_def split: option.splits)

section \<open>The invariant of the discovery\<close>

definition pod_entry_ok :: "pod_sd \<Rightarrow> string \<times> endpoint_info \<Rightarrow> bool" where
  "pod_entry_ok sd = (\<lambda>(n, e).
     ep_pod_name e = Some n \<and> ep_namespace e = Some (psd_namespace sd) \<and>
     (\<exists>ip. ep_url e = ''http://'' @ ip @ '':'' @ psd_port sd) \<and>
     ep_model_names e \<noteq> [] \<and>
     ((\<forall>m \<in> set (ep_model_names e). hashable m) \<longrightarrow> set (ep_model_names e) \<subseteq> psd_known_models sd))"

definition pod_inv :: "pod_sd \<Rightarrow> bool" where
  "pod_inv sd \<longleftrightarrow>
     distinct (map fst (psd_available_engines sd)) \<and>
     (\<forall>p \<in> set (psd_available_engines sd). pod_entry_ok sd p) \<and>
     wf_clients (psd_app sd) \<and> leaked (psd_app sd) = {}"

lemma pod_entry_ok_mono:
  "pod_entry_ok sd p \<Longrightarrow> psd_namespace sd' = psd_namespace sd \<Longrightarrow> psd_port sd' = psd_port sd \<Longrightarrow>
   psd_known_models sd \<subseteq> psd_known_models sd' \<Longrightarrow> pod_entry_ok sd' p"
  by (auto simp: pod_entry_ok_def)

lemma pod_inv_init: "pod_inv (K8sPodIPServiceDiscovery_init new_client_state ns port pl dl)"
  by (simp add: pod_inv_def K8sPodIPServiceDiscovery_init_def)

lemma pod_inv_delete: "pod_inv sd \<Longrightarrow> pod_inv (pod_delete_engine n sd)"
  by (auto simp: pod_inv_def pod_delete_engine_def pod_entry_ok_def dest!: dict_del_mem)

lemma pod_inv_add:
  assumes inv: "pod_inv sd" and names: "names \<noteq> []"
  shows "pod_inv (fst (pod_add_engine env n ip names label sd))"
proof (cases rule: pod_add_engine_cases [of env n ip names label sd])
  case (raised err)
  with inv show ?thesis by simp
next
  case (added ep app K err)
  let ?sd = "sd\<lparr>psd_available_engines := AList.update n ep (psd_available_engines sd),
                psd_app := app, psd_known_models := K\<rparr>"
  have mono: "psd_known_models sd \<subseteq> K"
    using set_update_mono [of "psd_known_models sd" names] added(6) by (metis fst_conv)
  have "pod_entry_ok ?sd (n, ep)"
    using added(2-6) names set_update_hashable [of names "psd_known_models sd"]
    by (auto simp: pod_entry_ok_def)
  moreover have "pod_entry_ok ?sd p" if "p \<in> set (psd_available_engines sd)" for p
    by (rule pod_entry_ok_mono [of sd]) (use inv that mono in \<open>auto simp: pod_inv_def\<close>)
  ultimately have "\<forall>p \<in> set (psd_available_engines ?sd). pod_entry_ok ?sd p"
    by (auto dest!: dict_set_mem)
  moreover have "wf_clients app \<and> leaked app = {}"
    using added(7) inv initialize_sessions_no_leak by (auto simp: pod_inv_def)
  ultimately show ?thesis
    using inv by (simp add: pod_inv_def added(1))
qed

lemma pod_inv_handle: "pod_inv sd \<Longrightarrow> pod_inv (fst (pod_handle_event sd ev))"
  by (cases rule: pod_handle_event_cases [of sd ev]) (simp_all add: pod_inv_delete pod_inv_add)

lemma pod_inv_stream: "pod_inv sd \<Longrightarrow> pod_inv (fst (run_stream pod_handle_event sd evs))"
proof (induction evs arbitrary: sd)
  case Nil
  then show ?case by simp
next
  case (Cons ev evs)
  from pod_inv_handle [OF Cons.prems, of ev] Cons.IH show ?case
    by (auto split: prod.splits option.splits)
qed

lemma pod_inv_watch: "pod_inv sd \<Longrightarrow> pod_inv (pod_watch_engines sd streams)"
  by (induction streams arbitrary: sd) (simp_all add: pod_inv_stream)

section \<open>Known models are never forgotten\<close>

lemma pod_known_handle: "psd_known_models sd \<subseteq> psd_known_models (fst (pod_handle_event sd ev))"
proof (cases rule: pod_handle_event_cases [of sd ev])
  case (add ip names label)
  then show ?thesis
    by (cases rule: pod_add_engine_cases [of "pe_env ev" "pod_meta_name (pe_object ev)" ip names label sd])
       (auto dest: set_update_mono [THEN subsetD] simp: prod_eq_iff)
qed (simp_all add: pod_delete_engine_def)

lemma pod_known_stream:
  "psd_known_models sd \<subseteq> psd_known_models (fst (run_stream pod_handle_event sd evs))"
proof (induction evs arbitrary: sd)
  case Nil
  show ?case by simp
next
  case (Cons ev evs)
  from pod_known_handle [of sd ev] Cons.IH show ?case
    by (fastforce split: prod.splits option.splits)
qed

lemma pod_known_watch: "psd_known_models sd \<subseteq> psd_known_models (pod_watch_engines sd streams)"
proof (induction streams arbitrary: sd)
  case Nil
  show ?case by simp
next
  case (Cons evs streams)
  from pod_known_stream [of sd evs] Cons.IH show ?case by fastforce
qed

section \<open>The pod discovery is an engine table\<close>

definition pod_subject :: "pod_event \<Rightarrow> string" where
  "pod_subject ev = pod_meta_name (pe_object ev)"

text \<open>Events after which the pod must not be routable: it is gone, or it is known to have an
  address and is not ready or terminating.\<close>

definition pod_evicts :: "pod_event \<Rightarrow> bool" where
  "pod_evicts ev \<longleftrightarrow>
     pe_type ev = ''DELETED'' \<or>
     (pe_type ev = ''MODIFIED'' \<and> pod_ip (pe_object ev) \<noteq> None \<and> \<not> pod_ready (pe_object ev))"

lemma pod_handle_frame:
  "k \<noteq> pod_subject ev \<Longrightarrow>
   map_of (psd_available_engines (fst (pod_handle_event sd ev))) k = map_of (psd_available_engines sd) k"
proof (cases rule: pod_handle_event_cases [of sd ev])
  case (add ip names label)
  assume "k \<noteq> pod_subject ev"
  then show ?thesis unfolding add(1)
    by (cases rule: pod_add_engine_cases [of "pe_env ev" "pod_meta_name (pe_object ev)" ip names label sd])
       (simp_all add: pod_subject_def)
qed (simp_all add: pod_delete_engine_def pod_subject_def)

lemma pod_handle_distinct:
  "distinct (map fst (psd_available_engines sd)) \<Longrightarrow>
   distinct (map fst (psd_available_engines (fst (pod_handle_event sd ev))))"
proof (cases rule: pod_handle_event_cases [of sd ev])
  case (add ip names label)
  assume "distinct (map fst (psd_available_engines sd))"
  then show ?thesis unfolding add(1)
    by (cases rule: pod_add_engine_cases [of "pe_env ev" "pod_meta_name (pe_object ev)" ip names label sd])
       auto
qed (simp_all add: pod_delete_engine_def)

lemma pod_handle_evict:
  "pod_evicts ev \<Longrightarrow>
   snd (pod_handle_event sd ev) = None \<and>
   map_of (psd_available_engines (fst (pod_handle_event sd ev))) (pod_subject ev) = None"
  by (auto simp: pod_evicts_def pod_handle_event_def pod_on_engine_update_def pod_subject_def Let_def
      pod_delete_engine_def dict_key_iff split: option.splits)

interpretation pod_table:
  engine_table psd_available_engines pod_handle_event pod_subject pod_evicts
  by unfold_locales (simp_all add: pod_handle_frame pod_handle_distinct pod_handle_evict)

section \<open>Properties\<close>

text \<open>C2: whatever pod events arrive, in whatever order and with whatever answers of the cluster
  and the engines, failures included, the watcher keeps its state consistent: every pod has
  at most one entry, stored under its own name, with a URL on the configured port, at least
  one model, all of whose (hashable) models are recorded as known; and every client session
  that is no longer in use has been closed.\<close>

theorem pod_watch_keeps_invariant:
  "pod_inv (pod_watch_engines (K8sPodIPServiceDiscovery_init new_client_state ns port pl dl) streams)"
  by (rule pod_inv_watch [OF pod_inv_init])


text \<open>Scale to zero is remembered: a model that an engine once served (under hashable
  names) stays known to \<^verbatim>\<open>has_ever_seen_model\<close> through all later streams.\<close>

theorem pod_served_model_stays_known:
  assumes inv: "pod_inv sd" and e: "e \<in> set (pod_get_endpoint_info sd)"
    and h: "\<forall>m \<in> set (ep_model_names e). hashable m" and m: "m \<in> set (ep_model_names e)"
  shows "pod_has_ever_seen_model (pod_watch_engines sd streams) m"
proof -
  from e obtain n where "(n, e) \<in> set (psd_available_engines sd)"
    by (auto simp: pod_get_endpoint_info_def)
  with inv h m have "m \<in> psd_known_models sd"
    by (auto simp: pod_inv_def pod_entry_ok_def)
  with pod_known_watch [of sd streams] show ?thesis
    by (auto simp: pod_has_ever_seen_model_def)
qed

text \<open>A pod that disappears while no stream is open stays routable: as long as the streams that
  follow carry no event about it, its entry is unchanged, however often the pods are listed
  again.\<close>

theorem pod_missed_deletion_keeps_entry:
  assumes "\<forall>evs \<in> set streams. n \<notin> pod_subject ` set evs"
  shows "map_of (psd_available_engines (pod_watch_engines sd streams)) n =
         map_of (psd_available_engines sd) n"
  using assms
proof (induction streams arbitrary: sd)
  case Nil
  show ?case by simp
next
  case (Cons evs streams)
  then show ?case using pod_table.stream_frame [of n evs sd] by simp
qed

section \<open>Witnesses\<close>

definition sample_env :: k8s_env where
  "sample_env =
     \<lparr>env_read_pod = (\<lambda>_. ApiException), env_read_service = (\<lambda>_. ApiException),
      env_list_pods = (\<lambda>_. ApiException), env_read_endpoints = (\<lambda>_. ApiOk None),
      env_http_get = (\<lambda>_ _. HttpResponse 200 (Some (JObj [(''data'', JList [JObj [(''id'', JStr ''m'')]])]))),
      env_api_key = None, env_now = 1, env_uuid5 = (\<lambda>n. n), env_loop_ready = False\<rparr>"

definition sample_pod :: "string \<Rightarrow> pod" where
  "sample_pod n =
     \<lparr>pod_meta_name = n, pod_ip = Some ''10.0.0.1'', pod_labels = None,
      pod_deletion_timestamp = None, pod_container_statuses = Some [True], pod_containers = []\<rparr>"

definition sample_event :: "string \<Rightarrow> string \<Rightarrow> pod_event" where
  "sample_event t n = \<lparr>pe_env = sample_env, pe_type = t, pe_object = sample_pod n\<rparr>"

definition sample_sd :: pod_sd where
  "sample_sd = K8sPodIPServiceDiscovery_init new_client_state ''ns'' ''8000'' None None"

lemmas sample_defs = sample_env_def sample_pod_def sample_event_def sample_sd_def
  K8sPodIPServiceDiscovery_init_def pod_handle_event_def pod_on_engine_update_def pod_add_engine_def
  pod_get_model_names_def pod_get_model_info_def engine_model_names_def engine_model_info_def
  response_item_def raises_for_status_def pod_check_engine_sleep_mode_def pod_ready_def
  check_pod_ready_def is_pod_terminating_def pod_delete_engine_def pod_get_endpoint_info_def
  pod_get_model_label_def ip_text_def Let_def

lemma sample_added: "map ep_pod_name (pod_get_endpoint_info (fst (pod_handle_event sample_sd (sample_event ''ADDED'' ''p'')))) = [Some ''p'']"
  by (simp add: sample_defs)

lemma sample_watch_run:
  "snd (run_stream pod_handle_event sample_sd
     ([sample_event ''ADDED'' ''p''] @ sample_event ''DELETED'' ''p'' # [sample_event ''ADDED'' ''q''])) = None"
  "map ep_pod_name (pod_get_endpoint_info (fst (run_stream pod_handle_event sample_sd
     ([sample_event ''ADDED'' ''p''] @ sample_event ''DELETED'' ''p'' # [sample_event ''ADDED'' ''q''])))) = [Some ''q'']"
  by (simp_all add: sample_defs)


theorem pod_served_model_stays_known_witness:
  "pod_has_ever_seen_model
     (pod_watch_engines (fst (pod_handle_event sample_sd (sample_event ''ADDED'' ''p'')))
        [[sample_event ''DELETED'' ''p'']]) (JStr ''m'')"
proof -
  let ?sd = "fst (pod_handle_event sample_sd (sample_event ''ADDED'' ''p''))"
  let ?e = "hd (pod_get_endpoint_info ?sd)"
  have "pod_inv ?sd"
    unfolding sample_sd_def by (intro pod_inv_handle pod_inv_init)
  moreover have "?e \<in> set (pod_get_endpoint_info ?sd)"
    using sample_added by (intro hd_in_set) (metis list.map_disc_iff list.discI)
  moreover have "ep_model_names ?e = [JStr ''m'']" by (simp add: sample_defs)
  ultimately show ?thesis
    by (intro pod_served_model_stays_known [of ?sd ?e "JStr ''m''"]) simp_all
qed

theorem pod_missed_deletion_keeps_entry_witness:
  "map_of (psd_available_engines
     (pod_watch_engines (fst (pod_handle_event sample_sd (sample_event ''ADDED'' ''p'')))
        [[sample_event ''ADDED'' ''q'']])) ''p'' \<noteq> None"
proof -
  let ?sd = "fst (pod_handle_event sample_sd (sample_event ''ADDED'' ''p''))"
  have "\<forall>evs \<in> set [[sample_event ''ADDED'' ''q'']]. ''p'' \<notin> pod_subject ` set evs"
    by (simp add: pod_subject_def sample_event_def sample_pod_def)
  from pod_missed_deletion_keeps_entry [OF this, of ?sd] show ?thesis
    by (simp add: sample_defs)
qed

end
