(* ===== verification/Service_Name_Discovery.thy ===== *)
theory Service_Name_Discovery
  imports K8s_Watch
begin

text \<open>
  \<^verbatim>\<open>K8sServiceNameServiceDiscovery\<close> of \<^verbatim>\<open>src/src/vllm_router/service_discovery.py\<close>: the watcher
  that discovers engines by Kubernetes service. It shares the questions to an engine and the
  contract of the table with the pod discovery, keeps no set of known models and does not
  touch the client sessions from the watcher.
\<close>

record svc_sd =
  nsd_namespace :: string
  nsd_port :: string
  nsd_available_engines :: engine_dict
  nsd_running :: bool
  nsd_prefill_model_labels :: "labels option"
  nsd_decode_model_labels :: "labels option"

definition K8sServiceNameServiceDiscovery_init ::
  "string \<Rightarrow> string \<Rightarrow> labels option \<Rightarrow> labels option \<Rightarrow> svc_sd" where
  "K8sServiceNameServiceDiscovery_init namespace port prefill_model_labels decode_model_labels =
     \<lparr>nsd_namespace = namespace, nsd_port = port, nsd_available_engines = [], nsd_running = True,
      nsd_prefill_model_labels = prefill_model_labels,
      nsd_decode_model_labels = decode_model_labels\<rparr>"

text \<open>The endpoints object as the list of its subsets, each with whether it has addresses.
  The call is not inside a \<^verbatim>\<open>try\<close>: what the API raises reaches the stream loop.\<close>

definition check_service_ready :: "k8s_env \<Rightarrow> string \<Rightarrow> bool result" where
  "check_service_ready env service_name =
     (case env_read_endpoints env service_name of
        ApiException \<Rightarrow> Inl (OtherException ''ApiException'')
      | ApiOther msg \<Rightarrow> Inl (OtherException msg)
      | ApiOk None \<Rightarrow> Inr False
      | ApiOk (Some subsets) \<Rightarrow> Inr (list_ex (\<lambda>has_addresses. has_addresses) subsets))"

definition svc_get_engine_sleep_status :: "k8s_env \<Rightarrow> svc_sd \<Rightarrow> string \<Rightarrow> json" where
  "svc_get_engine_sleep_status env sd service_name = engine_sleep_status env service_name (nsd_port sd)"

definition selector_text :: "(string \<times> string) list \<Rightarrow> string" where
  "selector_text sel = join '','' (map (\<lambda>(k, v). k @ ''='' @ v) sel)"

text \<open>Every container named \<^verbatim>\<open>vllm\<close> is looked at; iterating over a missing command raises.\<close>

fun sleep_mode_loop :: "container list \<Rightarrow> bool \<Rightarrow> bool result" where
  "sleep_mode_loop [] enabled = Inr enabled"
| "sleep_mode_loop (c # cs) enabled =
     (if ct_name c = ''vllm'' then
        (case ct_command c of
           None \<Rightarrow> Inl (TypeError ''NoneType object is not iterable'')
         | Some cmd \<Rightarrow> sleep_mode_loop cs (enabled \<or> ''--enable-sleep-mode'' \<in> set cmd))
      else sleep_mode_loop cs enabled)"

definition svc_check_engine_sleep_mode :: "k8s_env \<Rightarrow> string \<Rightarrow> bool result" where
  "svc_check_engine_sleep_mode env service_name =
     (case env_read_service env service_name of
        ApiException \<Rightarrow> Inr False
      | ApiOther msg \<Rightarrow> Inl (OtherException msg)
      | ApiOk service \<Rightarrow>
          (case sv_selector service of
             None \<Rightarrow> Inr False
           | Some sel \<Rightarrow>
               if sel = [] then Inr False
               else (case env_list_pods env (selector_text sel) of
                       ApiException \<Rightarrow> Inr False
                     | ApiOther msg \<Rightarrow> Inl (OtherException msg)
                     | ApiOk [] \<Rightarrow> Inr False
                     | ApiOk (p # _) \<Rightarrow> sleep_mode_loop (pod_containers p) False)))"

text \<open>The labels of the patch sent to the API, if one is sent.\<close>

definition svc_add_sleep_label :: "string \<Rightarrow> (string \<times> string option) list option result" where
  "svc_add_sleep_label service_name = Inr (Some [(''sleeping'', Some ''true'')])"

definition svc_remove_sleep_label :: "k8s_env \<Rightarrow> string \<Rightarrow> (string \<times> string option) list option result" where
  "svc_remove_sleep_label env service_name =
     (case env_read_service env service_name of
        ApiException \<Rightarrow> Inr None
      | ApiOther msg \<Rightarrow> Inl (OtherException msg)
      | ApiOk service \<Rightarrow>
          (case sv_labels service of
             None \<Rightarrow> Inl (TypeError ''argument of type NoneType is not iterable'')
           | Some ls \<Rightarrow>
               if ''sleeping'' \<in> fst ` set ls then Inr (Some [(''sleeping'', None)]) else Inr None))"

definition svc_get_model_names :: "k8s_env \<Rightarrow> svc_sd \<Rightarrow> string \<Rightarrow> json list" where
  "svc_get_model_names env sd service_name = engine_model_names env service_name (nsd_port sd)"

definition svc_get_model_info :: "k8s_env \<Rightarrow> svc_sd \<Rightarrow> string \<Rightarrow> model_infos" where
  "svc_get_model_info env sd service_name = engine_model_info env service_name (nsd_port sd)"

definition svc_get_model_label :: "k8s_service \<Rightarrow> string option" where
  "svc_get_model_label service =
     (case sv_selector service of
        None \<Rightarrow> None
      | Some sel \<Rightarrow> if sel = [] then None else map_of sel ''model'')"

definition svc_add_engine ::
  "k8s_env \<Rightarrow> string \<Rightarrow> json list \<Rightarrow> string option \<Rightarrow> svc_sd \<Rightarrow> svc_sd \<times> py_error option" where
  "svc_add_engine env engine_name model_names model_label sd =
     (let model_info = svc_get_model_info env sd engine_name in
      case svc_check_engine_sleep_mode env engine_name of
        Inl err \<Rightarrow> (sd, Some err)
      | Inr enabled \<Rightarrow>
          let sleep_status =
                (if enabled then svc_get_engine_sleep_status env sd engine_name else JBool False);
              ep = \<lparr>ep_url = ''http://'' @ engine_name @ '':'' @ nsd_port sd,
                    ep_model_names = model_names, ep_Id = env_uuid5 env engine_name,
                    ep_added_timestamp = env_now env, ep_model_label = model_label,
                    ep_sleep = sleep_status, ep_pod_name = None,
                    ep_service_name = Some engine_name, ep_namespace = Some (nsd_namespace sd),
                    ep_model_info = Some model_info\<rparr>
          in (sd\<lparr>nsd_available_engines := AList.update engine_name ep (nsd_available_engines sd)\<rparr>, None))"

definition svc_delete_engine :: "string \<Rightarrow> svc_sd \<Rightarrow> svc_sd" where
  "svc_delete_engine engine_name sd =
     sd\<lparr>nsd_available_engines := AList.delete engine_name (nsd_available_engines sd)\<rparr>"

abbreviation svc_known_engine :: "string \<Rightarrow> svc_sd \<Rightarrow> bool" where
  "svc_known_engine n sd \<equiv> n \<in> fst ` set (nsd_available_engines sd)"

definition svc_on_engine_update ::
  "k8s_env \<Rightarrow> string \<Rightarrow> string \<Rightarrow> bool \<Rightarrow> json list \<Rightarrow> string option \<Rightarrow> svc_sd \<Rightarrow>
   svc_sd \<times> py_error option" where
  "svc_on_engine_update env engine_name event is_service_ready model_names model_label sd =
     (if event = ''ADDED'' then
        (if engine_name = [] then (sd, None)
         else if \<not> is_service_ready then (sd, None)
         else if model_names = [] then (sd, None)
         else svc_add_engine env engine_name model_names model_label sd)
      else if event = ''DELETED'' then
        (if \<not> svc_known_engine engine_name sd then (sd, None)
         else (svc_delete_engine engine_name sd, None))
      else if event = ''MODIFIED'' then
        (if engine_name = [] then (sd, None)
         else if is_service_ready \<and> model_names \<noteq> []
         then svc_add_engine env engine_name model_names model_label sd
         else if svc_known_engine engine_name sd
         then (svc_delete_engine engine_name sd, None)
         else (sd, None))
      else (sd, None))"

record svc_event =
  se_env :: k8s_env
  se_type :: string
  se_object :: k8s_service

definition svc_handle_event :: "svc_sd \<Rightarrow> svc_event \<Rightarrow> svc_sd \<times> py_error option" where
  "svc_handle_event sd ev =
     (let service = se_object ev; name = sv_name service in
      if se_type ev = ''DELETED'' then
        (if svc_known_engine name sd then (svc_delete_engine name sd, None) else (sd, None))
      else
        case check_service_ready (se_env ev) name of
          Inl err \<Rightarrow> (sd, Some err)
        | Inr is_ready \<Rightarrow>
            let model_names = (if is_ready then svc_get_model_names (se_env ev) sd name else []);
                model_label = (if is_ready then svc_get_model_label service else None)
            in svc_on_engine_update (se_env ev) name (se_type ev) is_ready model_names model_label sd)"

fun svc_watch_engines :: "svc_sd \<Rightarrow> svc_event list list \<Rightarrow> svc_sd" where
  "svc_watch_engines sd [] = sd"
| "svc_watch_engines sd (evs # streams) =
     (if nsd_running sd
      then svc_watch_engines (fst (run_stream svc_handle_event sd evs)) streams
      else sd)"

definition svc_get_endpoint_info :: "svc_sd \<Rightarrow> endpoint_info list" where
  "svc_get_endpoint_info sd = map snd (nsd_available_engines sd)"

definition svc_close :: "svc_sd \<Rightarrow> svc_sd" where
  "svc_close sd = sd\<lparr>nsd_running := False\<rparr>"

definition svc_initialize_client_sessions ::
  "svc_sd \<Rightarrow> client_state \<Rightarrow> client_state \<times> py_error option" where
  "svc_initialize_client_sessions sd c =
     initialize_sessions False (nsd_prefill_model_labels sd) (nsd_decode_model_labels sd)
       (svc_get_endpoint_info sd) c"

section \<open>Effect of an event\<close>

lemma svc_handle_event_cases:
  obtains (same) err where "svc_handle_event sd ev = (sd, err)"
  | (deleted) "svc_handle_event sd ev = (svc_delete_engine (sv_name (se_object ev)) sd, None)"
  | (added) ep where
      "svc_handle_event sd ev =
         (sd\<lparr>nsd_available_engines := AList.update (sv_name (se_object ev)) ep (nsd_available_engines sd)\<rparr>, None)"
      "ep_url ep = ''http://'' @ sv_name (se_object ev) @ '':'' @ nsd_port sd"
      "ep_service_name ep = Some (sv_name (se_object ev))" "ep_pod_name ep = None"
      "ep_namespace ep = Some (nsd_namespace sd)" "ep_model_names ep \<noteq> []"
      "sv_name (se_object ev) \<noteq> []"
  by (atomize_elim)
     (auto simp: svc_handle_event_def svc_on_engine_update_def svc_add_engine_def Let_def
       split: sum.splits)

text \<open>The shape of the table.\<close>

definition svc_entry_ok :: "svc_sd \<Rightarrow> string \<times> endpoint_info \<Rightarrow> bool" where
  "svc_entry_ok sd = (\<lambda>(n, e).
     n \<noteq> [] \<and> ep_service_name e = Some n \<and> ep_pod_name e = None \<and>
     ep_namespace e = Some (nsd_namespace sd) \<and>
     ep_url e = ''http://'' @ n @ '':'' @ nsd_port sd \<and> ep_model_names e \<noteq> [])"

definition svc_inv :: "svc_sd \<Rightarrow> bool" where
  "svc_inv sd \<longleftrightarrow>
     distinct (map fst (nsd_available_engines sd)) \<and>
     (\<forall>p \<in> set (nsd_available_engines sd). svc_entry_ok sd p)"

lemma svc_inv_init: "svc_inv (K8sServiceNameServiceDiscovery_init ns port pl dl)"
  by (simp add: svc_inv_def K8sServiceNameServiceDiscovery_init_def)

lemma svc_inv_handle: "svc_inv sd \<Longrightarrow> svc_inv (fst (svc_handle_event sd ev))"
  by (cases rule: svc_handle_event_cases [of sd ev])
     (auto simp: svc_inv_def svc_delete_engine_def svc_entry_ok_def dest!: dict_del_mem dict_set_mem)

lemma svc_inv_stream: "svc_inv sd \<Longrightarrow> svc_inv (fst (run_stream svc_handle_event sd evs))"
proof (induction evs arbitrary: sd)
  case Nil
  then show ?case by simp
next
  case (Cons ev evs)
  from svc_inv_handle [OF Cons.prems, of ev] Cons.IH show ?case
    by (auto split: prod.splits option.splits)
qed

lemma svc_inv_watch: "svc_inv sd \<Longrightarrow> svc_inv (svc_watch_engines sd streams)"
  by (induction streams arbitrary: sd) (simp_all add: svc_inv_stream)

section \<open>The service discovery is an engine table\<close>

definition svc_subject :: "svc_event \<Rightarrow> string" where
  "svc_subject ev = sv_name (se_object ev)"

definition svc_evicts :: "svc_event \<Rightarrow> bool" where
  "svc_evicts ev \<longleftrightarrow>
     se_type ev = ''DELETED'' \<or>
     (se_type ev = ''MODIFIED'' \<and> svc_subject ev \<noteq> [] \<and>
      check_service_ready (se_env ev) (svc_subject ev) = Inr False)"

lemma svc_handle_frame:
  "k \<noteq> svc_subject ev \<Longrightarrow>
   map_of (nsd_available_engines (fst (svc_handle_event sd ev))) k = map_of (nsd_available_engines sd) k"
  by (cases rule: svc_handle_event_cases [of sd ev]) (simp_all add: svc_delete_engine_def svc_subject_def)

lemma svc_handle_distinct:
  "distinct (map fst (nsd_available_engines sd)) \<Longrightarrow>
   distinct (map fst (nsd_available_engines (fst (svc_handle_event sd ev))))"
  by (cases rule: svc_handle_event_cases [of sd ev]) (simp_all add: svc_delete_engine_def)

lemma svc_handle_evict:
  "svc_evicts ev \<Longrightarrow>
   snd (svc_handle_event sd ev) = None \<and>
   map_of (nsd_available_engines (fst (svc_handle_event sd ev))) (svc_subject ev) = None"
  by (auto simp: svc_evicts_def svc_handle_event_def svc_on_engine_update_def svc_subject_def Let_def
      svc_delete_engine_def dict_key_iff)

interpretation svc_table:
  engine_table nsd_available_engines svc_handle_event svc_subject svc_evicts
  by unfold_locales (simp_all add: svc_handle_frame svc_handle_distinct svc_handle_evict)

section \<open>Properties\<close>

text \<open>The service watcher keeps its table consistent under every sequence of events and
  answers: one entry per service, under the service's nonempty name, with the URL
  \<^verbatim>\<open>http://name:port\<close> and at least one model. No entry has a pod name.\<close>

theorem svc_watch_keeps_invariant:
  "svc_inv (svc_watch_engines (K8sServiceNameServiceDiscovery_init ns port pl dl) streams)"
  by (rule svc_inv_watch [OF svc_inv_init])

end
