(* ===== verification/Discovery_Factory.thy ===== *)
theory Discovery_Factory
  imports Static_Discovery Pod_Discovery Service_Name_Discovery
begin

text \<open>
  The module-level functions of \<^verbatim>\<open>src/src/vllm_router/service_discovery.py\<close>: choosing and
  creating a discovery, the global instance, and its replacement at reconfiguration. A
  discovery is one of the three classes; what the callers use of all of them
  (\<^verbatim>\<open>get_endpoint_info\<close>, \<^verbatim>\<open>close\<close>) is defined by cases.
\<close>

datatype ServiceDiscoveryType = STATIC | K8S

datatype discovery = Static static_sd | PodIP pod_sd | ServiceName svc_sd

text \<open>The keyword arguments of the two families of constructors. The Kubernetes type is an
  optional keyword whose value may be \<^verbatim>\<open>None\<close>.\<close>

datatype discovery_args =
    StaticArgs "string list" "string list option" "(string \<times> string) list option"
      "string list option" "string list option" bool "labels option" "labels option"
  | K8sArgs "string option option" string string "labels option" "labels option"

definition k8s_normalized_type :: "string option option \<Rightarrow> string" where
  "k8s_normalized_type kw =
     (case (case kw of None \<Rightarrow> Some ''pod-ip'' | Some v \<Rightarrow> v) of
        None \<Rightarrow> ''pod-ip''
      | Some t \<Rightarrow> if strip t = [] then ''pod-ip'' else lower (strip t))"

text \<open>
  \<^verbatim>\<open>None\<close> for the type stands for a value that is neither member of the enumeration.
  \<open>kube\<close> is what loading the cluster configuration raises, if it raises.
\<close>

definition create_service_discovery ::
  "(nat \<Rightarrow> string) \<Rightarrow> int \<Rightarrow> py_error option \<Rightarrow> client_state \<Rightarrow> ServiceDiscoveryType option \<Rightarrow>
   discovery_args \<Rightarrow> discovery result" where
  "create_service_discovery uuid4 now kube app ty args =
     (case ty of
        Some STATIC \<Rightarrow>
          (case args of
             StaticArgs urls models aliases labels types checks pl dl \<Rightarrow>
               bindE (StaticServiceDiscovery_init uuid4 now urls models aliases labels types checks pl dl)
                 (\<lambda>sd. Inr (Static sd))
           | K8sArgs _ _ _ _ _ \<Rightarrow> Inl (TypeError ''unexpected keyword argument''))
      | Some K8S \<Rightarrow>
          (case args of
             StaticArgs _ _ _ _ _ _ _ _ \<Rightarrow> Inl (TypeError ''unexpected keyword argument'')
           | K8sArgs kind namespace port pl dl \<Rightarrow>
               (case kube of
                  Some e \<Rightarrow> Inl e
                | None \<Rightarrow>
                    if k8s_normalized_type kind = ''service-name''
                    then Inr (ServiceName (K8sServiceNameServiceDiscovery_init namespace port pl dl))
                    else Inr (PodIP (K8sPodIPServiceDiscovery_init app namespace port pl dl))))
      | None \<Rightarrow> Inl (ValueError ''Invalid service discovery type''))"

definition discovery_close :: "discovery \<Rightarrow> discovery" where
  "discovery_close d =
     (case d of
        Static sd \<Rightarrow> Static (static_close sd)
      | PodIP sd \<Rightarrow> PodIP (pod_close sd)
      | ServiceName sd \<Rightarrow> ServiceName (svc_close sd))"

definition discovery_get_endpoint_info ::
  "(string \<Rightarrow> string) \<Rightarrow> int \<Rightarrow> discovery \<Rightarrow> endpoint_info list result" where
  "discovery_get_endpoint_info md5 now d =
     (case d of
        Static sd \<Rightarrow> static_get_endpoint_info md5 now sd
      | PodIP sd \<Rightarrow> Inr (pod_get_endpoint_info sd)
      | ServiceName sd \<Rightarrow> Inr (svc_get_endpoint_info sd))"

definition discovery_running :: "discovery \<Rightarrow> bool" where
  "discovery_running d =
     (case d of
        Static sd \<Rightarrow> ssd_running sd
      | PodIP sd \<Rightarrow> psd_running sd
      | ServiceName sd \<Rightarrow> nsd_running sd)"

text \<open>The global variable, with the discoveries that were replaced.\<close>

record discovery_global =
  dg_current :: "discovery option"
  dg_retired :: "discovery list"

definition initialize_service_discovery ::
  "(nat \<Rightarrow> string) \<Rightarrow> int \<Rightarrow> py_error option \<Rightarrow> client_state \<Rightarrow> ServiceDiscoveryType option \<Rightarrow>
   discovery_args \<Rightarrow> discovery_global \<Rightarrow> discovery_global \<times> discovery result" where
  "initialize_service_discovery uuid4 now kube app ty args g =
     (if dg_current g \<noteq> None
      then (g, Inl (ValueError ''Service discovery module already initialized''))
      else (case create_service_discovery uuid4 now kube app ty args of
              Inl e \<Rightarrow> (g, Inl e)
            | Inr d \<Rightarrow> (g\<lparr>dg_current := Some d\<rparr>, Inr d)))"

definition reconfigure_service_discovery ::
  "(nat \<Rightarrow> string) \<Rightarrow> int \<Rightarrow> py_error option \<Rightarrow> client_state \<Rightarrow> ServiceDiscoveryType option \<Rightarrow>
   discovery_args \<Rightarrow> discovery_global \<Rightarrow> discovery_global \<times> discovery result" where
  "reconfigure_service_discovery uuid4 now kube app ty args g =
     (case dg_current g of
        None \<Rightarrow> (g, Inl (ValueError ''Service discovery module not initialized''))
      | Some old \<Rightarrow>
          (case create_service_discovery uuid4 now kube app ty args of
             Inl e \<Rightarrow> (g, Inl e)
           | Inr d \<Rightarrow> (\<lparr>dg_current = Some d, dg_retired = dg_retired g @ [discovery_close old]\<rparr>, Inr d)))"

definition get_service_discovery :: "discovery_global \<Rightarrow> discovery result" where
  "get_service_discovery g =
     (case dg_current g of
        None \<Rightarrow> Inl (ValueError ''Service discovery module not initialized'')
      | Some d \<Rightarrow> Inr d)"

section \<open>Lifecycle\<close>

lemma create_running:
  "create_service_discovery uuid4 now kube app ty args = Inr d \<Longrightarrow> discovery_running d"
  by (auto simp: create_service_discovery_def discovery_running_def StaticServiceDiscovery_init_def
      K8sServiceNameServiceDiscovery_init_def K8sPodIPServiceDiscovery_init_def bindE_eq_Inr
      split: option.splits ServiceDiscoveryType.splits discovery_args.splits if_splits)

lemma close_stops [simp]: "\<not> discovery_running (discovery_close d)"
  by (cases d) (simp_all add: discovery_running_def discovery_close_def static_close_def
      pod_close_def svc_close_def)

text \<open>A stopped watcher ignores every stream.\<close>

lemma closed_watch: "pod_watch_engines (pod_close sd) streams = pod_close sd"
  by (cases streams) (simp_all add: pod_close_def)

text \<open>The calls on the module, as one step function.\<close>

datatype discovery_call =
    CallInit "ServiceDiscoveryType option" discovery_args "py_error option"
  | CallReconfigure "ServiceDiscoveryType option" discovery_args "py_error option"

fun discovery_step ::
  "(nat \<Rightarrow> string) \<Rightarrow> int \<Rightarrow> client_state \<Rightarrow> discovery_call \<Rightarrow> discovery_global \<Rightarrow> discovery_global" where
  "discovery_step uuid4 now app (CallInit ty args kube) g =
     fst (initialize_service_discovery uuid4 now kube app ty args g)"
| "discovery_step uuid4 now app (CallReconfigure ty args kube) g =
     fst (reconfigure_service_discovery uuid4 now kube app ty args g)"

definition lifecycle_ok :: "discovery_global \<Rightarrow> bool" where
  "lifecycle_ok g \<longleftrightarrow>
     (case dg_current g of None \<Rightarrow> True | Some d \<Rightarrow> discovery_running d) \<and>
     (\<forall>d \<in> set (dg_retired g). \<not> discovery_running d)"

lemma lifecycle_step: "lifecycle_ok g \<Longrightarrow> lifecycle_ok (discovery_step uuid4 now app call g)"
  by (cases call)
     (auto simp: lifecycle_ok_def initialize_service_discovery_def reconfigure_service_discovery_def
       dest: create_running split: option.splits sum.splits)

text \<open>Through every sequence of initialisations and reconfigurations, successful or failing,
  the module has at most one running discovery, the current one: every replaced discovery has
  been closed, and a failed call leaves the current one running.\<close>

theorem one_running_discovery:
  "lifecycle_ok (fold (discovery_step uuid4 now app) calls \<lparr>dg_current = None, dg_retired = []\<rparr>)"
proof -
  have gen: "lifecycle_ok g \<Longrightarrow> lifecycle_ok (fold (discovery_step uuid4 now app) calls g)" for g
    by (induction calls arbitrary: g) (simp_all add: lifecycle_step)
  show ?thesis by (rule gen) (simp add: lifecycle_ok_def)
qed

text \<open>A Kubernetes discovery is created without the type keyword, or with \<^verbatim>\<open>None\<close> or blank text,
  exactly as with \<^verbatim>\<open>pod-ip\<close>; only \<^verbatim>\<open>service-name\<close>, up to case and surrounding blanks, selects
  the service discovery.\<close>

theorem k8s_type_selects:
  "create_service_discovery uuid4 now None app (Some K8S) (K8sArgs kw ns port pl dl) =
     Inr (if \<exists>t. kw = Some (Some t) \<and> lower (strip t) = ''service-name''
          then ServiceName (K8sServiceNameServiceDiscovery_init ns port pl dl)
          else PodIP (K8sPodIPServiceDiscovery_init app ns port pl dl))"
proof -
  have "lower [] = []" by (simp add: lower_def)
  moreover have "lower (strip ''pod-ip'') \<noteq> ''service-name''" by code_simp
  ultimately show ?thesis
    by (auto simp: create_service_discovery_def k8s_normalized_type_def split: option.splits)
qed

end
