(* ===== verification/Request_Stats.thy ===== *)
theory Request_Stats
  imports Router_Prelude
begin

text \<open>
  \<^verbatim>\<open>src/src/vllm_router/stats/request_stats.py\<close>: the sliding-window monitors and the monitor of
  the life of every request. The deques are lists with the oldest point first. The lemmas show
  that a deque pruned from the left holds exactly the points of the window, that the counters
  refine the phases of the individual requests, and that no call raises.
\<close>

section \<open>Sliding windows\<close>

record monitor =
  mm_sliding_window_size :: rat
  mm_timestamps :: "rat list"
  mm_values :: "rat list"

definition MovingAverageMonitor_init :: "rat \<Rightarrow> monitor" where
  "MovingAverageMonitor_init w =
     \<lparr>mm_sliding_window_size = w, mm_timestamps = [], mm_values = []\<rparr>"

text \<open>The loop that pops the points older than \<open>bound\<close> off both deques.\<close>

fun popleft_while :: "rat \<Rightarrow> rat list \<Rightarrow> rat list \<Rightarrow> rat list \<times> rat list" where
  "popleft_while bound (t # ts) (v # vs) =
     (if t < bound then popleft_while bound ts vs else (t # ts, v # vs))"
| "popleft_while bound ts vs = (ts, vs)"

definition update_no_value :: "rat \<Rightarrow> monitor \<Rightarrow> monitor" where
  "update_no_value timestamp m =
     (case popleft_while (timestamp - mm_sliding_window_size m) (mm_timestamps m) (mm_values m) of
        (ts, vs) \<Rightarrow> m\<lparr>mm_timestamps := ts, mm_values := vs\<rparr>)"

definition monitor_update :: "rat \<Rightarrow> rat \<Rightarrow> monitor \<Rightarrow> monitor" where
  "monitor_update timestamp value m =
     (let ts = mm_timestamps m @ [timestamp]; vs = mm_values m @ [value] in
      case popleft_while (timestamp - mm_sliding_window_size m) ts vs of
        (ts', vs') \<Rightarrow> m\<lparr>mm_timestamps := ts', mm_values := vs'\<rparr>)"

definition get_sum :: "monitor \<Rightarrow> rat" where
  "get_sum m = sum_list (mm_values m)"

definition get_average :: "monitor \<Rightarrow> rat" where
  "get_average m =
     (if mm_values m \<noteq> [] then sum_list (mm_values m) / of_nat (length (mm_values m)) else -1)"

section \<open>The monitor of requests\<close>

type_synonym req = "string \<times> string"

record RequestStats =
  rs_qps :: rat
  rs_ttft :: rat
  rs_in_prefill_requests :: int
  rs_in_decoding_requests :: int
  rs_finished_requests :: int
  rs_uptime :: rat
  rs_avg_decoding_length :: rat
  rs_avg_latency :: rat
  rs_avg_itl :: rat
  rs_num_swapped_requests :: int

record request_monitor =
  rm_sliding_window_size :: rat
  rm_qps_monitors :: "(string \<times> monitor) list"
  rm_ttft_monitors :: "(string \<times> monitor) list"
  rm_request_start_time :: "(req \<times> rat) list"
  rm_first_token_time :: "(req \<times> rat) list"
  rm_in_prefill_requests :: "(string \<times> int) list"
  rm_in_decoding_requests :: "(string \<times> int) list"
  rm_finished_requests :: "(string \<times> int) list"
  rm_latency_monitors :: "(string \<times> monitor) list"
  rm_decoding_length_monitors :: "(string \<times> monitor) list"
  rm_swapped_requests :: "(string \<times> int) list"
  rm_first_query_time :: "rat option"

definition RequestStatsMonitor_init :: "rat option \<Rightarrow> request_monitor result" where
  "RequestStatsMonitor_init window =
     (case window of
        None \<Rightarrow> Inl (ValueError ''RequestStatsMonitor must be initialized with sliding_window_size'')
      | Some w \<Rightarrow>
          Inr \<lparr>rm_sliding_window_size = w, rm_qps_monitors = [], rm_ttft_monitors = [],
               rm_request_start_time = [], rm_first_token_time = [],
               rm_in_prefill_requests = [], rm_in_decoding_requests = [],
               rm_finished_requests = [], rm_latency_monitors = [],
               rm_decoding_length_monitors = [], rm_swapped_requests = [],
               rm_first_query_time = None\<rparr>)"

text \<open>Creating a missing monitor and updating it.\<close>

definition update_in ::
  "rat \<Rightarrow> string \<Rightarrow> rat \<Rightarrow> rat \<Rightarrow> (string \<times> monitor) list \<Rightarrow> (string \<times> monitor) list" where
  "update_in w url timestamp value ms =
     AList.update url
       (monitor_update timestamp value (dget ms url (MovingAverageMonitor_init w))) ms"

definition on_new_request :: "string \<Rightarrow> string \<Rightarrow> rat \<Rightarrow> request_monitor \<Rightarrow> request_monitor" where
  "on_new_request engine_url request_id timestamp m =
     m\<lparr>rm_request_start_time := AList.update (engine_url, request_id) timestamp (rm_request_start_time m),
       rm_in_prefill_requests := dict_incr engine_url (rm_in_prefill_requests m),
       rm_qps_monitors :=
         update_in (rm_sliding_window_size m) engine_url timestamp 1 (rm_qps_monitors m),
       rm_latency_monitors :=
         setdefault engine_url (MovingAverageMonitor_init (rm_sliding_window_size m)) (rm_latency_monitors m),
       rm_first_query_time :=
         (case rm_first_query_time m of None \<Rightarrow> Some timestamp | Some t \<Rightarrow> Some t)\<rparr>"

definition on_request_response :: "string \<Rightarrow> string \<Rightarrow> rat \<Rightarrow> request_monitor \<Rightarrow> request_monitor" where
  "on_request_response engine_url request_id timestamp m =
     (case map_of (rm_request_start_time m) (engine_url, request_id) of
        None \<Rightarrow> m
      | Some start \<Rightarrow>
          m\<lparr>rm_first_token_time := AList.update (engine_url, request_id) timestamp (rm_first_token_time m),
            rm_in_prefill_requests :=
              AList.update engine_url (max 0 (dget (rm_in_prefill_requests m) engine_url 1 - 1))
                (rm_in_prefill_requests m),
            rm_in_decoding_requests := dict_incr engine_url (rm_in_decoding_requests m),
            rm_ttft_monitors :=
              update_in (rm_sliding_window_size m) engine_url timestamp (timestamp - start)
                (rm_ttft_monitors m)\<rparr>)"

text \<open>
  \<open>now\<close> is \<^verbatim>\<open>time.time()\<close>, which the code reads again for the latency. A start time of 0 is
  falsy. Indexing \<^verbatim>\<open>latency_monitors\<close> may raise, after the counters have changed.
\<close>

definition on_request_complete ::
  "rat \<Rightarrow> string \<Rightarrow> string \<Rightarrow> rat \<Rightarrow> request_monitor \<Rightarrow> request_monitor \<times> py_error option" where
  "on_request_complete now engine_url request_id timestamp m =
     (let m1 = m\<lparr>rm_in_decoding_requests :=
                    AList.update engine_url (max 0 (dget (rm_in_decoding_requests m) engine_url 1 - 1))
                      (rm_in_decoding_requests m),
                  rm_finished_requests := dict_incr engine_url (rm_finished_requests m)\<rparr>
      in case map_of (rm_request_start_time m) (engine_url, request_id) of
           None \<Rightarrow> (m1, None)
         | Some start \<Rightarrow>
             if start = 0 then (m1, None)
             else (case map_of (rm_latency_monitors m) engine_url of
                     None \<Rightarrow> (m1, Some (KeyError engine_url))
                   | Some lm \<Rightarrow>
                       (m1\<lparr>rm_latency_monitors :=
                             AList.update engine_url (monitor_update timestamp (now - start) lm)
                               (rm_latency_monitors m)\<rparr>, None)))"

definition on_request_swapped :: "string \<Rightarrow> string \<Rightarrow> rat \<Rightarrow> request_monitor \<Rightarrow> request_monitor" where
  "on_request_swapped engine_url request_id timestamp m =
     m\<lparr>rm_swapped_requests := dict_incr engine_url (rm_swapped_requests m)\<rparr>"

text \<open>\<^verbatim>\<open>set(a.keys()).union(set(b.keys()))\<close>; the order of a set is not specified, the results are
  keyed by URL.\<close>

definition monitored_urls :: "request_monitor \<Rightarrow> string list" where
  "monitored_urls m =
     remdups (map fst (rm_in_prefill_requests m) @ map fst (rm_in_decoding_requests m))"

definition prune_in :: "rat \<Rightarrow> string \<Rightarrow> (string \<times> monitor) list \<Rightarrow> (string \<times> monitor) list" where
  "prune_in current_time url ms =
     (case map_of ms url of
        None \<Rightarrow> ms
      | Some mon \<Rightarrow> AList.update url (update_no_value current_time mon) ms)"

definition average_of :: "(string \<times> monitor) list \<Rightarrow> string \<Rightarrow> rat" where
  "average_of ms url = (case map_of ms url of None \<Rightarrow> -1 | Some mon \<Rightarrow> get_average mon)"

text \<open>The body of the loop for one URL: dividing by a window of 0 raises.\<close>

definition stats_of_url :: "rat \<Rightarrow> string \<Rightarrow> request_monitor \<Rightarrow> request_monitor \<times> RequestStats result" where
  "stats_of_url current_time url m =
     (let m1 = m\<lparr>rm_qps_monitors := prune_in current_time url (rm_qps_monitors m)\<rparr> in
      if url \<in> fst ` set (rm_qps_monitors m) \<and> rm_sliding_window_size m = 0
      then (m1, Inl ZeroDivisionError)
      else
        let qps = (case map_of (rm_qps_monitors m1) url of
                     None \<Rightarrow> -1
                   | Some mon \<Rightarrow> get_sum mon / rm_sliding_window_size m);
            m2 = m1\<lparr>rm_ttft_monitors := prune_in current_time url (rm_ttft_monitors m)\<rparr>
        in (m2, Inr \<lparr>rs_qps = qps,
                     rs_ttft = average_of (rm_ttft_monitors m2) url,
                     rs_in_prefill_requests = dget (rm_in_prefill_requests m) url 0,
                     rs_in_decoding_requests = dget (rm_in_decoding_requests m) url 0,
                     rs_finished_requests = dget (rm_finished_requests m) url 0,
                     rs_uptime = (case rm_first_query_time m of
                                    None \<Rightarrow> 0
                                  | Some t \<Rightarrow> if t = 0 then 0 else current_time - t),
                     rs_avg_decoding_length = average_of (rm_decoding_length_monitors m) url,
                     rs_avg_latency = average_of (rm_latency_monitors m) url,
                     rs_avg_itl = -1,
                     rs_num_swapped_requests = dget (rm_swapped_requests m) url 0\<rparr>))"

fun stats_loop ::
  "rat \<Rightarrow> string list \<Rightarrow> request_monitor \<Rightarrow> request_monitor \<times> (string \<times> RequestStats) list result" where
  "stats_loop current_time [] m = (m, Inr [])"
| "stats_loop current_time (url # urls) m =
     (case stats_of_url current_time url m of
        (m1, Inl e) \<Rightarrow> (m1, Inl e)
      | (m1, Inr st) \<Rightarrow>
          (case stats_loop current_time urls m1 of
             (m2, Inl e) \<Rightarrow> (m2, Inl e)
           | (m2, Inr rest) \<Rightarrow> (m2, Inr ((url, st) # rest))))"

definition get_request_stats ::
  "rat \<Rightarrow> request_monitor \<Rightarrow> request_monitor \<times> (string \<times> RequestStats) list result" where
  "get_request_stats current_time m = stats_loop current_time (monitored_urls m) m"

section \<open>The calls as events\<close>

datatype stats_event =
    NewRequest string string rat
  | Response string string rat
  | Complete string string rat rat
  | Swapped string string rat
  | Query rat

fun event_time :: "stats_event \<Rightarrow> rat" where
  "event_time (NewRequest u i t) = t"
| "event_time (Response u i t) = t"
| "event_time (Complete u i t now) = t"
| "event_time (Swapped u i t) = t"
| "event_time (Query t) = t"

fun stats_step :: "stats_event \<Rightarrow> request_monitor \<Rightarrow> request_monitor \<times> py_error option" where
  "stats_step (NewRequest u i t) m = (on_new_request u i t m, None)"
| "stats_step (Response u i t) m = (on_request_response u i t m, None)"
| "stats_step (Complete u i t now) m = on_request_complete now u i t m"
| "stats_step (Swapped u i t) m = (on_request_swapped u i t m, None)"
| "stats_step (Query t) m =
     (case get_request_stats t m of (m', r) \<Rightarrow> (m', case r of Inl e \<Rightarrow> Some e | Inr _ \<Rightarrow> None))"

fun stats_run :: "stats_event list \<Rightarrow> request_monitor \<Rightarrow> request_monitor \<times> py_error option" where
  "stats_run [] m = (m, None)"
| "stats_run (e # es) m =
     (case stats_step e m of (m', None) \<Rightarrow> stats_run es m' | (m', Some err) \<Rightarrow> (m', Some err))"

section \<open>A pruned deque is the window\<close>

abbreviation points :: "monitor \<Rightarrow> (rat \<times> rat) list" where
  "points m \<equiv> zip (mm_timestamps m) (mm_values m)"

definition window :: "rat \<Rightarrow> (rat \<times> rat) list \<Rightarrow> (rat \<times> rat) list" where
  "window c hist = filter (\<lambda>p. c \<le> fst p) hist"

lemma popleft_while_lengths:
  "length ts = length vs \<Longrightarrow> popleft_while c ts vs = (ts', vs') \<Longrightarrow> length ts' = length vs'"
  by (induction c ts vs rule: popleft_while.induct) (auto split: if_splits)

lemma popleft_while_zip:
  "popleft_while c ts vs = (ts', vs') \<Longrightarrow> zip ts' vs' = dropWhile (\<lambda>p. fst p < c) (zip ts vs)"
  by (induction c ts vs rule: popleft_while.induct) (auto split: if_splits)

lemma dropWhile_window: "sorted (map fst ps) \<Longrightarrow> dropWhile (\<lambda>p. fst p < c) ps = window c ps"
proof (induction ps)
  case Nil
  then show ?case by (simp add: window_def)
next
  case (Cons p ps)
  show ?case
  proof (cases "fst p < c")
    case True
    with Cons show ?thesis by (simp add: window_def)
  next
    case False
    with Cons.prems have "\<forall>q \<in> set (p # ps). c \<le> fst q" by auto
    then have "window c (p # ps) = p # ps" unfolding window_def by (simp add: filter_id_conv)
    with False show ?thesis by simp
  qed
qed

lemma window_window: "c \<le> d \<Longrightarrow> window d (window c ps) = window d ps"
  unfolding window_def filter_filter by (rule filter_cong) auto

lemma window_sorted: "sorted (map fst ps) \<Longrightarrow> sorted (map fst (window c ps))"
  by (simp add: window_def sorted_filter)

text \<open>What a monitor knows of the points it was given: the deque is the window of the history
  for some bound that is not beyond the current one.\<close>

definition monitor_holds :: "rat \<Rightarrow> rat \<Rightarrow> (rat \<times> rat) list \<Rightarrow> monitor \<Rightarrow> bool" where
  "monitor_holds w now hist m \<longleftrightarrow>
     mm_sliding_window_size m = w \<and> length (mm_timestamps m) = length (mm_values m) \<and>
     sorted (map fst hist) \<and> (\<forall>p \<in> set hist. fst p \<le> now) \<and>
     (\<exists>c \<le> now - w. points m = window c hist)"

lemma monitor_holds_init: "monitor_holds w now [] (MovingAverageMonitor_init w)"
  by (auto simp: monitor_holds_def MovingAverageMonitor_init_def window_def)

lemma monitor_holds_later:
  "monitor_holds w now hist m \<Longrightarrow> now \<le> now' \<Longrightarrow> monitor_holds w now' hist m"
  unfolding monitor_holds_def by (meson diff_right_mono order_trans)

lemma sorted_snoc_le: "sorted (xs @ [x]) \<longleftrightarrow> sorted xs \<and> (\<forall>y \<in> set xs. y \<le> (x :: rat))"
  by (simp add: sorted_append)

lemma update_no_value_points:
  assumes "monitor_holds w now hist m" and "now \<le> t"
  shows "points (update_no_value t m) = window (t - w) hist"
proof -
  from assms obtain c where c: "c \<le> now - w" "points m = window c hist"
    and m: "mm_sliding_window_size m = w" "sorted (map fst hist)"
    by (auto simp: monitor_holds_def)
  obtain ts vs where p: "popleft_while (t - w) (mm_timestamps m) (mm_values m) = (ts, vs)"
    by (cases "popleft_while (t - w) (mm_timestamps m) (mm_values m)")
  then have "points (update_no_value t m) = dropWhile (\<lambda>p. fst p < t - w) (points m)"
    using m popleft_while_zip [OF p] by (simp add: update_no_value_def)
  also have "\<dots> = window (t - w) (window c hist)"
    unfolding c(2) by (intro dropWhile_window window_sorted m)
  also have "\<dots> = window (t - w) hist"
    using c(1) assms(2) by (intro window_window) simp
  finally show ?thesis .
qed

lemma update_no_value_holds:
  assumes holds: "monitor_holds w now hist m" and le: "now \<le> t"
  shows "monitor_holds w t hist (update_no_value t m)"
proof -
  let ?m = "update_no_value t m"
  obtain ts vs where p: "popleft_while (t - mm_sliding_window_size m) (mm_timestamps m) (mm_values m) = (ts, vs)"
    by (cases "popleft_while (t - mm_sliding_window_size m) (mm_timestamps m) (mm_values m)")
  have len: "length (mm_timestamps m) = length (mm_values m)" and w: "mm_sliding_window_size m = w"
    and s: "sorted (map fst hist)" and b: "\<forall>p \<in> set hist. fst p \<le> now"
    using holds by (simp_all add: monitor_holds_def)
  have "length (mm_timestamps ?m) = length (mm_values ?m)" "mm_sliding_window_size ?m = w"
    using popleft_while_lengths [OF len p] p w by (simp_all add: update_no_value_def)
  moreover have "\<forall>p \<in> set hist. fst p \<le> t" using b le by (meson order_trans)
  ultimately show ?thesis
    unfolding monitor_holds_def update_no_value_points [OF holds le] using s by blast
qed

text \<open>Adding a point is appending it and pruning.\<close>

lemma monitor_update_append:
  "monitor_update t v m =
     update_no_value t (m\<lparr>mm_timestamps := mm_timestamps m @ [t], mm_values := mm_values m @ [v]\<rparr>)"
  by (simp add: monitor_update_def update_no_value_def Let_def split: prod.splits)

lemma window_snoc: "window c (ps @ [p]) = window c ps @ (if c \<le> fst p then [p] else [])"
  by (simp add: window_def)

lemma update_holds:
  assumes "monitor_holds w now hist m" and "now \<le> t" and "0 \<le> w"
  shows "monitor_holds w t (hist @ [(t, v)]) (monitor_update t v m)"
proof -
  let ?m = "m\<lparr>mm_timestamps := mm_timestamps m @ [t], mm_values := mm_values m @ [v]\<rparr>"
  from assms obtain c where c: "c \<le> now - w" "points m = window c hist"
    by (auto simp: monitor_holds_def)
  from c(1) assms have ct: "c \<le> t - w" "c \<le> t" by linarith+
  with c assms(1) have "points ?m = window c (hist @ [(t, v)])"
    by (simp add: window_snoc monitor_holds_def)
  moreover have "sorted (map fst (hist @ [(t, v)]))" "\<forall>p \<in> set (hist @ [(t, v)]). fst p \<le> t"
    using assms(1,2) by (auto simp: monitor_holds_def sorted_append intro: order_trans)
  ultimately have "monitor_holds w t (hist @ [(t, v)]) ?m"
    using ct assms(1) unfolding monitor_holds_def by auto
  from update_no_value_holds [OF this order_refl] show ?thesis
    by (simp add: monitor_update_append)
qed

section \<open>No call raises\<close>

definition latency_ok :: "request_monitor \<Rightarrow> bool" where
  "latency_ok m \<longleftrightarrow> (\<forall>k \<in> fst ` set (rm_request_start_time m). fst k \<in> fst ` set (rm_latency_monitors m))"

text \<open>A query only prunes the monitors of arrivals and first tokens.\<close>

lemma stats_of_url_frame [simp]:
  "rm_sliding_window_size (fst (stats_of_url t u m)) = rm_sliding_window_size m"
  "rm_request_start_time (fst (stats_of_url t u m)) = rm_request_start_time m"
  "rm_in_prefill_requests (fst (stats_of_url t u m)) = rm_in_prefill_requests m"
  "rm_in_decoding_requests (fst (stats_of_url t u m)) = rm_in_decoding_requests m"
  "rm_finished_requests (fst (stats_of_url t u m)) = rm_finished_requests m"
  "rm_latency_monitors (fst (stats_of_url t u m)) = rm_latency_monitors m"
  by (simp_all add: stats_of_url_def Let_def)

lemma stats_loop_fst:
  "fst (stats_loop t (u # us) m) =
     (if \<exists>e. snd (stats_of_url t u m) = Inl e then fst (stats_of_url t u m)
      else fst (stats_loop t us (fst (stats_of_url t u m))))"
  by (auto split: prod.splits sum.splits)

lemma stats_loop_frame [simp]:
  "rm_sliding_window_size (fst (stats_loop t us m)) = rm_sliding_window_size m"
  "rm_request_start_time (fst (stats_loop t us m)) = rm_request_start_time m"
  "rm_in_prefill_requests (fst (stats_loop t us m)) = rm_in_prefill_requests m"
  "rm_in_decoding_requests (fst (stats_loop t us m)) = rm_in_decoding_requests m"
  "rm_finished_requests (fst (stats_loop t us m)) = rm_finished_requests m"
  "rm_latency_monitors (fst (stats_loop t us m)) = rm_latency_monitors m"
  by (induction us arbitrary: m; simp add: stats_loop_fst del: stats_loop.simps(2))+

lemma query_frame [simp]:
  "rm_sliding_window_size (fst (get_request_stats t m)) = rm_sliding_window_size m"
  "rm_request_start_time (fst (get_request_stats t m)) = rm_request_start_time m"
  "rm_in_prefill_requests (fst (get_request_stats t m)) = rm_in_prefill_requests m"
  "rm_in_decoding_requests (fst (get_request_stats t m)) = rm_in_decoding_requests m"
  "rm_finished_requests (fst (get_request_stats t m)) = rm_finished_requests m"
  "rm_latency_monitors (fst (get_request_stats t m)) = rm_latency_monitors m"
  by (simp_all add: get_request_stats_def)

lemma stats_loop_total:
  "rm_sliding_window_size m \<noteq> 0 \<Longrightarrow> \<exists>st. snd (stats_loop t us m) = Inr st"
proof (induction us arbitrary: m)
  case Nil
  show ?case by simp
next
  case (Cons u us)
  obtain m1 r1 where s: "stats_of_url t u m = (m1, r1)" by (cases "stats_of_url t u m")
  have "\<exists>x. r1 = Inr x" using s Cons.prems by (auto simp: stats_of_url_def Let_def)
  moreover have "rm_sliding_window_size m1 = rm_sliding_window_size m"
    using stats_of_url_frame(1) [of t u m] s by simp
  ultimately show ?case
    using s Cons.IH [of m1] Cons.prems by (auto split: prod.splits sum.splits)
qed

lemma fst_query [simp]: "fst (stats_step (Query t) m) = fst (get_request_stats t m)"
  by (simp split: prod.splits)

lemma stats_step_window [simp]:
  "rm_sliding_window_size (fst (stats_step e m)) = rm_sliding_window_size m"
  by (cases e) (simp_all add: on_new_request_def on_request_response_def on_request_complete_def
      on_request_swapped_def Let_def del: stats_step.simps(5) split: option.splits)

lemma stats_step_latency_ok: "latency_ok m \<Longrightarrow> latency_ok (fst (stats_step e m))"
  unfolding latency_ok_def
  by (cases e) (auto simp: on_new_request_def on_request_response_def on_request_complete_def
      on_request_swapped_def Let_def simp del: stats_step.simps(5) split: option.splits)

lemma stats_step_total:
  assumes "latency_ok m" and "rm_sliding_window_size m \<noteq> 0"
  shows "snd (stats_step e m) = None"
proof (cases e)
  case (Complete u i t now)
  have "map_of (rm_latency_monitors m) u \<noteq> None" if "map_of (rm_request_start_time m) (u, i) = Some x" for x
    using assms(1) map_of_SomeD [OF that] unfolding latency_ok_def dict_key_iff [symmetric] by force
  with Complete show ?thesis
    by (auto simp: on_request_complete_def Let_def split: option.splits)
next
  case (Query t)
  with stats_loop_total [OF assms(2), of t "monitored_urls m"] show ?thesis
    by (auto simp: get_request_stats_def split: prod.splits sum.splits)
qed simp_all

lemma stats_run_total:
  "latency_ok m \<Longrightarrow> rm_sliding_window_size m \<noteq> 0 \<Longrightarrow>
   snd (stats_run es m) = None \<and> rm_sliding_window_size (fst (stats_run es m)) = rm_sliding_window_size m"
proof (induction es arbitrary: m)
  case Nil
  then show ?case by simp
next
  case (Cons e es)
  obtain m' r where s: "stats_step e m = (m', r)" by (cases "stats_step e m")
  with stats_step_total [OF Cons.prems, of e] stats_step_latency_ok [OF Cons.prems(1), of e]
    stats_step_window [of e m] Cons.IH [of m'] Cons.prems
  show ?case by simp
qed

section \<open>The monitors of arrivals\<close>

fun arrivals :: "string \<Rightarrow> stats_event list \<Rightarrow> (rat \<times> rat) list" where
  "arrivals u [] = []"
| "arrivals u (NewRequest v i t # es) = (if v = u then (t, 1) # arrivals u es else arrivals u es)"
| "arrivals u (e # es) = arrivals u es"

lemma arrivals_append: "arrivals u (xs @ ys) = arrivals u xs @ arrivals u ys"
  by (induction u xs rule: arrivals.induct) auto

lemma arrivals_ones: "p \<in> set (arrivals u es) \<Longrightarrow> snd p = 1"
  by (induction u es rule: arrivals.induct) (auto split: if_splits)

definition qps_ok :: "rat \<Rightarrow> rat \<Rightarrow> stats_event list \<Rightarrow> (string \<times> monitor) list \<Rightarrow> bool" where
  "qps_ok w now es qs \<longleftrightarrow>
     (\<forall>u. (map_of qs u = None \<longrightarrow> arrivals u es = []) \<and>
          (\<forall>mon. map_of qs u = Some mon \<longrightarrow> monitor_holds w now (arrivals u es) mon))"

lemma qps_ok_later: "qps_ok w now es qs \<Longrightarrow> now \<le> now' \<Longrightarrow> qps_ok w now' es qs"
  unfolding qps_ok_def by (blast intro: monitor_holds_later)

lemma qps_ok_prune: "qps_ok w now es qs \<Longrightarrow> qps_ok w now es (prune_in now u qs)"
  unfolding qps_ok_def prune_in_def
  by (auto intro!: update_no_value_holds split: option.splits)

lemma stats_loop_qps_ok:
  "qps_ok w now es (rm_qps_monitors m) \<Longrightarrow> qps_ok w now es (rm_qps_monitors (fst (stats_loop now us m)))"
proof (induction us arbitrary: m)
  case Nil
  then show ?case by simp
next
  case (Cons u us)
  have "qps_ok w now es (rm_qps_monitors (fst (stats_of_url now u m)))"
    using qps_ok_prune [OF Cons.prems, of u] by (simp add: stats_of_url_def Let_def)
  with Cons.IH show ?case
    by (simp add: stats_loop_fst del: stats_loop.simps(2))
qed

lemma update_in_qps_ok:
  assumes "qps_ok w now es qs" and "now \<le> t" and "0 \<le> w"
  shows "qps_ok w t (es @ [NewRequest u i t]) (update_in w u t 1 qs)"
proof -
  have "monitor_holds w now (arrivals u es) (dget qs u (MovingAverageMonitor_init w))"
    using assms(1) unfolding qps_ok_def dget_def
    by (cases "map_of qs u") (auto simp: monitor_holds_init dest!: spec [of _ u])
  from update_holds [OF this assms(2,3), of 1] show ?thesis
    using assms(1,2) unfolding qps_ok_def update_in_def
    by (auto simp: arrivals_append simp del: not_None_eq intro: monitor_holds_later)
qed

lemma stats_step_qps_ok:
  assumes "qps_ok w now es (rm_qps_monitors m)" and "now \<le> event_time e"
    and "0 \<le> w" and "rm_sliding_window_size m = w"
  shows "qps_ok w (event_time e) (es @ [e]) (rm_qps_monitors (fst (stats_step e m)))"
proof (cases e)
  case (NewRequest u i t)
  with assms update_in_qps_ok [of w now es "rm_qps_monitors m" t u i] show ?thesis
    by (simp add: on_new_request_def)
next
  case (Query t)
  have "qps_ok w t es (rm_qps_monitors (fst (get_request_stats t m)))"
    unfolding get_request_stats_def
    by (rule stats_loop_qps_ok) (use assms Query in \<open>auto intro: qps_ok_later\<close>)
  with Query show ?thesis
    by (simp add: qps_ok_def arrivals_append del: stats_step.simps(5))
qed (use qps_ok_later [OF assms(1,2)] in
      \<open>simp_all add: qps_ok_def arrivals_append on_request_response_def on_request_complete_def
         on_request_swapped_def Let_def split: option.splits\<close>)

lemma stats_run_qps_ok:
  "qps_ok w now es (rm_qps_monitors m) \<Longrightarrow> sorted (now # map event_time es') \<Longrightarrow> 0 \<le> w \<Longrightarrow>
   rm_sliding_window_size m = w \<Longrightarrow> stats_run es' m = (m', None) \<Longrightarrow>
   qps_ok w (last (now # map event_time es')) (es @ es') (rm_qps_monitors m')"
proof (induction es' arbitrary: now es m)
  case Nil
  then show ?case by simp
next
  case (Cons e es')
  obtain m1 where m1: "stats_step e m = (m1, None)" "stats_run es' m1 = (m', None)"
    using Cons.prems(5) by (auto split: prod.splits option.splits)
  have "qps_ok w (event_time e) (es @ [e]) (rm_qps_monitors m1)"
    using stats_step_qps_ok [OF Cons.prems(1) _ Cons.prems(3,4), of e] Cons.prems(2) m1(1) by simp
  moreover have "rm_sliding_window_size m1 = w"
    using stats_step_window [of e m] m1(1) Cons.prems(4) by simp
  ultimately show ?case
    using Cons.IH [of "event_time e" "es @ [e]" m1] Cons.prems(2,3) m1(2) by simp
qed

lemma sum_list_ones: "(\<And>p. p \<in> set ps \<Longrightarrow> snd p = (1 :: rat)) \<Longrightarrow> sum_list (map snd ps) = of_nat (length ps)"
  by (induction ps) auto

lemma holds_sum:
  assumes "monitor_holds w now (arrivals u es) mon"
  shows "get_sum (update_no_value now mon) = of_nat (length (window (now - w) (arrivals u es)))"
proof -
  let ?m = "update_no_value now mon"
  have p: "points ?m = window (now - w) (arrivals u es)"
    by (rule update_no_value_points [OF assms order_refl])
  have "length (mm_timestamps ?m) = length (mm_values ?m)"
    using update_no_value_holds [OF assms order_refl] by (simp add: monitor_holds_def)
  then have "mm_values ?m = map snd (points ?m)" by simp
  with p have "get_sum ?m = sum_list (map snd (window (now - w) (arrivals u es)))"
    by (simp add: get_sum_def)
  also have "\<dots> = of_nat (length (window (now - w) (arrivals u es)))"
    by (rule sum_list_ones) (auto simp: window_def dest: arrivals_ones)
  finally show ?thesis .
qed

lemma stats_loop_qps:
  "qps_ok w now es (rm_qps_monitors m) \<Longrightarrow> rm_sliding_window_size m = w \<Longrightarrow> w \<noteq> 0 \<Longrightarrow>
   snd (stats_loop now us m) = Inr st \<Longrightarrow> map_of st u = Some s \<Longrightarrow> arrivals u es \<noteq> [] \<Longrightarrow>
   rs_qps s = of_nat (length (window (now - w) (arrivals u es))) / w"
proof (induction us arbitrary: m st)
  case Nil
  then show ?case by simp
next
  case (Cons v us)
  obtain m1 r1 where s1: "stats_of_url now v m = (m1, r1)" by (cases "stats_of_url now v m")
  then obtain x rest where x: "r1 = Inr x" "snd (stats_loop now us m1) = Inr rest" "st = (v, x) # rest"
    using Cons.prems(4) by (auto split: prod.splits sum.splits)
  have ok: "qps_ok w now es (rm_qps_monitors m1)"
    using qps_ok_prune [OF Cons.prems(1), of v] s1
    by (auto simp: stats_of_url_def Let_def split: if_splits)
  show ?case
  proof (cases "u = v")
    case True
    from Cons.prems(1,6) obtain mon where mon: "map_of (rm_qps_monitors m) u = Some mon"
      "monitor_holds w now (arrivals u es) mon"
      by (cases "map_of (rm_qps_monitors m) u") (auto simp: qps_ok_def dest!: spec [of _ u])
    from s1 x True mon Cons.prems(2,3) have "rs_qps x = get_sum (update_no_value now mon) / w"
      by (auto simp: stats_of_url_def Let_def prune_in_def split: if_splits)
    with holds_sum [OF mon(2)] x True Cons.prems(5) show ?thesis by simp
  next
    case False
    have "rm_sliding_window_size m1 = w"
      using stats_of_url_frame(1) [of now v m] s1 Cons.prems(2) by simp
    with False x Cons.IH [OF ok _ Cons.prems(3) x(2) _ Cons.prems(6)] Cons.prems(5)
    show ?thesis by simp
  qed
qed

section \<open>The life of a request, abstractly\<close>

datatype phase = Prefill | Decoding | Finished

type_synonym phases = "req \<Rightarrow> phase option"

text \<open>A request is announced once, gets its first token once and completes once; requests
  interleave in any way.\<close>

inductive lifecycle :: "phases \<Rightarrow> stats_event \<Rightarrow> phases \<Rightarrow> bool" where
  announce: "p (u, i) = None \<Longrightarrow> lifecycle p (NewRequest u i t) (p((u, i) \<mapsto> Prefill))"
| first_token: "p (u, i) = Some Prefill \<Longrightarrow> lifecycle p (Response u i t) (p((u, i) \<mapsto> Decoding))"
| complete: "p (u, i) = Some Decoding \<Longrightarrow> lifecycle p (Complete u i t now) (p((u, i) \<mapsto> Finished))"
| swapped: "lifecycle p (Swapped u i t) p"
| query: "lifecycle p (Query t) p"

inductive lifecycles :: "phases \<Rightarrow> stats_event list \<Rightarrow> phases \<Rightarrow> bool" where
  none: "lifecycles p [] p"
| more: "lifecycle p e q \<Longrightarrow> lifecycles q es r \<Longrightarrow> lifecycles p (e # es) r"

definition phase_count :: "phases \<Rightarrow> string \<Rightarrow> phase \<Rightarrow> int" where
  "phase_count p u ph = int (card {i. p (u, i) = Some ph})"

lemma phase_finite:
  assumes "finite (dom p)"
  shows "finite {i. p (u, i) = Some ph}"
  by (rule finite_subset [OF _ finite_imageI [OF assms, of snd]]) force

lemma phase_count_upd:
  assumes "finite (dom p)" and "p (u, i) \<noteq> Some ph"
  shows "phase_count (p((u, i) \<mapsto> ph)) v ph' =
         phase_count p v ph' + (if v = u \<and> ph' = ph then 1 else 0)
           - (if v = u \<and> p (u, i) = Some ph' then 1 else 0)"
proof -
  consider "v \<noteq> u" | "v = u" "ph' = ph" | "v = u" "p (u, i) = Some ph'" "ph' \<noteq> ph"
    | "v = u" "p (u, i) \<noteq> Some ph'" "ph' \<noteq> ph" by blast
  then show ?thesis
  proof cases
    case 2
    then have "{j. (p((u, i) \<mapsto> ph)) (v, j) = Some ph'} = insert i {j. p (v, j) = Some ph'}" by auto
    with 2 assms phase_finite [OF assms(1)] show ?thesis by (simp add: phase_count_def)
  next
    case 3
    then have eq: "{j. p (v, j) = Some ph'} = insert i {j. (p((u, i) \<mapsto> ph)) (v, j) = Some ph'}" by auto
    have "finite {j. (p((u, i) \<mapsto> ph)) (v, j) = Some ph'}"
      by (rule phase_finite) (use assms(1) in \<open>simp add: dom_fun_upd del: fun_upd_apply\<close>)
    with 3 show ?thesis unfolding phase_count_def eq by simp
  next
    case 4
    then have "{j. (p((u, i) \<mapsto> ph)) (v, j) = Some ph'} = {j. p (v, j) = Some ph'}" by auto
    with 4 show ?thesis by (simp add: phase_count_def)
  qed (simp add: phase_count_def)
qed

lemma phase_count_pos: "finite (dom p) \<Longrightarrow> p (u, i) = Some ph \<Longrightarrow> 1 \<le> phase_count p u ph"
  unfolding phase_count_def
  by (metis (mono_tags, lifting) card_gt_0_iff empty_iff int_one_le_iff_zero_less mem_Collect_eq
      of_nat_0_less_iff phase_finite)

text \<open>The simulation relation between the phases and the monitor.\<close>

definition counts_match :: "phases \<Rightarrow> request_monitor \<Rightarrow> bool" where
  "counts_match p m \<longleftrightarrow>
     finite (dom p) \<and> dom p \<subseteq> fst ` set (rm_request_start_time m) \<and>
     (\<forall>u. dget (rm_in_prefill_requests m) u 0 = phase_count p u Prefill \<and>
          dget (rm_in_decoding_requests m) u 0 = phase_count p u Decoding \<and>
          dget (rm_finished_requests m) u 0 = phase_count p u Finished)"

lemma dget_decr: "1 \<le> dget d u 0 \<Longrightarrow> max 0 (dget d u 1 - 1) = dget d u 0 - (1 :: int)"
  by (auto simp: dget_def split: option.splits)

lemma lifecycle_simulates:
  assumes "lifecycle p e q" and "counts_match p m"
  shows "counts_match q (fst (stats_step e m))"
  using assms(1)
proof (cases rule: lifecycle.cases)
  case (announce u i t)
  with assms(2) show ?thesis
    by (auto simp: counts_match_def on_new_request_def phase_count_upd)
next
  case (first_token u i t)
  have fin: "finite (dom p)" and dom: "dom p \<subseteq> fst ` set (rm_request_start_time m)"
    using assms(2) by (simp_all add: counts_match_def)
  have "1 \<le> phase_count p u Prefill" by (rule phase_count_pos [OF fin first_token(3)])
  then have "1 \<le> dget (rm_in_prefill_requests m) u 0" using assms(2) by (simp add: counts_match_def)
  note decr = dget_decr [OF this]
  have "(u, i) \<in> fst ` set (rm_request_start_time m)" using dom first_token(3) by blast
  then obtain st where "map_of (rm_request_start_time m) (u, i) = Some st"
    by (auto simp: dict_key_iff)
  with first_token assms(2) decr show ?thesis
    by (auto simp: counts_match_def on_request_response_def phase_count_upd)
next
  case (complete u i t now)
  have fin: "finite (dom p)" using assms(2) by (simp add: counts_match_def)
  have "1 \<le> phase_count p u Decoding" by (rule phase_count_pos [OF fin complete(3)])
  then have "1 \<le> dget (rm_in_decoding_requests m) u 0" using assms(2) by (simp add: counts_match_def)
  note decr = dget_decr [OF this]
  with complete assms(2) show ?thesis
    by (auto simp: counts_match_def on_request_complete_def Let_def phase_count_upd split: option.splits)
next
  case (swapped u i t)
  with assms(2) show ?thesis by (simp add: counts_match_def on_request_swapped_def)
next
  case (query t)
  with assms(2) show ?thesis by (simp add: counts_match_def del: stats_step.simps(5))
qed

lemma lifecycles_simulate:
  "lifecycles p es q \<Longrightarrow> counts_match p m \<Longrightarrow> stats_run es m = (m', None) \<Longrightarrow> counts_match q m'"
proof (induction arbitrary: m rule: lifecycles.induct)
  case (none p)
  then show ?case by simp
next
  case (more p e q es r)
  then obtain m1 where "stats_step e m = (m1, None)" "stats_run es m1 = (m', None)"
    by (auto split: prod.splits option.splits)
  with more lifecycle_simulates [OF more(1,4)] show ?case by simp
qed

section \<open>Properties\<close>

lemma sorted_snoc_facts:
  fixes y :: rat
  assumes "sorted (xs @ [y])"
  shows "sorted (hd (xs @ [y]) # xs)" "last (hd (xs @ [y]) # xs) \<le> y"
proof -
  from assms have s: "sorted xs" "\<forall>x \<in> set xs. x \<le> y" by (simp_all add: sorted_append)
  show "sorted (hd (xs @ [y]) # xs)" using s(1) by (cases xs) simp_all
  show "last (hd (xs @ [y]) # xs) \<le> y"
    using s(2) last_in_set [of xs] by (cases "xs = []") simp_all
qed

lemma init_facts:
  assumes "RequestStatsMonitor_init (Some w) = Inr m0"
  shows "latency_ok m0" "rm_sliding_window_size m0 = w" "rm_qps_monitors m0 = []"
    "counts_match Map.empty m0"
  using assms by (auto simp: RequestStatsMonitor_init_def latency_ok_def counts_match_def
      phase_count_def dget_def)

text \<open>With a window other than 0, no sequence of calls on the request monitor raises: indexing
  the latency monitors cannot fail, whatever URLs and request ids the callers pass and in
  whatever order.\<close>

theorem request_stats_never_raise:
  assumes "RequestStatsMonitor_init (Some w) = Inr m0" and "w \<noteq> 0"
  shows "snd (stats_run es m0) = None"
  using stats_run_total [of m0 es] init_facts [OF assms(1)] assms(2) by simp

text \<open>C7: the reported queries per second are right: for a call history with timestamps in order,
  the rate reported for a URL is the number of its requests that arrived within the window
  before the query, over the window size.\<close>

theorem qps_counts_window:
  assumes init: "RequestStatsMonitor_init (Some w) = Inr m0" and w: "0 < w"
    and run: "stats_run es m0 = (m, None)" and sorted: "sorted (map event_time es @ [now])"
    and stats: "snd (get_request_stats now m) = Inr st" "map_of st u = Some s"
    and known: "arrivals u es \<noteq> []"
  shows "rs_qps s = of_nat (length (filter (\<lambda>p. now - w \<le> fst p) (arrivals u es))) / w"
proof -
  let ?t0 = "hd (map event_time es @ [now])"
  have s': "sorted (?t0 # map event_time es)" "last (?t0 # map event_time es) \<le> now"
    using sorted_snoc_facts [OF sorted] by simp_all
  have "qps_ok w ?t0 [] (rm_qps_monitors m0)"
    using init_facts(3) [OF init] by (simp add: qps_ok_def)
  from stats_run_qps_ok [OF this s'(1) _ init_facts(2) [OF init] run] w
  have "qps_ok w (last (?t0 # map event_time es)) es (rm_qps_monitors m)" by simp
  from qps_ok_later [OF this s'(2)] have ok: "qps_ok w now es (rm_qps_monitors m)" .
  have "rm_sliding_window_size m = w"
    using stats_run_total [of m0 es] init_facts [OF init] run w by simp
  from stats_loop_qps [OF ok this _ stats(1) [unfolded get_request_stats_def] stats(2) known] w
  show ?thesis by (simp add: window_def)
qed

text \<open>C5: the counters refine the life of the individual requests: as long as every request is
  announced, answered and completed once and in that order, the three numbers reported for a
  URL are exactly the numbers of its requests that wait for their first token, that are being
  decoded, and that have finished.\<close>

theorem counters_refine_lifecycle:
  assumes "RequestStatsMonitor_init (Some w) = Inr m0" and "stats_run es m0 = (m, None)"
    and "lifecycles Map.empty es p"
  shows "dget (rm_in_prefill_requests m) u 0 = phase_count p u Prefill \<and>
         dget (rm_in_decoding_requests m) u 0 = phase_count p u Decoding \<and>
         dget (rm_finished_requests m) u 0 = phase_count p u Finished"
  using lifecycles_simulate [OF assms(3) init_facts(4) [OF assms(1)] assms(2)]
  by (simp add: counts_match_def)

section \<open>Witnesses\<close>

definition sample_events :: "stats_event list" where
  "sample_events =
     [NewRequest ''u'' ''a'' 1, NewRequest ''u'' ''b'' 5, Response ''u'' ''a'' 6, Query 8,
      Complete ''u'' ''a'' 9 9]"

definition sample_monitor :: request_monitor where
  "sample_monitor =
     \<lparr>rm_sliding_window_size = 10, rm_qps_monitors = [], rm_ttft_monitors = [],
      rm_request_start_time = [], rm_first_token_time = [], rm_in_prefill_requests = [],
      rm_in_decoding_requests = [], rm_finished_requests = [], rm_latency_monitors = [],
      rm_decoding_length_monitors = [], rm_swapped_requests = [], rm_first_query_time = None\<rparr>"

lemma sample_init: "RequestStatsMonitor_init (Some 10) = Inr sample_monitor"
  by (simp add: RequestStatsMonitor_init_def sample_monitor_def)

lemma sample_run: "stats_run sample_events sample_monitor = (fst (stats_run sample_events sample_monitor), None)"
  using stats_run_total [of sample_monitor sample_events] init_facts [OF sample_init]
  by (metis prod.collapse zero_neq_numeral)

theorem request_stats_never_raise_witness: "snd (stats_run sample_events sample_monitor) = None"
  by (rule request_stats_never_raise [OF sample_init]) simp

lemma sample_stats:
  "\<exists>st s. snd (get_request_stats 12 (fst (stats_run sample_events sample_monitor))) = Inr st \<and>
          map_of st ''u'' = Some s"
  by (simp add: sample_events_def sample_monitor_def get_request_stats_def monitored_urls_def
      on_new_request_def on_request_response_def on_request_complete_def stats_of_url_def Let_def
      update_in_def dict_incr_def dget_def setdefault_def prune_in_def)

theorem qps_counts_window_witness:
  "\<exists>st s. snd (get_request_stats 12 (fst (stats_run sample_events sample_monitor))) = Inr st \<and>
          map_of st ''u'' = Some s \<and> rs_qps s = 1 / 10"
proof -
  obtain st s where st: "snd (get_request_stats 12 (fst (stats_run sample_events sample_monitor))) = Inr st"
    "map_of st ''u'' = Some s" using sample_stats by blast
  have "sorted (map event_time sample_events @ [12])" "arrivals ''u'' sample_events = [(1, 1), (5, 1)]"
    by (simp_all add: sample_events_def)
  with qps_counts_window [OF sample_init _ sample_run _ st] have "rs_qps s = 1 / 10" by simp
  with st show ?thesis by blast
qed

theorem counters_refine_lifecycle_witness:
  "dget (rm_finished_requests (fst (stats_run sample_events sample_monitor))) ''u'' 0 = 1"
proof -
  let ?p = "(((Map.empty((''u'', ''a'') \<mapsto> Prefill))((''u'', ''b'') \<mapsto> Prefill))
              ((''u'', ''a'') \<mapsto> Decoding))((''u'', ''a'') \<mapsto> Finished) :: phases"
  have "lifecycles Map.empty sample_events ?p"
    unfolding sample_events_def
    by (rule lifecycles.more [OF lifecycle.announce] lifecycles.more [OF lifecycle.first_token]
        lifecycles.more [OF lifecycle.complete] lifecycles.more [OF lifecycle.query] lifecycles.none
      | simp)+
  from counters_refine_lifecycle [OF sample_init sample_run this]
  have "dget (rm_finished_requests (fst (stats_run sample_events sample_monitor))) ''u'' 0 =
        phase_count ?p ''u'' Finished" by blast
  also have "{i. ?p (''u'', i) = Some Finished} = {''a''}" by auto
  then have "phase_count ?p ''u'' Finished = 1" by (simp add: phase_count_def)
  finally show ?thesis .
qed

end
