(* ===== verification/Engine_Stats.thy ===== *)
theory Engine_Stats
  imports Discovery_Factory
begin

text \<open>
  \<^verbatim>\<open>src/src/vllm_router/stats/engine_stats.py\<close>: reading the metrics of an engine and the
  scraper that keeps the last known statistics of every discovered engine. The Prometheus text
  parser is a parameter that gives the samples as pairs of name and value, family by family,
  or raises.
\<close>

record EngineStats =
  es_num_running_requests :: rat
  es_num_queuing_requests :: rat
  es_gpu_prefix_cache_hit_rate :: rat
  es_gpu_prefix_cache_hits_total :: rat
  es_gpu_prefix_cache_queries_total :: rat
  es_gpu_cache_usage_perc :: rat

definition EngineStats_default :: EngineStats where
  "EngineStats_default =
     \<lparr>es_num_running_requests = 0, es_num_queuing_requests = 0, es_gpu_prefix_cache_hit_rate = 0,
      es_gpu_prefix_cache_hits_total = 0, es_gpu_prefix_cache_queries_total = 0,
      es_gpu_cache_usage_perc = 0\<rparr>"

type_synonym sample = "string \<times> rat"
type_synonym prometheus = "string \<Rightarrow> sample list list result"

definition apply_sample :: "sample \<Rightarrow> EngineStats \<Rightarrow> EngineStats" where
  "apply_sample smp st =
     (case smp of (name, v) \<Rightarrow>
        if name = ''vllm:num_requests_running'' then st\<lparr>es_num_running_requests := v\<rparr>
        else if name = ''vllm:num_requests_waiting'' then st\<lparr>es_num_queuing_requests := v\<rparr>
        else if name = ''vllm:gpu_prefix_cache_hit_rate'' then st\<lparr>es_gpu_prefix_cache_hit_rate := v\<rparr>
        else if name = ''vllm:gpu_prefix_cache_hits_total'' then st\<lparr>es_gpu_prefix_cache_hits_total := v\<rparr>
        else if name = ''vllm:gpu_prefix_cache_queries_total''
        then st\<lparr>es_gpu_prefix_cache_queries_total := v\<rparr>
        else if name = ''vllm:gpu_cache_usage_perc'' then st\<lparr>es_gpu_cache_usage_perc := v\<rparr>
        else st)"

definition from_vllm_scrape :: "prometheus \<Rightarrow> string \<Rightarrow> EngineStats result" where
  "from_vllm_scrape parser vllm_scrape =
     bindE (parser vllm_scrape) (\<lambda>families.
       Inr (fold (\<lambda>samples st. fold apply_sample samples st) families EngineStats_default))"

text \<open>A metrics endpoint answers with a status and a text, or the request raises.\<close>

datatype metrics_answer = MetricsRaise | MetricsText int string

record engine_scraper =
  sc_engine_stats :: "(string \<times> EngineStats) list"
  sc_scrape_interval :: rat
  sc_running :: bool

definition EngineStatsScraper_init :: "rat option \<Rightarrow> engine_scraper result" where
  "EngineStatsScraper_init scrape_interval =
     (case scrape_interval of
        None \<Rightarrow> Inl (ValueError ''EngineStatsScraper must be initialized with scrape_interval'')
      | Some i \<Rightarrow> Inr \<lparr>sc_engine_stats = [], sc_scrape_interval = i, sc_running = True\<rparr>)"

definition scrape_one_endpoint ::
  "prometheus \<Rightarrow> (string \<Rightarrow> metrics_answer) \<Rightarrow> string \<Rightarrow> EngineStats option" where
  "scrape_one_endpoint parser get url =
     (case get (url @ ''/metrics'') of
        MetricsRaise \<Rightarrow> None
      | MetricsText st text \<Rightarrow>
          if raises_for_status st then None
          else (case from_vllm_scrape parser text of Inl _ \<Rightarrow> None | Inr es \<Rightarrow> Some es))"

text \<open>An \<^verbatim>\<open>EngineStats\<close> object is always truthy.\<close>

fun collect_stats ::
  "(string \<Rightarrow> EngineStats option) \<Rightarrow> endpoint_info list \<Rightarrow> (string \<times> EngineStats) list \<Rightarrow>
   (string \<times> EngineStats) list" where
  "collect_stats scrape [] acc = acc"
| "collect_stats scrape (info # infos) acc =
     (case scrape (ep_url info) of
        None \<Rightarrow> collect_stats scrape infos acc
      | Some st \<Rightarrow> collect_stats scrape infos (AList.update (ep_url info) st acc))"

definition drop_stale :: "(string \<times> 'v) list \<Rightarrow> (string \<times> 'v) list \<Rightarrow> (string \<times> 'v) list" where
  "drop_stale collected d =
     fold (\<lambda>old d. if old \<in> fst ` set collected then d else AList.delete old d) (map fst d) d"

definition scrape_metrics ::
  "prometheus \<Rightarrow> (string \<Rightarrow> metrics_answer) \<Rightarrow> endpoint_info list result \<Rightarrow> engine_scraper \<Rightarrow>
   engine_scraper \<times> py_error option" where
  "scrape_metrics parser get discovered sc =
     (case discovered of
        Inl e \<Rightarrow> (sc, Some e)
      | Inr infos \<Rightarrow>
          let collected = collect_stats (scrape_one_endpoint parser get) infos []
          in (sc\<lparr>sc_engine_stats :=
                   dict_union (drop_stale collected (sc_engine_stats sc)) collected\<rparr>, None))"

text \<open>\<^verbatim>\<open>_sleep_or_break\<close>: how often it sleeps when \<open>run i\<close> says whether the scraper is running at
  the \<open>i\<close>-th check. \<^verbatim>\<open>int(x)\<close> truncates and \<^verbatim>\<open>range\<close> of a negative number is empty.\<close>

fun sleep_loop :: "(nat \<Rightarrow> bool) \<Rightarrow> nat \<Rightarrow> nat \<Rightarrow> nat" where
  "sleep_loop run i 0 = 0"
| "sleep_loop run i (Suc n) = (if run i then Suc (sleep_loop run (Suc i) n) else 0)"

definition sleep_or_break :: "rat \<Rightarrow> (nat \<Rightarrow> bool) \<Rightarrow> engine_scraper \<Rightarrow> nat" where
  "sleep_or_break check_interval run sc =
     sleep_loop run 0 (nat \<lfloor>sc_scrape_interval sc / check_interval\<rfloor>)"

text \<open>\<^verbatim>\<open>_scrape_worker\<close> over the rounds of discovered endpoints and answers it meets. It has no
  \<^verbatim>\<open>try\<close>: an exception of the discovery ends the thread.\<close>

fun scrape_worker ::
  "prometheus \<Rightarrow> ((string \<Rightarrow> metrics_answer) \<times> endpoint_info list result) list \<Rightarrow> engine_scraper \<Rightarrow>
   engine_scraper \<times> py_error option" where
  "scrape_worker parser [] sc = (sc, None)"
| "scrape_worker parser ((get, discovered) # rounds) sc =
     (if sc_running sc then
        (case scrape_metrics parser get discovered sc of
           (sc', None) \<Rightarrow> scrape_worker parser rounds sc'
         | (sc', Some e) \<Rightarrow> (sc', Some e))
      else (sc, None))"

definition get_engine_stats :: "engine_scraper \<Rightarrow> (string \<times> EngineStats) list" where
  "get_engine_stats sc = sc_engine_stats sc"

definition scraper_close :: "engine_scraper \<Rightarrow> engine_scraper" where
  "scraper_close sc = sc\<lparr>sc_running := False\<rparr>"

section \<open>The last sample wins\<close>

lemma fold_concat: "fold (\<lambda>xs st. fold f xs st) xss = fold f (concat xss)"
  by (induction xss) auto

lemma apply_sample_fields:
  "es_num_running_requests (apply_sample (n, v) st) = (if n = ''vllm:num_requests_running'' then v else es_num_running_requests st)"
  "es_num_queuing_requests (apply_sample (n, v) st) = (if n = ''vllm:num_requests_waiting'' then v else es_num_queuing_requests st)"
  "es_gpu_prefix_cache_hit_rate (apply_sample (n, v) st) = (if n = ''vllm:gpu_prefix_cache_hit_rate'' then v else es_gpu_prefix_cache_hit_rate st)"
  "es_gpu_prefix_cache_hits_total (apply_sample (n, v) st) = (if n = ''vllm:gpu_prefix_cache_hits_total'' then v else es_gpu_prefix_cache_hits_total st)"
  "es_gpu_prefix_cache_queries_total (apply_sample (n, v) st) = (if n = ''vllm:gpu_prefix_cache_queries_total'' then v else es_gpu_prefix_cache_queries_total st)"
  "es_gpu_cache_usage_perc (apply_sample (n, v) st) = (if n = ''vllm:gpu_cache_usage_perc'' then v else es_gpu_cache_usage_perc st)"
  by (simp_all add: apply_sample_def)

lemma fold_last_wins:
  assumes "\<And>n v st. field (apply_sample (n, v) st) = (if n = name then v else field st)"
  shows "field (fold apply_sample samples st) =
         (case map_of (rev samples) name of None \<Rightarrow> field st | Some v \<Rightarrow> v)"
proof (induction samples arbitrary: st)
  case Nil
  show ?case by simp
next
  case (Cons s samples)
  obtain n v where s: "s = (n, v)" by (cases s)
  show ?case by (simp add: s Cons assms map_add_def split: option.splits)
qed

section \<open>After a scrape\<close>

lemma collect_stats_get:
  "map_of (collect_stats scrape infos acc) u =
     (if u \<in> ep_url ` set infos \<and> scrape u \<noteq> None then scrape u else map_of acc u)"
  by (induction infos arbitrary: acc) (auto split: option.splits)

lemma drop_stale_fold:
  "map_of (fold (\<lambda>old d. if old \<in> K then d else AList.delete old d) ks d) u =
     (if u \<in> set ks \<and> u \<notin> K then None else map_of d u)"
  by (induction ks arbitrary: d) auto

lemma drop_stale_get:
  "map_of (drop_stale collected d) u = (if u \<in> fst ` set collected then map_of d u else None)"
  unfolding drop_stale_def drop_stale_fold by (auto simp: map_of_eq_None_iff)

lemma dict_union_get:
  "distinct (map fst d2) \<Longrightarrow> map_of (dict_union d1 d2) u = (case map_of d2 u of None \<Rightarrow> map_of d1 u | Some v \<Rightarrow> Some v)"
  unfolding dict_union_def
proof (induction d2 arbitrary: d1)
  case Nil
  show ?case by simp
next
  case (Cons p d2)
  obtain k v where p: "p = (k, v)" by (cases p)
  with Cons.prems have "map_of d2 k = None" by (simp add: map_of_eq_None_iff)
  with Cons p show ?case by (auto split: option.splits)
qed

lemma collect_stats_distinct: "distinct (map fst acc) \<Longrightarrow> distinct (map fst (collect_stats scrape infos acc))"
  by (induction infos arbitrary: acc) (auto split: option.splits)

text \<open>After a round of scraping the router has statistics exactly for the discovered engines
  that answered in this round, and they are what the engine reported: nothing stale of an
  engine that disappeared or failed to answer is left.\<close>

theorem scrape_keeps_exactly_the_answering_engines:
  assumes "scrape_metrics parser get (Inr infos) sc = (sc', err)"
  shows "map_of (get_engine_stats sc') u =
         (if u \<in> ep_url ` set infos then scrape_one_endpoint parser get u else None)"
proof -
  let ?c = "collect_stats (scrape_one_endpoint parser get) infos []"
  have "map_of (get_engine_stats sc') u =
      (case map_of ?c u of None \<Rightarrow> map_of (drop_stale ?c (sc_engine_stats sc)) u | Some v \<Rightarrow> Some v)"
    using assms dict_union_get [OF collect_stats_distinct, of "[]"]
    by (auto simp: scrape_metrics_def Let_def get_engine_stats_def)
  also have "\<dots> = map_of ?c u"
    by (auto simp: drop_stale_get dict_key_iff split: option.splits)
  finally show ?thesis by (simp add: collect_stats_get)
qed

definition last_sample :: "sample list \<Rightarrow> string \<Rightarrow> rat" where
  "last_sample samples name = (case map_of (rev samples) name of None \<Rightarrow> 0 | Some v \<Rightarrow> v)"

lemma fold_fields:
  "es_num_running_requests (fold apply_sample samples EngineStats_default) = last_sample samples ''vllm:num_requests_running''"
  "es_num_queuing_requests (fold apply_sample samples EngineStats_default) = last_sample samples ''vllm:num_requests_waiting''"
  "es_gpu_prefix_cache_hit_rate (fold apply_sample samples EngineStats_default) = last_sample samples ''vllm:gpu_prefix_cache_hit_rate''"
  "es_gpu_prefix_cache_hits_total (fold apply_sample samples EngineStats_default) = last_sample samples ''vllm:gpu_prefix_cache_hits_total''"
  "es_gpu_prefix_cache_queries_total (fold apply_sample samples EngineStats_default) = last_sample samples ''vllm:gpu_prefix_cache_queries_total''"
  "es_gpu_cache_usage_perc (fold apply_sample samples EngineStats_default) = last_sample samples ''vllm:gpu_cache_usage_perc''"
  by (simp_all add: fold_last_wins [OF apply_sample_fields(1)] fold_last_wins [OF apply_sample_fields(2)]
      fold_last_wins [OF apply_sample_fields(3)] fold_last_wins [OF apply_sample_fields(4)]
      fold_last_wins [OF apply_sample_fields(5)] fold_last_wins [OF apply_sample_fields(6)]
      last_sample_def EngineStats_default_def cong: option.case_cong)

text \<open>The statistics read from a scrape are, for each of the six metrics, the value of the last
  sample with its name, and 0 when the engine reports none.\<close>

theorem scrape_reads_last_samples:
  assumes "parser text = Inr families"
  shows "from_vllm_scrape parser text =
    Inr \<lparr>es_num_running_requests = last_sample (concat families) ''vllm:num_requests_running'',
         es_num_queuing_requests = last_sample (concat families) ''vllm:num_requests_waiting'',
         es_gpu_prefix_cache_hit_rate = last_sample (concat families) ''vllm:gpu_prefix_cache_hit_rate'',
         es_gpu_prefix_cache_hits_total = last_sample (concat families) ''vllm:gpu_prefix_cache_hits_total'',
         es_gpu_prefix_cache_queries_total = last_sample (concat families) ''vllm:gpu_prefix_cache_queries_total'',
         es_gpu_cache_usage_perc = last_sample (concat families) ''vllm:gpu_cache_usage_perc''\<rparr>"
  using assms by (simp add: from_vllm_scrape_def fold_concat fold_fields [symmetric])

text \<open>An exception while listing the engines ends the scraping thread: later rounds change
  nothing.\<close>

lemma worker_dies:
  "sc_running sc \<Longrightarrow> scrape_worker parser ((get, Inl e) # rounds) sc = (sc, Some e)"
  by (simp add: scrape_metrics_def)

section \<open>Witnesses\<close>

definition sample_info :: endpoint_info where
  "sample_info =
     \<lparr>ep_url = ''http://e'', ep_model_names = [JStr ''m''], ep_Id = ''i'', ep_added_timestamp = 0,
      ep_model_label = None, ep_sleep = JBool False, ep_pod_name = None, ep_service_name = None,
      ep_namespace = None, ep_model_info = None\<rparr>"

definition sample_parser :: prometheus where
  "sample_parser text = Inr [[(''vllm:num_requests_running'', 3)], [(''vllm:num_requests_running'', 4)]]"

definition sample_scraper :: engine_scraper where
  "sample_scraper =
     \<lparr>sc_engine_stats = [(''http://old'', EngineStats_default)], sc_scrape_interval = 10, sc_running = True\<rparr>"

theorem scrape_keeps_exactly_the_answering_engines_witness:
  "map_of (get_engine_stats (fst (scrape_metrics sample_parser (\<lambda>_. MetricsText 200 []) (Inr [sample_info])
      sample_scraper))) ''http://old'' = None"
  using scrape_keeps_exactly_the_answering_engines
    [of sample_parser "\<lambda>_. MetricsText 200 []" "[sample_info]" sample_scraper _ _ "''http://old''",
     OF prod.collapse [symmetric]]
  by (simp add: sample_info_def)

theorem scrape_reads_last_samples_witness:
  "\<exists>st. from_vllm_scrape sample_parser [] = Inr st \<and> es_num_running_requests st = 4"
  using scrape_reads_last_samples [of sample_parser "[]"]
  by (simp add: sample_parser_def last_sample_def)

end
