(* ===== verification/Hash_Trie.thy ===== *)
theory Hash_Trie
  imports Router_Prelude "HOL-Library.Word"
begin

text \<open>
  \<^verbatim>\<open>src/src/vllm_router/prefix/hashtrie.py\<close>: the trie of prompt chunks used by prefix-aware
  routing. A prompt is cut into chunks, each chunk hashed to 64 bits (\<^verbatim>\<open>xxhash\<close> is the parameter
  \<open>xxh64\<close>), and every node remembers the endpoints that were sent a prompt through it. The
  locks are taken one node at a time around single dictionary and set accesses; a coroutine
  that runs an operation without being suspended inside it sees it as one step.
\<close>

datatype trie = TrieNode (node_children: "64 word \<Rightarrow> trie option") (node_endpoints: "string set")

definition empty_node :: trie where
  "empty_node = TrieNode (\<lambda>_. None) {}"

record hash_trie =
  ht_root :: trie
  ht_chunk_size :: nat

definition HashTrie_init :: "nat \<Rightarrow> hash_trie" where
  "HashTrie_init chunk_size = \<lparr>ht_root = empty_node, ht_chunk_size = chunk_size\<rparr>"

text \<open>The slices \<^verbatim>\<open>request[i : i + k]\<close> for \<^verbatim>\<open>i\<close> in \<^verbatim>\<open>range(0, len(request), k)\<close>.\<close>

function text_chunks :: "nat \<Rightarrow> string \<Rightarrow> string list" where
  "text_chunks k s = (if k = 0 \<or> s = [] then [] else take k s # text_chunks k (drop k s))"
  by pat_completeness auto
termination
  by (relation "measure (\<lambda>(k, s). length s)") auto

declare text_chunks.simps [simp del]

text \<open>\<^verbatim>\<open>range\<close> with step 0 raises.\<close>

definition chunk_and_hash :: "(string \<Rightarrow> 64 word) \<Rightarrow> nat \<Rightarrow> string \<Rightarrow> 64 word list result" where
  "chunk_and_hash xxh64 chunk_size request =
     (if chunk_size = 0 then Inl (ValueError ''range() arg 3 must not be zero'')
      else Inr (map xxh64 (text_chunks chunk_size request)))"

text \<open>The walk of \<^verbatim>\<open>insert\<close>: the endpoint is added to every node on the path, which is extended
  with fresh nodes as needed.\<close>

fun insert_walk :: "64 word list \<Rightarrow> string \<Rightarrow> trie \<Rightarrow> trie" where
  "insert_walk [] e (TrieNode cs es) = TrieNode cs (insert e es)"
| "insert_walk (h # hs) e (TrieNode cs es) =
     (let child = (case cs h of None \<Rightarrow> empty_node | Some n \<Rightarrow> n)
      in TrieNode (cs(h \<mapsto> insert_walk hs e child)) (insert e es))"

text \<open>When the chunking raises, the endpoint has already been added to the root.\<close>

definition trie_insert ::
  "(string \<Rightarrow> 64 word) \<Rightarrow> string \<Rightarrow> string \<Rightarrow> hash_trie \<Rightarrow> hash_trie \<times> py_error option" where
  "trie_insert xxh64 request endpoint t =
     (case chunk_and_hash xxh64 (ht_chunk_size t) request of
        Inl err \<Rightarrow> (t\<lparr>ht_root := insert_walk [] endpoint (ht_root t)\<rparr>, Some err)
      | Inr hs \<Rightarrow> (t\<lparr>ht_root := insert_walk hs endpoint (ht_root t)\<rparr>, None))"

fun match_walk :: "nat \<Rightarrow> 64 word list \<Rightarrow> trie \<Rightarrow> nat \<Rightarrow> string set \<Rightarrow> nat \<times> string set" where
  "match_walk k [] node match_length selected = (match_length, selected)"
| "match_walk k (h # hs) node match_length selected =
     (case node_children node h of
        None \<Rightarrow> (match_length, selected)
      | Some n \<Rightarrow>
          let intersection = node_endpoints n \<inter> selected in
          if intersection = {} then (match_length, selected)
          else match_walk k hs n (match_length + k) intersection)"

definition longest_prefix_match ::
  "(string \<Rightarrow> 64 word) \<Rightarrow> string \<Rightarrow> string set \<Rightarrow> hash_trie \<Rightarrow> (nat \<times> string set) result" where
  "longest_prefix_match xxh64 request available_endpoints t =
     bindE (chunk_and_hash xxh64 (ht_chunk_size t) request) (\<lambda>hs.
       Inr (match_walk (ht_chunk_size t) hs (ht_root t) 0 available_endpoints))"

section \<open>Chunks\<close>

lemma chunks_concat: "k \<noteq> 0 \<Longrightarrow> concat (text_chunks k s) = s"
  by (induction k s rule: text_chunks.induct) (subst text_chunks.simps, simp)

lemma chunks_nonempty: "c \<in> set (text_chunks k s) \<Longrightarrow> c \<noteq> [] \<and> length c \<le> k"
proof (induction k s rule: text_chunks.induct)
  case (1 k s)
  then show ?case by (subst (asm) (2) text_chunks.simps) (auto split: if_splits)
qed

text \<open>Text that starts with whole chunks of another prompt shares its leading chunks.\<close>

lemma chunks_append:
  assumes "k \<noteq> 0" and "length x = n * k"
  shows "text_chunks k (x @ y) = text_chunks k x @ text_chunks k y"
  using assms(2)
proof (induction n arbitrary: x)
  case 0
  then show ?case by (simp add: text_chunks.simps [of k "[]"])
next
  case (Suc n)
  then have x: "x \<noteq> []" "length (drop k x) = n * k" "take k (x @ y) = take k x"
      "drop k (x @ y) = drop k x @ y" using assms(1) by auto
  with Suc.IH [OF x(2)] show ?case
    using assms(1) by (simp add: text_chunks.simps [of k "x @ y"] text_chunks.simps [of k x])
qed

section \<open>The trie as a function on paths\<close>

fun at_path :: "trie \<Rightarrow> 64 word list \<Rightarrow> string set" where
  "at_path t [] = node_endpoints t"
| "at_path t (h # hs) = (case node_children t h of None \<Rightarrow> {} | Some n \<Rightarrow> at_path n hs)"

lemma at_empty [simp]: "at_path empty_node hs = {}"
  by (cases hs) (simp_all add: empty_node_def)

lemma at_insert: "at_path (insert_walk hs e t) p = (if prefix p hs then insert e (at_path t p) else at_path t p)"
proof (induction hs e t arbitrary: p rule: insert_walk.induct)
  case (1 e cs es)
  then show ?case by (cases p) simp_all
next
  case (2 h hs e cs es)
  show ?case
  proof (cases p)
    case Nil
    then show ?thesis by (simp add: Let_def)
  next
    case (Cons q p')
    then show ?thesis using 2 [OF refl, of p'] by (cases "cs h") (auto simp: Let_def)
  qed
qed

definition insert_all :: "(64 word list \<times> string) list \<Rightarrow> trie \<Rightarrow> trie" where
  "insert_all = fold (\<lambda>(hs, e). insert_walk hs e)"

lemma at_insert_all:
  "at_path (insert_all ins t) p = at_path t p \<union> {e. \<exists>hs. (hs, e) \<in> set ins \<and> prefix p hs}"
  unfolding insert_all_def by (induction ins arbitrary: t) (auto simp: at_insert split: if_splits)

text \<open>Endpoints only get fewer along a path.\<close>

definition narrowing :: "trie \<Rightarrow> bool" where
  "narrowing t \<longleftrightarrow> (\<forall>p q. prefix p q \<longrightarrow> at_path t q \<subseteq> at_path t p)"

lemma narrowing_empty: "narrowing empty_node"
  by (simp add: narrowing_def)

lemma narrowing_insert: "narrowing t \<Longrightarrow> narrowing (insert_walk hs e t)"
  unfolding narrowing_def at_insert by (auto dest: prefix_order.trans)

lemma narrowing_child: "narrowing t \<Longrightarrow> node_children t h = Some n \<Longrightarrow> narrowing n"
  unfolding narrowing_def by (metis Cons_prefix_Cons at_path.simps(2) option.simps(5))

lemma at_child: "node_children t h = Some n \<Longrightarrow> at_path t (h # hs) = at_path n hs"
  by simp

section \<open>The match is the longest one\<close>

text \<open>The specification: after how many hashes the match ends, and what is selected.\<close>

definition is_longest ::
  "trie \<Rightarrow> 64 word list \<Rightarrow> string set \<Rightarrow> nat \<Rightarrow> string set \<Rightarrow> bool" where
  "is_longest t hs avail n sel \<longleftrightarrow>
     n \<le> length hs \<and>
     sel = (if n = 0 then avail else at_path t (take n hs) \<inter> avail) \<and>
     (n \<noteq> 0 \<longrightarrow> sel \<noteq> {}) \<and>
     (\<forall>m. n < m \<and> m \<le> length hs \<longrightarrow> at_path t (take m hs) \<inter> avail = {})"

lemma at_take_mono: "narrowing t \<Longrightarrow> n \<le> m \<Longrightarrow> at_path t (take m hs) \<subseteq> at_path t (take n hs)"
  unfolding narrowing_def by (metis min.absorb1 take_is_prefix take_take)

lemma match_walk_longest:
  "narrowing t \<Longrightarrow> \<exists>n sel. match_walk k hs t len avail = (len + n * k, sel) \<and> is_longest t hs avail n sel"
proof (induction hs arbitrary: t len avail)
  case Nil
  then show ?case by (auto simp: is_longest_def)
next
  case (Cons h hs)
  have stop: "is_longest t (h # hs) avail 0 avail" if "at_path t [h] \<inter> avail = {}"
    unfolding is_longest_def
  proof (intro conjI allI impI)
    fix m assume "0 < m \<and> m \<le> length (h # hs)"
    then have "at_path t (take m (h # hs)) \<subseteq> at_path t (take 1 (h # hs))"
      by (intro at_take_mono [OF Cons.prems]) simp
    with that show "at_path t (take m (h # hs)) \<inter> avail = {}" by auto
  qed simp_all
  show ?case
  proof (cases "node_children t h")
    case None
    with stop show ?thesis by (auto intro!: exI [of _ 0])
  next
    case (Some node)
    show ?thesis
    proof (cases "node_endpoints node \<inter> avail = {}")
      case True
      with Some stop show ?thesis by (auto intro!: exI [of _ 0])
    next
      case False
      let ?sel = "node_endpoints node \<inter> avail"
      have nn: "narrowing node" by (rule narrowing_child [OF Cons.prems Some])
      from Cons.IH [OF nn, of "len + k" ?sel] obtain n sel where
        w: "match_walk k hs node (len + k) ?sel = (len + k + n * k, sel)"
        and l: "is_longest node hs ?sel n sel" by blast
      have sub: "at_path node q \<inter> ?sel = at_path node q \<inter> avail" for q
        using nn unfolding narrowing_def by (metis Nil_prefix at_path.simps(1) inf.absorb1 inf_assoc)
      have "is_longest t (h # hs) avail (Suc n) sel"
        unfolding is_longest_def
      proof (intro conjI allI impI)
        show "Suc n \<le> length (h # hs)" using l by (simp add: is_longest_def)
        show "sel = (if Suc n = 0 then avail else at_path t (take (Suc n) (h # hs)) \<inter> avail)"
          using l sub Some by (cases "n = 0") (simp_all add: is_longest_def)
        show "sel \<noteq> {}" using l False unfolding is_longest_def by (cases "n = 0") metis+
      next
        fix m assume "Suc n < m \<and> m \<le> length (h # hs)"
        then obtain m' where "m = Suc m'" "n < m' \<and> m' \<le> length hs" by (cases m) auto
        then show "at_path t (take m (h # hs)) \<inter> avail = {}"
          using l sub Some by (simp add: is_longest_def)
      qed
      with w False Some show ?thesis by (auto simp: Let_def intro!: exI [of _ "Suc n"])
    qed
  qed
qed

lemma is_longest_unique:
  assumes "is_longest t hs avail n sel" and "is_longest t' hs avail n' sel'"
    and "\<And>p. at_path t p = at_path t' p"
  shows "n = n' \<and> sel = sel'"
proof -
  have "n = n'"
    using assms unfolding is_longest_def by (metis linorder_neqE_nat not_less_zero)
  with assms show ?thesis by (simp add: is_longest_def)
qed

section \<open>Sequences of insertions\<close>

definition inserts :: "(string \<Rightarrow> 64 word) \<Rightarrow> (string \<times> string) list \<Rightarrow> hash_trie \<Rightarrow> hash_trie" where
  "inserts xxh64 ins t = fold (\<lambda>(r, e) t. fst (trie_insert xxh64 r e t)) ins t"

lemma inserts_chunk_size [simp]: "ht_chunk_size (inserts xxh64 ins t) = ht_chunk_size t"
  unfolding inserts_def
  by (induction ins arbitrary: t) (auto simp: trie_insert_def split: sum.splits)

lemma inserts_root:
  assumes "ht_chunk_size t \<noteq> 0"
  shows "ht_root (inserts xxh64 ins t) =
         insert_all (map (\<lambda>(r, e). (map xxh64 (text_chunks (ht_chunk_size t) r), e)) ins) (ht_root t)"
  using assms unfolding inserts_def insert_all_def
  by (induction ins arbitrary: t) (auto simp: trie_insert_def chunk_and_hash_def)

lemma narrowing_inserts:
  assumes "narrowing (ht_root t)"
  shows "narrowing (ht_root (inserts xxh64 ins t))"
  using assms unfolding inserts_def
  by (induction ins arbitrary: t) (auto simp: trie_insert_def narrowing_insert split: sum.splits)

definition leading_chunks_agree :: "(string \<Rightarrow> 64 word) \<Rightarrow> nat \<Rightarrow> nat \<Rightarrow> string \<Rightarrow> string \<Rightarrow> bool" where
  "leading_chunks_agree xxh64 k n r r' \<longleftrightarrow>
     prefix (take n (map xxh64 (text_chunks k r))) (map xxh64 (text_chunks k r'))"

text \<open>The available endpoints that were sent a prompt whose first \<open>n\<close> chunks hash like those
  of \<open>r\<close>.\<close>

definition sharers ::
  "(string \<Rightarrow> 64 word) \<Rightarrow> nat \<Rightarrow> (string \<times> string) list \<Rightarrow> string \<Rightarrow> string set \<Rightarrow> nat \<Rightarrow> string set" where
  "sharers xxh64 k ins r avail n =
     {e \<in> avail. \<exists>r'. (r', e) \<in> set ins \<and> leading_chunks_agree xxh64 k n r r'}"

lemma at_inserts:
  assumes "k \<noteq> 0"
  shows "at_path (ht_root (inserts xxh64 ins (HashTrie_init k))) p =
         {e. \<exists>r'. (r', e) \<in> set ins \<and> prefix p (map xxh64 (text_chunks k r'))}"
proof -
  have "ht_root (inserts xxh64 ins (HashTrie_init k)) =
      insert_all (map (\<lambda>(r, e). (map xxh64 (text_chunks k r), e)) ins) empty_node"
    using inserts_root [of "HashTrie_init k" xxh64 ins] assms by (simp add: HashTrie_init_def)
  then show ?thesis by (auto simp: at_insert_all)
qed

lemma at_inserts_avail:
  "k \<noteq> 0 \<Longrightarrow>
   at_path (ht_root (inserts xxh64 ins (HashTrie_init k))) (take n (map xxh64 (text_chunks k r))) \<inter> avail =
   sharers xxh64 k ins r avail n"
  by (auto simp: at_inserts sharers_def leading_chunks_agree_def)

lemma match_inserts:
  assumes "k \<noteq> 0"
  shows "\<exists>n sel. longest_prefix_match xxh64 r avail (inserts xxh64 ins (HashTrie_init k)) = Inr (n * k, sel) \<and>
           is_longest (ht_root (inserts xxh64 ins (HashTrie_init k))) (map xxh64 (text_chunks k r)) avail n sel"
proof -
  have "narrowing (ht_root (inserts xxh64 ins (HashTrie_init k)))"
    by (rule narrowing_inserts) (simp add: HashTrie_init_def narrowing_empty)
  from match_walk_longest [OF this, of k "map xxh64 (text_chunks k r)" 0 avail] assms show ?thesis
    by (auto simp: longest_prefix_match_def chunk_and_hash_def HashTrie_init_def)
qed

section \<open>The interface used by the router\<close>

text \<open>What prefix-aware routing relies on: a lookup answers with available endpoints, and an
  endpoint that was recorded for a prompt is among the answers for that prompt from then on.\<close>

locale prefix_index =
  fixes ok :: "'ix \<Rightarrow> bool"
    and put :: "string \<Rightarrow> string \<Rightarrow> 'ix \<Rightarrow> 'ix \<times> py_error option"
    and look :: "string \<Rightarrow> string set \<Rightarrow> 'ix \<Rightarrow> (nat \<times> string set) result"
    and recorded :: "'ix \<Rightarrow> string \<Rightarrow> string set"
  assumes put_ok: "ok ix \<Longrightarrow> ok (fst (put r e ix)) \<and> snd (put r e ix) = None"
    and put_mono: "ok ix \<Longrightarrow> recorded ix q \<subseteq> recorded (fst (put r e ix)) q"
    and put_here: "ok ix \<Longrightarrow> e \<in> recorded (fst (put r e ix)) r"
    and look_available:
      "ok ix \<Longrightarrow> \<exists>n sel. look r av ix = Inr (n, sel) \<and> sel \<subseteq> av \<and> (av \<noteq> {} \<longrightarrow> sel \<noteq> {})"
    and look_blank: "ok ix \<Longrightarrow> look [] av ix = Inr (n, sel) \<Longrightarrow> sel = av"
    and look_exact:
      "ok ix \<Longrightarrow> r \<noteq> [] \<Longrightarrow> recorded ix r \<inter> av \<noteq> {} \<Longrightarrow> look r av ix = Inr (n, sel) \<Longrightarrow>
       sel = recorded ix r \<inter> av"
begin

definition put_all :: "(string \<times> string) list \<Rightarrow> 'ix \<Rightarrow> 'ix" where
  "put_all ins ix = fold (\<lambda>(r, e) ix. fst (put r e ix)) ins ix"

lemma put_all_ok: "ok ix \<Longrightarrow> ok (put_all ins ix)"
  unfolding put_all_def by (induction ins arbitrary: ix) (auto simp: put_ok)

lemma put_all_mono: "ok ix \<Longrightarrow> recorded ix q \<subseteq> recorded (put_all ins ix) q"
  unfolding put_all_def
proof (induction ins arbitrary: ix)
  case Nil
  show ?case by simp
next
  case (Cons p ins)
  obtain r e where p: "p = (r, e)" by (cases p)
  from Cons.prems put_mono [OF Cons.prems, of q r e] Cons.IH [of "fst (put r e ix)"]
  show ?case by (auto simp: p put_ok)
qed

text \<open>A recorded choice stays on offer for its prompt as long as it is available.\<close>

lemma affinity:
  assumes "ok ix" and "e \<in> av" and "look r av (put_all ins (fst (put r e ix))) = Inr (n, sel)"
  shows "e \<in> sel"
proof -
  let ?ix = "put_all ins (fst (put r e ix))"
  have ok: "ok ?ix" using assms(1) by (intro put_all_ok) (simp add: put_ok)
  have rec: "e \<in> recorded ?ix r"
    using put_here [OF assms(1), of e r] put_all_mono [of "fst (put r e ix)" r ins] put_ok [OF assms(1)]
    by blast
  show ?thesis
  proof (cases "r = []")
    case True
    with look_blank [OF ok, of av n sel] assms show ?thesis by simp
  next
    case False
    with look_exact [OF ok False _ assms(3)] rec assms(2) show ?thesis by blast
  qed
qed

end

definition trie_ok :: "hash_trie \<Rightarrow> bool" where
  "trie_ok t \<longleftrightarrow> ht_chunk_size t \<noteq> 0 \<and> narrowing (ht_root t)"

definition trie_recorded :: "(string \<Rightarrow> 64 word) \<Rightarrow> hash_trie \<Rightarrow> string \<Rightarrow> string set" where
  "trie_recorded xxh64 t r = at_path (ht_root t) (map xxh64 (text_chunks (ht_chunk_size t) r))"

lemma trie_ok_init: "k \<noteq> 0 \<Longrightarrow> trie_ok (HashTrie_init k)"
  by (simp add: trie_ok_def HashTrie_init_def narrowing_empty)

lemma trie_look_cases:
  assumes "trie_ok t"
  obtains n sel where "longest_prefix_match xxh64 r av t = Inr (n * ht_chunk_size t, sel)"
    "is_longest (ht_root t) (map xxh64 (text_chunks (ht_chunk_size t) r)) av n sel"
  using match_walk_longest [of "ht_root t" "ht_chunk_size t" _ 0 av] assms that
  by (fastforce simp: longest_prefix_match_def chunk_and_hash_def trie_ok_def)

lemma trie_look_exact:
  assumes "trie_ok t" and "r \<noteq> []" and "trie_recorded xxh64 t r \<inter> av \<noteq> {}"
    and "longest_prefix_match xxh64 r av t = Inr (n, sel)"
  shows "sel = trie_recorded xxh64 t r \<inter> av"
proof -
  let ?hs = "map xxh64 (text_chunks (ht_chunk_size t) r)"
  obtain m s where m: "longest_prefix_match xxh64 r av t = Inr (m * ht_chunk_size t, s)"
    "is_longest (ht_root t) ?hs av m s" by (rule trie_look_cases [OF assms(1)])
  have "?hs \<noteq> []" using assms(1,2) by (subst text_chunks.simps) (simp add: trie_ok_def)
  moreover have "at_path (ht_root t) (take (length ?hs) ?hs) \<inter> av \<noteq> {}"
    using assms(3) by (simp add: trie_recorded_def)
  then have "m = length ?hs"
    using m(2) unfolding is_longest_def by (metis le_neq_implies_less order_refl)
  ultimately show ?thesis
    using m assms(4) by (auto simp: is_longest_def trie_recorded_def)
qed

interpretation trie_index:
  prefix_index trie_ok "trie_insert xxh64" "longest_prefix_match xxh64" "trie_recorded xxh64"
  for xxh64 :: "string \<Rightarrow> 64 word"
proof unfold_locales
  fix ix r e q
  assume ok: "trie_ok ix"
  then show "trie_ok (fst (trie_insert xxh64 r e ix)) \<and> snd (trie_insert xxh64 r e ix) = None"
    by (simp add: trie_ok_def trie_insert_def chunk_and_hash_def narrowing_insert)
  from ok show "trie_recorded xxh64 ix q \<subseteq> trie_recorded xxh64 (fst (trie_insert xxh64 r e ix)) q"
    by (auto simp: trie_ok_def trie_insert_def chunk_and_hash_def trie_recorded_def at_insert)
  from ok show "e \<in> trie_recorded xxh64 (fst (trie_insert xxh64 r e ix)) r"
    by (simp add: trie_ok_def trie_insert_def chunk_and_hash_def trie_recorded_def at_insert)
next
  fix ix r av
  assume ok: "trie_ok ix"
  obtain n sel where "longest_prefix_match xxh64 r av ix = Inr (n * ht_chunk_size ix, sel)"
    "is_longest (ht_root ix) (map xxh64 (text_chunks (ht_chunk_size ix) r)) av n sel"
    by (rule trie_look_cases [OF ok])
  then show "\<exists>n sel. longest_prefix_match xxh64 r av ix = Inr (n, sel) \<and> sel \<subseteq> av \<and> (av \<noteq> {} \<longrightarrow> sel \<noteq> {})"
    by (auto simp: is_longest_def split: if_splits)
next
  fix ix av n sel
  assume "trie_ok ix" "longest_prefix_match xxh64 [] av ix = Inr (n, sel)"
  then show "sel = av"
    by (simp add: longest_prefix_match_def chunk_and_hash_def trie_ok_def text_chunks.simps)
next
  fix ix r av n sel
  assume "trie_ok ix" "r \<noteq> []" "trie_recorded xxh64 ix r \<inter> av \<noteq> {}"
    "longest_prefix_match xxh64 r av ix = Inr (n, sel)"
  then show "sel = trie_recorded xxh64 ix r \<inter> av" by (rule trie_look_exact)
qed

section \<open>Properties\<close>

text \<open>C8: the match is the longest one among the available endpoints: after any sequence of
  insertions, a lookup reports a number \<open>n\<close> of whole chunks and the available endpoints that
  were sent a prompt agreeing on the first \<open>n\<close> chunk hashes (all available ones when nothing
  matches); no available endpoint agrees on more.\<close>

theorem longest_prefix_match_is_longest:
  assumes "k \<noteq> 0"
  shows "\<exists>n. n \<le> length (text_chunks k r) \<and>
           longest_prefix_match xxh64 r avail (inserts xxh64 ins (HashTrie_init k)) =
             Inr (n * k, if n = 0 then avail else sharers xxh64 k ins r avail n) \<and>
           (n \<noteq> 0 \<longrightarrow> sharers xxh64 k ins r avail n \<noteq> {}) \<and>
           (\<forall>m. n < m \<and> m \<le> length (text_chunks k r) \<longrightarrow> sharers xxh64 k ins r avail m = {})"
  using match_inserts [OF assms, of xxh64 r avail ins]
  unfolding is_longest_def at_inserts_avail [OF assms] by (metis length_map)

text \<open>The trie forgets the order and the multiplicity of insertions: two histories with the
  same pairs of prompt and endpoint answer every lookup alike.\<close>

theorem trie_order_irrelevant:
  assumes "k \<noteq> 0" and "set ins = set ins'"
  shows "longest_prefix_match xxh64 r avail (inserts xxh64 ins (HashTrie_init k)) =
         longest_prefix_match xxh64 r avail (inserts xxh64 ins' (HashTrie_init k))"
proof -
  have same: "at_path (ht_root (inserts xxh64 ins (HashTrie_init k))) p =
      at_path (ht_root (inserts xxh64 ins' (HashTrie_init k))) p" for p
    by (simp add: at_inserts [OF assms(1)] assms(2))
  obtain n sel where 1: "longest_prefix_match xxh64 r avail (inserts xxh64 ins (HashTrie_init k)) = Inr (n * k, sel)"
    "is_longest (ht_root (inserts xxh64 ins (HashTrie_init k))) (map xxh64 (text_chunks k r)) avail n sel"
    using match_inserts [OF assms(1)] by blast
  obtain n' sel' where 2: "longest_prefix_match xxh64 r avail (inserts xxh64 ins' (HashTrie_init k)) = Inr (n' * k, sel')"
    "is_longest (ht_root (inserts xxh64 ins' (HashTrie_init k))) (map xxh64 (text_chunks k r)) avail n' sel'"
    using match_inserts [OF assms(1)] by blast
  from is_longest_unique [OF 1(2) 2(2) same] 1(1) 2(1) show ?thesis by simp
qed

section \<open>Witnesses\<close>

definition sample_hash :: "string \<Rightarrow> 64 word" where
  "sample_hash s = word_of_nat (length s)"

theorem longest_prefix_match_is_longest_witness:
  "\<exists>n. n \<le> 2 \<and> longest_prefix_match sample_hash ''aab'' {''e'', ''f''}
           (inserts sample_hash [(''ccc'', ''e''), (''d'', ''f'')] (HashTrie_init 2)) =
         Inr (n * 2, if n = 0 then {''e'', ''f''}
              else sharers sample_hash 2 [(''ccc'', ''e''), (''d'', ''f'')] ''aab'' {''e'', ''f''} n)"
proof -
  have "length (text_chunks 2 ''aab'') = 2" by (simp add: text_chunks.simps)
  with longest_prefix_match_is_longest [of 2 "''aab''" sample_hash "{''e'', ''f''}"
      "[(''ccc'', ''e''), (''d'', ''f'')]"]
  show ?thesis by auto
qed

theorem trie_order_irrelevant_witness:
  "longest_prefix_match sample_hash ''aab'' {''e'', ''f''}
     (inserts sample_hash [(''ccc'', ''e''), (''d'', ''f'')] (HashTrie_init 2)) =
   longest_prefix_match sample_hash ''aab'' {''e'', ''f''}
     (inserts sample_hash [(''d'', ''f''), (''ccc'', ''e''), (''d'', ''f'')] (HashTrie_init 2))"
  by (rule trie_order_irrelevant) auto

end
