(* ===== verification/Routing_Logic.thy ===== *)
theory Routing_Logic
  imports Discovery_Factory Request_Stats Engine_Stats Hash_Trie "HOL-Library.Multiset"
begin

text \<open>
  The routers of \<^verbatim>\<open>src/src/vllm_router/routers/routing_logic.py\<close>, each with its state as a
  record and \<^verbatim>\<open>route_request\<close> as a function to the new state and the chosen URL. Third-party code is
  passed in: the consistent hash ring (\<^verbatim>\<open>uhashring\<close>) as the record \<open>ring_ops\<close>, the order in
  which a set is iterated, \<^verbatim>\<open>id()\<close>, \<^verbatim>\<open>hash()\<close>, \<^verbatim>\<open>random.choice\<close>, the tokenizer and the LMCache
  controller.
\<close>

section \<open>Routing by load\<close>

text \<open>\<open>None\<close> for the lowest rate stands for \<^verbatim>\<open>inf\<close>.\<close>

fun qps_loop ::
  "(string \<times> RequestStats) list \<Rightarrow> endpoint_info list \<Rightarrow> rat option \<Rightarrow> string option \<Rightarrow> string option" where
  "qps_loop stats [] lowest_qps ret = ret"
| "qps_loop stats (info # infos) lowest_qps ret =
     (case map_of stats (ep_url info) of
        None \<Rightarrow> Some (ep_url info)
      | Some st \<Rightarrow>
          if (case lowest_qps of None \<Rightarrow> True | Some q \<Rightarrow> rs_qps st < q)
          then qps_loop stats infos (Some (rs_qps st)) (Some (ep_url info))
          else qps_loop stats infos lowest_qps ret)"

definition qps_routing :: "endpoint_info list \<Rightarrow> (string \<times> RequestStats) list \<Rightarrow> string option" where
  "qps_routing endpoints request_stats = qps_loop request_stats endpoints None None"

section \<open>The hash ring\<close>

record 'r ring_ops =
  ring_new :: 'r
  ring_nodes :: "'r \<Rightarrow> string list"
  ring_add :: "string \<Rightarrow> 'r \<Rightarrow> 'r"
  ring_remove :: "string \<Rightarrow> 'r \<Rightarrow> 'r"
  ring_get :: "'r \<Rightarrow> json \<Rightarrow> string option"

text \<open>\<open>iter\<close> lists the elements of a set in the order Python iterates them.\<close>

definition update_hash_ring ::
  "(string set \<Rightarrow> string list) \<Rightarrow> 'r ring_ops \<Rightarrow> endpoint_info list \<Rightarrow> 'r \<Rightarrow> 'r" where
  "update_hash_ring iter ops endpoints ring =
     (let current_nodes = set (ring_nodes ops ring);
          new_nodes = set (map ep_url endpoints);
          ring1 = fold (ring_remove ops) (iter (current_nodes - new_nodes)) ring
      in fold (ring_add ops) (iter (new_nodes - current_nodes)) ring1)"

text \<open>Header names are compared without case (the keys of \<open>headers\<close> are in lower case).\<close>

definition extract_session_id :: "string option \<Rightarrow> (string \<times> string) list \<Rightarrow> jobj \<Rightarrow> json option" where
  "extract_session_id session_key headers request_json =
     (case session_key of
        None \<Rightarrow> None
      | Some key \<Rightarrow>
          (case map_of headers (lower key) of
             Some v \<Rightarrow> Some (JStr v)
           | None \<Rightarrow>
               (case map_of request_json key of
                  None \<Rightarrow> None
                | Some JNull \<Rightarrow> None
                | Some v \<Rightarrow> Some v)))"

section \<open>Round robin\<close>

record round_robin =
  rr_req_id :: nat
  rr_sorted_endpoints :: "endpoint_info list"
  rr_last_endpoints_id :: "nat option"
  rr_last_endpoints_hash :: "int option"

definition RoundRobinRouter_init :: round_robin where
  "RoundRobinRouter_init =
     \<lparr>rr_req_id = 0, rr_sorted_endpoints = [], rr_last_endpoints_id = None,
      rr_last_endpoints_hash = None\<rparr>"

text \<open>The cache of the sorted list: \<open>eid\<close> is \<^verbatim>\<open>id(endpoints)\<close> and \<open>hash\<close> hashes the tuple of URLs.\<close>

definition rr_refresh ::
  "(string list \<Rightarrow> int) \<Rightarrow> nat \<Rightarrow> endpoint_info list \<Rightarrow> round_robin \<Rightarrow> round_robin" where
  "rr_refresh hash eid endpoints rr =
     (if Some eid \<noteq> rr_last_endpoints_id rr then
        let current_hash = hash (map ep_url endpoints);
            rr1 = (if Some current_hash \<noteq> rr_last_endpoints_hash rr
                   then rr\<lparr>rr_sorted_endpoints := sort_key ep_url endpoints,
                           rr_last_endpoints_hash := Some current_hash\<rparr>
                   else rr)
        in rr1\<lparr>rr_last_endpoints_id := Some eid\<rparr>
      else rr)"

definition rr_route_request ::
  "(string list \<Rightarrow> int) \<Rightarrow> nat \<Rightarrow> endpoint_info list \<Rightarrow> round_robin \<Rightarrow> round_robin \<times> string result" where
  "rr_route_request hash eid endpoints rr =
     (let rr1 = rr_refresh hash eid endpoints rr;
          n = length (rr_sorted_endpoints rr1)
      in if n = 0 then (rr1, Inl ZeroDivisionError)
         else (rr1\<lparr>rr_req_id := rr_req_id rr1 + 1\<rparr>,
               Inr (ep_url (rr_sorted_endpoints rr1 ! (rr_req_id rr1 mod n)))))"

section \<open>Sessions\<close>

record 'r session_router =
  sr_session_key :: string
  sr_hash_ring :: 'r

definition SessionRouter_init :: "'r ring_ops \<Rightarrow> string option \<Rightarrow> 'r session_router result" where
  "SessionRouter_init ops session_key =
     (case session_key of
        None \<Rightarrow> Inl (ValueError ''SessionRouter must be initialized with a session_key'')
      | Some k \<Rightarrow> Inr \<lparr>sr_session_key = k, sr_hash_ring = ring_new ops\<rparr>)"

text \<open>The session or load choice that the session and the KV-aware router share.\<close>

definition session_choice ::
  "(string set \<Rightarrow> string list) \<Rightarrow> 'r ring_ops \<Rightarrow> string option \<Rightarrow> endpoint_info list \<Rightarrow>
   (string \<times> RequestStats) list \<Rightarrow> (string \<times> string) list \<Rightarrow> jobj \<Rightarrow> 'r \<Rightarrow> 'r \<times> string option" where
  "session_choice iter ops session_key endpoints request_stats headers request_json ring =
     (let session_id = extract_session_id session_key headers request_json;
          ring' = update_hash_ring iter ops endpoints ring
      in (ring', case session_id of
                   None \<Rightarrow> qps_routing endpoints request_stats
                 | Some sid \<Rightarrow> ring_get ops ring' sid))"

definition session_route_request ::
  "(string set \<Rightarrow> string list) \<Rightarrow> 'r ring_ops \<Rightarrow> endpoint_info list \<Rightarrow> (string \<times> RequestStats) list \<Rightarrow>
   (string \<times> string) list \<Rightarrow> jobj \<Rightarrow> 'r session_router \<Rightarrow> 'r session_router \<times> string option" where
  "session_route_request iter ops endpoints request_stats headers request_json sr =
     (case session_choice iter ops (Some (sr_session_key sr)) endpoints request_stats headers
             request_json (sr_hash_ring sr) of
        (ring, url) \<Rightarrow> (sr\<lparr>sr_hash_ring := ring\<rparr>, url))"

section \<open>KV-cache aware routing\<close>

record ('r, 't) kv_router =
  kv_instance_id_to_ip :: "(string \<times> string) list"
  kv_session_key :: "string option"
  kv_hash_ring :: 'r
  kv_tokenizer :: "'t option"
  kv_threshold :: "int option"
  kv_monitor_running :: bool

text \<open>
  The outside of the KV-aware router: loading a tokenizer and encoding (\<open>None\<close> when it
  raises), the engine's tokenize endpoint, and the two queries of the LMCache controller. A
  lookup answers with the layout, the matched tokens per instance in order, or \<^verbatim>\<open>None\<close>.
\<close>

record 't kv_env =
  ke_load :: "json \<Rightarrow> 't option"
  ke_encode :: "'t \<Rightarrow> json \<Rightarrow> json option"
  ke_post :: "string \<Rightarrow> jobj \<Rightarrow> http_outcome"
  ke_lookup :: "json \<Rightarrow> (string \<times> int) list option result"
  ke_query_inst :: "string \<Rightarrow> string result"

definition KvawareRouter_init ::
  "'r ring_ops \<Rightarrow> string option \<Rightarrow> int option \<Rightarrow> ('r, 't) kv_router" where
  "KvawareRouter_init ops session_key kv_aware_threshold =
     \<lparr>kv_instance_id_to_ip = [], kv_session_key = session_key, kv_hash_ring = ring_new ops,
      kv_tokenizer = None, kv_threshold = kv_aware_threshold, kv_monitor_running = False\<rparr>"

definition start_kv_manager :: "('r, 't) kv_router \<Rightarrow> ('r, 't) kv_router" where
  "start_kv_manager kv = kv\<lparr>kv_monitor_running := True\<rparr>"

definition kv_close :: "('r, 't) kv_router \<Rightarrow> ('r, 't) kv_router" where
  "kv_close kv = kv\<lparr>kv_monitor_running := False\<rparr>"

fun json_len :: "json \<Rightarrow> nat result" where
  "json_len (JList xs) = Inr (length xs)"
| "json_len (JStr s) = Inr (length s)"
| "json_len (JObj d) = Inr (length d)"
| "json_len _ = Inl (TypeError ''object has no len()'')"

fun first_model :: "endpoint_info list \<Rightarrow> json result" where
  "first_model [] = Inl IndexError"
| "first_model (e # es) = py_nth (ep_model_names e) 0"

text \<open>The \<^verbatim>\<open>try\<close> block: the tokenizer stays loaded even when encoding raises.\<close>

definition kv_local_tokens ::
  "'t kv_env \<Rightarrow> endpoint_info list \<Rightarrow> jobj \<Rightarrow> 't option \<Rightarrow> 't option \<times> json option" where
  "kv_local_tokens env endpoints request_json tokenizer =
     (let tok = (case tokenizer of
                   Some t \<Rightarrow> Some t
                 | None \<Rightarrow> (case first_model endpoints of Inl _ \<Rightarrow> None | Inr m \<Rightarrow> ke_load env m))
      in case tok of
           None \<Rightarrow> (None, None)
         | Some t \<Rightarrow> (Some t, ke_encode env t (jget request_json ''prompt'' (JStr []))))"

definition kv_remote_tokens :: "'t kv_env \<Rightarrow> endpoint_info list \<Rightarrow> jobj \<Rightarrow> json result" where
  "kv_remote_tokens env endpoints request_json =
     (case endpoints of
        [] \<Rightarrow> Inl IndexError
      | e # _ \<Rightarrow>
          bindE (py_nth (ep_model_names e) 0) (\<lambda>m.
          case ke_post env (ep_url e @ ''/tokenize'')
                 [(''model'', m), (''prompt'', jget request_json ''prompt'' (JStr []))] of
            HttpRaise \<Rightarrow> Inl (OtherException ''RequestException'')
          | HttpResponse _ None \<Rightarrow> Inl JSONDecodeError
          | HttpResponse _ (Some (JObj d)) \<Rightarrow>
              (case map_of d ''tokens'' of None \<Rightarrow> Inl (KeyError ''tokens'') | Some ts \<Rightarrow> Inr ts)
          | HttpResponse _ (Some _) \<Rightarrow> Inl (TypeError ''indices must be integers'')))"

text \<open>\<^verbatim>\<open>url.split(":" + last)[0].split("//")[1]\<close>, where \<^verbatim>\<open>last\<close> follows the last colon.\<close>

definition query_ip :: "string \<Rightarrow> string result" where
  "query_ip url =
     (let port = last (split_on (CHR '':'') url)
      in py_nth (split_str ''//'' (hd (split_str (CHR '':'' # port) url))) 1)"

fun kv_query_instances ::
  "'t kv_env \<Rightarrow> endpoint_info list \<Rightarrow> (string \<times> string) list \<Rightarrow> (string \<times> string) list \<times> py_error option"
where
  "kv_query_instances env [] m = (m, None)"
| "kv_query_instances env (e # es) m =
     (case query_ip (ep_url e) of
        Inl err \<Rightarrow> (m, Some err)
      | Inr ip \<Rightarrow>
          (case ke_query_inst env ip of
             Inl err \<Rightarrow> (m, Some err)
           | Inr i \<Rightarrow> kv_query_instances env es (AList.update i (ep_url e) m)))"

definition kv_hit ::
  "'t kv_env \<Rightarrow> endpoint_info list \<Rightarrow> string \<Rightarrow> ('r, 't) kv_router \<Rightarrow>
   ('r, 't) kv_router \<times> string option result" where
  "kv_hit env endpoints inst kv =
     (case (if inst \<in> fst ` set (kv_instance_id_to_ip kv) then (kv_instance_id_to_ip kv, None)
            else kv_query_instances env endpoints (kv_instance_id_to_ip kv)) of
        (m, err) \<Rightarrow>
          (kv\<lparr>kv_instance_id_to_ip := m\<rparr>,
           case err of
             Some e \<Rightarrow> Inl e
           | None \<Rightarrow> (case map_of m inst of None \<Rightarrow> Inl (KeyError inst) | Some url \<Rightarrow> Inr (Some url))))"

definition kv_fallback ::
  "(string set \<Rightarrow> string list) \<Rightarrow> 'r ring_ops \<Rightarrow> endpoint_info list \<Rightarrow> (string \<times> RequestStats) list \<Rightarrow>
   (string \<times> string) list \<Rightarrow> jobj \<Rightarrow> ('r, 't) kv_router \<Rightarrow> ('r, 't) kv_router \<times> string option result" where
  "kv_fallback iter ops endpoints request_stats headers request_json kv =
     (case session_choice iter ops (kv_session_key kv) endpoints request_stats headers
             request_json (kv_hash_ring kv) of
        (ring, url) \<Rightarrow> (kv\<lparr>kv_hash_ring := ring\<rparr>, Inr url))"

text \<open>Below the threshold: \<^verbatim>\<open>matched_tokens < max(len(token_ids) - self.threshold, 0)\<close>.\<close>

definition kv_below :: "int \<Rightarrow> json \<Rightarrow> int option \<Rightarrow> bool result" where
  "kv_below matched token_ids threshold =
     bindE (json_len token_ids) (\<lambda>n.
       case threshold of
         None \<Rightarrow> Inl (TypeError ''unsupported operand type(s) for -'')
       | Some t \<Rightarrow> Inr (matched < max (int n - t) 0))"

definition kv_route_request ::
  "(string set \<Rightarrow> string list) \<Rightarrow> 'r ring_ops \<Rightarrow> 't kv_env \<Rightarrow> endpoint_info list \<Rightarrow>
   (string \<times> RequestStats) list \<Rightarrow> (string \<times> string) list \<Rightarrow> jobj \<Rightarrow> ('r, 't) kv_router \<Rightarrow>
   ('r, 't) kv_router \<times> string option result" where
  "kv_route_request iter ops env endpoints request_stats headers request_json kv =
     (case kv_local_tokens env endpoints request_json (kv_tokenizer kv) of
        (tok, local) \<Rightarrow>
          let kv1 = kv\<lparr>kv_tokenizer := tok\<rparr> in
          case (case local of Some ts \<Rightarrow> Inr ts | None \<Rightarrow> kv_remote_tokens env endpoints request_json) of
            Inl e \<Rightarrow> (kv1, Inl e)
          | Inr token_ids \<Rightarrow>
              (case ke_lookup env token_ids of
                 Inl e \<Rightarrow> (kv1, Inl e)
               | Inr None \<Rightarrow> (kv1, Inl (AttributeError ''layout_info''))
               | Inr (Some []) \<Rightarrow>
                   kv_fallback iter ops endpoints request_stats headers request_json kv1
               | Inr (Some ((inst, matched) # layout)) \<Rightarrow>
                   (case kv_below matched token_ids (kv_threshold kv) of
                      Inl e \<Rightarrow> (kv1, Inl e)
                    | Inr True \<Rightarrow>
                        kv_fallback iter ops endpoints request_stats headers request_json kv1
                    | Inr False \<Rightarrow> kv_hit env endpoints inst kv1)))"

section \<open>Prefix-aware routing\<close>

text \<open>\<^verbatim>\<open>" ".join\<close> over the texts of the parts of type text: the parts are read first, then joined.\<close>

fun join_strings :: "string \<Rightarrow> json list \<Rightarrow> string result" where
  "join_strings sep xs =
     (if list_all (\<lambda>x. case x of JStr _ \<Rightarrow> True | _ \<Rightarrow> False) xs
      then Inr (join sep (map (\<lambda>x. case x of JStr s \<Rightarrow> s | _ \<Rightarrow> []) xs))
      else Inl (TypeError ''sequence item: expected str instance''))"

fun part_texts :: "json list \<Rightarrow> json list result" where
  "part_texts [] = Inr []"
| "part_texts (JObj d # ps) =
     bindE (part_texts ps) (\<lambda>ts.
       Inr (if jget d ''type'' JNull = JStr ''text'' then jget d ''text'' (JStr []) # ts else ts))"
| "part_texts (p # ps) = Inl (AttributeError ''get'')"

fun prompt_parts :: "json list \<Rightarrow> json list result" where
  "prompt_parts [] = Inr []"
| "prompt_parts (JObj d # ms) =
     bindE (case jget d ''content'' (JStr []) of
              JList ps \<Rightarrow> bindE (part_texts ps) (\<lambda>ts. bindE (join_strings '' '' ts) (\<lambda>s. Inr [JStr s]))
            | JNull \<Rightarrow> Inr []
            | c \<Rightarrow> Inr [c]) (\<lambda>here.
     bindE (prompt_parts ms) (\<lambda>rest. Inr (here @ rest)))"
| "prompt_parts (m # ms) = Inl (AttributeError ''get'')"

definition messages_prompt :: "json \<Rightarrow> json result" where
  "messages_prompt messages =
     (if \<not> truthy messages then Inr (JStr [])
      else (case messages of
              JList ms \<Rightarrow> bindE (prompt_parts ms) (\<lambda>ps. bindE (join_strings ''\<newline>'' ps) (\<lambda>s. Inr (JStr s)))
            | JStr _ \<Rightarrow> Inl (AttributeError ''get'')
            | JObj _ \<Rightarrow> Inl (AttributeError ''get'')
            | _ \<Rightarrow> Inl (TypeError ''object is not iterable'')))"

definition extract_prompt :: "jobj \<Rightarrow> json result" where
  "extract_prompt request_json =
     (case map_of request_json ''messages'' of
        Some messages \<Rightarrow> messages_prompt messages
      | None \<Rightarrow>
          (case map_of request_json ''prompt'' of
             None \<Rightarrow> Inl (KeyError ''prompt'')
           | Some p \<Rightarrow> Inr p))"

text \<open>What chunking makes of a prompt that is not a string: an empty list or dictionary has no
  chunks, anything else cannot be measured, sliced or hashed.\<close>

fun prompt_text :: "json \<Rightarrow> string result" where
  "prompt_text (JStr s) = Inr s"
| "prompt_text (JList []) = Inr []"
| "prompt_text (JObj []) = Inr []"
| "prompt_text _ = Inl (TypeError ''prompt is not a string'')"

text \<open>\<open>choice\<close> is \<^verbatim>\<open>random.choice(list(s))\<close> for a nonempty set.\<close>

definition prefix_route_request ::
  "(string \<Rightarrow> 64 word) \<Rightarrow> (string set \<Rightarrow> string) \<Rightarrow> endpoint_info list \<Rightarrow> jobj \<Rightarrow> hash_trie \<Rightarrow>
   hash_trie \<times> string result" where
  "prefix_route_request xxh64 choice endpoints request_json t =
     (case bindE (extract_prompt request_json) prompt_text of
        Inl e \<Rightarrow> (t, Inl e)
      | Inr prompt \<Rightarrow>
          (case longest_prefix_match xxh64 prompt (set (map ep_url endpoints)) t of
             Inl e \<Rightarrow> (t, Inl e)
           | Inr (_, matched) \<Rightarrow>
               if matched = {} then (t, Inl IndexError)
               else (case trie_insert xxh64 prompt (choice matched) t of
                       (t', Some e) \<Rightarrow> (t', Inl e)
                     | (t', None) \<Rightarrow> (t', Inr (choice matched)))))"

definition PrefixAwareRouter_init :: hash_trie where
  "PrefixAwareRouter_init = HashTrie_init 128"

section \<open>Disaggregated prefill\<close>

record pd_router =
  pd_prefill_model_labels :: "labels option"
  pd_decode_model_labels :: "labels option"

definition label_member :: "labels option \<Rightarrow> endpoint_info \<Rightarrow> bool result" where
  "label_member ls e =
     (case ls of
        None \<Rightarrow> Inl (TypeError ''argument of type NoneType is not iterable'')
      | Some l \<Rightarrow> label_in (ep_model_label e) l)"

definition pd_route_request :: "endpoint_info list \<Rightarrow> jobj \<Rightarrow> pd_router \<Rightarrow> string result" where
  "pd_route_request endpoints request_json pd =
     (let is_prefill = json_eq_int (jget request_json ''max_tokens'' (JInt 0)) 1 in
      bindE (filterE (label_member (pd_prefill_model_labels pd)) endpoints) (\<lambda>prefillers.
      bindE (filterE (label_member (pd_decode_model_labels pd)) endpoints) (\<lambda>decoders.
        bindE (py_nth (if is_prefill then prefillers else decoders) 0) (\<lambda>e. Inr (ep_url e)))))"

section \<open>Load\<close>

definition rate :: "(string \<times> RequestStats) list \<Rightarrow> string \<Rightarrow> rat" where
  "rate stats u = (case map_of stats u of None \<Rightarrow> 0 | Some st \<Rightarrow> rs_qps st)"

lemma qps_loop_idle:
  "\<exists>e \<in> set infos. map_of stats (ep_url e) = None \<Longrightarrow>
   \<exists>e \<in> set infos. qps_loop stats infos low ret = Some (ep_url e) \<and> map_of stats (ep_url e) = None"
  by (induction infos arbitrary: low ret) (auto split: option.splits)

lemma qps_loop_least:
  assumes "\<And>e. e \<in> set infos \<Longrightarrow> map_of stats (ep_url e) \<noteq> None"
  shows "\<exists>q u. qps_loop stats infos (Some low) (Some r) = Some u \<and> q \<le> low \<and>
           (\<forall>e \<in> set infos. q \<le> rate stats (ep_url e)) \<and>
           (u = r \<and> q = low \<or> u \<in> ep_url ` set infos \<and> rate stats u = q)"
  using assms
proof (induction infos arbitrary: low r)
  case Nil
  show ?case by simp
next
  case (Cons e infos)
  have rest: "\<And>x. x \<in> set infos \<Longrightarrow> map_of stats (ep_url x) \<noteq> None" using Cons.prems by simp
  obtain st where st: "map_of stats (ep_url e) = Some st" using Cons.prems [of e] by auto
  then have r: "rate stats (ep_url e) = rs_qps st" by (simp add: rate_def)
  show ?case
  proof (cases "rs_qps st < low")
    case True
    from Cons.IH [OF rest, of "rs_qps st" "ep_url e"] obtain q u where
      q: "qps_loop stats infos (Some (rs_qps st)) (Some (ep_url e)) = Some u" "q \<le> rs_qps st"
      "\<forall>e \<in> set infos. q \<le> rate stats (ep_url e)"
      "u = ep_url e \<and> q = rs_qps st \<or> u \<in> ep_url ` set infos \<and> rate stats u = q" by blast
    with True st r show ?thesis by (intro exI [of _ q] exI [of _ u]) auto
  next
    case False
    from Cons.IH [OF rest, of low r] obtain q u where
      q: "qps_loop stats infos (Some low) (Some r) = Some u" "q \<le> low"
      "\<forall>e \<in> set infos. q \<le> rate stats (ep_url e)"
      "u = r \<and> q = low \<or> u \<in> ep_url ` set infos \<and> rate stats u = q" by blast
    with False st r show ?thesis by (intro exI [of _ q] exI [of _ u]) auto
  qed
qed

text \<open>Routing by load picks an endpoint without any recorded request if there is one, and
  otherwise an endpoint whose request rate is the lowest; it fails to pick only when there is
  no endpoint.\<close>

theorem qps_routing_picks_least_loaded:
  assumes "endpoints \<noteq> []"
  shows "\<exists>u \<in> ep_url ` set endpoints. qps_routing endpoints stats = Some u \<and>
           (map_of stats u = None \<or>
            (\<forall>e \<in> set endpoints. map_of stats (ep_url e) \<noteq> None \<and> rate stats u \<le> rate stats (ep_url e)))"
proof (cases "\<exists>e \<in> set endpoints. map_of stats (ep_url e) = None")
  case True
  from qps_loop_idle [OF this] show ?thesis unfolding qps_routing_def by blast
next
  case False
  obtain e es where es: "endpoints = e # es" using assms by (cases endpoints) auto
  with False obtain st where st: "map_of stats (ep_url e) = Some st" by auto
  have "\<And>x. x \<in> set es \<Longrightarrow> map_of stats (ep_url x) \<noteq> None" using False es by auto
  from qps_loop_least [OF this, where low = "rs_qps st" and r = "ep_url e"] obtain q u where
    q: "qps_loop stats es (Some (rs_qps st)) (Some (ep_url e)) = Some u" "q \<le> rs_qps st"
    "\<forall>x \<in> set es. q \<le> rate stats (ep_url x)"
    "u = ep_url e \<and> q = rs_qps st \<or> u \<in> ep_url ` set es \<and> rate stats u = q" by blast
  have r: "rate stats (ep_url e) = rs_qps st" by (simp add: rate_def st)
  have "rate stats u = q" "u \<in> ep_url ` set endpoints" using q(4) r es by auto
  moreover have "qps_routing endpoints stats = Some u" using q(1) st es by (simp add: qps_routing_def)
  ultimately show ?thesis using q(2,3) r es False by (intro bexI [of _ u]) auto
qed

section \<open>Fairness of round robin\<close>

lemma sort_key_Nil [simp]: "sort_key f xs = [] \<longleftrightarrow> xs = []"
  by (simp only: length_0_conv [symmetric] length_sort)

lemma mset_rotated: "mset (rotate n xs) = mset xs"
proof -
  have "mset (rotate n xs) = mset (take (n mod length xs) xs @ drop (n mod length xs) xs)"
    by (simp only: rotate_drop_take mset_append union_commute)
  then show ?thesis by simp
qed

definition rr_synced :: "(string list \<Rightarrow> int) \<Rightarrow> endpoint_info list \<Rightarrow> round_robin \<Rightarrow> bool" where
  "rr_synced hash endpoints rr \<longleftrightarrow>
     (\<forall>eid. rr_sorted_endpoints (rr_refresh hash eid endpoints rr) = sort_key ep_url endpoints)"

lemma rr_synced_init: "rr_synced hash endpoints RoundRobinRouter_init"
  by (simp add: rr_synced_def rr_refresh_def RoundRobinRouter_init_def)

lemma rr_refresh_req_id [simp]: "rr_req_id (rr_refresh hash eid endpoints rr) = rr_req_id rr"
  by (simp add: rr_refresh_def Let_def)

lemma rr_refresh_idem:
  "rr_synced hash endpoints rr \<Longrightarrow>
   rr_sorted_endpoints (rr_refresh hash eid' endpoints ((rr_refresh hash eid endpoints rr)\<lparr>rr_req_id := i\<rparr>)) =
   sort_key ep_url endpoints"
  unfolding rr_synced_def rr_refresh_def Let_def by (auto split: if_splits)

text \<open>Consecutive requests over the same endpoints; each call may pass another list object.\<close>

fun rr_calls ::
  "(string list \<Rightarrow> int) \<Rightarrow> endpoint_info list \<Rightarrow> nat list \<Rightarrow> round_robin \<Rightarrow> string result list" where
  "rr_calls hash endpoints [] rr = []"
| "rr_calls hash endpoints (eid # eids) rr =
     (case rr_route_request hash eid endpoints rr of
        (rr', r) \<Rightarrow> r # rr_calls hash endpoints eids rr')"

lemma rr_calls_cycle:
  assumes "rr_synced hash endpoints rr" and "endpoints \<noteq> []"
  shows "rr_calls hash endpoints eids rr =
         map (\<lambda>i. Inr (ep_url (sort_key ep_url endpoints ! ((rr_req_id rr + i) mod length endpoints))))
           [0 ..< length eids]"
  using assms(1)
proof (induction eids arbitrary: rr)
  case Nil
  show ?case by simp
next
  case (Cons eid eids)
  let ?rr = "(rr_refresh hash eid endpoints rr)\<lparr>rr_req_id := rr_req_id rr + 1\<rparr>"
  have "rr_synced hash endpoints ?rr"
    unfolding rr_synced_def by (intro allI rr_refresh_idem Cons.prems)
  from Cons.IH [OF this]
  have "rr_calls hash endpoints eids ?rr =
      map (\<lambda>i. Inr (ep_url (sort_key ep_url endpoints ! ((rr_req_id rr + Suc i) mod length endpoints))))
        [0 ..< length eids]" by simp
  moreover have "rr_route_request hash eid endpoints rr =
      (?rr, Inr (ep_url (sort_key ep_url endpoints ! (rr_req_id rr mod length endpoints))))"
    using Cons.prems assms(2) by (simp add: rr_route_request_def rr_synced_def Let_def)
  ultimately show ?case
    by (simp add: upt_conv_Cons map_Suc_upt [symmetric] del: upt_Suc)
qed

lemma rr_calls_rotate:
  assumes "rr_synced hash endpoints rr" and "endpoints \<noteq> []" and "length eids = length endpoints"
  shows "rr_calls hash endpoints eids rr =
         map Inr (rotate (rr_req_id rr) (map ep_url (sort_key ep_url endpoints)))"
  unfolding rr_calls_cycle [OF assms(1,2)]
  by (rule nth_equalityI) (simp_all add: assms nth_rotate)


text \<open>The router recognises an endpoint list by its address. When a list that was just routed on
  is gone and another list, of whatever engines, has its address, the request is routed on the old list.\<close>

theorem round_robin_reused_address_routes_on_old_list:
  assumes "Some eid \<noteq> rr_last_endpoints_id rr"
    and "Some (hash (map ep_url endpoints)) \<noteq> rr_last_endpoints_hash rr" and "endpoints \<noteq> []"
  shows "\<exists>u \<in> ep_url ` set endpoints.
           snd (rr_route_request hash eid other (fst (rr_route_request hash eid endpoints rr))) = Inr u"
proof -
  let ?xs = "sort_key ep_url endpoints"
  have "Suc (rr_req_id rr) mod length ?xs < length ?xs" using assms(3) by (intro mod_less_divisor) simp
  from nth_mem [OF this] assms show ?thesis
    by (simp add: rr_route_request_def rr_refresh_def Let_def)
qed

end
