(* ===== verification/Routing_Properties.thy ===== *)
theory Routing_Properties
  imports Routing_Logic
begin

text \<open>
  The guarantees of the session, prefix-aware, KV-aware and disaggregated-prefill routers. The
  hash ring enters by the documented behaviour of consistent hashing (\<open>ring_laws\<close>), the
  prefix trie through its interface \<open>prefix_index\<close>.
\<close>

section \<open>Consistent hashing\<close>

text \<open>
  What the documentation of \<^verbatim>\<open>uhashring\<close> promises: the nodes are those added and not removed; a
  key is mapped to a node of a nonempty ring; removing a node only moves the keys it had, and
  adding a node only moves keys to it.
\<close>

definition ring_laws :: "'r ring_ops \<Rightarrow> bool" where
  "ring_laws ops \<longleftrightarrow>
     (\<forall>r n. set (ring_nodes ops (ring_add ops n r)) = insert n (set (ring_nodes ops r))) \<and>
     (\<forall>r n. set (ring_nodes ops (ring_remove ops n r)) = set (ring_nodes ops r) - {n}) \<and>
     (\<forall>r k. set (ring_nodes ops r) \<noteq> {} \<longrightarrow> (\<exists>n \<in> set (ring_nodes ops r). ring_get ops r k = Some n)) \<and>
     (\<forall>r n k. ring_get ops r k = Some n \<or> ring_get ops (ring_remove ops n r) k = ring_get ops r k) \<and>
     (\<forall>r n k. ring_get ops (ring_add ops n r) k = Some n \<or> ring_get ops (ring_add ops n r) k = ring_get ops r k)"

text \<open>The iteration over a set visits exactly its elements.\<close>

definition iter_laws :: "(string set \<Rightarrow> string list) \<Rightarrow> bool" where
  "iter_laws iter \<longleftrightarrow> (\<forall>A. finite A \<longrightarrow> set (iter A) = A)"

lemma fold_remove_nodes:
  "ring_laws ops \<Longrightarrow> set (ring_nodes ops (fold (ring_remove ops) ns r)) = set (ring_nodes ops r) - set ns"
  by (induction ns arbitrary: r) (auto simp: ring_laws_def)

lemma fold_add_nodes:
  "ring_laws ops \<Longrightarrow> set (ring_nodes ops (fold (ring_add ops) ns r)) = set (ring_nodes ops r) \<union> set ns"
  by (induction ns arbitrary: r) (auto simp: ring_laws_def)

lemma update_hash_ring_nodes:
  assumes "ring_laws ops" and "iter_laws iter"
  shows "set (ring_nodes ops (update_hash_ring iter ops endpoints r)) = ep_url ` set endpoints"
  using assms(2)
  by (auto simp: update_hash_ring_def Let_def fold_remove_nodes fold_add_nodes assms(1) iter_laws_def)

lemma fold_remove_get:
  "ring_laws ops \<Longrightarrow> ring_get ops r k = Some u \<Longrightarrow> u \<notin> set ns \<Longrightarrow>
   ring_get ops (fold (ring_remove ops) ns r) k = Some u"
proof (induction ns arbitrary: r)
  case Nil
  then show ?case by simp
next
  case (Cons n ns)
  then have "ring_get ops (ring_remove ops n r) k = Some u"
    unfolding ring_laws_def by (metis list.set_intros(1) option.inject)
  with Cons show ?case by simp
qed

lemma fold_add_get:
  "ring_laws ops \<Longrightarrow>
   ring_get ops (fold (ring_add ops) ns r) k = ring_get ops r k \<or>
   (\<exists>n \<in> set ns. ring_get ops (fold (ring_add ops) ns r) k = Some n)"
proof (induction ns arbitrary: r)
  case Nil
  then show ?case by simp
next
  case (Cons n ns)
  from Cons.prems have "ring_get ops (ring_add ops n r) k = Some n \<or> ring_get ops (ring_add ops n r) k = ring_get ops r k"
    unfolding ring_laws_def by blast
  with Cons.IH [OF Cons.prems, of "ring_add ops n r"] show ?case by auto
qed

lemma update_hash_ring_get:
  assumes "ring_laws ops" and "iter_laws iter" and "ring_get ops r k = Some u"
    and "u \<in> ep_url ` set endpoints"
  shows "ring_get ops (update_hash_ring iter ops endpoints r) k = Some u \<or>
         (\<exists>n \<in> ep_url ` set endpoints - set (ring_nodes ops r).
            ring_get ops (update_hash_ring iter ops endpoints r) k = Some n)"
proof -
  let ?old = "set (ring_nodes ops r)" and ?new = "set (map ep_url endpoints)"
  let ?r1 = "fold (ring_remove ops) (iter (?old - ?new)) r"
  have i: "set (iter (?old - ?new)) = ?old - ?new" "set (iter (?new - ?old)) = ?new - ?old"
    using assms(2) by (simp_all add: iter_laws_def)
  have "ring_get ops ?r1 k = Some u"
    using assms(3,4) i(1) by (intro fold_remove_get [OF assms(1)]) auto
  with fold_add_get [OF assms(1), of "iter (?new - ?old)" ?r1 k] i(2) show ?thesis
    by (auto simp: update_hash_ring_def Let_def)
qed

lemma qps_routing_member:
  assumes "endpoints \<noteq> []"
  shows "\<exists>u \<in> ep_url ` set endpoints. qps_routing endpoints stats = Some u"
proof -
  from assms obtain e es where "endpoints = e # es" by (cases endpoints) auto
  then show ?thesis
    using qps_loop_idle [of endpoints stats None None] qps_loop_least [of es stats "rs_qps st" "ep_url e" for st]
    by (cases "\<exists>x \<in> set endpoints. map_of stats (ep_url x) = None")
       (fastforce simp: qps_routing_def)+
qed

text \<open>The session router always picks one of the given endpoints when there is one: with a
  session id through the ring, without one by load.\<close>

theorem session_router_picks_an_endpoint:
  assumes "ring_laws ops" and "iter_laws iter" and "endpoints \<noteq> []"
  shows "\<exists>u \<in> ep_url ` set endpoints.
           snd (session_route_request iter ops endpoints stats headers body sr) = Some u"
proof (cases "extract_session_id (Some (sr_session_key sr)) headers body")
  case None
  with qps_routing_member [OF assms(3), of stats] show ?thesis
    by (simp add: session_route_request_def session_choice_def Let_def)
next
  case (Some sid)
  let ?r = "update_hash_ring iter ops endpoints (sr_hash_ring sr)"
  have "set (ring_nodes ops ?r) = ep_url ` set endpoints"
    by (rule update_hash_ring_nodes [OF assms(1,2)])
  with assms(1,3) have "\<exists>n \<in> ep_url ` set endpoints. ring_get ops ?r sid = Some n"
    unfolding ring_laws_def by (metis image_is_empty set_empty)
  with Some show ?thesis by (simp add: session_route_request_def session_choice_def Let_def)
qed

text \<open>C10: a session stays where it is when the set of endpoints changes: as long as its endpoint
  is still there, the next request of the session goes to the same endpoint or to one that has
  just been added, never to another old one.\<close>

theorem session_moves_only_to_new_endpoints:
  assumes "ring_laws ops" and "iter_laws iter"
    and "extract_session_id (Some (sr_session_key sr)) headers body = Some sid"
    and "ring_get ops (sr_hash_ring sr) sid = Some u" and "u \<in> ep_url ` set endpoints"
  shows "\<exists>v. snd (session_route_request iter ops endpoints stats headers body sr) = Some v \<and>
             (v = u \<or> v \<in> ep_url ` set endpoints - set (ring_nodes ops (sr_hash_ring sr)))"
  using update_hash_ring_get [OF assms(1,2,4,5)] assms(3)
  by (auto simp: session_route_request_def session_choice_def Let_def)

section \<open>Prefix-aware routing\<close>

text \<open>The prompt of a request, if it can be read.\<close>

definition request_prompt :: "jobj \<Rightarrow> string option" where
  "request_prompt body =
     (case bindE (extract_prompt body) prompt_text of Inl _ \<Rightarrow> None | Inr p \<Rightarrow> Some p)"

text \<open>\<^verbatim>\<open>random.choice\<close> picks a member of a nonempty collection.\<close>

definition choice_laws :: "(string set \<Rightarrow> string) \<Rightarrow> bool" where
  "choice_laws choice \<longleftrightarrow> (\<forall>A. finite A \<longrightarrow> A \<noteq> {} \<longrightarrow> choice A \<in> A)"

lemma prefix_route_cases:
  assumes ok: "trie_ok t" and ch: "choice_laws choice" and p: "request_prompt body = Some p"
    and ne: "endpoints \<noteq> []"
  obtains n sel where "longest_prefix_match xxh64 p (ep_url ` set endpoints) t = Inr (n, sel)"
    "sel \<subseteq> ep_url ` set endpoints" "choice sel \<in> sel"
    "prefix_route_request xxh64 choice endpoints body t = (fst (trie_insert xxh64 p (choice sel) t), Inr (choice sel))"
proof -
  obtain n sel where l: "longest_prefix_match xxh64 p (ep_url ` set endpoints) t = Inr (n, sel)"
    "sel \<subseteq> ep_url ` set endpoints" "sel \<noteq> {}"
    using trie_index.look_available [OF ok, of xxh64 p "ep_url ` set endpoints"] ne by auto
  have "finite sel" by (rule finite_subset [OF l(2)]) simp
  with l(3) ch have c: "choice sel \<in> sel" by (simp add: choice_laws_def)
  have s: "snd (trie_insert xxh64 p (choice sel) t) = None"
    using trie_index.put_ok [OF ok] by blast
  have b: "bindE (extract_prompt body) prompt_text = Inr p"
    using p by (auto simp: request_prompt_def split: sum.splits)
  have "prefix_route_request xxh64 choice endpoints body t =
      (fst (trie_insert xxh64 p (choice sel) t), Inr (choice sel))"
    using l s by (cases "trie_insert xxh64 p (choice sel) t") (simp add: prefix_route_request_def b)
  with l c show ?thesis by (intro that) auto
qed

text \<open>The trie after a sequence of routed requests, whatever their outcome.\<close>

fun prefix_routes ::
  "(string \<Rightarrow> 64 word) \<Rightarrow> (string set \<Rightarrow> string) \<Rightarrow> (endpoint_info list \<times> jobj) list \<Rightarrow> hash_trie \<Rightarrow> hash_trie"
where
  "prefix_routes xxh64 choice [] t = t"
| "prefix_routes xxh64 choice ((endpoints, body) # reqs) t =
     prefix_routes xxh64 choice reqs (fst (prefix_route_request xxh64 choice endpoints body t))"

lemma prefix_route_puts:
  assumes "trie_ok t"
  shows "\<exists>ins. fst (prefix_route_request xxh64 choice endpoints body t) = trie_index.put_all xxh64 ins t"
proof -
  have "trie_index.put_all xxh64 [] t = t" by (simp add: trie_index.put_all_def)
  moreover have "trie_index.put_all xxh64 [(p, e)] t = fst (trie_insert xxh64 p e t)" for p e
    by (simp add: trie_index.put_all_def)
  ultimately show ?thesis
    by (auto simp: prefix_route_request_def split: sum.splits prod.splits option.splits) (metis fst_conv)+
qed

lemma prefix_routes_puts:
  "trie_ok t \<Longrightarrow> \<exists>ins. prefix_routes xxh64 choice reqs t = trie_index.put_all xxh64 ins t"
proof (induction reqs arbitrary: t)
  case Nil
  show ?case by (auto simp: trie_index.put_all_def intro: exI [of _ "[]"])
next
  case (Cons req reqs)
  obtain endpoints body where req: "req = (endpoints, body)" by (cases req)
  obtain i1 where i1: "fst (prefix_route_request xxh64 choice endpoints body t) = trie_index.put_all xxh64 i1 t"
    using prefix_route_puts [OF Cons.prems] by blast
  obtain i2 where "prefix_routes xxh64 choice reqs (trie_index.put_all xxh64 i1 t) =
      trie_index.put_all xxh64 i2 (trie_index.put_all xxh64 i1 t)"
    using Cons.IH trie_index.put_all_ok [OF Cons.prems] by blast
  then show ?case by (auto simp: req i1 trie_index.put_all_def intro!: exI [of _ "i1 @ i2"])
qed

text \<open>C25: prefix-aware routing sends every request with a readable prompt to one of the given
  endpoints, on any reachable trie, and leaves the trie in order for the next request.\<close>

theorem prefix_router_picks_an_endpoint:
  assumes "choice_laws choice" and "request_prompt body = Some p" and "endpoints \<noteq> []"
    and t: "t = prefix_routes xxh64 choice reqs PrefixAwareRouter_init"
  shows "\<exists>u \<in> ep_url ` set endpoints. \<exists>t'.
           prefix_route_request xxh64 choice endpoints body t = (t', Inr u) \<and> trie_ok t'"
proof -
  have init: "trie_ok PrefixAwareRouter_init" by (simp add: PrefixAwareRouter_init_def trie_ok_init)
  then have ok: "trie_ok t"
    unfolding t using prefix_routes_puts [OF init] trie_index.put_all_ok [OF init] by metis
  from prefix_route_cases [OF ok assms(1-3)] obtain n sel where
    "sel \<subseteq> ep_url ` set endpoints" "choice sel \<in> sel"
    "prefix_route_request xxh64 choice endpoints body t = (fst (trie_insert xxh64 p (choice sel) t), Inr (choice sel))"
    by metis
  then show ?thesis using trie_index.put_ok [OF ok] by (meson subsetD)
qed

text \<open>C16: cache affinity: once a prompt has been sent to an endpoint, that endpoint is among the
  candidates for the same prompt for ever after, whatever requests come in between, as long as it
  is available.\<close>

theorem prefix_router_affinity:
  assumes "trie_ok t" and "request_prompt body = Some p"
    and "prefix_route_request xxh64 choice endpoints body t = (t', Inr u)" and "u \<in> avail"
    and "longest_prefix_match xxh64 p avail (prefix_routes xxh64 choice reqs t') = Inr (n, sel)"
  shows "u \<in> sel"
proof -
  have "bindE (extract_prompt body) prompt_text = Inr p"
    using assms(2) by (auto simp: request_prompt_def split: sum.splits)
  with assms(3) have t': "t' = fst (trie_insert xxh64 p u t)"
    by (auto simp: prefix_route_request_def split: sum.splits prod.splits option.splits if_splits)
  have "trie_ok t'" unfolding t' using trie_index.put_ok [OF assms(1)] by blast
  then obtain ins where "prefix_routes xxh64 choice reqs t' = trie_index.put_all xxh64 ins t'"
    using prefix_routes_puts by blast
  with assms(4,5) trie_index.affinity [OF assms(1), of u avail xxh64 p ins n sel] t' show ?thesis by simp
qed

section \<open>KV-cache aware routing\<close>

definition kv_tokens :: "'t kv_env \<Rightarrow> endpoint_info list \<Rightarrow> jobj \<Rightarrow> ('r, 't) kv_router \<Rightarrow> json result" where
  "kv_tokens env endpoints body kv =
     (case snd (kv_local_tokens env endpoints body (kv_tokenizer kv)) of
        Some ts \<Rightarrow> Inr ts
      | None \<Rightarrow> kv_remote_tokens env endpoints body)"

lemma kv_query_instances_range:
  "kv_query_instances env endpoints m = (m', err) \<Longrightarrow> map_of m' i = Some u \<Longrightarrow>
   map_of m i = Some u \<or> u \<in> ep_url ` set endpoints"
proof (induction endpoints arbitrary: m)
  case Nil
  then show ?case by simp
next
  case (Cons e es)
  show ?case
  proof (cases "query_ip (ep_url e)")
    case (Inl err)
    with Cons.prems show ?thesis by simp
  next
    case (Inr ip)
    show ?thesis
    proof (cases "ke_query_inst env ip")
      case (Inl err)
      with Inr Cons.prems show ?thesis by simp
    next
      case (Inr j)
      with \<open>query_ip (ep_url e) = Inr ip\<close> Cons.prems Cons.IH [of "AList.update j (ep_url e) m"]
      show ?thesis by (auto split: if_splits)
    qed
  qed
qed


text \<open>On a cache hit by an instance that was never resolved before, the request goes to one of
  the given endpoints, or the call raises.\<close>

theorem kvaware_new_hit_goes_to_an_endpoint:
  assumes "map_of (kv_instance_id_to_ip kv) inst = None"
    and "kv_hit env endpoints inst kv = (kv', Inr (Some u))"
  shows "u \<in> ep_url ` set endpoints"
proof -
  obtain m err where q: "kv_query_instances env endpoints (kv_instance_id_to_ip kv) = (m, err)"
    by (cases "kv_query_instances env endpoints (kv_instance_id_to_ip kv)")
  from assms q have "map_of m inst = Some u"
    by (auto simp: kv_hit_def dict_key_iff split: option.splits)
  from kv_query_instances_range [OF q this] assms(1) show ?thesis by simp
qed

text \<open>An instance that was resolved once keeps its URL: later hits go there even when the
  endpoint is no longer among those given.\<close>

theorem kvaware_known_instance_ignores_endpoints:
  assumes "map_of (kv_instance_id_to_ip kv) inst = Some u"
  shows "kv_hit env endpoints inst kv = (kv, Inr (Some u))"
  using assms by (auto simp: kv_hit_def dict_key_iff)

section \<open>Disaggregated prefill\<close>

lemma filterE_label: "filterE (label_member (Some (LabelList ls))) es = Inr (filter (\<lambda>e. ep_model_label e \<in> Some ` set ls) es)"
  by (rule filterE_total) (simp add: label_member_def label_in_list)

text \<open>With lists of labels, a request for exactly one token goes to the first endpoint with a
  prefill label and every other request to the first one with a decode label; without such an
  endpoint the router raises \<^verbatim>\<open>IndexError\<close>.\<close>

theorem pd_router_picks_first_with_label:
  assumes "pd_prefill_model_labels pd = Some (LabelList pl)" and "pd_decode_model_labels pd = Some (LabelList dl)"
    and "labels = (if json_eq_int (jget body ''max_tokens'' (JInt 0)) 1 then pl else dl)"
  shows "pd_route_request endpoints body pd =
         (case find (\<lambda>e. ep_model_label e \<in> Some ` set labels) endpoints of
            None \<Rightarrow> Inl IndexError
          | Some e \<Rightarrow> Inr (ep_url e))"
proof -
  have "py_nth (filter P es) 0 = (case find P es of None \<Rightarrow> Inl IndexError | Some e \<Rightarrow> Inr e)"
    for P and es :: "endpoint_info list"
    by (induction es) (auto simp: py_nth_def)
  then show ?thesis
    by (auto simp: pd_route_request_def assms filterE_label Let_def split: option.splits)
qed

section \<open>Witnesses\<close>

definition min_ring :: "string list ring_ops" where
  "min_ring =
     \<lparr>ring_new = [], ring_nodes = (\<lambda>r. r), ring_add = (\<lambda>n r. if n \<in> set r then r else n # r),
      ring_remove = removeAll, ring_get = (\<lambda>r k. if r = [] then None else Some (Min (set r)))\<rparr>"

lemma min_ring_laws: "ring_laws min_ring"
proof -
  have rem: "Min (set r) = n \<or> removeAll n r \<noteq> [] \<and> Min (set (removeAll n r)) = Min (set r)"
    if "r \<noteq> []" for r and n :: string
  proof (cases "Min (set r) = n")
    case False
    have "Min (set r) \<in> set r" using that by (intro Min_in) auto
    with False have m: "Min (set r) \<in> set (removeAll n r)" by simp
    have "Min (set (removeAll n r)) = Min (set r)"
      by (rule Min_eqI) (use m in auto)
    moreover have "removeAll n r \<noteq> []" using m by force
    ultimately show ?thesis by blast
  qed simp
  show ?thesis
    unfolding ring_laws_def min_ring_def
    using rem by (auto simp: min_def)
qed

definition sample_ep :: "string \<Rightarrow> string option \<Rightarrow> endpoint_info" where
  "sample_ep u l = sample_info\<lparr>ep_url := u, ep_model_label := l\<rparr>"

lemma sample_ep_simps [simp]:
  "ep_url (sample_ep u l) = u" "ep_model_label (sample_ep u l) = l" "ep_model_names (sample_ep u l) = [JStr ''m'']"
  by (simp_all add: sample_ep_def sample_info_def)

lemma sorted_iter_laws: "iter_laws sorted_list_of_set"
  by (simp add: iter_laws_def)

lemma Min_choice_laws: "choice_laws Min"
  by (simp add: choice_laws_def)

theorem session_router_picks_an_endpoint_witness:
  "\<exists>u. u \<in> {''a'', ''b''} \<and>
     snd (session_route_request sorted_list_of_set min_ring [sample_ep ''a'' None, sample_ep ''b'' None] []
            [(''x-user-id'', ''7'')] [] \<lparr>sr_session_key = ''x-user-id'', sr_hash_ring = []\<rparr>) = Some u"
  using session_router_picks_an_endpoint [OF min_ring_laws sorted_iter_laws,
      of "[sample_ep ''a'' None, sample_ep ''b'' None]" "[]" "[(''x-user-id'', ''7'')]" "[]"
      "\<lparr>sr_session_key = ''x-user-id'', sr_hash_ring = []\<rparr>"]
  by auto

theorem session_moves_only_to_new_endpoints_witness:
  "\<exists>v. snd (session_route_request sorted_list_of_set min_ring [sample_ep ''b'' None, sample_ep ''c'' None] []
            [(''x-user-id'', ''7'')] [] \<lparr>sr_session_key = ''x-user-id'', sr_hash_ring = [''b'', ''d'']\<rparr>) = Some v \<and>
       (v = ''b'' \<or> v \<in> {''b'', ''c''} - {''b'', ''d''})"
proof -
  let ?sr = "\<lparr>sr_session_key = ''x-user-id'', sr_hash_ring = [''b'', ''d'']\<rparr>"
  have "extract_session_id (Some (sr_session_key ?sr)) [(''x-user-id'', ''7'')] [] = Some (JStr ''7'')"
    by (simp add: extract_session_id_def lower_def lower_char_def)
  moreover have "ring_get min_ring (sr_hash_ring ?sr) (JStr ''7'') = Some ''b''"
    by (simp add: min_ring_def min_def)
  ultimately show ?thesis
    using session_moves_only_to_new_endpoints [OF min_ring_laws sorted_iter_laws,
        of ?sr "[(''x-user-id'', ''7'')]" "[]" "JStr ''7''" "''b''" "[sample_ep ''b'' None, sample_ep ''c'' None]"]
    by (simp add: min_ring_def)
qed

lemma sample_prompt: "request_prompt [(''prompt'', JStr ''hello'')] = Some ''hello''"
  by (simp add: request_prompt_def extract_prompt_def)

theorem prefix_router_picks_an_endpoint_witness:
  "\<exists>u t'. u \<in> {''a'', ''b''} \<and>
     prefix_route_request sample_hash Min [sample_ep ''a'' None, sample_ep ''b'' None]
       [(''prompt'', JStr ''hello'')] PrefixAwareRouter_init = (t', Inr u)"
  using prefix_router_picks_an_endpoint [OF Min_choice_laws sample_prompt,
      of "[sample_ep ''a'' None, sample_ep ''b'' None]" PrefixAwareRouter_init sample_hash "[]"]
  by auto

theorem prefix_router_affinity_witness:
  "\<exists>n sel. longest_prefix_match sample_hash ''hello'' {''a''}
     (fst (trie_insert sample_hash ''hello'' ''a'' PrefixAwareRouter_init)) = Inr (n, sel) \<and> ''a'' \<in> sel"
proof -
  have ok: "trie_ok PrefixAwareRouter_init" by (simp add: PrefixAwareRouter_init_def trie_ok_init)
  let ?t' = "fst (trie_insert sample_hash ''hello'' ''a'' PrefixAwareRouter_init)"
  obtain n sel where r: "prefix_route_request sample_hash Min [sample_ep ''a'' None] [(''prompt'', JStr ''hello'')]
      PrefixAwareRouter_init = (fst (trie_insert sample_hash ''hello'' (Min sel) PrefixAwareRouter_init), Inr (Min sel))"
    "sel \<subseteq> ep_url ` set [sample_ep ''a'' None]" "Min sel \<in> sel"
    by (rule prefix_route_cases [OF ok Min_choice_laws sample_prompt, of "[sample_ep ''a'' None]" sample_hash]) auto
  then have m: "Min sel = ''a''" by auto
  have ok': "trie_ok ?t'" using trie_index.put_ok [OF ok] by blast
  from trie_index.look_available [OF ok', of sample_hash "''hello''" "{''a''}"] obtain n sel' where
    l: "longest_prefix_match sample_hash ''hello'' {''a''} ?t' = Inr (n, sel')" by blast
  have "''a'' \<in> sel'"
    by (rule prefix_router_affinity [OF ok sample_prompt r(1) [unfolded m], of "{''a''}" "[]" n])
       (use l in simp_all)
  with l show ?thesis by blast
qed

definition sample_kv_env :: "nat kv_env" where
  "sample_kv_env =
     \<lparr>ke_load = (\<lambda>_. Some 0), ke_encode = (\<lambda>_ _. Some (JList [JInt 1, JInt 2])),
      ke_post = (\<lambda>_ _. HttpRaise), ke_lookup = (\<lambda>_. Inr (Some [(''i'', 1)])),
      ke_query_inst = (\<lambda>_. Inr ''i'')\<rparr>"

definition sample_kv :: "(string list, nat) kv_router" where
  "sample_kv = KvawareRouter_init min_ring (Some ''s'') (Some 0)"


theorem kvaware_new_hit_goes_to_an_endpoint_witness:
  "\<exists>u. snd (kv_hit sample_kv_env [sample_ep ''http://a:1'' None] ''i'' sample_kv) = Inr (Some u) \<and> u = ''http://a:1''"
proof -
  have q: "query_ip ''http://a:1'' = Inr ''a''" by code_simp
  have k: "map_of (kv_instance_id_to_ip sample_kv) ''i'' = None"
    by (simp add: sample_kv_def KvawareRouter_init_def)
  have "kv_hit sample_kv_env [sample_ep ''http://a:1'' None] ''i'' sample_kv =
      (sample_kv\<lparr>kv_instance_id_to_ip := [(''i'', ''http://a:1'')]\<rparr>, Inr (Some ''http://a:1''))"
    by (simp add: kv_hit_def q sample_kv_def KvawareRouter_init_def sample_kv_env_def)
  with kvaware_new_hit_goes_to_an_endpoint [OF k this] show ?thesis by simp
qed

theorem kvaware_known_instance_ignores_endpoints_witness:
  "kv_hit sample_kv_env [] ''i'' (sample_kv\<lparr>kv_instance_id_to_ip := [(''i'', ''http://old:1'')]\<rparr>) =
   (sample_kv\<lparr>kv_instance_id_to_ip := [(''i'', ''http://old:1'')]\<rparr>, Inr (Some ''http://old:1''))"
  by (rule kvaware_known_instance_ignores_endpoints) simp

theorem pd_router_picks_first_with_label_witness:
  "pd_route_request [sample_ep ''d'' (Some ''decode''), sample_ep ''p'' (Some ''prefill'')] [(''max_tokens'', JInt 1)]
     \<lparr>pd_prefill_model_labels = Some (LabelList [''prefill'']), pd_decode_model_labels = Some (LabelList [''decode''])\<rparr> =
   Inr ''p''"
  using pd_router_picks_first_with_label
    [of "\<lparr>pd_prefill_model_labels = Some (LabelList [''prefill'']), pd_decode_model_labels = Some (LabelList [''decode''])\<rparr>"
      "[''prefill'']" "[''decode'']" "[''prefill'']" "[(''max_tokens'', JInt 1)]"
      "[sample_ep ''d'' (Some ''decode''), sample_ep ''p'' (Some ''prefill'')]"]
  by (simp add: jget_def)

theorem qps_routing_picks_least_loaded_witness:
  "\<exists>u \<in> {''a'', ''b''}. qps_routing [sample_ep ''a'' None, sample_ep ''b'' None] [] = Some u"
  using qps_routing_picks_least_loaded [of "[sample_ep ''a'' None, sample_ep ''b'' None]" "[]"] by auto


theorem round_robin_reused_address_routes_on_old_list_witness:
  "\<exists>u. u = ''a'' \<and>
     snd (rr_route_request (\<lambda>us. int (length us)) 1 [sample_ep ''b'' None, sample_ep ''c'' None]
       (fst (rr_route_request (\<lambda>us. int (length us)) 1 [sample_ep ''a'' None] RoundRobinRouter_init))) = Inr u"
  using round_robin_reused_address_routes_on_old_list
    [of 1 RoundRobinRouter_init "\<lambda>us. int (length us)" "[sample_ep ''a'' None]" "[sample_ep ''b'' None, sample_ep ''c'' None]"]
  by (auto simp: RoundRobinRouter_init_def)

end
