(* ===== verification/Router_Registry.thy ===== *)
theory Router_Registry
  imports Routing_Properties
begin

text \<open>
  The life of the global router in \<^verbatim>\<open>src/src/vllm_router/routers/routing_logic.py\<close>: the singleton
  registry of \<^verbatim>\<open>SingletonABCMeta\<close>, and \<^verbatim>\<open>initialize_routing_logic\<close>, \<^verbatim>\<open>get_routing_logic\<close>,
  \<^verbatim>\<open>cleanup_routing_logic\<close> and \<^verbatim>\<open>reconfigure_routing_logic\<close> on it.
\<close>

datatype RoutingLogic = ROUND_ROBIN | SESSION_BASED | KVAWARE | PREFIXAWARE | DISAGGREGATED_PREFILL

datatype router_class =
  SessionRouter | RoundRobinRouter | KvawareRouter | PrefixAwareRouter | DisaggregatedPrefillRouter

datatype ('r, 't) router =
    RSession "'r session_router"
  | RRoundRobin round_robin
  | RKvaware "('r, 't) kv_router"
  | RPrefixAware hash_trie
  | RDisaggregated pd_router

type_synonym ('r, 't) registry = "(router_class \<times> ('r, 't) router) list"

record routing_kwargs =
  rk_session_key :: "string option"
  rk_kv_aware_threshold :: "int option"
  rk_prefill_model_labels :: "labels option"
  rk_decode_model_labels :: "labels option"

text \<open>A class call always yields an instance here, since no caller passes \<^verbatim>\<open>create\<close>.\<close>

definition class_call ::
  "router_class \<Rightarrow> ('r, 't) router result \<Rightarrow> ('r, 't) registry \<Rightarrow> ('r, 't) registry \<times> ('r, 't) router result" where
  "class_call cls ctor reg =
     (case SingletonABCMeta_call reg cls False ctor of
        (reg', Inl e) \<Rightarrow> (reg', Inl e)
      | (reg', Inr (Some i)) \<Rightarrow> (reg', Inr i)
      | (reg', Inr None) \<Rightarrow> (reg', Inl (AttributeError ''NoneType'')))"

text \<open>\<open>lmcache\<close> is what creating the LMCache controller raises, for instance when the package is
  not installed.\<close>

definition initialize_routing_logic ::
  "'r ring_ops \<Rightarrow> py_error option \<Rightarrow> RoutingLogic option \<Rightarrow> routing_kwargs \<Rightarrow> ('r, 't) registry \<Rightarrow>
   ('r, 't) registry \<times> ('r, 't) router result" where
  "initialize_routing_logic ops lmcache routing_logic kw reg =
     (case routing_logic of
        Some ROUND_ROBIN \<Rightarrow> class_call RoundRobinRouter (Inr (RRoundRobin RoundRobinRouter_init)) reg
      | Some SESSION_BASED \<Rightarrow>
          class_call SessionRouter
            (bindE (SessionRouter_init ops (rk_session_key kw)) (\<lambda>s. Inr (RSession s))) reg
      | Some KVAWARE \<Rightarrow>
          (case class_call KvawareRouter
                  (case lmcache of
                     Some e \<Rightarrow> Inl e
                   | None \<Rightarrow> Inr (RKvaware (KvawareRouter_init ops (rk_session_key kw) (rk_kv_aware_threshold kw)))) reg of
             (reg', Inr (RKvaware kv)) \<Rightarrow>
               let router = RKvaware (start_kv_manager kv)
               in (AList.update KvawareRouter router reg', Inr router)
           | (reg', r) \<Rightarrow> (reg', r))
      | Some PREFIXAWARE \<Rightarrow> class_call PrefixAwareRouter (Inr (RPrefixAware PrefixAwareRouter_init)) reg
      | Some DISAGGREGATED_PREFILL \<Rightarrow>
          class_call DisaggregatedPrefillRouter
            (Inr (RDisaggregated \<lparr>pd_prefill_model_labels = rk_prefill_model_labels kw,
                                  pd_decode_model_labels = rk_decode_model_labels kw\<rparr>)) reg
      | None \<Rightarrow> (reg, Inl (ValueError ''Invalid routing logic'')))"

definition router_classes :: "router_class list" where
  "router_classes =
     [SessionRouter, RoundRobinRouter, KvawareRouter, PrefixAwareRouter, DisaggregatedPrefillRouter]"

text \<open>The routers that the loop closes; only the KV-aware one has a \<^verbatim>\<open>close\<close>. The list returned
  is the closed routers, in order.\<close>

fun cleanup_loop ::
  "router_class list \<Rightarrow> ('r, 't) registry \<Rightarrow> ('r, 't) registry \<times> ('r, 't) router list" where
  "cleanup_loop [] reg = (reg, [])"
| "cleanup_loop (cls # clss) reg =
     (case map_of reg cls of
        None \<Rightarrow> cleanup_loop clss reg
      | Some inst \<Rightarrow>
          (case cleanup_loop clss (AList.delete cls reg) of
             (reg', rs) \<Rightarrow>
               (reg', case inst of RKvaware kv \<Rightarrow> RKvaware (kv_close kv) # rs | _ \<Rightarrow> rs)))"

definition cleanup_routing_logic :: "('r, 't) registry \<Rightarrow> ('r, 't) registry" where
  "cleanup_routing_logic reg = fst (cleanup_loop router_classes reg)"

definition reconfigure_routing_logic ::
  "'r ring_ops \<Rightarrow> py_error option \<Rightarrow> RoutingLogic option \<Rightarrow> routing_kwargs \<Rightarrow> ('r, 't) registry \<Rightarrow>
   ('r, 't) registry \<times> ('r, 't) router result" where
  "reconfigure_routing_logic ops lmcache routing_logic kw reg =
     initialize_routing_logic ops lmcache routing_logic kw (cleanup_routing_logic reg)"

fun get_loop :: "router_class list \<Rightarrow> ('r, 't) registry \<Rightarrow> ('r, 't) router result" where
  "get_loop [] reg = Inl (ValueError ''The global router has not been initialized'')"
| "get_loop (cls # clss) reg =
     (case map_of reg cls of Some inst \<Rightarrow> Inr inst | None \<Rightarrow> get_loop clss reg)"

definition get_routing_logic :: "('r, 't) registry \<Rightarrow> ('r, 't) router result" where
  "get_routing_logic reg = get_loop router_classes reg"

section \<open>Cleanup and reconfiguration\<close>

lemma router_classes_all: "cls \<in> set router_classes"
  by (cases cls) (simp_all add: router_classes_def)

lemma cleanup_loop_get:
  "map_of (fst (cleanup_loop clss reg)) cls = (if cls \<in> set clss then None else map_of reg cls)"
proof (induction clss arbitrary: reg)
  case Nil
  show ?case by simp
next
  case (Cons c clss)
  show ?case
    using Cons.IH [of reg] Cons.IH [of "AList.delete c reg"]
    by (auto split: option.splits prod.splits)
qed

lemma cleanup_empty: "cleanup_routing_logic reg = []"
proof -
  have "map_of (cleanup_routing_logic reg) = Map.empty"
    by (rule ext) (simp add: cleanup_routing_logic_def cleanup_loop_get router_classes_all)
  then show ?thesis by simp
qed

text \<open>The class that a routing logic stands for.\<close>

fun logic_class :: "RoutingLogic \<Rightarrow> router_class" where
  "logic_class ROUND_ROBIN = RoundRobinRouter"
| "logic_class SESSION_BASED = SessionRouter"
| "logic_class KVAWARE = KvawareRouter"
| "logic_class PREFIXAWARE = PrefixAwareRouter"
| "logic_class DISAGGREGATED_PREFILL = DisaggregatedPrefillRouter"

lemma class_call_empty:
  "class_call cls ctor [] = (case ctor of Inl e \<Rightarrow> ([], Inl e) | Inr i \<Rightarrow> ([(cls, i)], Inr i))"
  by (cases ctor) (simp_all add: class_call_def SingletonABCMeta_call_def)

lemma initialize_empty:
  "\<exists>r. initialize_routing_logic ops lmcache lg kw [] =
         ((case r of Inl e \<Rightarrow> [] | Inr i \<Rightarrow> [(logic_class (the lg), i)]), r)"
  by (cases lg; cases lmcache)
     (auto simp: initialize_routing_logic_def class_call_empty Let_def split: RoutingLogic.splits sum.splits)

lemma get_loop_single: "cls \<in> set clss \<Longrightarrow> get_loop clss [(cls, i)] = Inr i"
  by (induction clss) auto

text \<open>A successful reconfiguration leaves exactly the new router: the registry holds one
  instance, of the requested class, and \<^verbatim>\<open>get_routing_logic\<close> returns it, whatever routers existed
  before.\<close>

theorem reconfigure_then_get:
  fixes reg' :: "('r, 't) registry"
  assumes "reconfigure_routing_logic ops lmcache (Some lg) kw reg = (reg', Inr router)"
  shows "reg' = [(logic_class lg, router)] \<and> get_routing_logic reg' = Inr router"
proof -
  obtain r :: "('r, 't) router result" where "initialize_routing_logic ops lmcache (Some lg) kw [] =
      ((case r of Inl e \<Rightarrow> [] | Inr i \<Rightarrow> [(logic_class lg, i)]), r)"
    using initialize_empty [of ops lmcache "Some lg" kw] unfolding option.sel by blast
  then have "(reg', Inr router) = ((case r of Inl e \<Rightarrow> [] | Inr i \<Rightarrow> [(logic_class lg, i)]), r)"
    using assms by (auto simp: reconfigure_routing_logic_def cleanup_empty)
  then have "reg' = [(logic_class lg, router)]" by auto
  then show ?thesis by (simp add: get_routing_logic_def get_loop_single router_classes_all)
qed

text \<open>A failed reconfiguration leaves the process without any router: the old one is already
  gone, so every later \<^verbatim>\<open>get_routing_logic\<close> raises.\<close>

theorem failed_reconfigure_leaves_no_router:
  fixes reg' :: "('r, 't) registry"
  assumes "reconfigure_routing_logic ops lmcache lg kw reg = (reg', Inl e)"
  shows "reg' = [] \<and> get_routing_logic reg' = Inl (ValueError ''The global router has not been initialized'')"
proof -
  obtain r :: "('r, 't) router result" where "initialize_routing_logic ops lmcache lg kw [] =
      ((case r of Inl e \<Rightarrow> [] | Inr i \<Rightarrow> [(logic_class (the lg), i)]), r)"
    using initialize_empty by blast
  then have "(reg', Inl e) = ((case r of Inl e \<Rightarrow> [] | Inr i \<Rightarrow> [(logic_class (the lg), i)]), r)"
    using assms by (auto simp: reconfigure_routing_logic_def cleanup_empty)
  then have "reg' = []" by auto
  then show ?thesis by (simp add: get_routing_logic_def router_classes_def)
qed

section \<open>Witnesses\<close>

definition sample_kwargs :: routing_kwargs where
  "sample_kwargs =
     \<lparr>rk_session_key = None, rk_kv_aware_threshold = None, rk_prefill_model_labels = None,
      rk_decode_model_labels = None\<rparr>"

theorem reconfigure_then_get_witness:
  "get_routing_logic (fst (reconfigure_routing_logic min_ring None (Some ROUND_ROBIN) sample_kwargs
     [(PrefixAwareRouter, RPrefixAware PrefixAwareRouter_init :: (string list, nat) router)])) =
   Inr (RRoundRobin RoundRobinRouter_init)"
proof -
  have "reconfigure_routing_logic min_ring None (Some ROUND_ROBIN) sample_kwargs
      [(PrefixAwareRouter, RPrefixAware PrefixAwareRouter_init :: (string list, nat) router)] =
      ([(RoundRobinRouter, RRoundRobin RoundRobinRouter_init)], Inr (RRoundRobin RoundRobinRouter_init))"
    by (simp add: reconfigure_routing_logic_def cleanup_empty initialize_routing_logic_def class_call_empty)
  from reconfigure_then_get [OF this] this show ?thesis by simp
qed

theorem failed_reconfigure_leaves_no_router_witness:
  "get_routing_logic (fst (reconfigure_routing_logic min_ring None (Some SESSION_BASED) sample_kwargs
     [(RoundRobinRouter, RRoundRobin RoundRobinRouter_init :: (string list, nat) router)])) =
   Inl (ValueError ''The global router has not been initialized'')"
proof -
  have "reconfigure_routing_logic min_ring None (Some SESSION_BASED) sample_kwargs
      [(RoundRobinRouter, RRoundRobin RoundRobinRouter_init :: (string list, nat) router)] =
      ([], Inl (ValueError ''SessionRouter must be initialized with a session_key''))"
    by (simp add: reconfigure_routing_logic_def cleanup_empty initialize_routing_logic_def class_call_empty
        SessionRouter_init_def sample_kwargs_def)
  from failed_reconfigure_leaves_no_router [OF this] this show ?thesis by simp
qed

end
