(* ===== verification/Request_Service.thy ===== *)
theory Request_Service
  imports Router_Registry
begin

text \<open>
  \<^verbatim>\<open>src/src/vllm_router/services/request_service/request.py\<close> and \<^verbatim>\<open>rewriter.py\<close>: what happens
  to a client's request between its arrival and the answer. Each handler is one definition
  from the state of the application to the new state and the reply or the exception that
  leaves it. The backend, the JSON codec, \<^verbatim>\<open>uuid4\<close> and the clock are arguments. An error text
  is a value of \<open>err_text\<close>: the template and what is filled in.
\<close>

section \<open>Requests and replies\<close>

record http_request =
  rq_method :: string
  rq_headers :: "(string \<times> string) list"
  rq_query :: "(string \<times> string) list"
  rq_body :: string

datatype err_text =
    MissingModel
  | ModelNotFound json
  | ModelUnavailable json
  | MissingEngineId
  | EngineNotFound string
  | PrefillerError string
  | DecoderError string
  | MissingFormField string
  | NoTranscriptionBackend string
  | BackendText string
  | InternalServerError

datatype 'cb reply =
    ErrorReply int err_text
  | Overwritten 'cb
  | Streamed int "(string \<times> string) list" "string list"
  | JsonReply int json

type_synonym 'cb answer = "'cb reply \<times> (string \<times> string) list"

text \<open>\<^verbatim>\<open>headers.get("X-Request-Id") or str(uuid.uuid4())\<close>; header names are in lower case.\<close>

definition request_id_of :: "string \<Rightarrow> http_request \<Rightarrow> string" where
  "request_id_of uuid4 req =
     (case map_of (rq_headers req) ''x-request-id'' of
        None \<Rightarrow> uuid4
      | Some r \<Rightarrow> if r = [] then uuid4 else r)"

text \<open>\<^verbatim>\<open>query_params.get("id")\<close>: the last value given.\<close>

definition target_id :: "http_request \<Rightarrow> string option" where
  "target_id req = (if rq_query req = [] then None else map_of (rev (rq_query req)) ''id'')"

section \<open>The request rewriter\<close>

text \<open>The module's global: whether a rewriter exists. The only class is the one that changes nothing.\<close>

definition noop_rewrite_request :: "string \<Rightarrow> json \<Rightarrow> string \<Rightarrow> string" where
  "noop_rewrite_request request_body model endpoint = request_body"

definition initialize_request_rewriter :: "string \<Rightarrow> bool \<Rightarrow> bool" where
  "initialize_request_rewriter rewriter_type g = True"

definition is_request_rewriter_initialized :: "bool \<Rightarrow> bool" where
  "is_request_rewriter_initialized g = g"

definition get_request_rewriter :: "bool \<Rightarrow> bool" where
  "get_request_rewriter g = True"

section \<open>Forwarding\<close>

definition HOP_BY_HOP_HEADERS :: "string list" where
  "HOP_BY_HOP_HEADERS =
     [''host'', ''connection'', ''keep-alive'', ''proxy-connection'', ''transfer-encoding'',
      ''content-length'', ''upgrade'', ''te'', ''trailer'']"

definition sanitize_headers :: "(string \<times> string) list \<Rightarrow> (string \<times> string) list" where
  "sanitize_headers hs = filter (\<lambda>(k, _). lower k \<notin> set HOP_BY_HOP_HEADERS) hs"

text \<open>A request as it is sent to a backend, and what the backend does: fail to answer, or answer
  with a status, headers and chunks, after which the stream ends or breaks.\<close>

record backend_request =
  br_method :: string
  br_url :: string
  br_headers :: "(string \<times> string) list"
  br_body :: string

datatype backend_answer =
    Unreachable string
  | Answers int "(string \<times> string) list" "string list" "string option"

text \<open>The instants at which a request starts, gets its first chunk and ends.\<close>

record clock =
  ck_start :: rat
  ck_first :: rat
  ck_end :: rat

datatype forwarding =
    Raised py_error
  | Forwarded backend_request int "(string \<times> string) list" "string list" "py_error option" "string option"

text \<open>
  \<^verbatim>\<open>process_request\<close> run to its end: the statistics, and either the exception raised before the
  status was yielded or what was sent and yielded, the exception that ended the stream, if any, and
  what was handed to the semantic cache, if anything. \<open>loads\<close> is \<^verbatim>\<open>json.loads\<close> (\<open>None\<close> when it
  raises): its exception is not the class that the code catches.
\<close>

definition process_request ::
  "(string \<Rightarrow> json option) \<Rightarrow> (backend_request \<Rightarrow> backend_answer) \<Rightarrow> bool \<Rightarrow> clock \<Rightarrow> http_request \<Rightarrow>
   string \<Rightarrow> string \<Rightarrow> string \<Rightarrow> string \<Rightarrow> request_monitor \<Rightarrow> request_monitor \<times> forwarding" where
  "process_request loads backend semantic_cache_available ck req body backend_url request_id endpoint m =
     (let m1 = on_new_request backend_url request_id (ck_start ck) m in
      case loads body of
        None \<Rightarrow> (m1, Raised JSONDecodeError)
      | Some (JObj request_json) \<Rightarrow>
          let is_streaming = truthy (jget request_json ''stream'' (JBool False));
              sent = \<lparr>br_method = rq_method req, br_url = backend_url @ endpoint,
                      br_headers = sanitize_headers (rq_headers req), br_body = body\<rparr>
          in (case backend sent of
                Unreachable e \<Rightarrow> (m1, Raised (OtherException e))
              | Answers status headers chunks broken \<Rightarrow>
                  let m2 = (if chunks = [] then m1
                            else on_request_response backend_url request_id (ck_first ck) m1)
                  in (case broken of
                        Some e \<Rightarrow> (m2, Forwarded sent status headers chunks (Some (OtherException e)) None)
                      | None \<Rightarrow>
                          (case on_request_complete (ck_end ck) backend_url request_id (ck_end ck) m2 of
                             (m3, Some e) \<Rightarrow> (m3, Forwarded sent status headers chunks (Some e) None)
                           | (m3, None) \<Rightarrow>
                               if \<not> semantic_cache_available
                               then (m3, Forwarded sent status headers chunks None None)
                               else if \<not> is_streaming
                               then (m3, Forwarded sent status headers chunks None (Some (concat chunks)))
                               else if chunks = []
                               then (m3, Forwarded sent status headers chunks (Some (UnboundLocalError ''chunk'')) None)
                               else (m3, Forwarded sent status headers chunks None (Some (last chunks))))))
      | Some _ \<Rightarrow> (m1, Raised (AttributeError ''get'')))"

section \<open>The application\<close>

record ('r, 't) app_state =
  ap_router :: "('r, 't) router"
  ap_monitor :: request_monitor
  ap_engine_stats :: "(string \<times> EngineStats) list"
  ap_discovery :: discovery
  ap_clients :: client_state
  ap_rewriter :: bool
  ap_semantic_cache :: bool
  ap_incoming :: "(json \<times> int) list"

text \<open>\<^verbatim>\<open>await response.json()\<close> of \<^verbatim>\<open>aiohttp\<close>: the value, or an error for a content type other than
  JSON (a \<^verbatim>\<open>ClientResponseError\<close>) or for invalid text.\<close>

datatype json_outcome = JsonOk json | JsonContentType | JsonInvalid

text \<open>What the routers need from outside, and what the handlers need.\<close>

record ('r, 't) router_env =
  re_iter :: "string set \<Rightarrow> string list"
  re_ring :: "'r ring_ops"
  re_kv :: "'t kv_env"
  re_xxh64 :: "string \<Rightarrow> 64 word"
  re_choice :: "string set \<Rightarrow> string"
  re_hash :: "string list \<Rightarrow> int"
  re_list_id :: nat

record ('r, 't, 'cb) service_env =
  sv_router_env :: "('r, 't) router_env"
  sv_loads :: "string \<Rightarrow> json option"
  sv_dumps :: "json \<Rightarrow> string"
  sv_uuid4 :: string
  sv_md5 :: "string \<Rightarrow> string"
  sv_now :: int
  sv_clock :: clock
  sv_query_time :: rat
  sv_pre_request :: "(http_request \<Rightarrow> string \<Rightarrow> json \<Rightarrow> 'cb option) option"
  sv_backend :: "backend_request \<Rightarrow> backend_answer"
  sv_response_json :: "(string \<times> string) list \<Rightarrow> string \<Rightarrow> json_outcome"
  sv_k8s :: k8s_env
  sv_openai_key :: string
  sv_float :: "string \<Rightarrow> string option"

text \<open>The call of the router with the request body, as made for the routers that take it.\<close>

definition call_router ::
  "('r, 't) router_env \<Rightarrow> endpoint_info list \<Rightarrow> (string \<times> RequestStats) list \<Rightarrow> (string \<times> string) list \<Rightarrow>
   jobj \<Rightarrow> ('r, 't) router \<Rightarrow> ('r, 't) router \<times> string option result" where
  "call_router env endpoints stats headers request_json router =
     (case router of
        RRoundRobin rr \<Rightarrow>
          (case rr_route_request (re_hash env) (re_list_id env) endpoints rr of
             (rr', r) \<Rightarrow> (RRoundRobin rr', map_sum id Some r))
      | RSession sr \<Rightarrow>
          (case session_route_request (re_iter env) (re_ring env) endpoints stats headers request_json sr of
             (sr', u) \<Rightarrow> (RSession sr', Inr u))
      | RKvaware kv \<Rightarrow>
          (case kv_route_request (re_iter env) (re_ring env) (re_kv env) endpoints stats headers
                  request_json kv of
             (kv', r) \<Rightarrow> (RKvaware kv', r))
      | RPrefixAware t \<Rightarrow>
          (case prefix_route_request (re_xxh64 env) (re_choice env) endpoints request_json t of
             (t', r) \<Rightarrow> (RPrefixAware t', map_sum id Some r))
      | RDisaggregated pd \<Rightarrow>
          (router, Inl (TypeError ''missing 1 required positional argument: request_json'')))"

section \<open>The general route\<close>

definition discovery_aliases :: "discovery \<Rightarrow> (string \<times> string) list" where
  "discovery_aliases d =
     (case d of
        Static sd \<Rightarrow> (case ssd_aliases sd of None \<Rightarrow> [] | Some al \<Rightarrow> al)
      | _ \<Rightarrow> [])"

text \<open>Looking a model up in a nonempty dictionary of aliases needs a hashable model.\<close>

definition resolve_alias :: "(string \<times> string) list \<Rightarrow> json \<Rightarrow> json option result" where
  "resolve_alias aliases model =
     (if aliases = [] then Inr None
      else if \<not> hashable model then Inl (TypeError ''unhashable type'')
      else (case model of
              JStr m \<Rightarrow> Inr (map_option JStr (map_of aliases m))
            | _ \<Rightarrow> Inr None))"

definition ever_existed :: "discovery \<Rightarrow> json \<Rightarrow> bool result" where
  "ever_existed d model =
     (case d of
        PodIP sd \<Rightarrow>
          if hashable model then Inr (pod_has_ever_seen_model sd model)
          else Inl (TypeError ''unhashable type'')
      | _ \<Rightarrow> Inr False)"

text \<open>The filter on the discovered endpoints; an empty target id counts as none.\<close>

definition eligible :: "json \<Rightarrow> string option \<Rightarrow> endpoint_info \<Rightarrow> bool" where
  "eligible model target e \<longleftrightarrow>
     model \<in> set (ep_model_names e) \<and>
     (case target of None \<Rightarrow> True | Some i \<Rightarrow> i = [] \<or> ep_Id e = i) \<and>
     \<not> truthy (ep_sleep e)"

definition has_target :: "string option \<Rightarrow> bool" where
  "has_target target = (case target of None \<Rightarrow> False | Some i \<Rightarrow> i \<noteq> [])"

text \<open>From the eligible endpoints to a URL: the engine asked for, or the router's choice on fresh
  statistics.\<close>

definition choose_backend ::
  "('r, 't) router_env \<Rightarrow> rat \<Rightarrow> string option \<Rightarrow> endpoint_info list \<Rightarrow> (string \<times> string) list \<Rightarrow> jobj \<Rightarrow>
   (string \<times> RequestStats) list \<Rightarrow> ('r, 't) app_state \<Rightarrow> ('r, 't) app_state \<times> string option result" where
  "choose_backend env now target endpoints headers request_json stats app =
     (if has_target target
      then (app, bindE (py_nth endpoints 0) (\<lambda>e. Inr (Some (ep_url e))))
      else (case call_router env endpoints stats headers request_json (ap_router app) of
              (router, r) \<Rightarrow> (app\<lparr>ap_router := router\<rparr>, r)))"

text \<open>The session clients live in the application state; the pod discovery re-creates them.\<close>

definition app_clients :: "('r, 't) app_state \<Rightarrow> client_state" where
  "app_clients app = (case ap_discovery app of PodIP sd \<Rightarrow> psd_app sd | _ \<Rightarrow> ap_clients app)"

section \<open>Disaggregated prefill\<close>

definition pd_headers :: "string \<Rightarrow> string \<Rightarrow> (string \<times> string) list" where
  "pd_headers key request_id = [(''Authorization'', ''Bearer '' @ key), (''X-Request-Id'', request_id)]"

definition pd_post ::
  "('r, 't, 'cb) service_env \<Rightarrow> string \<Rightarrow> string \<Rightarrow> jobj \<Rightarrow> string \<Rightarrow> backend_answer" where
  "pd_post env base endpoint req_data request_id =
     sv_backend env \<lparr>br_method = ''POST'', br_url = base @ endpoint,
                     br_headers = pd_headers (sv_openai_key env) request_id,
                     br_body = sv_dumps env (JObj req_data)\<rparr>"

text \<open>The body sent to the prefiller: one token only.\<close>

definition prefiller_body :: "jobj \<Rightarrow> jobj" where
  "prefiller_body req_data =
     (let d = AList.update ''max_tokens'' (JInt 1) req_data
      in if ''max_completion_tokens'' \<in> fst ` set d
         then AList.update ''max_completion_tokens'' (JInt 1) d else d)"

text \<open>\<^verbatim>\<open>send_request_to_prefiller\<close>: \<open>None\<close> for the client is the missing session. A 4xx or 5xx
  status and a wrong content type are a \<^verbatim>\<open>ClientResponseError\<close> with the status.\<close>

definition send_request_to_prefiller ::
  "('r, 't, 'cb) service_env \<Rightarrow> string option \<Rightarrow> string \<Rightarrow> jobj \<Rightarrow> string \<Rightarrow> json result" where
  "send_request_to_prefiller env client endpoint req_data request_id =
     (case client of
        None \<Rightarrow> Inl (AttributeError ''post'')
      | Some base \<Rightarrow>
          (case pd_post env base endpoint (prefiller_body req_data) request_id of
             Unreachable e \<Rightarrow> Inl (OtherException e)
           | Answers status headers chunks broken \<Rightarrow>
               if 400 \<le> status then Inl (ClientResponseError status)
               else (case broken of
                       Some e \<Rightarrow> Inl (OtherException e)
                     | None \<Rightarrow>
                         (case sv_response_json env headers (concat chunks) of
                            JsonOk j \<Rightarrow> Inr j
                          | JsonContentType \<Rightarrow> Inl (ClientResponseError status)
                          | JsonInvalid \<Rightarrow> Inl JSONDecodeError))))"

text \<open>\<^verbatim>\<open>send_request_to_decode\<close>: the chunks, and what ended the stream if it did not end by itself.\<close>

definition send_request_to_decode ::
  "('r, 't, 'cb) service_env \<Rightarrow> string \<Rightarrow> string \<Rightarrow> jobj \<Rightarrow> string \<Rightarrow> string list \<times> py_error option" where
  "send_request_to_decode env base endpoint req_data request_id =
     (case pd_post env base endpoint req_data request_id of
        Unreachable e \<Rightarrow> ([], Some (OtherException e))
      | Answers status headers chunks broken \<Rightarrow>
          if 400 \<le> status then ([], Some (ClientResponseError status))
          else (chunks, map_option OtherException broken))"

definition decoder_error_chunk :: "('r, 't, 'cb) service_env \<Rightarrow> py_error \<Rightarrow> string" where
  "decoder_error_chunk env err =
     sv_dumps env (JObj [(''error'', JObj [
       (''message'', JStr (''Decoder error: '' @ (case err of OtherException e \<Rightarrow> e | _ \<Rightarrow> []))),
       (''type'', JStr ''decoder_error''),
       (''code'', JInt (case err of ClientResponseError st \<Rightarrow> st | _ \<Rightarrow> 500))])])"

definition generate_stream ::
  "('r, 't, 'cb) service_env \<Rightarrow> string \<Rightarrow> string \<Rightarrow> jobj \<Rightarrow> string \<Rightarrow> string list" where
  "generate_stream env base endpoint req_data request_id =
     (case send_request_to_decode env base endpoint req_data request_id of
        (chunks, None) \<Rightarrow> chunks
      | (chunks, Some e) \<Rightarrow> chunks @ [decoder_error_chunk env e])"

text \<open>The body for the decoder after the prefiller returned: \<^verbatim>\<open>max_tokens\<close> is set to 1 and then back to
  its old value, or to 0 if it had none.\<close>

definition decoder_body :: "jobj \<Rightarrow> jobj" where
  "decoder_body request_json =
     (let orig_max_tokens = jget request_json ''max_tokens'' (JInt 0);
          d1 = AList.update ''max_tokens'' (JInt 1) request_json
      in AList.update ''max_tokens'' orig_max_tokens d1)"

definition route_disaggregated_prefill_request ::
  "('r, 't, 'cb) service_env \<Rightarrow> string \<Rightarrow> http_request \<Rightarrow> ('r, 't) app_state \<Rightarrow> 'cb answer result" where
  "route_disaggregated_prefill_request env endpoint req app =
     (let request_id = request_id_of (sv_uuid4 env) req; id_header = [(''X-Request-Id'', request_id)] in
      case sv_loads env (rq_body req) of
        None \<Rightarrow> Inl JSONDecodeError
      | Some (JObj request_json) \<Rightarrow>
          let d1 = AList.update ''max_tokens'' (JInt 1) request_json in
          (case send_request_to_prefiller env (map_option snd (cs_prefill (app_clients app))) endpoint d1 request_id of
             Inl (ClientResponseError st) \<Rightarrow> Inr (ErrorReply st (PrefillerError []), id_header)
           | Inl _ \<Rightarrow> Inr (ErrorReply 500 (PrefillerError []), id_header)
           | Inr _ \<Rightarrow>
               (case cs_decode (app_clients app) of
                  None \<Rightarrow> Inl (AttributeError ''_base_url'')
                | Some (_, base) \<Rightarrow>
                    Inr (Streamed 200 id_header (generate_stream env base endpoint (decoder_body request_json) request_id),
                         id_header)))
      | Some _ \<Rightarrow> Inl (AttributeError ''get''))"

section \<open>The general handler\<close>

text \<open>What the rest of the handler works on once the model is known: the headers (the content
  length changes with the body), the body as text and as JSON, and the model.\<close>

record routed_request =
  rt_headers :: "(string \<times> string) list"
  rt_body :: string
  rt_json :: jobj
  rt_model :: json

definition apply_alias ::
  "('r, 't, 'cb) service_env \<Rightarrow> discovery \<Rightarrow> routed_request \<Rightarrow> routed_request result" where
  "apply_alias env d rt =
     bindE (resolve_alias (discovery_aliases d) (rt_model rt)) (\<lambda>target.
       case target of
         None \<Rightarrow> Inr rt
       | Some model \<Rightarrow>
           (case replace_model_in_request_body (sv_dumps env) (rt_json rt) model of
              (request_json, request_body) \<Rightarrow>
                Inr \<lparr>rt_headers = update_content_length (rt_headers rt) request_body,
                     rt_body = request_body, rt_json = request_json, rt_model = model\<rparr>))"

text \<open>The statistics are read only when no engine is asked for by its id.\<close>

definition read_stats ::
  "rat \<Rightarrow> string option \<Rightarrow> ('r, 't) app_state \<Rightarrow> ('r, 't) app_state \<times> (string \<times> RequestStats) list result" where
  "read_stats now target app =
     (if has_target target then (app, Inr [])
      else (case get_request_stats now (ap_monitor app) of
              (m, r) \<Rightarrow> (app\<lparr>ap_monitor := m\<rparr>, r)))"

text \<open>
  From the model to the answer. A router that returns no URL makes the concatenation with the
  path raise; the counters it would touch under the key \<^verbatim>\<open>None\<close> are left out.
\<close>

definition forward_request ::
  "('r, 't, 'cb) service_env \<Rightarrow> string \<Rightarrow> http_request \<Rightarrow> routed_request \<Rightarrow> endpoint_info list \<Rightarrow>
   (string \<times> RequestStats) list \<Rightarrow> ('r, 't) app_state \<Rightarrow> ('r, 't) app_state \<times> forwarding" where
  "forward_request env endpoint req rt endpoints stats app =
     (case choose_backend (sv_router_env env) (sv_query_time env) (target_id req) endpoints
             (rt_headers rt) (rt_json rt) stats app of
        (app1, Inl e) \<Rightarrow> (app1, Raised e)
      | (app1, Inr None) \<Rightarrow> (app1, Raised (TypeError ''unsupported operand type(s) for +''))
      | (app1, Inr (Some server_url)) \<Rightarrow>
          (case process_request (sv_loads env) (sv_backend env) (ap_semantic_cache app1) (sv_clock env)
                  (req\<lparr>rq_headers := rt_headers rt\<rparr>) (rt_body rt) server_url
                  (request_id_of (sv_uuid4 env) req) endpoint (ap_monitor app1) of
             (m, f) \<Rightarrow> (app1\<lparr>ap_monitor := m\<rparr>, f)))"

definition route_model_request ::
  "('r, 't, 'cb) service_env \<Rightarrow> string \<Rightarrow> http_request \<Rightarrow> routed_request \<Rightarrow> ('r, 't) app_state \<Rightarrow>
   ('r, 't) app_state \<times> ('cb answer + forwarding)" where
  "route_model_request env endpoint req rt0 app =
     (case discovery_get_endpoint_info (sv_md5 env) (sv_now env) (ap_discovery app) of
        Inl e \<Rightarrow> (app, Inr (Raised e))
      | Inr all \<Rightarrow>
          (case apply_alias env (ap_discovery app) rt0 of
             Inl e \<Rightarrow> (app, Inr (Raised e))
           | Inr rt \<Rightarrow>
               (case ever_existed (ap_discovery app) (rt_model rt) of
                  Inl e \<Rightarrow> (app, Inr (Raised e))
                | Inr existed \<Rightarrow>
                    let endpoints = filter (eligible (rt_model rt) (target_id req)) all in
                    (case read_stats (sv_query_time env) (target_id req) app of
                       (app1, Inl e) \<Rightarrow> (app1, Inr (Raised e))
                     | (app1, Inr stats) \<Rightarrow>
                         let app2 = app1\<lparr>ap_incoming := dict_incr (rt_model rt) (ap_incoming app1)\<rparr>;
                             id_header = [(''X-Request-Id'', request_id_of (sv_uuid4 env) req)]
                         in if endpoints = [] then
                              (app2, Inl (if existed then ErrorReply 503 (ModelUnavailable (rt_model rt))
                                          else ErrorReply 404 (ModelNotFound (rt_model rt)), id_header))
                            else (case forward_request env endpoint req rt endpoints stats app2 of
                                    (app3, f) \<Rightarrow> (app3, Inr f))))))"

text \<open>The whole handler. The streamed answer carries the backend's status and headers and the
  request id.\<close>

definition stream_answer :: "string \<Rightarrow> forwarding \<Rightarrow> 'cb answer result" where
  "stream_answer request_id f =
     (case f of
        Raised e \<Rightarrow> Inl e
      | Forwarded sent status headers chunks err cached \<Rightarrow>
          let hs = AList.update ''X-Request-Id'' request_id headers
          in Inr (Streamed status hs chunks, hs))"

definition route_general_request ::
  "('r, 't, 'cb) service_env \<Rightarrow> string \<Rightarrow> http_request \<Rightarrow> ('r, 't) app_state \<Rightarrow>
   ('r, 't) app_state \<times> 'cb answer result" where
  "route_general_request env endpoint req app =
     (case ap_router app of
        RDisaggregated _ \<Rightarrow> (app, route_disaggregated_prefill_request env endpoint req app)
      | _ \<Rightarrow>
          let request_id = request_id_of (sv_uuid4 env) req; id_header = [(''X-Request-Id'', request_id)] in
          (case (if rq_body req = [] then Some (JObj []) else sv_loads env (rq_body req)) of
             None \<Rightarrow> (app, Inl JSONDecodeError)
           | Some parsed \<Rightarrow>
               (case (case sv_pre_request env of None \<Rightarrow> None | Some pre \<Rightarrow> pre req (rq_body req) parsed) of
                  Some cb \<Rightarrow> (app, Inr (Overwritten cb, id_header))
                | None \<Rightarrow>
                    (case parsed of
                       JObj request_json \<Rightarrow>
                         let model = jget request_json ''model'' JNull in
                         if model = JNull then (app, Inr (ErrorReply 400 MissingModel, id_header))
                         else
                           let body = (if is_request_rewriter_initialized (ap_rewriter app)
                                       then noop_rewrite_request (rq_body req) model endpoint
                                       else rq_body req);
                               rt = \<lparr>rt_headers = rq_headers req, rt_body = body,
                                     rt_json = request_json, rt_model = model\<rparr>
                           in (case route_model_request env endpoint req rt app of
                                 (app', Inl answer) \<Rightarrow> (app', Inr answer)
                               | (app', Inr f) \<Rightarrow> (app', stream_answer request_id f))
                     | _ \<Rightarrow> (app, Inl (AttributeError ''get''))))))"

section \<open>Sleep and wake-up\<close>

definition set_sleep_label ::
  "k8s_env \<Rightarrow> string \<Rightarrow> discovery \<Rightarrow> string option \<Rightarrow> (string \<times> string option) list option result" where
  "set_sleep_label kenv endpoint d pod_name =
     (if endpoint = ''/sleep'' then
        (case d of
           Static _ \<Rightarrow> Inl (AttributeError ''add_sleep_label'')
         | PodIP _ \<Rightarrow>
             (case pod_name of
                None \<Rightarrow> Inl (ValueError ''Missing the required parameter name'')
              | Some n \<Rightarrow> pod_add_sleep_label kenv n)
         | ServiceName _ \<Rightarrow>
             (case pod_name of
                None \<Rightarrow> Inl (ValueError ''Missing the required parameter name'')
              | Some n \<Rightarrow> svc_add_sleep_label n))
      else if endpoint = ''/wake_up'' then
        (case d of
           Static _ \<Rightarrow> Inl (AttributeError ''remove_sleep_label'')
         | PodIP _ \<Rightarrow>
             (case pod_name of
                None \<Rightarrow> Inl (ValueError ''Missing the required parameter name'')
              | Some n \<Rightarrow> pod_remove_sleep_label kenv n)
         | ServiceName _ \<Rightarrow>
             (case pod_name of
                None \<Rightarrow> Inl (ValueError ''Missing the required parameter name'')
              | Some n \<Rightarrow> svc_remove_sleep_label kenv n))
      else Inr None)"

definition sleep_headers :: "('r, 't, 'cb) service_env \<Rightarrow> string \<Rightarrow> (string \<times> string) list" where
  "sleep_headers env request_id =
     (''X-Request-Id'', request_id) #
     (case auth_header (sv_k8s env) of None \<Rightarrow> [] | Some a \<Rightarrow> [(''Authorization'', a)])"

text \<open>
  \<^verbatim>\<open>route_sleep_wakeup_request\<close>: the requests sent to engines, the labels patched, and the
  answer or the exception. \<open>None\<close> as body stands for a POST without one.
\<close>

definition route_sleep_wakeup_request ::
  "('r, 't, 'cb) service_env \<Rightarrow> string \<Rightarrow> http_request \<Rightarrow> ('r, 't) app_state \<Rightarrow>
   backend_request list \<times> (string \<times> string option) list option \<times> 'cb answer result" where
  "route_sleep_wakeup_request env endpoint req app =
     (let request_id = request_id_of (sv_uuid4 env) req; id_header = [(''X-Request-Id'', request_id)] in
      case target_id req of
        None \<Rightarrow> ([], None, Inr (ErrorReply 400 MissingEngineId, id_header))
      | Some i \<Rightarrow>
          (case discovery_get_endpoint_info (sv_md5 env) (sv_now env) (ap_discovery app) of
             Inl e \<Rightarrow> ([], None, Inl e)
           | Inr all \<Rightarrow>
               (case filter (\<lambda>e. ep_Id e = i) all of
                  [] \<Rightarrow> ([], None, Inr (ErrorReply 400 (EngineNotFound i), []))
                | e # _ \<Rightarrow>
                    let url = ep_url e @ endpoint; hs = sleep_headers env request_id in
                    if endpoint = ''/is_sleeping'' then
                      let sent = \<lparr>br_method = ''GET'', br_url = url, br_headers = hs, br_body = []\<rparr> in
                      (case sv_backend env sent of
                         Unreachable err \<Rightarrow> ([sent], None, Inl (OtherException err))
                       | Answers st rhs chunks broken \<Rightarrow>
                           if 400 \<le> st then ([sent], None, Inl (ClientResponseError st))
                           else (case sv_response_json env rhs (concat chunks) of
                                   JsonOk j \<Rightarrow> ([sent], None, Inr (JsonReply 200 j, []))
                                 | JsonContentType \<Rightarrow> ([sent], None, Inl (ClientResponseError st))
                                 | JsonInvalid \<Rightarrow> ([sent], None, Inl JSONDecodeError)))
                    else
                      (case (if rq_body req = [] then Some [] else map_option (sv_dumps env) (sv_loads env (rq_body req))) of
                         None \<Rightarrow> ([], None, Inl JSONDecodeError)
                       | Some body \<Rightarrow>
                           let sent = \<lparr>br_method = ''POST'', br_url = url, br_headers = hs, br_body = body\<rparr> in
                           (case sv_backend env sent of
                              Unreachable err \<Rightarrow> ([sent], None, Inl (OtherException err))
                            | Answers st rhs chunks broken \<Rightarrow>
                                if 400 \<le> st then ([sent], None, Inl (ClientResponseError st))
                                else (case set_sleep_label (sv_k8s env) endpoint (ap_discovery app) (ep_pod_name e) of
                                        Inl err \<Rightarrow> ([sent], None, Inl err)
                                      | Inr patch \<Rightarrow>
                                          ([sent], patch,
                                           Inr (JsonReply st (JObj [(''status'', JStr ''success'')]), id_header))))))))"

section \<open>Transcriptions\<close>

record upload =
  up_filename :: string
  up_content :: string
  up_content_type :: string

record form =
  fm_file :: "upload option"
  fm_fields :: "(string \<times> string) list"

text \<open>One entry per matching model name, so an endpoint may occur more than once.\<close>

definition transcription_endpoints :: "string \<Rightarrow> endpoint_info list \<Rightarrow> endpoint_info list" where
  "transcription_endpoints model eps =
     concat (map (\<lambda>ep. map (\<lambda>_. ep) (filter (\<lambda>n. JStr model = n \<and> \<not> truthy (ep_sleep ep)) (ep_model_names ep))) eps)"

text \<open>The fields sent on: empty values of the optional ones are left out, the language defaults to
  \<^verbatim>\<open>en\<close> and the format to \<^verbatim>\<open>json\<close>. The temperature is printed back from a float.\<close>

definition transcription_fields :: "string \<Rightarrow> (string \<times> string) list \<Rightarrow> string option \<Rightarrow> (string \<times> string) list" where
  "transcription_fields model form_data temperature =
     [(''model'', model), (''language'', dget form_data ''language'' ''en'')] @
     (case map_of form_data ''prompt'' of
        None \<Rightarrow> [] | Some p \<Rightarrow> if p = [] then [] else [(''prompt'', p)]) @
     (let f = dget form_data ''response_format'' ''json'' in if f = [] then [] else [(''response_format'', f)]) @
     (case temperature of None \<Rightarrow> [] | Some t \<Rightarrow> [(''temperature'', t)])"

text \<open>The router is called without the request body, which only round robin accepts.\<close>

definition call_router_without_body ::
  "('r, 't) router_env \<Rightarrow> endpoint_info list \<Rightarrow> ('r, 't) router \<Rightarrow> ('r, 't) router \<times> string result" where
  "call_router_without_body env endpoints router =
     (case router of
        RRoundRobin rr \<Rightarrow>
          (case rr_route_request (re_hash env) (re_list_id env) endpoints rr of
             (rr', r) \<Rightarrow> (RRoundRobin rr', r))
      | _ \<Rightarrow> (router, Inl (TypeError ''missing 1 required positional argument: request_json'')))"

definition passed_response_headers :: "(string \<times> string) list \<Rightarrow> (string \<times> string) list" where
  "passed_response_headers hs =
     filter (\<lambda>(k, _). lower k \<notin> {''content-encoding'', ''transfer-encoding'', ''connection''}) hs"

text \<open>
  Sending the form and mapping the outcome. \<open>client_error\<close> tells the exceptions that are a
  \<^verbatim>\<open>ClientError\<close>. A content type other than JSON raises a \<^verbatim>\<open>ClientResponseError\<close>, whose handler
  reads an attribute that the class does not have.
\<close>

definition proxy_transcription ::
  "('r, 't, 'cb) service_env \<Rightarrow> (string \<Rightarrow> upload \<Rightarrow> (string \<times> string) list \<Rightarrow> backend_answer) \<Rightarrow>
   (string \<Rightarrow> bool) \<Rightarrow> string \<Rightarrow> string \<Rightarrow> upload \<Rightarrow> (string \<times> string) list \<Rightarrow> string \<Rightarrow> 'cb answer result" where
  "proxy_transcription env post_form client_error chosen_url endpoint file form_data request_id =
     (case post_form (chosen_url @ endpoint) file form_data of
        Unreachable e \<Rightarrow>
          Inr (if client_error e then ErrorReply 503 (BackendText e) else ErrorReply 500 InternalServerError, [])
      | Answers st hs chunks broken \<Rightarrow>
          (case broken of
             Some e \<Rightarrow>
               Inr (if client_error e then ErrorReply 503 (BackendText e) else ErrorReply 500 InternalServerError, [])
           | None \<Rightarrow>
               (case sv_response_json env hs (concat chunks) of
                  JsonOk j \<Rightarrow> Inr (JsonReply st j, AList.update ''X-Request-Id'' request_id (passed_response_headers hs))
                | JsonContentType \<Rightarrow> Inl (AttributeError ''response'')
                | JsonInvalid \<Rightarrow> Inr (ErrorReply 500 InternalServerError, []))))"

definition route_general_transcriptions ::
  "('r, 't, 'cb) service_env \<Rightarrow> (string \<Rightarrow> upload \<Rightarrow> (string \<times> string) list \<Rightarrow> backend_answer) \<Rightarrow>
   (string \<Rightarrow> bool) \<Rightarrow> string \<Rightarrow> http_request \<Rightarrow> form \<Rightarrow> ('r, 't) app_state \<Rightarrow>
   ('r, 't) app_state \<times> 'cb answer result" where
  "route_general_transcriptions env post_form client_error endpoint req fm app =
     (let request_id = dget (rq_headers req) ''x-request-id'' (sv_uuid4 env) in
      case fm_file fm of
        None \<Rightarrow> (app, Inr (ErrorReply 400 (MissingFormField ''file''), []))
      | Some file \<Rightarrow>
          (case map_of (fm_fields fm) ''model'' of
             None \<Rightarrow> (app, Inr (ErrorReply 400 (MissingFormField ''model''), []))
           | Some model \<Rightarrow>
               (case (case map_of (fm_fields fm) ''temperature'' of
                        None \<Rightarrow> Inr None
                      | Some t \<Rightarrow> (case sv_float env t of
                                     None \<Rightarrow> Inl (ValueError ''could not convert string to float'')
                                   | Some f \<Rightarrow> Inr (Some f))) of
                  Inl e \<Rightarrow> (app, Inl e)
                | Inr temperature \<Rightarrow>
                    (case discovery_get_endpoint_info (sv_md5 env) (sv_now env) (ap_discovery app) of
                       Inl e \<Rightarrow> (app, Inl e)
                     | Inr all \<Rightarrow>
                         let eps = transcription_endpoints model all in
                         if eps = [] then (app, Inr (ErrorReply 404 (NoTranscriptionBackend model), []))
                         else
                           (case get_request_stats (sv_query_time env) (ap_monitor app) of
                              (m, Inl e) \<Rightarrow> (app\<lparr>ap_monitor := m\<rparr>, Inl e)
                            | (m, Inr _) \<Rightarrow>
                                (case call_router_without_body (sv_router_env env) eps (ap_router app) of
                                   (router, Inl e) \<Rightarrow> (app\<lparr>ap_monitor := m, ap_router := router\<rparr>, Inl e)
                                 | (router, Inr chosen_url) \<Rightarrow>
                                     (app\<lparr>ap_monitor := m, ap_router := router\<rparr>,
                                      proxy_transcription env post_form client_error chosen_url endpoint file
                                        (transcription_fields model (fm_fields fm) temperature) request_id)))))))"

end
