(* ===== verification/Request_Properties.thy ===== *)
theory Request_Properties
  imports Request_Service
begin

text \<open>
  The guarantees of the request handlers: which backend a request reaches, what is sent and
  returned, what the statistics record, and which error the client sees.
\<close>

section \<open>The router's choice\<close>

text \<open>
  When the routers can be relied on for these endpoints: the documented behaviour of the hash
  ring and of \<^verbatim>\<open>random.choice\<close>, a trie in order, a round-robin cache that is up to date, and a
  map of cache instances without stale URLs.
\<close>

definition router_ready :: "('r, 't) router_env \<Rightarrow> endpoint_info list \<Rightarrow> ('r, 't) router \<Rightarrow> bool" where
  "router_ready env eps router =
     (case router of
        RRoundRobin rr \<Rightarrow>
          rr_sorted_endpoints (rr_refresh (re_hash env) (re_list_id env) eps rr) = sort_key ep_url eps
      | RSession sr \<Rightarrow> ring_laws (re_ring env) \<and> iter_laws (re_iter env)
      | RKvaware kv \<Rightarrow>
          ring_laws (re_ring env) \<and> iter_laws (re_iter env) \<and>
          (\<forall>i u. map_of (kv_instance_id_to_ip kv) i = Some u \<longrightarrow> u \<in> ep_url ` set eps)
      | RPrefixAware t \<Rightarrow> trie_ok t \<and> choice_laws (re_choice env)
      | RDisaggregated pd \<Rightarrow> False)"

lemma rr_route_member:
  assumes "rr_sorted_endpoints (rr_refresh h i eps rr) = sort_key ep_url eps"
    and "rr_route_request h i eps rr = (rr', Inr u)"
  shows "u \<in> ep_url ` set eps"
proof -
  let ?xs = "sort_key ep_url eps"
  from assms have ne: "eps \<noteq> []" and u: "u = ep_url (?xs ! (rr_req_id rr mod length ?xs))"
    by (auto simp: rr_route_request_def Let_def split: if_splits)
  have "rr_req_id rr mod length ?xs < length ?xs" using ne by (intro mod_less_divisor) simp
  from nth_mem [OF this] u show ?thesis by simp
qed

lemma session_choice_member:
  assumes "ring_laws ops" and "iter_laws iter" and "eps \<noteq> []"
    and "snd (session_choice iter ops key eps stats hs body r) = Some u"
  shows "u \<in> ep_url ` set eps"
proof (cases "extract_session_id key hs body")
  case None
  with assms(4) qps_routing_member [OF assms(3), of stats] show ?thesis
    by (auto simp: session_choice_def Let_def)
next
  case (Some sid)
  let ?r = "update_hash_ring iter ops eps r"
  have n: "set (ring_nodes ops ?r) = ep_url ` set eps" by (rule update_hash_ring_nodes [OF assms(1,2)])
  with assms(1,3) have "\<exists>n \<in> ep_url ` set eps. ring_get ops ?r sid = Some n"
    unfolding ring_laws_def by (metis image_is_empty set_empty)
  with Some assms(4) show ?thesis by (auto simp: session_choice_def Let_def)
qed

lemma kv_hit_member:
  assumes "\<forall>i u. map_of (kv_instance_id_to_ip kv) i = Some u \<longrightarrow> u \<in> ep_url ` set eps"
    and "snd (kv_hit env eps inst kv) = Inr (Some u)"
  shows "u \<in> ep_url ` set eps"
proof -
  obtain m err where q: "(if inst \<in> fst ` set (kv_instance_id_to_ip kv) then (kv_instance_id_to_ip kv, None)
      else kv_query_instances env eps (kv_instance_id_to_ip kv)) = (m, err)"
    by (cases "if inst \<in> fst ` set (kv_instance_id_to_ip kv) then (kv_instance_id_to_ip kv, None)
      else kv_query_instances env eps (kv_instance_id_to_ip kv)")
  with assms(2) have u: "map_of m inst = Some u" by (auto simp: kv_hit_def split: option.splits)
  show ?thesis
  proof (cases "inst \<in> fst ` set (kv_instance_id_to_ip kv)")
    case True
    with q u assms(1) show ?thesis by auto
  next
    case False
    with q have "kv_query_instances env eps (kv_instance_id_to_ip kv) = (m, err)" by simp
    from kv_query_instances_range [OF this u] assms(1) show ?thesis by blast
  qed
qed

lemma kv_route_member:
  assumes laws: "ring_laws ops" "iter_laws iter" and ne: "eps \<noteq> []"
    and m: "\<forall>i u. map_of (kv_instance_id_to_ip kv) i = Some u \<longrightarrow> u \<in> ep_url ` set eps"
    and r: "snd (kv_route_request iter ops env eps stats hs body kv) = Inr (Some u)"
  shows "u \<in> ep_url ` set eps"
proof -
  obtain tok local where l: "kv_local_tokens env eps body (kv_tokenizer kv) = (tok, local)"
    by (cases "kv_local_tokens env eps body (kv_tokenizer kv)")
  let ?kv = "kv\<lparr>kv_tokenizer := tok\<rparr>"
  have "snd (kv_fallback iter ops eps stats hs body ?kv) = Inr (Some u) \<or>
      (\<exists>inst. snd (kv_hit env eps inst ?kv) = Inr (Some u))"
    using r by (auto simp: kv_route_request_def l Let_def split: sum.splits option.splits list.splits bool.splits)
  then show ?thesis
  proof
    assume "snd (kv_fallback iter ops eps stats hs body ?kv) = Inr (Some u)"
    then have "snd (session_choice iter ops (kv_session_key kv) eps stats hs body (kv_hash_ring kv)) = Some u"
      by (simp add: kv_fallback_def split: prod.splits)
    then show ?thesis by (rule session_choice_member [OF laws ne])
  next
    assume "\<exists>inst. snd (kv_hit env eps inst ?kv) = Inr (Some u)"
    then obtain inst where "snd (kv_hit env eps inst ?kv) = Inr (Some u)" by blast
    then show ?thesis by (rule kv_hit_member [rotated]) (use m in simp)
  qed
qed

lemma prefix_route_member:
  assumes "trie_ok t" and "choice_laws choice" and "eps \<noteq> []"
    and "prefix_route_request xxh64 choice eps body t = (t', Inr u)"
  shows "u \<in> ep_url ` set eps"
proof -
  from assms(4) obtain p where p: "request_prompt body = Some p"
    by (auto simp: prefix_route_request_def request_prompt_def split: sum.splits)
  from prefix_route_cases [OF assms(1,2) p assms(3), of xxh64] assms(4) show ?thesis
    by (metis Pair_inject subsetD sum.inject(2))
qed

lemma call_router_member:
  assumes ready: "router_ready env eps router" and ne: "eps \<noteq> []"
    and c: "call_router env eps stats hs body router = (router', Inr (Some u))"
  shows "u \<in> ep_url ` set eps"
proof (cases router)
  case (RRoundRobin rr)
  with c obtain rr' where "rr_route_request (re_hash env) (re_list_id env) eps rr = (rr', Inr u)"
    by (auto simp: call_router_def split: prod.splits sum.splits)
       (metis map_sum.simps(1) map_sum.simps(2) obj_sumE option.inject sum.inject(2) sum.simps(4))
  with ready RRoundRobin show ?thesis by (auto simp: router_ready_def intro: rr_route_member)
next
  case (RSession sr)
  with c have "snd (session_choice (re_iter env) (re_ring env) (Some (sr_session_key sr)) eps stats hs body
      (sr_hash_ring sr)) = Some u"
    by (auto simp: call_router_def session_route_request_def split: prod.splits)
  with ready RSession ne show ?thesis by (auto simp: router_ready_def intro: session_choice_member)
next
  case (RKvaware kv)
  with c have "snd (kv_route_request (re_iter env) (re_ring env) (re_kv env) eps stats hs body kv) = Inr (Some u)"
    by (auto simp: call_router_def split: prod.splits)
  with ready RKvaware ne show ?thesis unfolding router_ready_def by (auto dest: kv_route_member)
next
  case (RPrefixAware t)
  with c obtain t' where "prefix_route_request (re_xxh64 env) (re_choice env) eps body t = (t', Inr u)"
    by (auto simp: call_router_def split: prod.splits)
       (metis map_sum.simps(1) map_sum.simps(2) obj_sumE option.inject sum.inject(2) sum.simps(4))
  with ready RPrefixAware ne show ?thesis by (auto simp: router_ready_def intro: prefix_route_member)
next
  case (RDisaggregated pd)
  with ready show ?thesis by (simp add: router_ready_def)
qed

section \<open>Forwarding\<close>

lemma process_request_sent:
  assumes "process_request loads backend sc ck req body url rid endpoint m = (m', Forwarded sent st hs cs err cached)"
  shows "sent = \<lparr>br_method = rq_method req, br_url = url @ endpoint,
                 br_headers = sanitize_headers (rq_headers req), br_body = body\<rparr>"
    and "\<exists>broken. backend sent = Answers st hs cs broken"
  using assms
  by (auto simp: process_request_def Let_def split: option.splits json.splits backend_answer.splits
      prod.splits if_splits)


text \<open>The calls on the statistics that a request makes.\<close>

definition request_events :: "string \<Rightarrow> string \<Rightarrow> clock \<Rightarrow> string list \<Rightarrow> bool \<Rightarrow> stats_event list" where
  "request_events url rid ck cs completed =
     [NewRequest url rid (ck_start ck)] @
     (if cs = [] then [] else [Response url rid (ck_first ck)]) @
     (if completed then [Complete url rid (ck_end ck) (ck_end ck)] else [])"

text \<open>A request that the backend answers is announced once, marked at its first chunk if there is
  one, and completed if the stream ends by itself: the statistics after the request are
  those calls and no others.\<close>

theorem process_request_reports:
  assumes "loads body = Some (JObj d)"
    and "backend \<lparr>br_method = rq_method req, br_url = url @ endpoint,
                  br_headers = sanitize_headers (rq_headers req), br_body = body\<rparr> = Answers st hs cs broken"
  shows "fst (process_request loads backend sc ck req body url rid endpoint m) =
         fst (stats_run (request_events url rid ck cs (broken = None)) m)"
  using assms
  by (auto simp: process_request_def request_events_def Let_def split: option.splits prod.splits)

text \<open>A request whose backend cannot be reached stays counted as waiting for its first token:
  the counter of the engine grows by one and the request is never reported again.\<close>

theorem unreachable_backend_leaks_prefill_count:
  assumes "loads body = Some (JObj d)"
    and "backend \<lparr>br_method = rq_method req, br_url = url @ endpoint,
                  br_headers = sanitize_headers (rq_headers req), br_body = body\<rparr> = Unreachable e"
  shows "snd (process_request loads backend sc ck req body url rid endpoint m) = Raised (OtherException e) \<and>
         dget (rm_in_prefill_requests (fst (process_request loads backend sc ck req body url rid endpoint m))) url 0 =
         dget (rm_in_prefill_requests m) url 0 + 1"
  using assms by (simp add: process_request_def Let_def on_new_request_def)

section \<open>The general route\<close>

lemma has_target_iff: "has_target t \<longleftrightarrow> (\<exists>i. t = Some i \<and> i \<noteq> [])"
  by (auto simp: has_target_def split: option.splits)

lemma read_stats_frame:
  "read_stats now target app = (app', r) \<Longrightarrow>
   ap_router app' = ap_router app \<and> ap_discovery app' = ap_discovery app"
  by (auto simp: read_stats_def split: if_splits prod.splits)

lemma forward_request_url:
  assumes "forward_request env endpoint req rt eps stats app = (app', Forwarded sent st hs cs err cached)"
    and "has_target (target_id req) \<or> router_ready (sv_router_env env) eps (ap_router app)" and "eps \<noteq> []"
  shows "\<exists>e \<in> set eps. br_url sent = ep_url e @ endpoint"
proof -
  from assms(1) obtain app1 u m where
    c: "choose_backend (sv_router_env env) (sv_query_time env) (target_id req) eps (rt_headers rt) (rt_json rt) stats app =
        (app1, Inr (Some u))"
    and p: "process_request (sv_loads env) (sv_backend env) (ap_semantic_cache app1) (sv_clock env)
        (req\<lparr>rq_headers := rt_headers rt\<rparr>) (rt_body rt) u (request_id_of (sv_uuid4 env) req) endpoint
        (ap_monitor app1) = (m, Forwarded sent st hs cs err cached)"
    by (auto simp: forward_request_def split: prod.splits sum.splits option.splits)
  have "u \<in> ep_url ` set eps"
  proof (cases "has_target (target_id req)")
    case True
    with c assms(3) show ?thesis
      by (auto simp: choose_backend_def py_nth_def)
  next
    case False
    with c obtain r where "call_router (sv_router_env env) eps stats (rt_headers rt) (rt_json rt) (ap_router app) =
        (r, Inr (Some u))" by (auto simp: choose_backend_def split: prod.splits)
    with False assms(2,3) show ?thesis by (auto intro: call_router_member)
  qed
  with process_request_sent(1) [OF p] show ?thesis by auto
qed


text \<open>C38: when no awake engine serves the model, the client gets 503 if the pod discovery has ever
  seen the model and 404 otherwise; the other discoveries never answer 503. No backend is
  contacted.\<close>

theorem unserved_model_is_404_or_503:
  assumes all: "discovery_get_endpoint_info (sv_md5 env) (sv_now env) (ap_discovery app) = Inr all"
    and rt: "apply_alias env (ap_discovery app) rt0 = Inr rt" and h: "hashable (rt_model rt)"
    and none: "filter (eligible (rt_model rt) (target_id req)) all = []"
    and stats: "read_stats (sv_query_time env) (target_id req) app = (app1, Inr stats)"
  shows "snd (route_model_request env endpoint req rt0 app) =
         Inl (if \<exists>sd. ap_discovery app = PodIP sd \<and> pod_has_ever_seen_model sd (rt_model rt)
              then ErrorReply 503 (ModelUnavailable (rt_model rt))
              else ErrorReply 404 (ModelNotFound (rt_model rt)),
              [(''X-Request-Id'', request_id_of (sv_uuid4 env) req)])"
  using assms
  by (cases "ap_discovery app") (auto simp: route_model_request_def ever_existed_def Let_def)

section \<open>The request id\<close>

lemma route_model_id:
  assumes "route_model_request env endpoint req rt app = (app', Inl (rep, hs))"
  shows "map_of hs ''X-Request-Id'' = Some (request_id_of (sv_uuid4 env) req)"
  using assms
  by (auto simp: route_model_request_def Let_def split: sum.splits prod.splits if_splits)

lemma disaggregated_id:
  assumes "route_disaggregated_prefill_request env endpoint req app = Inr (rep, hs)"
  shows "map_of hs ''X-Request-Id'' = Some (request_id_of (sv_uuid4 env) req)"
  using assms
  by (auto simp: route_disaggregated_prefill_request_def Let_def
      split: option.splits json.splits sum.splits py_error.splits)

text \<open>Every answer of the general route, whether an error, a callback's response or a stream,
  carries the request id: the client's own if it sent one, a fresh one otherwise.\<close>

theorem every_answer_has_request_id:
  assumes "route_general_request env endpoint req app = (app', Inr (rep, hs))"
  shows "map_of hs ''X-Request-Id'' = Some (request_id_of (sv_uuid4 env) req)"
proof (cases "\<exists>pd. ap_router app = RDisaggregated pd")
  case True
  with assms disaggregated_id show ?thesis by (auto simp: route_general_request_def)
next
  case False
  with assms show ?thesis
    by (auto simp: route_general_request_def stream_answer_def Let_def
        split: router.splits option.splits json.splits if_splits prod.splits sum.splits forwarding.splits
        dest!: route_model_id)
qed

section \<open>Disaggregated prefill\<close>

lemma update_same: "map_of d k = Some v \<Longrightarrow> AList.update k v d = d"
  by (induction d) (auto split: if_splits)

lemma update_twice: "AList.update k v (AList.update k w d) = AList.update k v d"
  by (induction d) auto

text \<open>The prefiller is asked for one token and otherwise gets the client's request; the decoder
  gets the client's request back unchanged when it names a limit. Without a limit it gets a limit of 0.\<close>

theorem disaggregated_bodies:
  "map_of (prefiller_body (AList.update ''max_tokens'' (JInt 1) d)) ''max_tokens'' = Some (JInt 1) \<and>
   (\<forall>k. k \<noteq> ''max_tokens'' \<and> k \<noteq> ''max_completion_tokens'' \<longrightarrow>
      map_of (prefiller_body (AList.update ''max_tokens'' (JInt 1) d)) k = map_of d k) \<and>
   decoder_body d =
     (if map_of d ''max_tokens'' = None then AList.update ''max_tokens'' (JInt 0) d else d)"
  by (auto simp: prefiller_body_def decoder_body_def Let_def jget_def update_twice update_same split: option.splits)

section \<open>Sleep\<close>

text \<open>Putting an engine to sleep by its id under static or service-name discovery raises after the
  engine has already been told to sleep: the engine sleeps, the client sees an error, and no
  label is set.\<close>

theorem sleep_raises_after_the_engine_sleeps:
  assumes i: "target_id req = Some i"
    and all: "discovery_get_endpoint_info (sv_md5 env) (sv_now env) (ap_discovery app) = Inr all"
    and e: "filter (\<lambda>e. ep_Id e = i) all = e # es" and b: "rq_body req = []"
    and d: "(\<exists>sd. ap_discovery app = Static sd) \<or> (\<exists>sd. ap_discovery app = ServiceName sd \<and> svc_inv sd)"
    and ok: "sv_backend env \<lparr>br_method = ''POST'', br_url = ep_url e @ ''/sleep'',
               br_headers = sleep_headers env (request_id_of (sv_uuid4 env) req), br_body = []\<rparr> =
             Answers st hs cs broken" "st < 400"
  shows "\<exists>err. route_sleep_wakeup_request env ''/sleep'' req app =
           ([\<lparr>br_method = ''POST'', br_url = ep_url e @ ''/sleep'',
              br_headers = sleep_headers env (request_id_of (sv_uuid4 env) req), br_body = []\<rparr>], None, Inl err)"
proof -
  have "e \<in> set (filter (\<lambda>e. ep_Id e = i) all)" using e by simp
  then have in_all: "e \<in> set all" by simp
  have "\<exists>err. set_sleep_label (sv_k8s env) ''/sleep'' (ap_discovery app) (ep_pod_name e) = Inl err"
    using d
  proof
    assume "\<exists>sd. ap_discovery app = Static sd"
    then show ?thesis by (auto simp: set_sleep_label_def)
  next
    assume "\<exists>sd. ap_discovery app = ServiceName sd \<and> svc_inv sd"
    then obtain sd where sd: "ap_discovery app = ServiceName sd" "svc_inv sd" by blast
    with all in_all have "ep_pod_name e = None"
      by (force simp: discovery_get_endpoint_info_def svc_get_endpoint_info_def svc_inv_def svc_entry_ok_def)
    with sd show ?thesis by (simp add: set_sleep_label_def)
  qed
  then show ?thesis using assms by (auto simp: route_sleep_wakeup_request_def Let_def)
qed

text \<open>A transcription request under any router but round robin raises, once a backend serves
  the model: the router is called without the request body.\<close>

theorem transcriptions_need_round_robin:
  assumes "fm_file fm = Some file" and "map_of (fm_fields fm) ''model'' = Some model"
    and "map_of (fm_fields fm) ''temperature'' = None"
    and "discovery_get_endpoint_info (sv_md5 env) (sv_now env) (ap_discovery app) = Inr all"
    and "transcription_endpoints model all \<noteq> []"
    and "snd (get_request_stats (sv_query_time env) (ap_monitor app)) = Inr stats"
    and "\<nexists>rr. ap_router app = RRoundRobin rr"
  shows "snd (route_general_transcriptions env post_form client_error endpoint req fm app) =
         Inl (TypeError ''missing 1 required positional argument: request_json'')"
proof -
  obtain m where "get_request_stats (sv_query_time env) (ap_monitor app) = (m, Inr stats)"
    using assms(6) by (cases "get_request_stats (sv_query_time env) (ap_monitor app)") auto
  with assms show ?thesis
    by (cases "ap_router app") (simp_all add: route_general_transcriptions_def call_router_without_body_def Let_def)
qed

section \<open>Witnesses\<close>

definition sample_router_env :: "(string list, nat) router_env" where
  "sample_router_env =
     \<lparr>re_iter = sorted_list_of_set, re_ring = min_ring, re_kv = sample_kv_env, re_xxh64 = sample_hash,
      re_choice = Min, re_hash = (\<lambda>us. int (length us)), re_list_id = 1\<rparr>"

definition sample_clock :: clock where
  "sample_clock = \<lparr>ck_start = 1, ck_first = 2, ck_end = 3\<rparr>"

definition sample_loads :: "string \<Rightarrow> json option" where
  "sample_loads s = Some (JObj [(''model'', JStr ''m'')])"

definition sample_service_env :: "(string list, nat, unit) service_env" where
  "sample_service_env =
     \<lparr>sv_router_env = sample_router_env, sv_loads = sample_loads, sv_dumps = (\<lambda>_. ''{}''),
      sv_uuid4 = ''uuid'', sv_md5 = (\<lambda>s. s), sv_now = 1, sv_clock = sample_clock, sv_query_time = 1,
      sv_pre_request = None, sv_backend = (\<lambda>_. Answers 200 [] [''chunk''] None),
      sv_response_json = (\<lambda>_ _. JsonOk JNull), sv_k8s = sample_env, sv_openai_key = ''k'',
      sv_float = (\<lambda>s. Some s)\<rparr>"

definition sample_request :: http_request where
  "sample_request =
     \<lparr>rq_method = ''POST'', rq_headers = [(''host'', ''h''), (''x-request-id'', ''r1'')],
      rq_query = [], rq_body = ''{}''\<rparr>"

definition served_sd :: static_sd where
  "served_sd =
     \<lparr>ssd_urls = [''http://a''], ssd_models = [''m''], ssd_aliases = None, ssd_model_labels = None,
      ssd_model_types = None, ssd_engines_id = [''id1''], ssd_added_timestamp = 0,
      ssd_unhealthy_endpoint_hashes = [], ssd_running = True, ssd_health_task = False,
      ssd_prefill_model_labels = None, ssd_decode_model_labels = None\<rparr>"

definition sample_app :: "(string list, nat) app_state" where
  "sample_app =
     \<lparr>ap_router = RSession \<lparr>sr_session_key = ''s'', sr_hash_ring = []\<rparr>, ap_monitor = sample_monitor,
      ap_engine_stats = [], ap_discovery = Static served_sd, ap_clients = new_client_state,
      ap_rewriter = False, ap_semantic_cache = False, ap_incoming = []\<rparr>"

definition sample_rt :: routed_request where
  "sample_rt =
     \<lparr>rt_headers = rq_headers sample_request, rt_body = ''{}'', rt_json = [(''model'', JStr ''m'')],
      rt_model = JStr ''m''\<rparr>"

lemmas service_defs = sample_router_env_def sample_clock_def sample_loads_def sample_service_env_def
  sample_request_def served_sd_def sample_app_def sample_rt_def sample_monitor_def


theorem process_request_reports_witness:
  "fst (process_request sample_loads (\<lambda>_. Answers 200 [] [''chunk''] None) False sample_clock sample_request
     ''{}'' ''http://a'' ''r1'' ''/v1/completions'' sample_monitor) =
   fst (stats_run (request_events ''http://a'' ''r1'' sample_clock [''chunk''] True) sample_monitor)"
  using process_request_reports [of sample_loads "''{}''" "[(''model'', JStr ''m'')]"
      "\<lambda>_. Answers 200 [] [''chunk''] None" sample_request "''http://a''" "''/v1/completions''" 200 "[]" "[''chunk'']" None]
  by (simp add: sample_loads_def)

theorem unreachable_backend_leaks_prefill_count_witness:
  "dget (rm_in_prefill_requests (fst (process_request sample_loads (\<lambda>_. Unreachable ''refused'') False sample_clock
     sample_request ''{}'' ''http://a'' ''r1'' ''/v1/completions'' sample_monitor))) ''http://a'' 0 =
   dget (rm_in_prefill_requests sample_monitor) ''http://a'' 0 + 1"
  using unreachable_backend_leaks_prefill_count [of sample_loads "''{}''" "[(''model'', JStr ''m'')]"
      "\<lambda>_. Unreachable ''refused''" sample_request "''http://a''" "''/v1/completions''" "''refused''"]
  by (simp add: sample_loads_def)

lemma sample_endpoints:
  "\<exists>e. discovery_get_endpoint_info (sv_md5 sample_service_env) (sv_now sample_service_env) (ap_discovery sample_app) = Inr [e] \<and>
       ep_url e = ''http://a'' \<and> ep_model_names e = [JStr ''m''] \<and> ep_sleep e = JBool False \<and> ep_Id e = ''id1''"
  by (simp add: discovery_get_endpoint_info_def static_get_endpoint_info_def service_defs
      static_model_label_def py_nth_def)

lemma sample_alias: "apply_alias sample_service_env (ap_discovery sample_app) sample_rt = Inr sample_rt"
  by (simp add: apply_alias_def resolve_alias_def discovery_aliases_def sample_app_def served_sd_def)

lemma sample_read_stats: "read_stats (sv_query_time sample_service_env) (target_id sample_request) sample_app = (sample_app, Inr [])"
  by (simp add: read_stats_def has_target_def target_id_def service_defs get_request_stats_def monitored_urls_def)

definition is_forwarded :: "'a + forwarding \<Rightarrow> bool" where
  "is_forwarded r = (case r of Inr (Forwarded _ _ _ _ _ _) \<Rightarrow> True | _ \<Rightarrow> False)"

lemma sample_forwarded:
  "is_forwarded (snd (route_model_request sample_service_env ''/v1/completions'' sample_request sample_rt sample_app))"
  by code_simp

lemma sample_ready:
  "router_ready (sv_router_env sample_service_env) eps (ap_router sample_app)"
  by (simp add: router_ready_def sample_app_def sample_service_env_def sample_router_env_def min_ring_laws
      sorted_iter_laws)


theorem unserved_model_is_404_or_503_witness:
  "snd (route_model_request sample_service_env ''/v1/completions'' sample_request
          (sample_rt\<lparr>rt_model := JStr ''other''\<rparr>) sample_app) =
   Inl (ErrorReply 404 (ModelNotFound (JStr ''other'')), [(''X-Request-Id'', ''r1'')])"
proof -
  let ?rt = "sample_rt\<lparr>rt_model := JStr ''other''\<rparr>"
  obtain e where e: "discovery_get_endpoint_info (sv_md5 sample_service_env) (sv_now sample_service_env)
      (ap_discovery sample_app) = Inr [e]" "ep_model_names e = [JStr ''m'']"
    using sample_endpoints by blast
  have a: "apply_alias sample_service_env (ap_discovery sample_app) ?rt = Inr ?rt"
    by (simp add: apply_alias_def resolve_alias_def discovery_aliases_def sample_app_def served_sd_def)
  have n: "filter (eligible (rt_model ?rt) (target_id sample_request)) [e] = []"
    using e(2) by (simp add: eligible_def)
  have d: "ap_discovery sample_app = Static served_sd" by (simp add: sample_app_def)
  have i: "request_id_of (sv_uuid4 sample_service_env) sample_request = ''r1''"
    by (simp add: request_id_of_def sample_request_def)
  from unserved_model_is_404_or_503 [OF e(1) a _ n sample_read_stats] show ?thesis
    by (simp add: d i)
qed

lemma sample_answer:
  "(case snd (route_general_request sample_service_env ''/v1/completions'' sample_request sample_app) of
      Inr (Streamed _ _ _, _) \<Rightarrow> True | _ \<Rightarrow> False)"
  by code_simp

theorem every_answer_has_request_id_witness:
  "\<exists>app' rep hs. route_general_request sample_service_env ''/v1/completions'' sample_request sample_app =
       (app', Inr (rep, hs)) \<and> map_of hs ''X-Request-Id'' = Some ''r1''"
proof -
  obtain app' rep hs where r: "route_general_request sample_service_env ''/v1/completions'' sample_request sample_app =
      (app', Inr (rep, hs))"
    using sample_answer
    by (cases "route_general_request sample_service_env ''/v1/completions'' sample_request sample_app")
       (auto split: sum.splits)
  have "request_id_of (sv_uuid4 sample_service_env) sample_request = ''r1''"
    by (simp add: request_id_of_def sample_request_def)
  with r every_answer_has_request_id [OF r] show ?thesis by auto
qed

theorem sleep_raises_after_the_engine_sleeps_witness:
  "\<exists>err. snd (snd (route_sleep_wakeup_request sample_service_env ''/sleep''
     (sample_request\<lparr>rq_query := [(''id'', ''id1'')], rq_body := []\<rparr>) sample_app)) = Inl err"
proof -
  let ?req = "sample_request\<lparr>rq_query := [(''id'', ''id1'')], rq_body := []\<rparr>"
  obtain e where e: "discovery_get_endpoint_info (sv_md5 sample_service_env) (sv_now sample_service_env)
      (ap_discovery sample_app) = Inr [e]" "ep_Id e = ''id1''"
    using sample_endpoints by blast
  have "target_id ?req = Some ''id1''" by (simp add: target_id_def)
  moreover have "filter (\<lambda>e. ep_Id e = ''id1'') [e] = [e]" using e(2) by simp
  moreover have "(\<exists>sd. ap_discovery sample_app = Static sd) \<or> (\<exists>sd. ap_discovery sample_app = ServiceName sd \<and> svc_inv sd)"
    by (simp add: sample_app_def)
  moreover have "sv_backend sample_service_env q = Answers 200 [] [''chunk''] None" for q
    by (simp add: sample_service_env_def)
  ultimately show ?thesis
    using sleep_raises_after_the_engine_sleeps [OF _ e(1), of ?req "''id1''" e "[]" 200 "[]" "[''chunk'']" None]
    by auto
qed

theorem transcriptions_need_round_robin_witness:
  "snd (route_general_transcriptions sample_service_env (\<lambda>_ _ _. Unreachable []) (\<lambda>_. True) ''/v1/audio/transcriptions''
     sample_request
     \<lparr>fm_file = Some \<lparr>up_filename = ''a.wav'', up_content = [], up_content_type = ''audio/wav''\<rparr>,
      fm_fields = [(''model'', ''m'')]\<rparr> sample_app) =
   Inl (TypeError ''missing 1 required positional argument: request_json'')"
proof -
  let ?fm = "\<lparr>fm_file = Some \<lparr>up_filename = ''a.wav'', up_content = [], up_content_type = ''audio/wav''\<rparr>,
      fm_fields = [(''model'', ''m'')]\<rparr>"
  obtain e where e: "discovery_get_endpoint_info (sv_md5 sample_service_env) (sv_now sample_service_env)
      (ap_discovery sample_app) = Inr [e]" "ep_model_names e = [JStr ''m'']" "ep_sleep e = JBool False"
    using sample_endpoints by blast
  have "transcription_endpoints ''m'' [e] \<noteq> []" using e by (simp add: transcription_endpoints_def)
  moreover have "snd (get_request_stats (sv_query_time sample_service_env) (ap_monitor sample_app)) = Inr []"
    by (simp add: get_request_stats_def monitored_urls_def service_defs)
  moreover have "\<nexists>rr. ap_router sample_app = RRoundRobin rr" by (simp add: sample_app_def)
  ultimately show ?thesis
    using transcriptions_need_round_robin [OF _ _ _ e(1), of ?fm _ "''m''"] by simp
qed

theorem disaggregated_bodies_witness:
  "map_of (prefiller_body (AList.update ''max_tokens'' (JInt 1) [(''prompt'', JStr ''p'')])) ''prompt'' = Some (JStr ''p'') \<and>
   decoder_body [(''prompt'', JStr ''p'')] = [(''prompt'', JStr ''p''), (''max_tokens'', JInt 0)]"
  using disaggregated_bodies [of "[(''prompt'', JStr ''p'')]"] by simp

end
