(* ===== verification/File_Storage.thy ===== *)
theory File_Storage
  imports Router_Prelude
begin

text \<open>
  The storage of uploaded files: \<^verbatim>\<open>src/src/vllm_router/services/files_service/\<close>
  (\<^verbatim>\<open>openai_files.py\<close>, \<^verbatim>\<open>storage.py\<close>, \<^verbatim>\<open>file_storage.py\<close>) over a model of the part of a file
  system that the code uses: a tree of directories and files addressed by lists of names, with
  paths resolved component by component as the operating system does. There are no symbolic links,
  no permissions and no NUL characters in names. Contents are byte strings.
\<close>

section \<open>A file system\<close>

datatype fnode = DirNode int | FileNode string int

type_synonym location = "string list"

type_synonym fs = "(location \<times> fnode) list"

text \<open>The world of a call: the working directory, the clock, the size that directories report and
  the hexadecimal digits of the next UUID.\<close>

record os_env =
  oe_cwd :: location
  oe_now :: int
  oe_dir_size :: int
  oe_uuid4_hex :: string

definition is_dir :: "fs \<Rightarrow> location \<Rightarrow> bool" where
  "is_dir fs p = (p = [] \<or> (case map_of fs p of Some (DirNode _) \<Rightarrow> True | _ \<Rightarrow> False))"

fun walk :: "fs \<Rightarrow> location \<Rightarrow> string list \<Rightarrow> location result" where
  "walk fs cur [] = Inr cur"
| "walk fs cur (c # cs) =
     (if \<not> is_dir fs cur
      then Inl (if map_of fs cur = None then FileNotFoundError [] else OtherException ''NotADirectoryError'')
      else if c = [] \<or> c = ''.'' then walk fs cur cs
      else if c = ''..'' then walk fs (butlast cur) cs
      else walk fs (cur @ [c]) cs)"

definition components :: "string \<Rightarrow> string list" where
  "components path = split_on CHR ''/'' path"

definition start_of :: "os_env \<Rightarrow> string \<Rightarrow> location" where
  "start_of os path = (if starts_with path ''/'' then [] else oe_cwd os)"

definition resolve :: "os_env \<Rightarrow> fs \<Rightarrow> string \<Rightarrow> location result" where
  "resolve os fs path = walk fs (start_of os path) (components path)"

text \<open>\<^verbatim>\<open>os.path.join\<close>, \<^verbatim>\<open>os.makedirs(..., exist_ok=True)\<close>, \<^verbatim>\<open>os.path.exists\<close>.\<close>

definition os_path_join :: "string \<Rightarrow> string \<Rightarrow> string" where
  "os_path_join a b =
     (if starts_with b ''/'' then b
      else if a = [] \<or> ends_with a ''/'' then a @ b
      else a @ ''/'' @ b)"

fun make_walk :: "int \<Rightarrow> fs \<Rightarrow> location \<Rightarrow> string list \<Rightarrow> fs \<times> unit result" where
  "make_walk now fs cur [] = (fs, Inr ())"
| "make_walk now fs cur (c # cs) =
     (if c = [] \<or> c = ''.'' then make_walk now fs cur cs
      else if c = ''..'' then make_walk now fs (butlast cur) cs
      else (case map_of fs (cur @ [c]) of
              None \<Rightarrow> make_walk now (AList.update (cur @ [c]) (DirNode now) fs) (cur @ [c]) cs
            | Some (DirNode _) \<Rightarrow> make_walk now fs (cur @ [c]) cs
            | Some (FileNode _ _) \<Rightarrow> (fs, Inl (OtherException ''FileExistsError''))))"

definition makedirs :: "os_env \<Rightarrow> string \<Rightarrow> fs \<Rightarrow> fs \<times> unit result" where
  "makedirs os path fs = make_walk (oe_now os) fs (start_of os path) (components path)"

definition path_exists :: "os_env \<Rightarrow> fs \<Rightarrow> string \<Rightarrow> bool" where
  "path_exists os fs path =
     (case resolve os fs path of Inl _ \<Rightarrow> False | Inr p \<Rightarrow> p = [] \<or> map_of fs p \<noteq> None)"

text \<open>Opening for writing (truncating), for reading and for update, each with what is done on the
  file; and removal.\<close>

definition write_file :: "os_env \<Rightarrow> string \<Rightarrow> string \<Rightarrow> fs \<Rightarrow> fs \<times> unit result" where
  "write_file os path content fs =
     (case resolve os fs path of
        Inl e \<Rightarrow> (fs, Inl e)
      | Inr p \<Rightarrow>
          if is_dir fs p then (fs, Inl (OtherException ''IsADirectoryError''))
          else (AList.update p (FileNode content (oe_now os)) fs, Inr ()))"

definition read_file :: "os_env \<Rightarrow> string \<Rightarrow> fs \<Rightarrow> string result" where
  "read_file os path fs =
     bindE (resolve os fs path) (\<lambda>p.
       if is_dir fs p then Inl (OtherException ''IsADirectoryError'')
       else (case map_of fs p of
               Some (FileNode content _) \<Rightarrow> Inr content
             | _ \<Rightarrow> Inl (FileNotFoundError path)))"

definition overwrite :: "string \<Rightarrow> nat \<Rightarrow> string \<Rightarrow> string" where
  "overwrite content offset chunk =
     (if chunk = [] then content
      else take offset (content @ replicate (offset - length content) (char_of (0 :: nat))) @ chunk @
           drop (offset + length chunk) content)"

definition update_file :: "os_env \<Rightarrow> string \<Rightarrow> int \<Rightarrow> string option \<Rightarrow> fs \<Rightarrow> fs \<times> unit result" where
  "update_file os path offset chunk fs =
     (case bindE (resolve os fs path) (\<lambda>p. bindE (read_file os path fs) (\<lambda>content. Inr (p, content))) of
        Inl e \<Rightarrow> (fs, Inl e)
      | Inr (p, content) \<Rightarrow>
          if offset < 0 then (fs, Inl (OtherException ''OSError''))
          else (case chunk of
                  None \<Rightarrow> (fs, Inl (TypeError ''a bytes-like object is required''))
                | Some c \<Rightarrow> (AList.update p (FileNode (overwrite content (nat offset) c) (oe_now os)) fs, Inr ())))"

definition remove_file :: "os_env \<Rightarrow> string \<Rightarrow> fs \<Rightarrow> fs \<times> unit result" where
  "remove_file os path fs =
     (case resolve os fs path of
        Inl e \<Rightarrow> (fs, Inl e)
      | Inr p \<Rightarrow>
          if is_dir fs p then (fs, Inl (OtherException ''IsADirectoryError''))
          else if map_of fs p = None then (fs, Inl (FileNotFoundError path))
          else (AList.delete p fs, Inr ()))"

text \<open>\<^verbatim>\<open>os.path.getsize\<close> and \<^verbatim>\<open>os.path.getctime\<close>, and the names in a directory.\<close>

definition stat_file :: "os_env \<Rightarrow> string \<Rightarrow> fs \<Rightarrow> (int \<times> int) result" where
  "stat_file os path fs =
     bindE (resolve os fs path) (\<lambda>p.
       case map_of fs p of
         Some (FileNode content ctime) \<Rightarrow> Inr (int (length content), ctime)
       | Some (DirNode ctime) \<Rightarrow> Inr (oe_dir_size os, ctime)
       | None \<Rightarrow> if p = [] then Inr (oe_dir_size os, 0) else Inl (FileNotFoundError path))"

definition listdir :: "os_env \<Rightarrow> string \<Rightarrow> fs \<Rightarrow> string list result" where
  "listdir os path fs =
     bindE (resolve os fs path) (\<lambda>p.
       if \<not> is_dir fs p then Inl (OtherException ''NotADirectoryError'')
       else Inr (map (\<lambda>(q, _). last q) (filter (\<lambda>(q, _). q \<noteq> [] \<and> butlast q = p) fs)))"

section \<open>Files as the API shows them\<close>

record OpenAIFile =
  of_id :: string
  of_object :: string
  of_bytes :: int
  of_created_at :: int
  of_filename :: string
  of_purpose :: string

definition OpenAIFile_to_dict :: "OpenAIFile \<Rightarrow> jobj" where
  "OpenAIFile_to_dict f =
     [(''id'', JStr (of_id f)), (''object'', JStr (of_object f)), (''bytes'', JInt (of_bytes f)),
      (''created_at'', JInt (of_created_at f)), (''filename'', JStr (of_filename f)),
      (''purpose'', JStr (of_purpose f))]"

definition OpenAIFile_metadata :: "OpenAIFile \<Rightarrow> jobj" where
  "OpenAIFile_metadata f =
     [(''id'', JStr (of_id f)), (''bytes'', JInt (of_bytes f)), (''created_at'', JInt (of_created_at f)),
      (''filename'', JStr (of_filename f)), (''purpose'', JStr (of_purpose f))]"

section \<open>The storage\<close>

definition DEFAULT_USER_ID :: string where
  "DEFAULT_USER_ID = ''uid_default''"

definition DEFAULT_PURPOSE :: string where
  "DEFAULT_PURPOSE = ''batch''"

text \<open>A storage is its base path; the files are in the file system.\<close>

definition FileStorage_init :: "os_env \<Rightarrow> string \<Rightarrow> fs \<Rightarrow> fs \<times> string result" where
  "FileStorage_init os base_path fs =
     (case makedirs os base_path fs of
        (fs', Inl e) \<Rightarrow> (fs', Inl e)
      | (fs', Inr _) \<Rightarrow> (fs', Inr base_path))"

definition initialize_storage :: "os_env \<Rightarrow> string \<Rightarrow> string \<Rightarrow> fs \<Rightarrow> fs \<times> string result" where
  "initialize_storage os storage_type base_path fs =
     (if storage_type = ''local_file'' then FileStorage_init os base_path fs
      else (fs, Inl (ValueError ''Unsupported storage type'')))"

definition get_user_path :: "os_env \<Rightarrow> string \<Rightarrow> string \<Rightarrow> fs \<Rightarrow> fs \<times> string result" where
  "get_user_path os base_path user_id fs =
     (let user_path = os_path_join base_path user_id in
      case makedirs os user_path fs of
        (fs', Inl e) \<Rightarrow> (fs', Inl e)
      | (fs', Inr _) \<Rightarrow> (fs', Inr user_path))"

text \<open>Every operation first makes sure of the user's directory, then works on a path inside.\<close>

definition with_file_path ::
  "os_env \<Rightarrow> string \<Rightarrow> string \<Rightarrow> string \<Rightarrow> (string \<Rightarrow> fs \<Rightarrow> fs \<times> 'a result) \<Rightarrow> fs \<Rightarrow> fs \<times> 'a result" where
  "with_file_path os base_path user_id file_id body fs =
     (case get_user_path os base_path user_id fs of
        (fs', Inl e) \<Rightarrow> (fs', Inl e)
      | (fs', Inr user_path) \<Rightarrow> body (os_path_join user_path file_id) fs')"

definition save_file ::
  "os_env \<Rightarrow> string \<Rightarrow> string option \<Rightarrow> string \<Rightarrow> string option \<Rightarrow> string option \<Rightarrow> string \<Rightarrow> fs \<Rightarrow>
   fs \<times> OpenAIFile result" where
  "save_file os base_path file_id user_id file_name content purpose fs =
     (case content of
        None \<Rightarrow> (fs, Inl (ValueError ''Content cannot be None''))
      | Some bytes \<Rightarrow>
          let fid = (case file_id of None \<Rightarrow> ''file-'' @ take 6 (oe_uuid4_hex os) | Some i \<Rightarrow> i)
          in with_file_path os base_path user_id fid (\<lambda>file_path fs1.
               case write_file os file_path bytes fs1 of
                 (fs2, Inl e) \<Rightarrow> (fs2, Inl e)
               | (fs2, Inr _) \<Rightarrow>
                   (fs2, bindE (stat_file os file_path fs2) (\<lambda>(_, created_at).
                      Inr \<lparr>of_id = fid, of_object = ''file'', of_bytes = int (length bytes),
                           of_created_at = created_at,
                           of_filename = (case file_name of
                                            Some n \<Rightarrow> if n = [] then fid else n
                                          | None \<Rightarrow> fid),
                           of_purpose = purpose\<rparr>))) fs)"

definition save_file_chunk ::
  "os_env \<Rightarrow> string \<Rightarrow> string \<Rightarrow> string \<Rightarrow> string option \<Rightarrow> int \<Rightarrow> fs \<Rightarrow> fs \<times> unit result" where
  "save_file_chunk os base_path file_id user_id chunk offset fs =
     with_file_path os base_path user_id file_id (\<lambda>file_path. update_file os file_path offset chunk) fs"

definition get_file :: "os_env \<Rightarrow> string \<Rightarrow> string \<Rightarrow> string \<Rightarrow> fs \<Rightarrow> fs \<times> OpenAIFile result" where
  "get_file os base_path file_id user_id fs =
     with_file_path os base_path user_id file_id (\<lambda>file_path fs1.
       if \<not> path_exists os fs1 file_path then (fs1, Inl (FileNotFoundError file_id))
       else (fs1, bindE (stat_file os file_path fs1) (\<lambda>(file_size, created_at).
               Inr \<lparr>of_id = file_id, of_object = ''file'', of_bytes = file_size,
                    of_created_at = created_at, of_filename = file_id,
                    of_purpose = DEFAULT_PURPOSE\<rparr>))) fs"

definition get_file_content :: "os_env \<Rightarrow> string \<Rightarrow> string \<Rightarrow> string \<Rightarrow> fs \<Rightarrow> fs \<times> string result" where
  "get_file_content os base_path file_id user_id fs =
     with_file_path os base_path user_id file_id (\<lambda>file_path fs1.
       if \<not> path_exists os fs1 file_path then (fs1, Inl (FileNotFoundError file_id))
       else (fs1, read_file os file_path fs1)) fs"

definition list_files :: "os_env \<Rightarrow> string \<Rightarrow> string \<Rightarrow> fs \<Rightarrow> fs \<times> string list result" where
  "list_files os base_path user_id fs =
     (case get_user_path os base_path user_id fs of
        (fs', Inl e) \<Rightarrow> (fs', Inl e)
      | (fs', Inr user_path) \<Rightarrow> (fs', listdir os user_path fs'))"

definition delete_file :: "os_env \<Rightarrow> string \<Rightarrow> string \<Rightarrow> string \<Rightarrow> fs \<Rightarrow> fs \<times> unit result" where
  "delete_file os base_path file_id user_id fs =
     with_file_path os base_path user_id file_id (\<lambda>file_path fs1.
       if path_exists os fs1 file_path then remove_file os file_path fs1 else (fs1, Inr ())) fs"

section \<open>Resolution of paths\<close>

definition plain_name :: "string \<Rightarrow> bool" where
  "plain_name n \<longleftrightarrow> n \<noteq> [] \<and> n \<noteq> ''.'' \<and> n \<noteq> ''..'' \<and> CHR ''/'' \<notin> set n"

lemma walk_append:
  "walk fs cur (cs @ ds) = bindE (walk fs cur cs) (\<lambda>p. walk fs p ds)"
  by (induction fs cur cs rule: walk.induct) auto

text \<open>A path extended by a plain name resolves to that name in the directory of the path.\<close>

lemma components_join:
  assumes "plain_name n"
  shows "walk fs cur (components (os_path_join a n)) =
         (if a = [] then walk fs cur [n] else bindE (walk fs cur (components a)) (\<lambda>p. walk fs p [n]))"
proof -
  have n: "\<not> starts_with n ''/''" "split_on CHR ''/'' n = [n]"
    using assms by (auto simp: plain_name_def split_on_no_sep starts_with_prefix prefix_def)
  consider "a = []" | b where "a = b @ ''/''" | "a \<noteq> []" "\<not> ends_with a ''/''"
    by (auto simp: ends_with_suffix suffix_def)
  then show ?thesis
  proof cases
    case 1
    then show ?thesis using n by (simp add: os_path_join_def components_def)
  next
    case (2 b)
    have "components (os_path_join a n) = split_on CHR ''/'' b @ [n]"
      using 2 n split_on_append [of "CHR ''/''" b n]
      by (simp add: os_path_join_def components_def ends_with_suffix suffix_def)
    moreover have "components a = split_on CHR ''/'' b @ [[]]"
      using 2 split_on_append [of "CHR ''/''" b "[]"] by (simp add: components_def)
    ultimately show ?thesis
      using 2 by (cases "walk fs cur (split_on CHR ''/'' b)") (auto simp: walk_append)
  next
    case 3
    then have "components (os_path_join a n) = components a @ [n]"
      using n split_on_append [of "CHR ''/''" a n] by (simp add: os_path_join_def components_def)
    with 3 show ?thesis by (simp add: walk_append)
  qed
qed

lemma resolve_join:
  assumes "plain_name n"
  shows "resolve os fs (os_path_join a n) = bindE (resolve os fs a) (\<lambda>p. walk fs p [n])"
proof (cases "a = []")
  case True
  moreover have "\<not> starts_with n ''/''"
    using assms by (auto simp: plain_name_def starts_with_prefix prefix_def)
  ultimately show ?thesis
    using components_join [OF assms, of fs "oe_cwd os" a]
    by (simp add: resolve_def start_of_def os_path_join_def components_def)
next
  case False
  then have "start_of os (os_path_join a n) = start_of os a"
    using assms by (cases a) (auto simp: start_of_def os_path_join_def plain_name_def starts_with_prefix prefix_def)
  then show ?thesis
    using False components_join [OF assms, of fs "start_of os a" a] by (simp add: resolve_def)
qed

lemma walk_plain: "plain_name n \<Longrightarrow> is_dir fs p \<Longrightarrow> walk fs p [n] = Inr (p @ [n])"
  by (simp add: plain_name_def)

text \<open>Only the directories matter for where a path leads.\<close>

lemma walk_dirs:
  assumes "\<And>q. is_dir fs q \<Longrightarrow> is_dir fs' q"
  shows "walk fs cur cs = Inr p \<Longrightarrow> walk fs' cur cs = Inr p"
  using assms by (induction fs cur cs rule: walk.induct) (auto split: if_splits)

lemma make_walk_existing:
  "walk fs cur cs = Inr p \<Longrightarrow> is_dir fs p \<Longrightarrow> make_walk now fs cur cs = (fs, Inr ())"
proof (induction fs cur cs rule: walk.induct)
  case (1 fs cur)
  then show ?case by simp
next
  case (2 fs cur c cs)
  have "is_dir fs (cur @ [c])" if "walk fs (cur @ [c]) cs = Inr p"
    using that 2(5) by (cases cs) (auto split: if_splits)
  with 2 show ?case
    by (auto simp: is_dir_def split: if_splits option.splits fnode.splits)
qed

text \<open>A file system is a tree: what contains a node is a directory.\<close>

definition fs_tree :: "fs \<Rightarrow> bool" where
  "fs_tree fs \<longleftrightarrow> (\<forall>q. map_of fs q \<noteq> None \<longrightarrow> is_dir fs (butlast q))"

lemma is_dir_root [simp]: "is_dir fs []"
  by (simp add: is_dir_def)

lemma is_dir_node: "is_dir fs q \<Longrightarrow> q = [] \<or> map_of fs q \<noteq> None"
  by (auto simp: is_dir_def split: option.splits)

lemma fs_tree_parent: "fs_tree fs \<Longrightarrow> is_dir fs q \<Longrightarrow> is_dir fs (butlast q)"
  using is_dir_node [of fs q] by (cases "q = []") (auto simp: fs_tree_def)

lemma is_dir_update_dir: "is_dir (AList.update p (DirNode t) fs) q \<longleftrightarrow> q = p \<or> is_dir fs q"
  by (auto simp: is_dir_def)

lemma fs_tree_mkdir:
  "fs_tree fs \<Longrightarrow> is_dir fs cur \<Longrightarrow> fs_tree (AList.update (cur @ [c]) (DirNode t) fs)"
  by (auto simp: fs_tree_def is_dir_update_dir)

lemma make_walk_makes:
  assumes "make_walk now fs cur cs = (fs', Inr ())" and "fs_tree fs" and "is_dir fs cur"
  shows "fs_tree fs' \<and> (\<forall>q. is_dir fs q \<longrightarrow> is_dir fs' q) \<and> (\<exists>p. walk fs' cur cs = Inr p \<and> is_dir fs' p)"
  using assms
proof (induction now fs cur cs rule: make_walk.induct)
  case (1 now fs cur)
  then show ?case by auto
next
  case (2 now fs cur c cs)
  consider (skip) "c = [] \<or> c = ''.''" | (up) "c = ''..''"
    | (new) "plain_name c \<or> (CHR ''/'' \<in> set c)" "c \<noteq> []" "c \<noteq> ''.''" "c \<noteq> ''..''" "map_of fs (cur @ [c]) = None"
    | (old) t where "c \<noteq> []" "c \<noteq> ''.''" "c \<noteq> ''..''" "map_of fs (cur @ [c]) = Some (DirNode t)"
    using "2.prems"(1) by (fastforce simp: plain_name_def split: if_splits option.splits fnode.splits)
  then show ?case
  proof cases
    case skip
    with 2 show ?thesis by auto
  next
    case up
    with 2 have "make_walk now fs (butlast cur) cs = (fs', Inr ())" by simp
    with 2 up fs_tree_parent [of fs cur] show ?thesis by auto
  next
    case new
    let ?fs = "AList.update (cur @ [c]) (DirNode now) fs"
    have "make_walk now ?fs (cur @ [c]) cs = (fs', Inr ())"
      using 2 new by simp
    with new 2 have "fs_tree fs' \<and> (\<forall>q. is_dir ?fs q \<longrightarrow> is_dir fs' q) \<and>
        (\<exists>p. walk fs' (cur @ [c]) cs = Inr p \<and> is_dir fs' p)"
      by (intro "2.IH"(3)) (simp_all add: fs_tree_mkdir is_dir_update_dir)
    with new 2 show ?thesis by (auto simp: is_dir_update_dir)
  next
    case old
    then have "make_walk now fs (cur @ [c]) cs = (fs', Inr ())" and "is_dir fs (cur @ [c])"
      using 2 by (simp_all add: is_dir_def)
    with old 2 show ?thesis by auto
  qed
qed

section \<open>One user's directory\<close>

text \<open>The state the storage keeps: the user's path leads to a directory, in which no plain name is
  a directory itself.\<close>

definition store_inv :: "os_env \<Rightarrow> string \<Rightarrow> string \<Rightarrow> location \<Rightarrow> fs \<Rightarrow> bool" where
  "store_inv os base_path user_id p fs \<longleftrightarrow>
     resolve os fs (os_path_join base_path user_id) = Inr p \<and> is_dir fs p \<and>
     (\<forall>n. plain_name n \<longrightarrow> \<not> is_dir fs (p @ [n]))"

definition stored :: "location \<Rightarrow> string \<Rightarrow> fs \<Rightarrow> string option" where
  "stored p n fs = (case map_of fs (p @ [n]) of Some (FileNode content _) \<Rightarrow> Some content | _ \<Rightarrow> None)"

lemma store_inv_path:
  "store_inv os base user p fs \<Longrightarrow>
   get_user_path os base user fs = (fs, Inr (os_path_join base user))"
  by (auto simp: store_inv_def get_user_path_def makedirs_def resolve_def Let_def make_walk_existing)

lemma store_inv_file:
  assumes "store_inv os base user p fs" and "plain_name n"
  shows "with_file_path os base user n body fs = body (os_path_join (os_path_join base user) n) fs"
    and "resolve os fs (os_path_join (os_path_join base user) n) = Inr (p @ [n])"
    and "\<not> is_dir fs (p @ [n])"
proof -
  show "with_file_path os base user n body fs = body (os_path_join (os_path_join base user) n) fs"
    using assms by (simp add: with_file_path_def store_inv_path)
  show "resolve os fs (os_path_join (os_path_join base user) n) = Inr (p @ [n])"
    using assms walk_plain [OF assms(2), of fs p] by (simp add: resolve_join store_inv_def del: walk.simps)
  show "\<not> is_dir fs (p @ [n])"
    using assms by (simp add: store_inv_def)
qed

text \<open>Whether a plain name of the user's directory holds a file or nothing.\<close>

lemma stored_node:
  assumes "store_inv os base user p fs" and "plain_name n"
  obtains (absent) "map_of fs (p @ [n]) = None" "stored p n fs = None"
  | (present) content ctime where "map_of fs (p @ [n]) = Some (FileNode content ctime)" "stored p n fs = Some content"
proof (cases "map_of fs (p @ [n])")
  case None
  then show ?thesis by (intro absent) (simp_all add: stored_def)
next
  case (Some node)
  with assms have "\<not> (\<exists>t. node = DirNode t)" by (auto simp: store_inv_def is_dir_def)
  then obtain content ctime where "node = FileNode content ctime" by (cases node) auto
  with Some show ?thesis by (intro present) (simp_all add: stored_def)
qed

text \<open>Changing a file keeps the directories, and with them the invariant.\<close>

lemma store_inv_same_dirs:
  assumes inv: "store_inv os base user p fs" and dirs: "\<And>q. is_dir fs' q = is_dir fs q"
  shows "store_inv os base user p fs'"
  using assms walk_dirs [of fs fs'] by (auto simp: store_inv_def resolve_def)

lemma same_dirs_write: "\<not> is_dir fs p \<Longrightarrow> is_dir (AList.update p (FileNode c t) fs) q = is_dir fs q"
  by (auto simp: is_dir_def)

lemma same_dirs_delete: "\<not> is_dir fs p \<Longrightarrow> is_dir (AList.delete p fs) q = is_dir fs q"
  by (auto simp: is_dir_def)

lemma save_file_plain:
  assumes "store_inv os base user p fs" and "plain_name n"
  shows "save_file os base (Some n) user name (Some c) purpose fs =
    (AList.update (p @ [n]) (FileNode c (oe_now os)) fs,
     Inr \<lparr>of_id = n, of_object = ''file'', of_bytes = int (length c), of_created_at = oe_now os,
          of_filename = (case name of Some m \<Rightarrow> if m = [] then n else m | None \<Rightarrow> n), of_purpose = purpose\<rparr>)"
proof -
  let ?fs = "AList.update (p @ [n]) (FileNode c (oe_now os)) fs"
  note facts = store_inv_file [OF assms]
  have "store_inv os base user p ?fs"
    using store_inv_same_dirs [OF assms(1)] same_dirs_write [OF facts(3)] by blast
  then have "resolve os ?fs (os_path_join (os_path_join base user) n) = Inr (p @ [n])"
    using store_inv_file(2) assms(2) by blast
  then show ?thesis
    by (simp add: save_file_def Let_def facts write_file_def stat_file_def)
qed

lemma delete_file_plain:
  assumes "store_inv os base user p fs" and "plain_name n"
  shows "delete_file os base n user fs =
    (if map_of fs (p @ [n]) = None then fs else AList.delete (p @ [n]) fs, Inr ())"
  unfolding delete_file_def store_inv_file(1) [OF assms]
  using store_inv_file(2,3) [OF assms] by (simp add: path_exists_def remove_file_def)

lemma get_file_content_plain:
  assumes "store_inv os base user p fs" and "plain_name n"
  shows "get_file_content os base n user fs =
    (fs, case stored p n fs of None \<Rightarrow> Inl (FileNotFoundError n) | Some c \<Rightarrow> Inr c)"
  unfolding get_file_content_def store_inv_file(1) [OF assms]
  by (rule stored_node [OF assms])
     (simp_all add: path_exists_def read_file_def store_inv_file(2,3) [OF assms])

section \<open>The contract of a store\<close>

datatype ('i, 'c) store_op = Save 'i 'c | Remove 'i

fun op_id :: "('i, 'c) store_op \<Rightarrow> 'i" where
  "op_id (Save i c) = i"
| "op_id (Remove i) = i"

text \<open>The specification: a map from identifiers to contents.\<close>

fun spec_op :: "('i, 'c) store_op \<Rightarrow> ('i \<rightharpoonup> 'c) \<Rightarrow> ('i \<rightharpoonup> 'c)" where
  "spec_op (Save i c) m = m(i \<mapsto> c)"
| "spec_op (Remove i) m = m(i := None)"

locale file_store =
  fixes save :: "'i \<Rightarrow> 'c \<Rightarrow> 's \<Rightarrow> 's" and remove :: "'i \<Rightarrow> 's \<Rightarrow> 's" and fetch :: "'i \<Rightarrow> 's \<Rightarrow> 'c option"
    and valid :: "'i \<Rightarrow> bool" and invar :: "'s \<Rightarrow> bool"
  assumes invar_save: "invar s \<Longrightarrow> valid i \<Longrightarrow> invar (save i c s)"
    and invar_remove: "invar s \<Longrightarrow> valid i \<Longrightarrow> invar (remove i s)"
    and fetch_save: "invar s \<Longrightarrow> valid i \<Longrightarrow> valid j \<Longrightarrow> fetch j (save i c s) = (if j = i then Some c else fetch j s)"
    and fetch_remove: "invar s \<Longrightarrow> valid i \<Longrightarrow> valid j \<Longrightarrow> fetch j (remove i s) = (if j = i then None else fetch j s)"
begin

lemma run_refines:
  assumes "invar s" and "\<forall>x \<in> set ops. valid (op_id x)" and "\<And>i. valid i \<Longrightarrow> m i = fetch i s"
  shows "invar (fold (case_store_op save remove) ops s) \<and>
    (\<forall>j. valid j \<longrightarrow> fetch j (fold (case_store_op save remove) ops s) = fold spec_op ops m j)"
  using assms
proof (induction ops arbitrary: s m)
  case Nil
  then show ?case by simp
next
  case (Cons x ops)
  then have "invar (case_store_op save remove x s)"
    and "\<And>i. valid i \<Longrightarrow> spec_op x m i = fetch i (case_store_op save remove x s)"
    by (cases x; simp add: invar_save invar_remove fetch_save fetch_remove)+
  with Cons.IH [of "case_store_op save remove x s" "spec_op x m"] Cons.prems(2) show ?case by simp
qed

end

text \<open>The local storage as such a store, for one user.\<close>

definition save_content :: "os_env \<Rightarrow> string \<Rightarrow> string \<Rightarrow> string \<Rightarrow> string \<Rightarrow> fs \<Rightarrow> fs" where
  "save_content os base user n c fs = fst (save_file os base (Some n) user None (Some c) DEFAULT_PURPOSE fs)"

definition remove_content :: "os_env \<Rightarrow> string \<Rightarrow> string \<Rightarrow> string \<Rightarrow> fs \<Rightarrow> fs" where
  "remove_content os base user n fs = fst (delete_file os base n user fs)"

interpretation local_files: file_store "save_content os base user" "remove_content os base user" "stored p"
  plain_name "store_inv os base user p" for os base user p
proof
  fix fs n c j
  assume inv: "store_inv os base user p fs" and n: "plain_name n"
  note nodir = store_inv_file(3) [OF inv n]
  show "store_inv os base user p (save_content os base user n c fs)"
    unfolding save_content_def save_file_plain [OF inv n] fst_conv
    by (rule store_inv_same_dirs [OF inv same_dirs_write [OF nodir]])
  show "store_inv os base user p (remove_content os base user n fs)"
    using store_inv_same_dirs [OF inv same_dirs_delete [OF nodir]] inv
    by (simp add: remove_content_def delete_file_plain [OF inv n])
  show "stored p j (save_content os base user n c fs) = (if j = n then Some c else stored p j fs)"
    by (simp add: save_content_def save_file_plain [OF inv n] stored_def)
  show "stored p j (remove_content os base user n fs) = (if j = n then None else stored p j fs)"
    by (simp add: remove_content_def delete_file_plain [OF inv n] stored_def)
qed


text \<open>The user's directory exists after its path was asked for.\<close>

lemma user_path_is_directory:
  assumes "get_user_path os base user fs = (fs', Inr path)" and "fs_tree fs" and "is_dir fs (start_of os path)"
  shows "\<exists>p. resolve os fs' path = Inr p \<and> is_dir fs' p"
  using assms make_walk_makes
  by (fastforce simp: get_user_path_def makedirs_def resolve_def Let_def split: prod.splits sum.splits)

section \<open>Chunks\<close>

lemma overwrite_length:
  "chunk \<noteq> [] \<Longrightarrow> length (overwrite content offset chunk) = max (length content) (offset + length chunk)"
  by (auto simp: overwrite_def)

lemma overwrite_end: "overwrite content (length content) chunk = content @ chunk"
  by (simp add: overwrite_def)

text \<open>The bytes of a file after a chunk was written: the chunk where it was put, the old bytes
  elsewhere, and zeros in a gap.\<close>

lemma overwrite_nth:
  assumes "i < length (overwrite content offset chunk)"
  shows "overwrite content offset chunk ! i =
    (if offset \<le> i \<and> i < offset + length chunk then chunk ! (i - offset)
     else if i < length content then content ! i else char_of (0 :: nat))"
proof (cases "chunk = []")
  case True
  with assms show ?thesis by (auto simp: overwrite_def)
next
  case False
  let ?pre = "take offset (content @ replicate (offset - length content) (char_of (0 :: nat)))"
  have pre: "length ?pre = offset" by simp
  have ow: "overwrite content offset chunk = ?pre @ chunk @ drop (offset + length chunk) content"
    using False by (simp add: overwrite_def)
  have len: "i < max (length content) (offset + length chunk)"
    using assms overwrite_length [OF False] by simp
  consider "i < offset" | "offset \<le> i" "i < offset + length chunk" | "offset + length chunk \<le> i"
    by linarith
  then show ?thesis
  proof cases
    case 1
    then show ?thesis by (auto simp: ow nth_append)
  next
    case 2
    then have "i - offset < length chunk" by simp
    with 2 show ?thesis unfolding ow by (simp add: nth_append pre del: take_append)
  next
    case 3
    with len have "i < length content" "\<not> i - offset < length chunk" by auto
    with 3 show ?thesis unfolding ow by (simp add: nth_append pre del: take_append)
  qed
qed

lemma save_file_chunk_plain:
  assumes "store_inv os base user p fs" and "plain_name n" and "map_of fs (p @ [n]) = Some (FileNode content ctime)"
  shows "save_file_chunk os base n user (Some chunk) (int offset) fs =
    (AList.update (p @ [n]) (FileNode (overwrite content offset chunk) (oe_now os)) fs, Inr ())"
  unfolding save_file_chunk_def store_inv_file(1) [OF assms(1,2)]
  by (simp add: update_file_def read_file_def store_inv_file(2,3) [OF assms(1,2)] assms(3))

text \<open>The chunks of an upload with the offsets at which they follow one another.\<close>

fun upload_chunks :: "os_env \<Rightarrow> string \<Rightarrow> string \<Rightarrow> string \<Rightarrow> nat \<Rightarrow> string list \<Rightarrow> fs \<Rightarrow> fs \<times> unit result" where
  "upload_chunks os base n user offset [] fs = (fs, Inr ())"
| "upload_chunks os base n user offset (c # cs) fs =
     (case save_file_chunk os base n user (Some c) (int offset) fs of
        (fs', Inl e) \<Rightarrow> (fs', Inl e)
      | (fs', Inr _) \<Rightarrow> upload_chunks os base n user (offset + length c) cs fs')"

text \<open>An upload in chunks stores their concatenation: a file saved with its first part and then
  given the other parts at consecutive offsets reads back as all parts in order, and no chunk
  fails.\<close>

theorem chunked_upload_concatenates:
  assumes inv: "store_inv os base user p fs" and n: "plain_name n"
    and saved: "save_file os base (Some n) user name (Some first) purpose fs = (fs1, r)"
  shows "snd (upload_chunks os base n user (length first) cs fs1) = Inr () \<and>
    snd (get_file_content os base n user (fst (upload_chunks os base n user (length first) cs fs1))) =
      Inr (first @ concat cs)"
proof -
  have "snd (upload_chunks os base n user (length content) cs fs) = Inr () \<and>
      snd (get_file_content os base n user (fst (upload_chunks os base n user (length content) cs fs))) =
        Inr (content @ concat cs)"
    if "store_inv os base user p fs" and "\<exists>t. map_of fs (p @ [n]) = Some (FileNode content t)" for fs content
    using that
  proof (induction cs arbitrary: fs content)
    case Nil
    then show ?case by (auto simp: get_file_content_plain n stored_def)
  next
    case (Cons c cs)
    let ?fs = "AList.update (p @ [n]) (FileNode (content @ c) (oe_now os)) fs"
    have "save_file_chunk os base n user (Some c) (int (length content)) fs = (?fs, Inr ())"
      using Cons.prems save_file_chunk_plain [OF Cons.prems(1) n] by (auto simp: overwrite_end)
    moreover have "store_inv os base user p ?fs"
      using store_inv_same_dirs [OF Cons.prems(1)] same_dirs_write [OF store_inv_file(3) [OF Cons.prems(1) n]] by blast
    ultimately show ?case
      using Cons.IH [of ?fs "content @ c"] by simp
  qed
  moreover have "fs1 = AList.update (p @ [n]) (FileNode first (oe_now os)) fs"
    using saved save_file_plain [OF inv n] by simp
  moreover have "store_inv os base user p (AList.update (p @ [n]) (FileNode first (oe_now os)) fs)"
    using store_inv_same_dirs [OF inv] same_dirs_write [OF store_inv_file(3) [OF inv n]] by blast
  ultimately show ?thesis by simp
qed

text \<open>The metadata of a saved file read back later agrees in identifier, size and time, but the
  name and the purpose given at the upload are lost: the identifier and the default purpose are
  returned instead.\<close>

theorem metadata_of_saved_file:
  assumes inv: "store_inv os base user p fs" and n: "plain_name n"
    and saved: "save_file os base (Some n) user name (Some c) purpose fs = (fs1, Inr info)"
    and cwd: "oe_cwd os' = oe_cwd os"
  shows "snd (get_file os' base n user fs1) = Inr (info\<lparr>of_filename := n, of_purpose := DEFAULT_PURPOSE\<rparr>)"
proof -
  let ?fs = "AList.update (p @ [n]) (FileNode c (oe_now os)) fs"
  have fs1: "fs1 = ?fs" and info: "info = \<lparr>of_id = n, of_object = ''file'', of_bytes = int (length c),
      of_created_at = oe_now os, of_filename = (case name of Some m \<Rightarrow> if m = [] then n else m | None \<Rightarrow> n),
      of_purpose = purpose\<rparr>"
    using saved save_file_plain [OF inv n] by auto
  have "store_inv os base user p ?fs"
    using store_inv_same_dirs [OF inv] same_dirs_write [OF store_inv_file(3) [OF inv n]] by blast
  then have inv': "store_inv os' base user p ?fs"
    using cwd by (simp add: store_inv_def resolve_def start_of_def split: if_splits)
  show ?thesis
    unfolding get_file_def fs1 store_inv_file(1) [OF inv' n] info
    by (simp add: path_exists_def stat_file_def store_inv_file(2,3) [OF inv' n])
qed

text \<open>An identifier that is an absolute path leaves the storage: whatever the base path and the
  user are, the content of the file at that path is returned, wherever it is in the file system.\<close>

theorem absolute_id_leaves_storage:
  assumes user: "get_user_path os base user fs = (fs', Inr path)"
    and abs: "starts_with f ''/''" and content: "read_file os f fs' = Inr c"
  shows "snd (get_file_content os base f user fs) = Inr c"
proof -
  have "os_path_join path f = f"
    using abs by (simp add: os_path_join_def)
  moreover have "path_exists os fs' f"
    using content
    by (auto simp: read_file_def path_exists_def bindE_eq_Inr split: if_splits option.splits fnode.splits)
  ultimately show ?thesis
    using user content by (simp add: get_file_content_def with_file_path_def)
qed

section \<open>Witnesses\<close>

definition sample_os :: os_env where
  "sample_os = \<lparr>oe_cwd = [], oe_now = 100, oe_dir_size = 4096, oe_uuid4_hex = ''0123456789''\<rparr>"

definition sample_fs :: fs where
  "sample_fs =
     [([''srv''], DirNode 1), ([''srv'', ''uid_default''], DirNode 1), ([''etc''], DirNode 1),
      ([''etc'', ''passwd''], FileNode ''root'' 1)]"

lemma sample_store_inv: "store_inv sample_os ''/srv'' DEFAULT_USER_ID [''srv'', ''uid_default''] sample_fs"
  by (simp add: store_inv_def resolve_def start_of_def components_def os_path_join_def DEFAULT_USER_ID_def
      is_dir_def sample_fs_def ends_with_def)

lemma sample_name: "plain_name ''a''"
  by (simp add: plain_name_def)


theorem chunked_upload_concatenates_witness:
  "snd (get_file_content sample_os ''/srv'' ''a'' DEFAULT_USER_ID
     (fst (upload_chunks sample_os ''/srv'' ''a'' DEFAULT_USER_ID (length ''ab'') [''c'', ''de'']
       (fst (save_file sample_os ''/srv'' (Some ''a'') DEFAULT_USER_ID None (Some ''ab'') DEFAULT_PURPOSE sample_fs))))) =
   Inr ''abcde''"
  using chunked_upload_concatenates [OF sample_store_inv sample_name save_file_plain [OF sample_store_inv sample_name],
      where first = "''ab''" and cs = "[''c'', ''de'']"]
  by (simp add: save_file_plain [OF sample_store_inv sample_name])

theorem metadata_of_saved_file_witness:
  "snd (get_file sample_os ''/srv'' ''a'' DEFAULT_USER_ID
     (fst (save_file sample_os ''/srv'' (Some ''a'') DEFAULT_USER_ID (Some ''input.jsonl'') (Some ''ab'') ''unknown'' sample_fs))) =
   Inr \<lparr>of_id = ''a'', of_object = ''file'', of_bytes = 2, of_created_at = 100, of_filename = ''a'', of_purpose = ''batch''\<rparr>"
  using metadata_of_saved_file [OF sample_store_inv sample_name save_file_plain [OF sample_store_inv sample_name] refl,
      where name = "Some ''input.jsonl''" and c = "''ab''" and purpose = "''unknown''"]
  unfolding save_file_plain [OF sample_store_inv sample_name] by (simp add: DEFAULT_PURPOSE_def sample_os_def)

theorem absolute_id_leaves_storage_witness:
  "snd (get_file_content sample_os ''/srv'' ''/etc/passwd'' DEFAULT_USER_ID sample_fs) = Inr ''root''"
  by (rule absolute_id_leaves_storage [OF store_inv_path [OF sample_store_inv]])
     (simp_all add: read_file_def resolve_def start_of_def components_def sample_fs_def is_dir_def)

end
