(* ===== verification/Yaml_Config.thy ===== *)
theory Yaml_Config
  imports Routing_Logic
begin

text \<open>
  \<^verbatim>\<open>src/src/vllm_router/parsers/yaml_utils.py\<close>: turning the YAML description of static models
  into the comma-separated options of the command line. A loaded YAML document is a JSON-like
  value; \<open>py_str\<close> is \<^verbatim>\<open>str()\<close> of such a value in an f-string.
\<close>

section \<open>Python's view of a loaded value\<close>

text \<open>\<^verbatim>\<open>key in value\<close>, \<^verbatim>\<open>value[key]\<close> and iteration, for a string key.\<close>

fun py_in :: "string \<Rightarrow> json \<Rightarrow> bool result" where
  "py_in k (JObj d) = Inr (k \<in> fst ` set d)"
| "py_in k (JList xs) = Inr (JStr k \<in> set xs)"
| "py_in k (JStr s) = Inr (contains s k)"
| "py_in k _ = Inl (TypeError ''argument is not iterable'')"

fun py_item :: "string \<Rightarrow> json \<Rightarrow> json result" where
  "py_item k (JObj d) = (case map_of d k of None \<Rightarrow> Inl (KeyError k) | Some v \<Rightarrow> Inr v)"
| "py_item k _ = Inl (TypeError ''indices must be integers'')"

fun py_iter :: "json \<Rightarrow> json list result" where
  "py_iter (JList xs) = Inr xs"
| "py_iter (JStr s) = Inr (map (\<lambda>c. JStr [c]) s)"
| "py_iter (JObj d) = Inr (map (\<lambda>(k, _). JStr k) d)"
| "py_iter _ = Inl (TypeError ''object is not iterable'')"

fun py_items :: "json \<Rightarrow> (string \<times> json) list result" where
  "py_items (JObj d) = Inr d"
| "py_items _ = Inl (AttributeError ''items'')"

section \<open>The generators\<close>

fun backends_loop :: "(string \<times> json) list \<Rightarrow> json list \<Rightarrow> json list result" where
  "backends_loop [] acc = Inr acc"
| "backends_loop ((_, details) # ms) acc =
     bindE (py_in ''static_backends'' details) (\<lambda>b.
       if b then
         bindE (py_item ''static_backends'' details) (\<lambda>v.
         bindE (py_iter v) (\<lambda>xs. backends_loop ms (acc @ xs)))
       else backends_loop ms acc)"

definition generate_static_backends :: "json \<Rightarrow> string result" where
  "generate_static_backends models =
     bindE (py_items models) (\<lambda>ms. bindE (backends_loop ms []) (join_strings '',''))"

fun models_loop :: "(string \<times> json) list \<Rightarrow> json list \<Rightarrow> json list result" where
  "models_loop [] acc = Inr acc"
| "models_loop ((name, details) # ms) acc =
     bindE (py_in ''static_backends'' details) (\<lambda>b.
       if b then
         bindE (py_item ''static_backends'' details) (\<lambda>v.
         bindE (json_len v) (\<lambda>n. models_loop ms (acc @ replicate n (JStr name))))
       else models_loop ms acc)"

definition generate_static_models :: "json \<Rightarrow> string result" where
  "generate_static_models models =
     bindE (py_items models) (\<lambda>ms. bindE (models_loop ms []) (join_strings '',''))"

definition generate_static_aliases :: "(json \<Rightarrow> string) \<Rightarrow> json \<Rightarrow> string result" where
  "generate_static_aliases py_str aliases =
     bindE (py_items aliases) (\<lambda>items.
       Inr (join '','' (map (\<lambda>(alias, model). alias @ '':'' @ py_str model) items)))"

fun types_loop :: "(string \<times> json) list \<Rightarrow> json list \<Rightarrow> json list result" where
  "types_loop [] acc = Inr acc"
| "types_loop ((_, details) # ms) acc =
     bindE (py_in ''static_model_type'' details) (\<lambda>t.
     bindE (if t then py_in ''static_backends'' details else Inr False) (\<lambda>b.
       if b then
         bindE (py_item ''static_model_type'' details) (\<lambda>ty.
         bindE (py_item ''static_backends'' details) (\<lambda>v.
         bindE (json_len v) (\<lambda>n. types_loop ms (acc @ replicate n ty))))
       else types_loop ms acc))"

definition generate_static_model_types :: "json \<Rightarrow> string result" where
  "generate_static_model_types models =
     bindE (py_items models) (\<lambda>ms. bindE (types_loop ms []) (join_strings '',''))"

text \<open>\<open>loaded\<close> is the document, or the error of the YAML parser. Popping from a list with a default
  is a \<^verbatim>\<open>TypeError\<close>, from anything else an \<^verbatim>\<open>AttributeError\<close>; both are raised on.\<close>

definition read_and_process_yaml_config_file :: "(json \<Rightarrow> string) \<Rightarrow> json result \<Rightarrow> jobj result" where
  "read_and_process_yaml_config_file py_str loaded =
     bindE loaded (\<lambda>yaml_config.
       if \<not> truthy yaml_config then Inr []
       else (case yaml_config of
               JObj cfg \<Rightarrow>
                 let models = jget cfg ''static_models'' JNull;
                     cfg1 = AList.delete ''static_models'' cfg;
                     aliases = jget cfg1 ''static_aliases'' JNull;
                     cfg2 = AList.delete ''static_aliases'' cfg1
                 in bindE (if truthy models then
                             bindE (generate_static_backends models) (\<lambda>b.
                             bindE (generate_static_models models) (\<lambda>m.
                             bindE (generate_static_model_types models) (\<lambda>t.
                               Inr (AList.update ''static_model_types'' (JStr t)
                                     (AList.update ''static_models'' (JStr m)
                                       (AList.update ''static_backends'' (JStr b) cfg2))))))
                           else Inr cfg2) (\<lambda>cfg3.
                    if truthy aliases then
                      bindE (generate_static_aliases py_str aliases) (\<lambda>a.
                        Inr (AList.update ''static_aliases'' (JStr a) cfg3))
                    else Inr cfg3)
             | JList _ \<Rightarrow> Inl (TypeError ''pop expected at most 1 argument'')
             | _ \<Rightarrow> Inl (AttributeError ''pop'')))"

section \<open>Well-formed descriptions\<close>

text \<open>A model with its backends and, optionally, its type.\<close>

type_synonym model_entry = "string \<times> string list \<times> string option"

definition entry_json :: "model_entry \<Rightarrow> string \<times> json" where
  "entry_json = (\<lambda>(name, urls, ty).
     (name, JObj ((''static_backends'', JList (map JStr urls)) #
                  (case ty of None \<Rightarrow> [] | Some t \<Rightarrow> [(''static_model_type'', JStr t)]))))"

definition models_json :: "model_entry list \<Rightarrow> json" where
  "models_json ms = JObj (map entry_json ms)"

definition entry_urls :: "model_entry list \<Rightarrow> string list" where
  "entry_urls ms = concat (map (\<lambda>(_, urls, _). urls) ms)"

definition entry_names :: "model_entry list \<Rightarrow> string list" where
  "entry_names ms = concat (map (\<lambda>(name, urls, _). replicate (length urls) name) ms)"

lemma backends_loop_entries:
  "backends_loop (map entry_json ms) acc = Inr (acc @ map JStr (entry_urls ms))"
  by (induction ms arbitrary: acc) (auto simp: entry_json_def entry_urls_def split: prod.splits)

lemma models_loop_entries:
  "models_loop (map entry_json ms) acc = Inr (acc @ map JStr (entry_names ms))"
  by (induction ms arbitrary: acc) (auto simp: entry_json_def entry_names_def split: prod.splits)

lemma join_strings_JStr [simp]: "join_strings sep (map JStr ws) = Inr (join sep ws)"
  by (simp add: list_all_iff comp_def)

lemma generate_entries:
  "generate_static_backends (models_json ms) = Inr (join '','' (entry_urls ms))"
  "generate_static_models (models_json ms) = Inr (join '','' (entry_names ms))"
  by (simp_all add: generate_static_backends_def generate_static_models_def models_json_def
      backends_loop_entries models_loop_entries del: join_strings.simps)

lemma entry_lengths: "length (entry_names ms) = length (entry_urls ms)"
  by (induction ms) (auto simp: entry_names_def entry_urls_def)

lemma entry_pairs:
  "zip (entry_urls ms) (entry_names ms) =
   concat (map (\<lambda>(name, urls, _). map (\<lambda>u. (u, name)) urls) ms)"
proof (induction ms)
  case Nil
  show ?case by (simp add: entry_names_def entry_urls_def)
next
  case (Cons m ms)
  obtain name urls ty where m: "m = (name, urls, ty)" by (cases m)
  have "zip urls (replicate (length urls) name) = map (\<lambda>u. (u, name)) urls"
    by (induction urls) auto
  with Cons m show ?case by (simp add: entry_names_def entry_urls_def)
qed

text \<open>The YAML description of the static models survives the detour through comma-separated
  options: with valid URLs and no commas in URLs and names, the discovery that is created from the
  generated options serves, in order, exactly the described pairs of URL and model.\<close>

theorem yaml_models_roundtrip:
  assumes "entry_urls ms \<noteq> []"
    and "\<forall>u \<in> set (entry_urls ms). validate_url u \<and> CHR '','' \<notin> set u"
    and "\<forall>n \<in> set (entry_names ms). CHR '','' \<notin> set n"
  shows "\<exists>b m sd. generate_static_backends (models_json ms) = Inr b \<and>
           generate_static_models (models_json ms) = Inr m \<and>
           StaticServiceDiscovery_init uuid4 now (parse_static_urls b) (parse_comma_separated_args (Some m))
             al ml mt hc pl dl = Inr sd \<and>
           zip (ssd_urls sd) (ssd_models sd) =
             concat (map (\<lambda>(name, urls, _). map (\<lambda>u. (u, name)) urls) ms)"
proof -
  have ne: "entry_names ms \<noteq> []" using assms(1) entry_lengths [of ms] by auto
  have "split_on CHR '','' (join '','' (entry_urls ms)) = entry_urls ms"
    using assms by (intro split_on_join) auto
  then have u: "parse_static_urls (join '','' (entry_urls ms)) = entry_urls ms"
    using assms(2) by (simp add: parse_static_urls_def filter_id_conv)
  have m: "parse_comma_separated_args (Some (join '','' (entry_names ms))) = Some (entry_names ms)"
    using assms(3) ne by (simp add: parse_comma_separated_args_def split_on_join)
  show ?thesis
    by (simp add: generate_entries u m StaticServiceDiscovery_init_def entry_lengths entry_pairs)
qed

text \<open>One invalid URL does not just skip its backend, as the warning says: the numbers of URLs and
  models no longer agree and the discovery cannot be created.\<close>

lemma invalid_url_fails_startup:
  assumes "entry_urls ms \<noteq> []" and "\<forall>u \<in> set (entry_urls ms). CHR '','' \<notin> set u"
    and "\<forall>n \<in> set (entry_names ms). CHR '','' \<notin> set n" and "u \<in> set (entry_urls ms)" and "\<not> validate_url u"
  shows "StaticServiceDiscovery_init uuid4 now (parse_static_urls (join '','' (entry_urls ms)))
           (parse_comma_separated_args (Some (join '','' (entry_names ms)))) al ml mt hc pl dl =
         Inl (AssertionError ''URLs and models should have the same length'')"
proof -
  have ne: "entry_names ms \<noteq> []" using assms(1) entry_lengths [of ms] by auto
  have "split_on CHR '','' (join '','' (entry_urls ms)) = entry_urls ms"
    using assms by (intro split_on_join) auto
  then have "parse_static_urls (join '','' (entry_urls ms)) = filter validate_url (entry_urls ms)"
    by (simp add: parse_static_urls_def)
  moreover have "length (filter validate_url (entry_urls ms)) < length (entry_names ms)"
    unfolding entry_lengths by (rule length_filter_less [of u]) (use assms in auto)
  moreover have "parse_comma_separated_args (Some (join '','' (entry_names ms))) = Some (entry_names ms)"
    using assms(3) ne by (simp add: parse_comma_separated_args_def split_on_join)
  ultimately show ?thesis by (simp add: StaticServiceDiscovery_init_def)
qed

theorem yaml_models_roundtrip_witness:
  "\<exists>b m sd. generate_static_backends (models_json [(''m'', [''http://localhost:1'', ''http://10.0.0.2:2''], None)]) = Inr b \<and>
     generate_static_models (models_json [(''m'', [''http://localhost:1'', ''http://10.0.0.2:2''], None)]) = Inr m \<and>
     StaticServiceDiscovery_init (\<lambda>n. show_nat n) 0 (parse_static_urls b) (parse_comma_separated_args (Some m))
       None None None False None None = Inr sd \<and>
     zip (ssd_urls sd) (ssd_models sd) = [(''http://localhost:1'', ''m''), (''http://10.0.0.2:2'', ''m'')]"
proof -
  have v: "validate_url ''http://localhost:1''" "validate_url ''http://10.0.0.2:2''" by code_simp+
  have e: "entry_urls [(''m'', [''http://localhost:1'', ''http://10.0.0.2:2''], None)] = [''http://localhost:1'', ''http://10.0.0.2:2'']"
    "entry_names [(''m'', [''http://localhost:1'', ''http://10.0.0.2:2''], None)] = [''m'', ''m'']"
    by (simp_all add: entry_urls_def entry_names_def numeral_2_eq_2)
  show ?thesis
    using yaml_models_roundtrip [of "[(''m'', [''http://localhost:1'', ''http://10.0.0.2:2''], None)]" "\<lambda>n. show_nat n" 0
        None None None False None None]
    by (simp add: e v)
qed

text \<open>Aliases survive the detour as well: a nonempty dictionary of aliases without commas and
  colons is printed and parsed back to itself.\<close>

theorem yaml_aliases_roundtrip:
  assumes str: "\<And>s. py_str (JStr s) = s" and ne: "ps \<noteq> []" and d: "distinct (map fst ps)"
    and c: "\<forall>(a, m) \<in> set ps. CHR '':'' \<notin> set a \<and> CHR '':'' \<notin> set m \<and> CHR '','' \<notin> set a \<and> CHR '','' \<notin> set m"
  shows "bindE (generate_static_aliases py_str (JObj (map (\<lambda>(a, m). (a, JStr m)) ps))) parse_static_aliases = Inr ps"
proof -
  let ?items = "map (\<lambda>(a, m). a @ '':'' @ m) ps"
  have "generate_static_aliases py_str (JObj (map (\<lambda>(a, m). (a, JStr m)) ps)) = Inr (join '','' ?items)"
    by (simp add: generate_static_aliases_def str comp_def case_prod_unfold)
  moreover have "split_on CHR '','' (join '','' ?items) = ?items"
    using ne c by (intro split_on_join) auto
  moreover have "aliases_loop [] ?items = Inr ([] @ ps)"
    using c d by (intro aliases_loop_pairs) auto
  ultimately show ?thesis by (simp add: parse_static_aliases_def)
qed

theorem yaml_aliases_roundtrip_witness:
  "bindE (generate_static_aliases (\<lambda>j. case j of JStr s \<Rightarrow> s | _ \<Rightarrow> []) (JObj [(''gpt'', JStr ''llama3'')]))
     parse_static_aliases = Inr [(''gpt'', ''llama3'')]"
  using yaml_aliases_roundtrip [of "\<lambda>j. case j of JStr s \<Rightarrow> s | _ \<Rightarrow> []" "[(''gpt'', ''llama3'')]"] by simp

end
