(* ===== verification/Batch_Service.thy ===== *)
theory Batch_Service
  imports File_Storage Yaml_Config
begin

text \<open>
  The batch API: \<^verbatim>\<open>src/src/vllm_router/services/batch_service/\<close> (\<^verbatim>\<open>batch.py\<close>, \<^verbatim>\<open>processor.py\<close>,
  \<^verbatim>\<open>local_processor.py\<close>) and the routes \<^verbatim>\<open>src/src/vllm_router/routers/batches_router.py\<close> and
  \<^verbatim>\<open>files_router.py\<close>. The SQLite table is the list of its rows in the order of insertion; what
  SQLite does with a bound value and with a text compared to an integer column is given by two
  parameters. The imports of \<^verbatim>\<open>vllm_router.batch.batch\<close> are read as the module
  \<^verbatim>\<open>services/batch_service/batch.py\<close> that has those names; that they fail as written is
  \<open>initialize_batch_processor\<close> below.
\<close>

section \<open>Batches\<close>

datatype BatchStatus = PENDING | RUNNING | COMPLETED | FAILED

fun BatchStatus_value :: "BatchStatus \<Rightarrow> string" where
  "BatchStatus_value PENDING = ''pending''"
| "BatchStatus_value RUNNING = ''running''"
| "BatchStatus_value COMPLETED = ''completed''"
| "BatchStatus_value FAILED = ''failed''"

definition BatchStatus_of :: "string \<Rightarrow> BatchStatus result" where
  "BatchStatus_of s =
     (if s = ''pending'' then Inr PENDING else if s = ''running'' then Inr RUNNING
      else if s = ''completed'' then Inr COMPLETED else if s = ''failed'' then Inr FAILED
      else Inl (ValueError ''not a valid BatchStatus''))"

datatype BatchEndpoint = CHAT_COMPLETION | EMBEDDING | COMPLETION

fun BatchEndpoint_value :: "BatchEndpoint \<Rightarrow> string" where
  "BatchEndpoint_value CHAT_COMPLETION = ''/v1/chat/completions''"
| "BatchEndpoint_value EMBEDDING = ''/v1/embeddings''"
| "BatchEndpoint_value COMPLETION = ''/v1/completions''"

text \<open>The status of a \<^verbatim>\<open>BatchInfo\<close> is a member of the enumeration, or the text that \<^verbatim>\<open>cancel_batch\<close>
  puts there. The fields that nothing ever sets are left out of the record and appear in
  \<^verbatim>\<open>to_dict\<close> with their defaults.\<close>

datatype info_status = Member BatchStatus | Text string

record BatchInfo =
  bi_id :: string
  bi_status :: info_status
  bi_input_file_id :: json
  bi_created_at :: int
  bi_endpoint :: json
  bi_completion_window :: json
  bi_output_file_id :: "string option"
  bi_completed_at :: "int option"
  bi_metadata :: json

definition opt_json :: "('a \<Rightarrow> json) \<Rightarrow> 'a option \<Rightarrow> json" where
  "opt_json f v = (case v of None \<Rightarrow> JNull | Some x \<Rightarrow> f x)"

definition BatchInfo_to_dict :: "BatchInfo \<Rightarrow> jobj result" where
  "BatchInfo_to_dict b =
     (case bi_status b of
        Text _ \<Rightarrow> Inl (AttributeError ''value'')
      | Member s \<Rightarrow>
          Inr [(''id'', JStr (bi_id b)), (''status'', JStr (BatchStatus_value s)),
               (''input_file_id'', bi_input_file_id b), (''created_at'', JInt (bi_created_at b)),
               (''endpoint'', bi_endpoint b), (''completion_window'', bi_completion_window b),
               (''output_file_id'', opt_json JStr (bi_output_file_id b)), (''error_file_id'', JNull),
               (''in_progress_at'', JNull), (''expires_at'', JNull), (''finalizing_at'', JNull),
               (''completed_at'', opt_json JInt (bi_completed_at b)), (''failed_at'', JNull),
               (''expired_at'', JNull), (''cancelling_at'', JNull), (''cancelled_at'', JNull),
               (''total_requests'', JNull), (''completed_requests'', JInt 0), (''failed_requests'', JInt 0),
               (''metadata'', bi_metadata b)])"

section \<open>The table\<close>

record batch_row =
  bw_batch_id :: string
  bw_status :: string
  bw_input_file_id :: json
  bw_created_at :: int
  bw_endpoint :: json
  bw_completion_window :: json
  bw_output_file_id :: "string option"
  bw_completed_at :: "int option"
  bw_metadata :: string

type_synonym batch_table = "batch_row list"

text \<open>The world of the processor: the clock, the digits of the next UUID, JSON texts, what a text
  column holds of a bound value (or the error of binding it), and the number that a text is when it
  is compared with an integer column.\<close>

record batch_env =
  be_now :: int
  be_uuid4_hex :: string
  be_dumps :: "json \<Rightarrow> string"
  be_loads :: "string \<Rightarrow> json option"
  be_column :: "json \<Rightarrow> json result"
  be_number :: "string \<Rightarrow> rat option"

definition find_row :: "string \<Rightarrow> batch_table \<Rightarrow> batch_row option" where
  "find_row batch_id db = find (\<lambda>r. bw_batch_id r = batch_id) db"

definition update_row :: "string \<Rightarrow> (batch_row \<Rightarrow> batch_row) \<Rightarrow> batch_table \<Rightarrow> batch_table" where
  "update_row batch_id f db = map (\<lambda>r. if bw_batch_id r = batch_id then f r else r) db"

text \<open>\<^verbatim>\<open>INSERT\<close>: the identifier is the primary key.\<close>

definition insert_row :: "batch_row \<Rightarrow> batch_table \<Rightarrow> batch_table \<times> unit result" where
  "insert_row r db =
     (if bw_batch_id r \<in> bw_batch_id ` set db then (db, Inl (OtherException ''IntegrityError''))
      else (db @ [r], Inr ()))"

section \<open>The local processor\<close>

definition create_batch ::
  "batch_env \<Rightarrow> json \<Rightarrow> json \<Rightarrow> json \<Rightarrow> json \<Rightarrow> batch_table \<Rightarrow> batch_table \<times> BatchInfo result" where
  "create_batch env input_file_id endpoint completion_window metadata db =
     (let batch_id = ''batch_'' @ take 6 (be_uuid4_hex env);
          md = (if truthy metadata then metadata else JObj []);
          info = \<lparr>bi_id = batch_id, bi_status = Member PENDING, bi_input_file_id = input_file_id,
                  bi_created_at = be_now env, bi_endpoint = endpoint,
                  bi_completion_window = completion_window, bi_output_file_id = None,
                  bi_completed_at = None, bi_metadata = md\<rparr>
      in case bindE (be_column env input_file_id) (\<lambda>f. bindE (be_column env endpoint) (\<lambda>e.
                bindE (be_column env completion_window) (\<lambda>w. Inr (f, e, w)))) of
           Inl e \<Rightarrow> (db, Inl e)
         | Inr (f, e, w) \<Rightarrow>
             (case insert_row \<lparr>bw_batch_id = batch_id, bw_status = BatchStatus_value PENDING,
                               bw_input_file_id = f, bw_created_at = be_now env, bw_endpoint = e,
                               bw_completion_window = w, bw_output_file_id = None,
                               bw_completed_at = None, bw_metadata = be_dumps env md\<rparr> db of
                (db', Inl err) \<Rightarrow> (db', Inl err)
              | (db', Inr _) \<Rightarrow> (db', Inr info)))"

definition row_info :: "batch_env \<Rightarrow> batch_row \<Rightarrow> BatchInfo result" where
  "row_info env r =
     bindE (BatchStatus_of (bw_status r)) (\<lambda>s.
     bindE (if bw_metadata r = [] then Inr (JObj [])
            else (case be_loads env (bw_metadata r) of None \<Rightarrow> Inl JSONDecodeError | Some v \<Rightarrow> Inr v)) (\<lambda>md.
       Inr \<lparr>bi_id = bw_batch_id r, bi_status = Member s, bi_input_file_id = bw_input_file_id r,
            bi_created_at = bw_created_at r, bi_endpoint = bw_endpoint r,
            bi_completion_window = bw_completion_window r, bi_output_file_id = bw_output_file_id r,
            bi_completed_at = bw_completed_at r, bi_metadata = md\<rparr>))"

definition retrieve_batch :: "batch_env \<Rightarrow> string \<Rightarrow> batch_table \<Rightarrow> BatchInfo result" where
  "retrieve_batch env batch_id db =
     (case find_row batch_id db of
        None \<Rightarrow> Inl (ValueError ''Batch not found'')
      | Some r \<Rightarrow> row_info env r)"

text \<open>\<^verbatim>\<open>ORDER BY\<close> on the creation time; rows of the same time keep the order of insertion. A
  negative limit is no limit. A text that is no number is greater than every integer.\<close>

definition created_after :: "batch_env \<Rightarrow> string \<Rightarrow> batch_row \<Rightarrow> bool" where
  "created_after env after_text r =
     (case be_number env after_text of None \<Rightarrow> False | Some q \<Rightarrow> q < of_int (bw_created_at r))"

definition select_batches :: "batch_env \<Rightarrow> int \<Rightarrow> string option \<Rightarrow> batch_table \<Rightarrow> string list" where
  "select_batches env limit after db =
     (let rows = (case after of
                    None \<Rightarrow> db
                  | Some a \<Rightarrow> if a = [] then db else filter (created_after env a) db);
          sorted = sort_key (\<lambda>r. - bw_created_at r) rows
      in map bw_batch_id (if limit < 0 then sorted else take (nat limit) sorted))"

definition list_batches :: "batch_env \<Rightarrow> int \<Rightarrow> string option \<Rightarrow> batch_table \<Rightarrow> BatchInfo list result" where
  "list_batches env limit after db = mapE (\<lambda>i. retrieve_batch env i db) (select_batches env limit after db)"

definition cancel_batch :: "batch_env \<Rightarrow> string \<Rightarrow> batch_table \<Rightarrow> batch_table \<times> BatchInfo result" where
  "cancel_batch env batch_id db =
     (case retrieve_batch env batch_id db of
        Inl e \<Rightarrow> (db, Inl e)
      | Inr info \<Rightarrow>
          if bi_status info \<in> {Member COMPLETED, Member FAILED} then (db, Inr info)
          else (update_row batch_id (\<lambda>r. r\<lparr>bw_status := ''cancelled'', bw_completed_at := Some (be_now env)\<rparr>) db,
                Inr (info\<lparr>bi_status := Text ''cancelled'', bi_completed_at := Some (be_now env)\<rparr>)))"

text \<open>One turn of \<^verbatim>\<open>process_batches\<close> has two parts between which other requests run: taking the
  oldest pending batch, and, after the work, recording its outcome. The work itself writes a
  file; \<open>saved\<close> is what the storage returned.\<close>

definition pending_rows :: "batch_table \<Rightarrow> batch_row list" where
  "pending_rows db = sort_key bw_created_at (filter (\<lambda>r. bw_status r = BatchStatus_value PENDING) db)"

definition claim_batch :: "batch_table \<Rightarrow> batch_table \<times> string option" where
  "claim_batch db =
     (case pending_rows db of
        [] \<Rightarrow> (db, None)
      | r # _ \<Rightarrow> (update_row (bw_batch_id r) (\<lambda>r. r\<lparr>bw_status := ''running''\<rparr>) db, Some (bw_batch_id r)))"

definition finish_batch :: "int \<Rightarrow> string result \<Rightarrow> string \<Rightarrow> batch_table \<Rightarrow> batch_table" where
  "finish_batch completed_at saved batch_id db =
     (case saved of
        Inl _ \<Rightarrow>
          update_row batch_id (\<lambda>r. r\<lparr>bw_status := BatchStatus_value FAILED, bw_completed_at := Some completed_at,
                                   bw_output_file_id := None\<rparr>) db
      | Inr output_file_id \<Rightarrow>
          update_row batch_id (\<lambda>r. r\<lparr>bw_status := BatchStatus_value COMPLETED, bw_completed_at := Some completed_at,
                                   bw_output_file_id := Some output_file_id\<rparr>) db)"

text \<open>The file the processor writes for a batch, through the storage; \<open>stamp\<close> is the time as text.\<close>

definition save_result ::
  "os_env \<Rightarrow> string \<Rightarrow> string \<Rightarrow> string \<Rightarrow> fs \<Rightarrow> fs \<times> string result" where
  "save_result os base_path stamp batch_id fs =
     (case save_file os base_path None DEFAULT_USER_ID (Some (batch_id @ ''_result.txt''))
             (Some (''Processed batch '' @ batch_id @ '' at '' @ stamp)) ''batch_output'' fs of
        (fs', Inl e) \<Rightarrow> (fs', Inl e)
      | (fs', Inr info) \<Rightarrow> (fs', Inr (of_id info)))"

text \<open>The factory imports \<^verbatim>\<open>vllm_router.batch.local_processor\<close>, which is not there.\<close>

definition initialize_batch_processor :: "string \<Rightarrow> unit result" where
  "initialize_batch_processor batch_processor_name =
     (if batch_processor_name = ''local'' then Inl (OtherException ''ModuleNotFoundError'')
      else Inl (ValueError ''Unknown batch processor''))"

section \<open>The routes\<close>

datatype api_reply = JsonReply int jobj | RawReply string

abbreviation error_reply :: "int \<Rightarrow> string \<Rightarrow> api_reply" where
  "error_reply st msg \<equiv> JsonReply st [(''error'', JStr msg)]"

text \<open>The application of the two routers: the storage and the table, each present once the batch
  API is initialised.\<close>

record batch_app =
  ba_storage :: "string option"
  ba_processor :: bool
  ba_fs :: fs
  ba_table :: batch_table

definition the_storage :: "batch_app \<Rightarrow> string result" where
  "the_storage app = (case ba_storage app of None \<Rightarrow> Inl (AttributeError ''batch_storage'') | Some b \<Rightarrow> Inr b)"

definition the_processor :: "batch_app \<Rightarrow> unit result" where
  "the_processor app = (if ba_processor app then Inr () else Inl (AttributeError ''batch_processor''))"

text \<open>An upload: the fields of the form that are read. What is sent as \<^verbatim>\<open>file\<close> is a file, with its
  name and content, or plain text, which has no \<^verbatim>\<open>read\<close>.\<close>

datatype form_part = FilePart "string option" string | TextPart string

record upload_form =
  uf_purpose :: "string option"
  uf_file :: "form_part option"

definition route_files :: "os_env \<Rightarrow> upload_form \<Rightarrow> batch_app \<Rightarrow> batch_app \<times> api_reply result" where
  "route_files os form app =
     (let purpose = (case uf_purpose form of None \<Rightarrow> ''unknown'' | Some p \<Rightarrow> p) in
      case uf_file form of
        None \<Rightarrow> (app, Inr (error_reply 400 ''Missing required parameter file''))
      | Some (TextPart _) \<Rightarrow> (app, Inl (AttributeError ''read''))
      | Some (FilePart filename file_content) \<Rightarrow>
          (case the_storage app of
             Inl _ \<Rightarrow> (app, Inr (error_reply 500 ''Failed to save file''))
           | Inr base \<Rightarrow>
               (case save_file os base None DEFAULT_USER_ID filename (Some file_content) purpose (ba_fs app) of
                  (fs, Inl _) \<Rightarrow> (app\<lparr>ba_fs := fs\<rparr>, Inr (error_reply 500 ''Failed to save file''))
                | (fs, Inr info) \<Rightarrow> (app\<lparr>ba_fs := fs\<rparr>, Inr (JsonReply 200 (OpenAIFile_metadata info))))))"

text \<open>The reading routes catch only \<^verbatim>\<open>FileNotFoundError\<close>.\<close>

definition not_found_reply :: "string \<Rightarrow> 'a result \<Rightarrow> ('a \<Rightarrow> api_reply result) \<Rightarrow> api_reply result" where
  "not_found_reply msg r k =
     (case r of
        Inl (FileNotFoundError _) \<Rightarrow> Inr (error_reply 404 msg)
      | Inl e \<Rightarrow> Inl e
      | Inr x \<Rightarrow> k x)"

definition route_get_file :: "os_env \<Rightarrow> string \<Rightarrow> batch_app \<Rightarrow> batch_app \<times> api_reply result" where
  "route_get_file os file_id app =
     (case the_storage app of
        Inl e \<Rightarrow> (app, Inl e)
      | Inr base \<Rightarrow>
          (case get_file os base file_id DEFAULT_USER_ID (ba_fs app) of
             (fs, r) \<Rightarrow> (app\<lparr>ba_fs := fs\<rparr>,
                         not_found_reply ''File not found'' r (\<lambda>f. Inr (JsonReply 200 (OpenAIFile_metadata f))))))"

definition route_get_file_content :: "os_env \<Rightarrow> string \<Rightarrow> batch_app \<Rightarrow> batch_app \<times> api_reply result" where
  "route_get_file_content os file_id app =
     (case the_storage app of
        Inl e \<Rightarrow> (app, Inl e)
      | Inr base \<Rightarrow>
          (case get_file_content os base file_id DEFAULT_USER_ID (ba_fs app) of
             (fs, r) \<Rightarrow> (app\<lparr>ba_fs := fs\<rparr>, not_found_reply ''File not found'' r (\<lambda>c. Inr (RawReply c)))))"

text \<open>\<open>parsed\<close> is the request's JSON body, or the error of parsing it. Every exception becomes a
  reply with status 500.\<close>

definition failed_batch :: api_reply where
  "failed_batch = error_reply 500 ''Failed to process batch request''"

definition route_batches ::
  "batch_env \<Rightarrow> os_env \<Rightarrow> json result \<Rightarrow> batch_app \<Rightarrow> batch_app \<times> api_reply" where
  "route_batches env os parsed app =
     (case bindE parsed (\<lambda>body. bindE (py_in ''input_file_id'' body) (\<lambda>i. Inr (body, i))) of
        Inl _ \<Rightarrow> (app, failed_batch)
      | Inr (body, False) \<Rightarrow> (app, error_reply 400 ''Missing required parameter input_file_id'')
      | Inr (body, True) \<Rightarrow>
          (case py_in ''endpoint'' body of
             Inl _ \<Rightarrow> (app, failed_batch)
           | Inr False \<Rightarrow> (app, error_reply 400 ''Missing required parameter endpoint'')
           | Inr True \<Rightarrow>
               (case bindE (the_storage app) (\<lambda>base. bindE (py_item ''input_file_id'' body) (\<lambda>f. Inr (base, f))) of
                  Inr (base, JStr file_id) \<Rightarrow>
                    (case get_file os base file_id DEFAULT_USER_ID (ba_fs app) of
                       (fs, Inl (FileNotFoundError _)) \<Rightarrow> (app\<lparr>ba_fs := fs\<rparr>, error_reply 404 ''File not found'')
                     | (fs, Inl _) \<Rightarrow> (app\<lparr>ba_fs := fs\<rparr>, failed_batch)
                     | (fs, Inr _) \<Rightarrow>
                         let app1 = app\<lparr>ba_fs := fs\<rparr> in
                         (case bindE (the_processor app1) (\<lambda>_. py_item ''endpoint'' body) of
                            Inl _ \<Rightarrow> (app1, failed_batch)
                          | Inr endpoint \<Rightarrow>
                              (case create_batch env (JStr file_id) endpoint
                                      (case body of JObj d \<Rightarrow> jget d ''completion_window'' (JStr ''5s'') | _ \<Rightarrow> JNull)
                                      (case body of JObj d \<Rightarrow> jget d ''metadata'' JNull | _ \<Rightarrow> JNull)
                                      (ba_table app1) of
                                 (db, Inl _) \<Rightarrow> (app1\<lparr>ba_table := db\<rparr>, failed_batch)
                               | (db, Inr info) \<Rightarrow>
                                   (app1\<lparr>ba_table := db\<rparr>,
                                    case BatchInfo_to_dict info of
                                      Inl _ \<Rightarrow> failed_batch | Inr d \<Rightarrow> JsonReply 200 d))))
                | _ \<Rightarrow> (app, failed_batch))))"

definition route_get_batch :: "batch_env \<Rightarrow> string \<Rightarrow> batch_app \<Rightarrow> api_reply result" where
  "route_get_batch env batch_id app =
     not_found_reply ''Batch not found''
       (bindE (the_processor app) (\<lambda>_. bindE (retrieve_batch env batch_id (ba_table app)) BatchInfo_to_dict))
       (\<lambda>d. Inr (JsonReply 200 d))"

definition route_list_batches :: "batch_env \<Rightarrow> int \<Rightarrow> string option \<Rightarrow> batch_app \<Rightarrow> api_reply result" where
  "route_list_batches env limit after app =
     not_found_reply ''No batches found''
       (bindE (the_processor app) (\<lambda>_.
        bindE (list_batches env limit after (ba_table app)) (mapE BatchInfo_to_dict)))
       (\<lambda>batch_data. Inr (JsonReply 200
          [(''object'', JStr ''list''), (''data'', JList (map JObj batch_data)),
           (''first_id'', if batch_data = [] then JNull else jget (hd batch_data) ''id'' JNull),
           (''last_id'', if batch_data = [] then JNull else jget (last batch_data) ''id'' JNull),
           (''has_more'', JBool (int (length batch_data) = limit))]))"

definition route_cancel_batch ::
  "batch_env \<Rightarrow> string \<Rightarrow> batch_app \<Rightarrow> batch_app \<times> api_reply result" where
  "route_cancel_batch env batch_id app =
     (case the_processor app of
        Inl e \<Rightarrow> (app, Inl e)
      | Inr _ \<Rightarrow>
          (case cancel_batch env batch_id (ba_table app) of
             (db, r) \<Rightarrow> (app\<lparr>ba_table := db\<rparr>,
                         not_found_reply ''Batch not found'' (bindE r BatchInfo_to_dict) (\<lambda>d. Inr (JsonReply 200 d)))))"

end
