(* ===== verification/Batch_Properties.thy ===== *)
theory Batch_Properties
  imports Batch_Service
begin

text \<open>
  The batch processor as a state machine: requests and the background worker take turns on the
  table. The invariant of the table, what can and cannot happen to a batch, that the worker drains
  the queue, and what cancelling does to later requests.
\<close>

section \<open>Rows\<close>

lemma ids_update_row [simp]:
  assumes "\<And>r. bw_batch_id (f r) = bw_batch_id r"
  shows "map bw_batch_id (update_row i f db) = map bw_batch_id db"
  using assms by (simp add: update_row_def)

lemma set_update_row:
  "set (update_row i f db) = {r \<in> set db. bw_batch_id r \<noteq> i} \<union> f ` {r \<in> set db. bw_batch_id r = i}"
  by (auto simp: update_row_def)

lemma find_row_Some: "find_row i db = Some r \<Longrightarrow> r \<in> set db \<and> bw_batch_id r = i"
  by (auto simp: find_row_def find_Some_iff)

lemma find_row_mem:
  assumes "distinct (map bw_batch_id db)" and "r \<in> set db"
  shows "find_row (bw_batch_id r) db = Some r"
  using assms by (induction db) (auto simp: find_row_def)

lemma find_row_last: "i \<notin> bw_batch_id ` set db \<Longrightarrow> bw_batch_id row = i \<Longrightarrow> find_row i (db @ [row]) = Some row"
  by (induction db) (auto simp: find_row_def)

lemma find_row_None: "find_row i db = None \<longleftrightarrow> i \<notin> bw_batch_id ` set db"
  by (auto simp: find_row_def find_None_iff)

text \<open>A row of an identifier is the only one.\<close>

lemma row_unique:
  "distinct (map bw_batch_id db) \<Longrightarrow> r \<in> set db \<Longrightarrow> r' \<in> set db \<Longrightarrow> bw_batch_id r = bw_batch_id r' \<Longrightarrow> r = r'"
  by (simp add: distinct_map inj_on_def)

lemma insert_row_mem: "insert_row r db = (db', res) \<Longrightarrow> set db' \<subseteq> insert r (set db) \<and> set db \<subseteq> set db'"
  by (auto simp: insert_row_def split: if_splits)

section \<open>The machine\<close>

record batch_system =
  sy_table :: batch_table
  sy_working :: "string option"

definition batch_start :: batch_system where
  "batch_start = \<lparr>sy_table = [], sy_working = None\<rparr>"

inductive batch_step :: "batch_system \<Rightarrow> batch_system \<Rightarrow> bool" where
  create: "create_batch env f e w m (sy_table s) = (db, r) \<Longrightarrow> batch_step s (s\<lparr>sy_table := db\<rparr>)"
| cancel: "cancel_batch env i (sy_table s) = (db, r) \<Longrightarrow> batch_step s (s\<lparr>sy_table := db\<rparr>)"
| claim: "sy_working s = None \<Longrightarrow> claim_batch (sy_table s) = (db, w) \<Longrightarrow>
    batch_step s (s\<lparr>sy_table := db, sy_working := w\<rparr>)"
| finish: "sy_working s = Some i \<Longrightarrow>
    batch_step s (s\<lparr>sy_table := finish_batch now saved i (sy_table s), sy_working := None\<rparr>)"

inductive batch_reachable :: "batch_system \<Rightarrow> bool" where
  start: "batch_reachable batch_start"
| step: "batch_reachable s \<Longrightarrow> batch_step s t \<Longrightarrow> batch_reachable t"

text \<open>What a row may look like while the worker is on batch \<open>w\<close>.\<close>

definition row_ok :: "string option \<Rightarrow> batch_row \<Rightarrow> bool" where
  "row_ok w r \<longleftrightarrow>
     (bw_status r = ''pending'' \<and> bw_completed_at r = None \<and> bw_output_file_id r = None \<and> w \<noteq> Some (bw_batch_id r)) \<or>
     (bw_status r = ''running'' \<and> bw_completed_at r = None \<and> bw_output_file_id r = None \<and> w = Some (bw_batch_id r)) \<or>
     (bw_status r = ''completed'' \<and> bw_completed_at r \<noteq> None \<and> bw_output_file_id r \<noteq> None \<and> w \<noteq> Some (bw_batch_id r)) \<or>
     (bw_status r = ''failed'' \<and> bw_completed_at r \<noteq> None \<and> bw_output_file_id r = None \<and> w \<noteq> Some (bw_batch_id r)) \<or>
     (bw_status r = ''cancelled'' \<and> bw_completed_at r \<noteq> None \<and> bw_output_file_id r = None)"

definition batch_inv :: "batch_system \<Rightarrow> bool" where
  "batch_inv s \<longleftrightarrow>
     distinct (map bw_batch_id (sy_table s)) \<and>
     (\<forall>r \<in> set (sy_table s). row_ok (sy_working s) r) \<and>
     (\<forall>i. sy_working s = Some i \<longrightarrow> i \<in> bw_batch_id ` set (sy_table s))"

lemma create_batch_rows:
  assumes "create_batch env f e w m db = (db', r)"
  shows "db' = db \<or> (\<exists>row. db' = db @ [row] \<and> bw_batch_id row \<notin> bw_batch_id ` set db \<and>
    bw_status row = ''pending'' \<and> bw_completed_at row = None \<and> bw_output_file_id row = None)"
  using assms
  by (auto simp: create_batch_def insert_row_def Let_def bindE_def split: sum.splits if_splits)

lemma row_info_status:
  "row_info env row = Inr info \<Longrightarrow> \<exists>st. bi_status info = Member st \<and> bw_status row = BatchStatus_value st"
  by (auto simp: row_info_def BatchStatus_of_def bindE_eq_Inr split: if_splits)

lemma cancel_batch_rows:
  assumes "cancel_batch env i db = (db', r)"
  shows "db' = db \<or>
    (\<exists>row. find_row i db = Some row \<and> bw_status row \<in> {''pending'', ''running''} \<and>
       db' = update_row i (\<lambda>r. r\<lparr>bw_status := ''cancelled'', bw_completed_at := Some (be_now env)\<rparr>) db)"
proof (cases "retrieve_batch env i db")
  case (Inl e)
  with assms show ?thesis by (simp add: cancel_batch_def)
next
  case (Inr info)
  then obtain row where row: "find_row i db = Some row" "row_info env row = Inr info"
    by (auto simp: retrieve_batch_def split: option.splits)
  then obtain st where "bi_status info = Member st" "bw_status row = BatchStatus_value st"
    using row_info_status by blast
  with assms Inr row show ?thesis
    by (cases st) (auto simp: cancel_batch_def)
qed

lemma pending_rows_set: "set (pending_rows db) = {r \<in> set db. bw_status r = ''pending''}"
  by (auto simp: pending_rows_def)

lemma claim_batch_rows:
  assumes "claim_batch db = (db', w)"
  obtains "w = None" "db' = db" "\<forall>r \<in> set db. bw_status r \<noteq> ''pending''"
  | row where "row \<in> set db" "bw_status row = ''pending''" "w = Some (bw_batch_id row)"
      "\<forall>r \<in> set db. bw_status r = ''pending'' \<longrightarrow> bw_created_at row \<le> bw_created_at r"
      "db' = update_row (bw_batch_id row) (\<lambda>r. r\<lparr>bw_status := ''running''\<rparr>) db"
proof (cases "pending_rows db")
  case Nil
  then have "\<forall>r \<in> set db. bw_status r \<noteq> ''pending''"
    using pending_rows_set [of db] by auto
  with assms Nil that(1) show ?thesis by (simp add: claim_batch_def)
next
  case (Cons row rows)
  then have row: "row \<in> set db" "bw_status row = ''pending''"
    using pending_rows_set [of db] by auto
  have "sorted (map bw_created_at (row # rows))"
    using Cons by (metis pending_rows_def sorted_sort_key)
  then have "\<forall>r \<in> set db. bw_status r = ''pending'' \<longrightarrow> bw_created_at row \<le> bw_created_at r"
    using pending_rows_set [of db] Cons by auto
  with row assms Cons that(2) show ?thesis by (simp add: claim_batch_def)
qed

lemma finish_batch_rows:
  "\<exists>f. finish_batch now saved i db = update_row i f db \<and>
     (\<forall>r. bw_batch_id (f r) = bw_batch_id r \<and> bw_created_at (f r) = bw_created_at r \<and> bw_completed_at (f r) = Some now \<and>
          (bw_status (f r) = ''completed'' \<and> bw_output_file_id (f r) \<noteq> None \<or>
           bw_status (f r) = ''failed'' \<and> bw_output_file_id (f r) = None))"
  by (cases saved) (auto simp: finish_batch_def)

section \<open>The invariant\<close>

lemma row_ok_intros:
  "bw_status r = ''pending'' \<Longrightarrow> bw_completed_at r = None \<Longrightarrow> bw_output_file_id r = None \<Longrightarrow>
   w \<noteq> Some (bw_batch_id r) \<Longrightarrow> row_ok w r"
  "bw_status r = ''running'' \<Longrightarrow> bw_completed_at r = None \<Longrightarrow> bw_output_file_id r = None \<Longrightarrow>
   w = Some (bw_batch_id r) \<Longrightarrow> row_ok w r"
  "bw_status r = ''cancelled'' \<Longrightarrow> bw_completed_at r \<noteq> None \<Longrightarrow> bw_output_file_id r = None \<Longrightarrow> row_ok w r"
  by (simp_all add: row_ok_def)

lemma row_ok_unfinished:
  "row_ok w r \<Longrightarrow> bw_status r \<in> {''pending'', ''running''} \<Longrightarrow> bw_output_file_id r = None \<and> bw_completed_at r = None"
  by (auto simp: row_ok_def)

text \<open>Only the row the worker is on depends on it.\<close>

lemma row_ok_other: "row_ok w r \<Longrightarrow> w \<noteq> Some (bw_batch_id r) \<Longrightarrow> w' \<noteq> Some (bw_batch_id r) \<Longrightarrow> row_ok w' r"
  unfolding row_ok_def by presburger

lemma batch_invI:
  assumes "distinct (map bw_batch_id db)" and "\<And>r. r \<in> set db \<Longrightarrow> row_ok w r"
    and "\<And>i. w = Some i \<Longrightarrow> i \<in> bw_batch_id ` set db"
  shows "batch_inv \<lparr>sy_table = db, sy_working = w\<rparr>"
  using assms by (simp add: batch_inv_def)

lemma batch_inv_create:
  assumes inv: "batch_inv \<lparr>sy_table = db, sy_working = k\<rparr>" and c: "create_batch env f e w m db = (db', r)"
  shows "batch_inv \<lparr>sy_table = db', sy_working = k\<rparr>"
proof (cases "db' = db")
  case False
  then obtain row where db': "db' = db @ [row]" and new: "bw_batch_id row \<notin> bw_batch_id ` set db"
    and row: "bw_status row = ''pending''" "bw_completed_at row = None" "bw_output_file_id row = None"
    using create_batch_rows [OF c] by blast
  have "k \<noteq> Some (bw_batch_id row)"
    using inv new by (auto simp: batch_inv_def)
  then have "row_ok k row" using row by (intro row_ok_intros(1)) simp_all
  with inv new db' show ?thesis by (intro batch_invI) (auto simp: batch_inv_def)
qed (use inv in simp)

lemma batch_inv_cancel:
  assumes inv: "batch_inv \<lparr>sy_table = db, sy_working = k\<rparr>" and c: "cancel_batch env i db = (db', r)"
  shows "batch_inv \<lparr>sy_table = db', sy_working = k\<rparr>"
proof (cases "db' = db")
  case False
  let ?f = "\<lambda>r. r\<lparr>bw_status := ''cancelled'', bw_completed_at := Some (be_now env)\<rparr>"
  obtain row where row: "find_row i db = Some row" "bw_status row \<in> {''pending'', ''running''}"
    and db': "db' = update_row i ?f db"
    using cancel_batch_rows [OF c] False by blast
  have d: "distinct (map bw_batch_id db)" and ok: "\<And>r. r \<in> set db \<Longrightarrow> row_ok k r"
    and working: "\<And>j. k = Some j \<Longrightarrow> j \<in> bw_batch_id ` set db"
    using inv by (auto simp: batch_inv_def)
  have "row_ok k (?f r)" if "r \<in> set db" "bw_batch_id r = i" for r
  proof -
    have "r = row" using row_unique [OF d that(1)] find_row_Some [OF row(1)] that(2) by blast
    then show ?thesis
      using row_ok_unfinished [OF ok [OF that(1)]] row(2) by (intro row_ok_intros(3)) simp_all
  qed
  moreover have "map bw_batch_id db' = map bw_batch_id db"
    by (simp add: db')
  moreover from this have "bw_batch_id ` set db' = bw_batch_id ` set db"
    by (metis image_set)
  ultimately show ?thesis
    using d ok working by (intro batch_invI) (auto simp: db' set_update_row)
qed (use inv in simp)

lemma batch_inv_claim:
  assumes inv: "batch_inv \<lparr>sy_table = db, sy_working = None\<rparr>" and c: "claim_batch db = (db', w)"
  shows "batch_inv \<lparr>sy_table = db', sy_working = w\<rparr>"
proof (rule claim_batch_rows [OF c])
  assume "w = None" "db' = db"
  with inv show ?thesis by simp
next
  fix row
  let ?f = "\<lambda>r. r\<lparr>bw_status := ''running''\<rparr>"
  assume row: "row \<in> set db" "bw_status row = ''pending''" "w = Some (bw_batch_id row)"
    and db': "db' = update_row (bw_batch_id row) ?f db"
  have d: "distinct (map bw_batch_id db)" and ok: "\<And>r. r \<in> set db \<Longrightarrow> row_ok None r"
    using inv by (auto simp: batch_inv_def)
  have "row_ok w r" if "r \<in> set db" "bw_batch_id r \<noteq> bw_batch_id row" for r
    using row_ok_other [OF ok [OF that(1)], of w] that(2) row(3) by simp
  moreover have "row_ok w (?f r)" if "r \<in> set db" "bw_batch_id r = bw_batch_id row" for r
  proof -
    have "r = row" by (rule row_unique [OF d that(1) row(1) that(2)])
    then show ?thesis
      using row row_ok_unfinished [OF ok [OF row(1)]] by (intro row_ok_intros(2)) simp_all
  qed
  moreover have "map bw_batch_id db' = map bw_batch_id db"
    by (simp add: db')
  moreover from this have "bw_batch_id ` set db' = bw_batch_id ` set db"
    by (metis image_set)
  ultimately show ?thesis
    using d row by (intro batch_invI) (auto simp: db' set_update_row)
qed

lemma batch_inv_finish:
  assumes inv: "batch_inv \<lparr>sy_table = db, sy_working = Some i\<rparr>"
  shows "batch_inv \<lparr>sy_table = finish_batch now saved i db, sy_working = None\<rparr>"
proof -
  obtain f where f: "finish_batch now saved i db = update_row i f db"
    and facts: "\<forall>r. bw_batch_id (f r) = bw_batch_id r \<and> bw_created_at (f r) = bw_created_at r \<and>
      bw_completed_at (f r) = Some now \<and>
      (bw_status (f r) = ''completed'' \<and> bw_output_file_id (f r) \<noteq> None \<or>
       bw_status (f r) = ''failed'' \<and> bw_output_file_id (f r) = None)"
    using finish_batch_rows [of now saved i db] by blast
  then have ids: "\<And>r. bw_batch_id (f r) = bw_batch_id r" by blast
  have ok: "row_ok None (f r)" for r
    using spec [OF facts, of r] by (auto simp: row_ok_def)
  have "row_ok None r" if "r \<in> set db" "bw_batch_id r \<noteq> i" for r
    using inv that row_ok_other [of "Some i" r None] by (simp add: batch_inv_def)
  with inv ids ok show ?thesis
    unfolding f by (intro batch_invI) (auto simp: batch_inv_def set_update_row)
qed

lemma batch_step_inv: "batch_step s t \<Longrightarrow> batch_inv s \<Longrightarrow> batch_inv t"
proof (induction rule: batch_step.induct)
  case (create env f e w m s db r)
  then show ?case using batch_inv_create [of "sy_table s" "sy_working s"] by (cases s) simp
next
  case (cancel env i s db r)
  then show ?case using batch_inv_cancel [of "sy_table s" "sy_working s"] by (cases s) simp
next
  case (claim s db w)
  then show ?case using batch_inv_claim [of "sy_table s"] by (cases s) simp
next
  case (finish s i now saved)
  then show ?case using batch_inv_finish [of "sy_table s" i] by (cases s) simp
qed

lemma reachable_batch_inv: "batch_reachable s \<Longrightarrow> batch_inv s"
proof (induction rule: batch_reachable.induct)
  case start
  show ?case by (simp add: batch_inv_def batch_start_def)
next
  case (step s t)
  then show ?case by (blast intro: batch_step_inv)
qed


section \<open>Finished batches\<close>

definition finished :: "batch_row \<Rightarrow> bool" where
  "finished r \<longleftrightarrow> bw_status r \<in> {''completed'', ''failed''}"

lemma update_row_keeps: "r \<in> set db \<Longrightarrow> bw_batch_id r \<noteq> i \<Longrightarrow> r \<in> set (update_row i f db)"
  by (simp add: set_update_row)

text \<open>A finished batch is final: no request and no step of the worker changes the row of a batch
  that is completed or failed, and none removes it.\<close>

theorem finished_batches_stay:
  assumes reach: "batch_reachable s" and step: "batch_step s t"
    and r: "r \<in> set (sy_table s)" "finished r"
  shows "r \<in> set (sy_table t)"
proof -
  have inv: "batch_inv s" using reach by (rule reachable_batch_inv)
  then have d: "distinct (map bw_batch_id (sy_table s))" and ok: "row_ok (sy_working s) r"
    using r by (auto simp: batch_inv_def)
  have other: "bw_batch_id r \<noteq> bw_batch_id q"
    if "q \<in> set (sy_table s)" "bw_status q \<in> {''pending'', ''running''}" for q
    using row_unique [OF d r(1) that(1)] that(2) r(2) by (auto simp: finished_def)
  from step show ?thesis
  proof cases
    case (create env f e w m db res)
    with r create_batch_rows [OF create(2)] show ?thesis by auto
  next
    case (cancel env i db res)
    show ?thesis
    proof (cases "db = sy_table s")
      case False
      then obtain row where row: "find_row i (sy_table s) = Some row" "bw_status row \<in> {''pending'', ''running''}"
        and db: "db = update_row i (\<lambda>r. r\<lparr>bw_status := ''cancelled'', bw_completed_at := Some (be_now env)\<rparr>) (sy_table s)"
        using cancel_batch_rows [OF cancel(2)] by blast
      have "bw_batch_id r \<noteq> i" using find_row_Some [OF row(1)] other [of row] row(2) by simp
      with cancel(1) r(1) db show ?thesis by (simp add: update_row_keeps)
    qed (use cancel(1) r(1) in simp)
  next
    case (claim db w)
    show ?thesis
    proof (rule claim_batch_rows [OF claim(3)])
      fix row
      assume row: "row \<in> set (sy_table s)" "bw_status row = ''pending''"
        and db: "db = update_row (bw_batch_id row) (\<lambda>r. r\<lparr>bw_status := ''running''\<rparr>) (sy_table s)"
      have "bw_batch_id r \<noteq> bw_batch_id row" using other [of row] row by simp
      with claim(1) r(1) db show ?thesis by (simp add: update_row_keeps)
    qed (use claim(1) r(1) in simp)
  next
    case (finish i now saved)
    have "bw_batch_id r \<noteq> i"
      using ok r(2) finish(2) by (auto simp: row_ok_def finished_def)
    then show ?thesis
      using finish(1) r(1) finish_batch_rows [of now saved i "sy_table s"] by (auto simp: update_row_keeps)
  qed
qed

section \<open>The worker\<close>

definition worker_round :: "int \<times> string result \<Rightarrow> batch_table \<Rightarrow> batch_table" where
  "worker_round = (\<lambda>(now, saved) db.
     case claim_batch db of
       (db', None) \<Rightarrow> db'
     | (db', Some i) \<Rightarrow> finish_batch now saved i db')"

definition pending_ids :: "batch_table \<Rightarrow> string set" where
  "pending_ids db = bw_batch_id ` {r \<in> set db. bw_status r = ''pending''}"

text \<open>How a table develops: every row stays, or was pending and is finished.\<close>

definition progressed :: "batch_table \<Rightarrow> batch_table \<Rightarrow> bool" where
  "progressed db db' \<longleftrightarrow>
     (\<forall>r \<in> set db. \<exists>r' \<in> set db'. bw_batch_id r' = bw_batch_id r \<and>
        (r' = r \<or> bw_status r = ''pending'' \<and> finished r'))"

lemma progressed_refl: "progressed db db"
  by (auto simp: progressed_def)

lemma progressed_trans: "progressed a b \<Longrightarrow> progressed b c \<Longrightarrow> progressed a c"
proof -
  have "\<not> (finished r \<and> bw_status r = ''pending'')" for r
    by (auto simp: finished_def)
  then show "progressed a b \<Longrightarrow> progressed b c \<Longrightarrow> progressed a c"
    unfolding progressed_def by metis
qed

lemma update_row_twice:
  assumes "\<And>r. bw_batch_id (f r) = bw_batch_id r"
  shows "update_row i g (update_row i f db) = update_row i (\<lambda>r. g (f r)) db"
  using assms by (simp add: update_row_def)

lemma worker_round_rows:
  obtains "worker_round oc db = db" "pending_ids db = {}"
  | row f where "row \<in> set db" "bw_status row = ''pending''"
      "\<And>r. bw_batch_id (f r) = bw_batch_id r \<and> finished (f r)"
      "worker_round oc db = update_row (bw_batch_id row) f db"
proof -
  obtain now saved where o: "oc = (now, saved)" by (cases oc)
  obtain db' w where c: "claim_batch db = (db', w)" by (cases "claim_batch db")
  show thesis
  proof (rule claim_batch_rows [OF c])
    assume "w = None" "db' = db" "\<forall>r \<in> set db. bw_status r \<noteq> ''pending''"
    with c o that(1) show thesis by (simp add: worker_round_def pending_ids_def)
  next
    fix row
    assume row: "row \<in> set db" "bw_status row = ''pending''" "w = Some (bw_batch_id row)"
      and db': "db' = update_row (bw_batch_id row) (\<lambda>r. r\<lparr>bw_status := ''running''\<rparr>) db"
    obtain g where g: "finish_batch now saved (bw_batch_id row) db' = update_row (bw_batch_id row) g db'"
      and facts: "\<forall>r. bw_batch_id (g r) = bw_batch_id r \<and> bw_created_at (g r) = bw_created_at r \<and>
        bw_completed_at (g r) = Some now \<and>
        (bw_status (g r) = ''completed'' \<and> bw_output_file_id (g r) \<noteq> None \<or>
         bw_status (g r) = ''failed'' \<and> bw_output_file_id (g r) = None)"
      using finish_batch_rows [of now saved "bw_batch_id row" db'] by blast
    let ?f = "\<lambda>r. g (r\<lparr>bw_status := ''running''\<rparr>)"
    have "bw_batch_id (?f r) = bw_batch_id r \<and> finished (?f r)" for r
      using spec [OF facts, of "r\<lparr>bw_status := ''running''\<rparr>"] by (auto simp: finished_def)
    moreover have "worker_round oc db = update_row (bw_batch_id row) ?f db"
      using c o row g by (simp add: worker_round_def db' update_row_twice)
    ultimately show thesis by (rule that(2) [OF row(1,2), of ?f])
  qed
qed

lemma finished_not_pending: "finished r \<Longrightarrow> bw_status r \<noteq> ''pending''"
  by (auto simp: finished_def)

lemma worker_round_progress:
  assumes d: "distinct (map bw_batch_id db)"
  shows "progressed db (worker_round oc db) \<and> distinct (map bw_batch_id (worker_round oc db)) \<and>
    card (pending_ids (worker_round oc db)) = card (pending_ids db) - 1"
proof (rule worker_round_rows [of oc db])
  assume "worker_round oc db = db" "pending_ids db = {}"
  with d show ?thesis by (simp add: progressed_refl)
next
  fix row f
  assume row: "row \<in> set db" "bw_status row = ''pending''"
    and f: "\<And>r. bw_batch_id (f r) = bw_batch_id r \<and> finished (f r)"
    and db': "worker_round oc db = update_row (bw_batch_id row) f db"
  have one: "r = row" if "r \<in> set db" "bw_batch_id r = bw_batch_id row" for r
    using row_unique [OF d that(1) row(1) that(2)] .
  have "progressed db (worker_round oc db)"
    unfolding progressed_def
  proof
    fix r assume r: "r \<in> set db"
    show "\<exists>r' \<in> set (worker_round oc db). bw_batch_id r' = bw_batch_id r \<and> (r' = r \<or> bw_status r = ''pending'' \<and> finished r')"
    proof (cases "bw_batch_id r = bw_batch_id row")
      case True
      with one [OF r] row f [of row] show ?thesis by (auto simp: db' set_update_row intro!: bexI [of _ "f row"])
    next
      case False
      with r show ?thesis by (auto simp: db' update_row_keeps)
    qed
  qed
  moreover have "pending_ids (worker_round oc db) = pending_ids db - {bw_batch_id row}"
    using f finished_not_pending by (fastforce simp: pending_ids_def db' set_update_row)
  moreover have "bw_batch_id row \<in> pending_ids db" and "finite (pending_ids db)"
    using row by (auto simp: pending_ids_def)
  moreover have "map bw_batch_id (worker_round oc db) = map bw_batch_id db"
    unfolding db' using f by simp
  ultimately show ?thesis using d by simp
qed

text \<open>C24: the worker drains the queue. Left alone for as many rounds as there are pending batches,
  whatever the outcomes of saving the results are, it leaves no batch pending, and every batch
  that was pending is completed or failed; all other rows are untouched.\<close>

theorem worker_drains_queue:
  assumes d: "distinct (map bw_batch_id db)" and enough: "card (pending_ids db) \<le> length outcomes"
  shows "pending_ids (fold worker_round outcomes db) = {} \<and>
    (\<forall>r \<in> set db. \<exists>r' \<in> set (fold worker_round outcomes db). bw_batch_id r' = bw_batch_id r \<and>
       (if bw_status r = ''pending'' then finished r' else r' = r))"
proof -
  have "progressed db (fold worker_round outcomes db) \<and>
      card (pending_ids (fold worker_round outcomes db)) = card (pending_ids db) - length outcomes"
    using d
  proof (induction outcomes arbitrary: db)
    case Nil
    show ?case by (simp add: progressed_refl)
  next
    case (Cons oc outcomes)
    from Cons.IH [of "worker_round oc db"] worker_round_progress [OF Cons.prems, of oc] show ?case
      by (auto intro: progressed_trans)
  qed
  then have prog: "progressed db (fold worker_round outcomes db)"
    and "card (pending_ids (fold worker_round outcomes db)) = 0"
    using enough by simp_all
  then have none: "pending_ids (fold worker_round outcomes db) = {}"
    by (simp add: pending_ids_def)
  moreover have "\<exists>r' \<in> set (fold worker_round outcomes db). bw_batch_id r' = bw_batch_id r \<and>
       (if bw_status r = ''pending'' then finished r' else r' = r)" if mem: "r \<in> set db" for r
  proof -
    obtain r' where r': "r' \<in> set (fold worker_round outcomes db)" "bw_batch_id r' = bw_batch_id r"
      "r' = r \<or> bw_status r = ''pending'' \<and> finished r'"
      using bspec [OF prog [unfolded progressed_def] mem] by blast
    have "bw_status r' \<noteq> ''pending''"
      using none r'(1) by (auto simp: pending_ids_def)
    then have "if bw_status r = ''pending'' then finished r' else r' = r"
      using r'(3) by (cases "r' = r") simp_all
    with r'(1,2) show ?thesis by blast
  qed
  ultimately show ?thesis by blast
qed

section \<open>Requests\<close>

lemma mapE_raises: "x \<in> set xs \<Longrightarrow> f x = Inl e \<Longrightarrow> \<exists>e'. mapE f xs = Inl e' \<and> (\<exists>y \<in> set xs. f y = Inl e')"
  by (induction xs) (auto simp: bindE_def split: sum.splits)

lemma retrieve_error:
  "retrieve_batch env i db = Inl e \<Longrightarrow> e = ValueError ''Batch not found'' \<or>
     e = ValueError ''not a valid BatchStatus'' \<or> e = JSONDecodeError"
  by (auto simp: retrieve_batch_def row_info_def BatchStatus_of_def bindE_eq_Inl
      split: option.splits if_splits)

text \<open>Cancelling a batch that is waiting or running marks it, and then fails: the reply is an
  unhandled \<^verbatim>\<open>AttributeError\<close>, because the status is replaced by a text. From then on the batch
  can no longer be read, because that text is not a \<^verbatim>\<open>BatchStatus\<close>, and neither can any list that
  includes it.\<close>

theorem cancelled_batch_is_unreadable:
  assumes on: "ba_processor app" and row: "find_row i (ba_table app) = Some row"
    and info: "row_info env row = Inr info" and open_: "bw_status row \<in> {''pending'', ''running''}"
    and cancel: "route_cancel_batch env i app = (app', reply)"
    and listed: "i \<in> set (select_batches env' limit after (ba_table app'))"
  shows "reply = Inl (AttributeError ''value'') \<and>
    route_get_batch env' i app' = Inl (ValueError ''not a valid BatchStatus'') \<and>
    (\<exists>e. route_list_batches env' limit after app' = Inl e)"
proof -
  let ?f = "\<lambda>r. r\<lparr>bw_status := ''cancelled'', bw_completed_at := Some (be_now env)\<rparr>"
  have st: "bi_status info \<notin> {Member COMPLETED, Member FAILED}"
    using row_info_status [OF info] open_ by auto
  have retr: "retrieve_batch env i (ba_table app) = Inr info"
    using row info by (simp add: retrieve_batch_def)
  have app': "app' = app\<lparr>ba_table := update_row i ?f (ba_table app)\<rparr>" and reply: "reply = Inl (AttributeError ''value'')"
    using cancel on st retr
    by (auto simp: route_cancel_batch_def the_processor_def cancel_batch_def not_found_reply_def BatchInfo_to_dict_def)
  have "find_row i (update_row i ?f db) = map_option ?f (find_row i db)" for db
    by (induction db) (simp_all add: find_row_def update_row_def)
  then have bad: "retrieve_batch env' i (ba_table app') = Inl (ValueError ''not a valid BatchStatus'')"
    using row by (simp add: app' retrieve_batch_def row_info_def BatchStatus_of_def)
  then have get: "route_get_batch env' i app' = Inl (ValueError ''not a valid BatchStatus'')"
    using on by (simp add: route_get_batch_def the_processor_def app' not_found_reply_def)
  obtain e where "list_batches env' limit after (ba_table app') = Inl e"
    and "\<exists>j. retrieve_batch env' j (ba_table app') = Inl e"
    using mapE_raises [OF listed, of "\<lambda>i. retrieve_batch env' i (ba_table app')", OF bad] by (auto simp: list_batches_def)
  then obtain j where list: "list_batches env' limit after (ba_table app') = Inl e"
    and "retrieve_batch env' j (ba_table app') = Inl e"
    by blast
  from retrieve_error [OF this(2)] have "route_list_batches env' limit after app' = Inl e"
    using on list app' by (elim disjE) (simp_all add: route_list_batches_def the_processor_def not_found_reply_def)
  with reply get show ?thesis by blast
qed

text \<open>A batch that was created can be read back exactly as the creation reported it, provided the
  table keeps the values given (as a text column does for texts) and JSON texts can be read
  back.\<close>

theorem created_batch_reads_back:
  assumes created: "create_batch env f e w m db = (db', Inr info)"
    and column: "\<forall>v \<in> {f, e, w}. be_column env v = Inr v"
    and json: "be_dumps env (bi_metadata info) \<noteq> []" "be_loads env' (be_dumps env (bi_metadata info)) = Some (bi_metadata info)"
  shows "retrieve_batch env' (bi_id info) db' = Inr info"
proof -
  let ?id = "''batch_'' @ take 6 (be_uuid4_hex env)"
  let ?md = "if truthy m then m else JObj []"
  let ?row = "\<lparr>bw_batch_id = ?id, bw_status = ''pending'', bw_input_file_id = f, bw_created_at = be_now env,
    bw_endpoint = e, bw_completion_window = w, bw_output_file_id = None, bw_completed_at = None,
    bw_metadata = be_dumps env ?md\<rparr>"
  have fresh: "?id \<notin> bw_batch_id ` set db" and db': "db' = db @ [?row]"
    and info: "info = \<lparr>bi_id = ?id, bi_status = Member PENDING, bi_input_file_id = f, bi_created_at = be_now env,
      bi_endpoint = e, bi_completion_window = w, bi_output_file_id = None, bi_completed_at = None, bi_metadata = ?md\<rparr>"
    using created column by (auto simp: create_batch_def insert_row_def Let_def split: if_splits)
  have "find_row ?id (db @ [?row]) = Some ?row"
    by (rule find_row_last [OF fresh]) simp
  then show ?thesis
    using json by (simp add: db' info retrieve_batch_def row_info_def BatchStatus_of_def)
qed

text \<open>A page after an identifier, which is no number, is always empty.\<close>

lemma page_after_identifier_is_empty:
  "be_number env a = None \<Longrightarrow> a \<noteq> [] \<Longrightarrow> list_batches env limit (Some a) db = Inr []"
  by (simp add: list_batches_def select_batches_def created_after_def)

text \<open>Batches are created only for files that exist.\<close>

lemma batch_needs_file:
  assumes "route_batches env os parsed app = (app', reply)" and "ba_table app' \<noteq> ba_table app"
  shows "\<exists>base file_id fs info. ba_storage app = Some base \<and>
    get_file os base file_id DEFAULT_USER_ID (ba_fs app) = (fs, Inr info)"
  using assms
  by (auto simp: route_batches_def the_storage_def bindE_def Let_def
      split: sum.splits option.splits bool.splits json.splits prod.splits py_error.splits if_splits)

section \<open>Witnesses\<close>

definition sample_batch_env :: batch_env where
  "sample_batch_env =
     \<lparr>be_now = 7, be_uuid4_hex = ''abcdef01'', be_dumps = (\<lambda>_. ''{}''), be_loads = (\<lambda>_. Some (JObj [])),
      be_column = (\<lambda>v. Inr v), be_number = (\<lambda>_. None)\<rparr>"

definition sample_row :: batch_row where
  "sample_row =
     \<lparr>bw_batch_id = ''batch_abcdef'', bw_status = ''pending'', bw_input_file_id = JStr ''file-1'', bw_created_at = 7,
      bw_endpoint = JStr ''/v1/embeddings'', bw_completion_window = JStr ''5s'', bw_output_file_id = None,
      bw_completed_at = None, bw_metadata = ''{}''\<rparr>"

lemma sample_created:
  "fst (create_batch sample_batch_env (JStr ''file-1'') (JStr ''/v1/embeddings'') (JStr ''5s'') JNull []) = [sample_row]"
  by (simp add: create_batch_def sample_batch_env_def insert_row_def Let_def sample_row_def)

lemma sample_reachable: "batch_reachable \<lparr>sy_table = [sample_row], sy_working = None\<rparr>"
proof -
  have "batch_step batch_start (batch_start\<lparr>sy_table := [sample_row]\<rparr>)"
    using batch_step.create [of sample_batch_env "JStr ''file-1''" "JStr ''/v1/embeddings''" "JStr ''5s''" JNull
        batch_start "[sample_row]"] sample_created
    by (metis batch_start_def batch_system.simps(1) prod.collapse)
  then show ?thesis
    using batch_reachable.step [OF batch_reachable.start] by (simp add: batch_start_def)
qed

definition sample_done :: batch_row where
  "sample_done = sample_row\<lparr>bw_status := ''completed'', bw_completed_at := Some 9, bw_output_file_id := Some ''file-2''\<rparr>"

lemma sample_done_reachable: "batch_reachable \<lparr>sy_table = [sample_done], sy_working = None\<rparr>"
proof -
  have "claim_batch [sample_row] = ([sample_row\<lparr>bw_status := ''running''\<rparr>], Some ''batch_abcdef'')"
    by (simp add: claim_batch_def pending_rows_def update_row_def sample_row_def)
  then have "batch_step \<lparr>sy_table = [sample_row], sy_working = None\<rparr>
      \<lparr>sy_table = [sample_row\<lparr>bw_status := ''running''\<rparr>], sy_working = Some ''batch_abcdef''\<rparr>"
    using batch_step.claim [of "\<lparr>sy_table = [sample_row], sy_working = None\<rparr>"] by simp
  then have "batch_reachable \<lparr>sy_table = [sample_row\<lparr>bw_status := ''running''\<rparr>], sy_working = Some ''batch_abcdef''\<rparr>"
    using batch_reachable.step [OF sample_reachable] by blast
  from batch_reachable.step [OF this batch_step.finish [of _ "''batch_abcdef''" 9 "Inr ''file-2''"]]
  show ?thesis by (simp add: finish_batch_def update_row_def sample_done_def sample_row_def)
qed


theorem finished_batches_stay_witness:
  "sample_done \<in> set (fst (create_batch sample_batch_env JNull JNull JNull JNull [sample_done]))"
proof -
  let ?s = "\<lparr>sy_table = [sample_done], sy_working = None\<rparr>"
  let ?c = "create_batch sample_batch_env JNull JNull JNull JNull (sy_table ?s)"
  have "batch_step ?s (?s\<lparr>sy_table := fst ?c\<rparr>)"
    by (rule batch_step.create [where r = "snd ?c"]) simp
  from finished_batches_stay [OF sample_done_reachable this, of sample_done] show ?thesis
    by (simp add: finished_def sample_done_def)
qed

theorem worker_drains_queue_witness:
  "pending_ids (fold worker_round [(9, Inr ''file-2''), (10, Inl IndexError)] [sample_row, sample_row\<lparr>bw_batch_id := ''b''\<rparr>]) = {}"
proof -
  have "pending_ids [sample_row, sample_row\<lparr>bw_batch_id := ''b''\<rparr>] \<subseteq> {''batch_abcdef'', ''b''}"
    by (auto simp: pending_ids_def sample_row_def)
  then have "card (pending_ids [sample_row, sample_row\<lparr>bw_batch_id := ''b''\<rparr>]) \<le> card {''batch_abcdef'', ''b''}"
    by (intro card_mono) simp_all
  with worker_drains_queue [of "[sample_row, sample_row\<lparr>bw_batch_id := ''b''\<rparr>]"
      "[(9, Inr ''file-2''), (10, Inl IndexError)]"] show ?thesis
    by (simp add: sample_row_def)
qed

definition sample_batch_app :: batch_app where
  "sample_batch_app = \<lparr>ba_storage = Some ''/srv'', ba_processor = True, ba_fs = [], ba_table = [sample_row]\<rparr>"

theorem cancelled_batch_is_unreadable_witness:
  "snd (route_cancel_batch sample_batch_env ''batch_abcdef'' sample_batch_app) = Inl (AttributeError ''value'')"
proof -
  obtain app' reply where c: "route_cancel_batch sample_batch_env ''batch_abcdef'' sample_batch_app = (app', reply)"
    by (cases "route_cancel_batch sample_batch_env ''batch_abcdef'' sample_batch_app")
  have listed: "''batch_abcdef'' \<in> set (select_batches sample_batch_env 20 None (ba_table app'))"
    using c by (auto simp: route_cancel_batch_def the_processor_def sample_batch_app_def cancel_batch_def
        retrieve_batch_def find_row_def sample_row_def row_info_def BatchStatus_of_def sample_batch_env_def
        select_batches_def update_row_def)
  have "find_row ''batch_abcdef'' (ba_table sample_batch_app) = Some sample_row"
    by (simp add: sample_batch_app_def find_row_def sample_row_def)
  moreover have "\<exists>info. row_info sample_batch_env sample_row = Inr info"
    by (simp add: row_info_def BatchStatus_of_def sample_row_def sample_batch_env_def)
  ultimately show ?thesis
    using cancelled_batch_is_unreadable [OF _ _ _ _ c listed] c by (auto simp: sample_batch_app_def sample_row_def)
qed

theorem created_batch_reads_back_witness:
  "retrieve_batch sample_batch_env ''batch_abcdef''
     (fst (create_batch sample_batch_env (JStr ''file-1'') (JStr ''/v1/embeddings'') (JStr ''5s'') JNull [])) =
   snd (create_batch sample_batch_env (JStr ''file-1'') (JStr ''/v1/embeddings'') (JStr ''5s'') JNull [])"
proof -
  obtain info where c: "create_batch sample_batch_env (JStr ''file-1'') (JStr ''/v1/embeddings'') (JStr ''5s'') JNull [] =
      ([sample_row], Inr info)" and i: "bi_id info = ''batch_abcdef''" "bi_metadata info = JObj []"
    by (simp add: create_batch_def sample_batch_env_def insert_row_def Let_def sample_row_def)
  from created_batch_reads_back [OF c, of sample_batch_env] c i show ?thesis
    by (simp add: sample_batch_env_def)
qed

end
