(* ===== verification/Router_Config.thy ===== *)
theory Router_Config
  imports Yaml_Config
begin

text \<open>
  The options of the router, \<^verbatim>\<open>src/src/vllm_router/parsers/parser.py\<close>: the table of
  declarations, the two-stage parse that lets a configuration file provide defaults, and the
  validation. Of \<^verbatim>\<open>argparse\<close> the model has what the module uses: values given on the command
  line win over defaults, \<open>set_defaults\<close> replaces defaults and may add attributes, a default that
  is text goes through the declared type, and only values of the command line are checked against
  the declared choices. The namespace is a dictionary of JSON-like values.
\<close>

section \<open>Declarations\<close>

datatype arg_kind = ArgStr | ArgInt | ArgFloat | ArgFlag

record arg_spec =
  as_name :: string
  as_kind :: arg_kind
  as_default :: json
  as_choices :: "string list"

definition opt_spec :: "string \<Rightarrow> arg_kind \<Rightarrow> json \<Rightarrow> arg_spec" where
  "opt_spec n k d = \<lparr>as_name = n, as_kind = k, as_default = d, as_choices = []\<rparr>"

definition choice_spec :: "string \<Rightarrow> json \<Rightarrow> string list \<Rightarrow> arg_spec" where
  "choice_spec n d cs = \<lparr>as_name = n, as_kind = ArgStr, as_default = d, as_choices = cs\<rparr>"

text \<open>The declarations of \<^verbatim>\<open>parse_args\<close> in their order and groups, less \<^verbatim>\<open>--version\<close> and the
  options that the semantic cache adds when it can be imported.\<close>

definition discovery_options :: "arg_spec list" where
  "discovery_options =
     [opt_spec ''--host'' ArgStr (JStr ''0.0.0.0''),
      opt_spec ''--port'' ArgInt (JInt 8001),
      choice_spec ''--service-discovery'' JNull [''static'', ''k8s''],
      choice_spec ''--k8s-service-discovery-type'' JNull [''pod-ip'', ''service-name''],
      opt_spec ''--static-backends'' ArgStr JNull,
      opt_spec ''--static-models'' ArgStr JNull,
      opt_spec ''--static-aliases'' ArgStr JNull,
      opt_spec ''--static-model-types'' ArgStr JNull,
      opt_spec ''--static-model-labels'' ArgStr JNull,
      opt_spec ''--static-backend-health-checks'' ArgFlag (JBool False),
      opt_spec ''--k8s-port'' ArgInt (JInt 8000),
      opt_spec ''--k8s-namespace'' ArgStr (JStr ''default''),
      opt_spec ''--k8s-label-selector'' ArgStr (JStr []),
      opt_spec ''--k8s-watcher-timeout-seconds'' ArgInt (JInt 0),
      opt_spec ''--backend-health-check-timeout-seconds'' ArgInt (JInt 10)]"

definition routing_options :: "arg_spec list" where
  "routing_options =
     [choice_spec ''--routing-logic'' JNull
        [''roundrobin'', ''session'', ''kvaware'', ''prefixaware'', ''disaggregated_prefill''],
      opt_spec ''--lmcache-controller-port'' ArgInt (JInt 9000),
      opt_spec ''--session-key'' ArgStr JNull,
      opt_spec ''--callbacks'' ArgStr JNull,
      choice_spec ''--request-rewriter'' (JStr ''noop'') [''noop'']]"

definition batch_options :: "arg_spec list" where
  "batch_options =
     [opt_spec ''--enable-batch-api'' ArgFlag (JBool False),
      choice_spec ''--file-storage-class'' (JStr ''local_file'') [''local_file''],
      opt_spec ''--file-storage-path'' ArgStr (JStr ''/tmp/vllm_files''),
      choice_spec ''--batch-processor'' (JStr ''local'') [''local'']]"

definition monitoring_options :: "arg_spec list" where
  "monitoring_options =
     [opt_spec ''--engine-stats-interval'' ArgInt (JInt 30),
      opt_spec ''--request-stats-window'' ArgInt (JInt 60),
      opt_spec ''--log-stats'' ArgFlag (JBool False),
      opt_spec ''--log-stats-interval'' ArgInt (JInt 10)]"

definition config_file_options :: "arg_spec list" where
  "config_file_options =
     [opt_spec ''--dynamic-config-yaml'' ArgStr JNull,
      opt_spec ''--dynamic-config-json'' ArgStr JNull]"

definition trailing_options :: "arg_spec list" where
  "trailing_options =
     [opt_spec ''--feature-gates'' ArgStr (JStr []),
      choice_spec ''--log-level'' (JStr ''info'')
        [''critical'', ''error'', ''warning'', ''info'', ''debug'', ''trace''],
      opt_spec ''--sentry-dsn'' ArgStr JNull,
      opt_spec ''--sentry-traces-sample-rate'' ArgFloat (JFloat (1 / 10)),
      opt_spec ''--sentry-profile-session-sample-rate'' ArgFloat (JFloat 1),
      opt_spec ''--prefill-model-labels'' ArgStr JNull,
      opt_spec ''--decode-model-labels'' ArgStr JNull,
      opt_spec ''--kv-aware-threshold'' ArgInt (JInt 2000)]"

definition arg_table :: "arg_spec list" where
  "arg_table =
     discovery_options @ routing_options @ batch_options @ monitoring_options @
     config_file_options @ trailing_options"

section \<open>Parsing\<close>

text \<open>The attribute of an option: without the dashes in front, other dashes as underscores.\<close>

definition dest :: "string \<Rightarrow> string" where
  "dest n = map (\<lambda>c. if c = CHR ''-'' then CHR ''_'' else c) (drop 2 n)"

text \<open>\<^verbatim>\<open>int()\<close> of a text: surrounding blanks, a sign, and digits grouped by single underscores.\<close>

definition digits_value :: "string \<Rightarrow> int" where
  "digits_value ds = foldl (\<lambda>n c. 10 * n + (int (of_char c) - 48)) 0 ds"

definition py_int :: "string \<Rightarrow> int option" where
  "py_int text =
     (let s = strip text;
          neg = starts_with s ''-'';
          body = (if neg \<or> starts_with s ''+'' then drop 1 s else s);
          groups = split_on CHR ''_'' body
      in if list_all (\<lambda>g. g \<noteq> [] \<and> list_all digit_class g) groups
         then Some ((if neg then -1 else 1) * digits_value (concat groups)) else None)"

text \<open>\<open>py_float\<close> is \<^verbatim>\<open>float()\<close> of a text. \<^verbatim>\<open>SystemExit\<close> is how the parser and \<^verbatim>\<open>sys.exit\<close> end.\<close>

definition convert_default :: "(string \<Rightarrow> rat option) \<Rightarrow> arg_kind \<Rightarrow> json \<Rightarrow> json result" where
  "convert_default py_float kind v =
     (case v of
        JStr s \<Rightarrow>
          (case kind of
             ArgInt \<Rightarrow> (case py_int s of None \<Rightarrow> Inl (OtherException ''SystemExit'') | Some i \<Rightarrow> Inr (JInt i))
           | ArgFloat \<Rightarrow> (case py_float s of None \<Rightarrow> Inl (OtherException ''SystemExit'') | Some r \<Rightarrow> Inr (JFloat r))
           | _ \<Rightarrow> Inr v)
      | _ \<Rightarrow> Inr v)"

text \<open>One attribute: the value of the command line, else the converted default, where a default
  set later replaces the declared one.\<close>

definition option_value ::
  "(string \<Rightarrow> rat option) \<Rightarrow> jobj \<Rightarrow> jobj \<Rightarrow> arg_spec \<Rightarrow> (string \<times> json) result" where
  "option_value py_float defaults given spec =
     (case map_of given (as_name spec) of
        Some v \<Rightarrow> Inr (dest (as_name spec), v)
      | None \<Rightarrow>
          bindE (convert_default py_float (as_kind spec) (jget defaults (dest (as_name spec)) (as_default spec)))
            (\<lambda>v. Inr (dest (as_name spec), v)))"

definition accepted :: "arg_spec \<Rightarrow> json \<Rightarrow> bool" where
  "accepted spec v \<longleftrightarrow> as_choices spec = [] \<or> v \<in> JStr ` set (as_choices spec)"

definition command_line_ok :: "jobj \<Rightarrow> bool" where
  "command_line_ok given \<longleftrightarrow>
     list_all (\<lambda>(n, v). list_ex (\<lambda>spec. as_name spec = n \<and> accepted spec v) arg_table) given \<and>
     \<not> (''--dynamic-config-yaml'' \<in> fst ` set given \<and> ''--dynamic-config-json'' \<in> fst ` set given)"

definition parser_parse_args :: "(string \<Rightarrow> rat option) \<Rightarrow> jobj \<Rightarrow> jobj \<Rightarrow> jobj result" where
  "parser_parse_args py_float given defaults =
     (if command_line_ok given
      then bindE (mapE (option_value py_float defaults given) arg_table) (\<lambda>ns.
             Inr (ns @ filter (\<lambda>(k, _). k \<notin> fst ` set ns) defaults))
      else Inl (OtherException ''SystemExit''))"

abbreviation attr :: "jobj \<Rightarrow> string \<Rightarrow> json" where
  "attr args k \<equiv> jget args k JNull"

definition verify_required_args_provided :: "jobj \<Rightarrow> unit result" where
  "verify_required_args_provided args =
     (if \<not> truthy (attr args ''routing_logic'') then Inl (OtherException ''SystemExit'')
      else if \<not> truthy (attr args ''service_discovery'') then Inl (OtherException ''SystemExit'')
      else Inr ())"

text \<open>The configuration files: a loaded YAML or JSON document, or the error of opening or parsing
  it, per path. Keyword expansion needs a dictionary.\<close>

record config_files =
  cf_yaml :: "json \<Rightarrow> json result"
  cf_json :: "json \<Rightarrow> json result"

definition json_document :: "json result \<Rightarrow> jobj result" where
  "json_document loaded =
     bindE loaded (\<lambda>v. case v of JObj d \<Rightarrow> Inr d | _ \<Rightarrow> Inl (TypeError ''argument after ** must be a mapping''))"

definition load_initial_config_from_config_file_if_required ::
  "(json \<Rightarrow> string) \<Rightarrow> config_files \<Rightarrow> (jobj \<Rightarrow> jobj result) \<Rightarrow> jobj \<Rightarrow> jobj result" where
  "load_initial_config_from_config_file_if_required py_str files reparse args =
     (if truthy (attr args ''dynamic_config_yaml'')
      then bindE (read_and_process_yaml_config_file py_str (cf_yaml files (attr args ''dynamic_config_yaml''))) reparse
      else if truthy (attr args ''dynamic_config_json'')
      then bindE (json_document (cf_json files (attr args ''dynamic_config_json''))) reparse
      else Inr args)"

section \<open>Validation\<close>

text \<open>\<^verbatim>\<open>value.split(",")\<close> where the value may be \<^verbatim>\<open>None\<close>, and an order comparison with a number.\<close>

definition comma_separated :: "json \<Rightarrow> string list option result" where
  "comma_separated v =
     (case v of
        JNull \<Rightarrow> Inr (parse_comma_separated_args None)
      | JStr s \<Rightarrow> Inr (parse_comma_separated_args (Some s))
      | _ \<Rightarrow> Inl (AttributeError ''split''))"

fun json_number :: "json \<Rightarrow> rat result" where
  "json_number (JInt i) = Inr (of_int i)"
| "json_number (JFloat r) = Inr r"
| "json_number (JBool b) = Inr (if b then 1 else 0)"
| "json_number _ = Inl (TypeError ''not supported between instances'')"

definition validate_static_model_types :: "json \<Rightarrow> unit result" where
  "validate_static_model_types model_types =
     (if model_types = JNull then Inl (ValueError ''Static model types must be provided'')
      else bindE (comma_separated model_types) (\<lambda>ts.
             if list_all (\<lambda>t. t \<in> set get_all_fields) (the ts) then Inr ()
             else Inl (ValueError ''The model type is not supported'')))"

definition require :: "bool \<Rightarrow> string \<Rightarrow> unit result" where
  "require b msg = (if b then Inr () else Inl (ValueError msg))"

definition require_positive :: "json \<Rightarrow> string \<Rightarrow> unit result" where
  "require_positive v msg = bindE (json_number v) (\<lambda>r. require (0 < r) msg)"

definition require_rate :: "json \<Rightarrow> string \<Rightarrow> unit result" where
  "require_rate v msg = bindE (json_number v) (\<lambda>r. require (0 \<le> r \<and> r \<le> 1) msg)"

definition validate_static_args :: "jobj \<Rightarrow> unit result" where
  "validate_static_args args =
     (if attr args ''service_discovery'' = JStr ''static'' then
        bindE (require (attr args ''static_backends'' \<noteq> JNull) ''Static backends must be provided'') (\<lambda>_.
        bindE (require (attr args ''static_models'' \<noteq> JNull) ''Static models must be provided'') (\<lambda>_.
          if truthy (attr args ''static_backend_health_checks'')
          then validate_static_model_types (attr args ''static_model_types'') else Inr ()))
      else Inr ())"

definition validate_args :: "jobj \<Rightarrow> unit result" where
  "validate_args args =
     bindE (verify_required_args_provided args) (\<lambda>_.
     bindE (validate_static_args args) (\<lambda>_.
     bindE (require (\<not> (attr args ''service_discovery'' = JStr ''k8s'' \<and> attr args ''k8s_port'' = JNull))
              ''K8s port must be provided'') (\<lambda>_.
     bindE (require (\<not> (attr args ''routing_logic'' = JStr ''session'' \<and> attr args ''session_key'' = JNull))
              ''Session key must be provided'') (\<lambda>_.
     bindE (if truthy (attr args ''log_stats'')
            then require_positive (attr args ''log_stats_interval'') ''Log stats interval must be greater than 0.''
            else Inr ()) (\<lambda>_.
     bindE (require_positive (attr args ''engine_stats_interval'') ''Engine stats interval must be greater than 0.'') (\<lambda>_.
     bindE (require_positive (attr args ''request_stats_window'') ''Request stats window must be greater than 0.'') (\<lambda>_.
     bindE (require_rate (attr args ''sentry_traces_sample_rate'') ''Sentry traces sample rate must be between 0.0 and 1.0.'') (\<lambda>_.
       require_rate (attr args ''sentry_profile_session_sample_rate'')
         ''Sentry profile session sample rate must be between 0.0 and 1.0.''))))))))"

definition parse_args ::
  "(json \<Rightarrow> string) \<Rightarrow> (string \<Rightarrow> rat option) \<Rightarrow> config_files \<Rightarrow> jobj \<Rightarrow> jobj result" where
  "parse_args py_str py_float files given =
     bindE (parser_parse_args py_float given []) (\<lambda>args0.
     bindE (load_initial_config_from_config_file_if_required py_str files (parser_parse_args py_float given) args0) (\<lambda>args.
     bindE (validate_args args) (\<lambda>_. Inr args)))"

section \<open>Precedence of the sources of options\<close>

lemma dests_distinct: "distinct (map (\<lambda>spec. dest (as_name spec)) arg_table)"
  by code_simp

lemma arg_table_defaults:
  "list_all (\<lambda>spec. case as_default spec of JStr _ \<Rightarrow> as_kind spec = ArgStr | _ \<Rightarrow> True) arg_table"
  by code_simp

lemma option_values_keys:
  "mapE (option_value py_float defaults given) specs = Inr ns \<Longrightarrow>
   map fst ns = map (\<lambda>spec. dest (as_name spec)) specs"
  by (induction specs arbitrary: ns) (auto simp: bindE_eq_Inr option_value_def split: option.splits)

lemma mapE_mem: "mapE f xs = Inr ys \<Longrightarrow> x \<in> set xs \<Longrightarrow> \<exists>y \<in> set ys. f x = Inr y"
  by (induction xs arbitrary: ys) (auto simp: bindE_eq_Inr)

text \<open>The attribute of a declared option after a parse.\<close>

lemma parser_attr:
  assumes "parser_parse_args py_float given defaults = Inr args" and "spec \<in> set arg_table"
  obtains v where "option_value py_float defaults given spec = Inr (dest (as_name spec), v)"
    and "map_of args (dest (as_name spec)) = Some v"
proof -
  obtain ns where ns: "mapE (option_value py_float defaults given) arg_table = Inr ns"
    and args: "args = ns @ filter (\<lambda>(k, _). k \<notin> fst ` set ns) defaults"
    using assms(1) by (auto simp: parser_parse_args_def bindE_eq_Inr split: if_splits)
  obtain y where y: "y \<in> set ns" "option_value py_float defaults given spec = Inr y"
    using mapE_mem [OF ns assms(2)] by blast
  then obtain v where v: "y = (dest (as_name spec), v)"
    by (auto simp: option_value_def bindE_eq_Inr split: option.splits)
  have "distinct (map fst ns)"
    using dests_distinct option_values_keys [OF ns] by simp
  then have "map_of ns (dest (as_name spec)) = Some v"
    using y v by simp
  then have "map_of args (dest (as_name spec)) = Some v"
    by (simp add: args map_add_def)
  with y v that show ?thesis by blast
qed

lemma parse_args_parsed:
  assumes "parse_args py_str py_float files given = Inr args"
  obtains defaults where "parser_parse_args py_float given defaults = Inr args"
  using assms
  by (auto simp: parse_args_def load_initial_config_from_config_file_if_required_def bindE_eq_Inr
      split: if_splits)

text \<open>The command line wins. Whatever the configuration files contain, an option given on the
  command line has that value in the parsed arguments; and with no configuration file an option
  that is not given has its declared default.\<close>

theorem command_line_wins:
  assumes parsed: "parse_args py_str py_float files given = Inr args" and spec: "spec \<in> set arg_table"
  shows "(\<forall>v. map_of given (as_name spec) = Some v \<longrightarrow> attr args (dest (as_name spec)) = v) \<and>
         (map_of given (as_name spec) = None \<and>
          map_of given ''--dynamic-config-yaml'' = None \<and> map_of given ''--dynamic-config-json'' = None \<longrightarrow>
          attr args (dest (as_name spec)) = as_default spec)"
proof (intro conjI allI impI)
  fix v assume v: "map_of given (as_name spec) = Some v"
  obtain defaults where "parser_parse_args py_float given defaults = Inr args"
    by (rule parse_args_parsed [OF parsed])
  then obtain w where "option_value py_float defaults given spec = Inr (dest (as_name spec), w)"
    and "map_of args (dest (as_name spec)) = Some w"
    by (rule parser_attr [OF _ spec])
  with v show "attr args (dest (as_name spec)) = v"
    by (simp add: option_value_def jget_def)
next
  assume g: "map_of given (as_name spec) = None \<and>
    map_of given ''--dynamic-config-yaml'' = None \<and> map_of given ''--dynamic-config-json'' = None"
  obtain args0 where a0: "parser_parse_args py_float given [] = Inr args0"
    and load: "load_initial_config_from_config_file_if_required py_str files
      (parser_parse_args py_float given) args0 = Inr args"
    using parsed by (auto simp: parse_args_def bindE_eq_Inr)
  have none: "attr args0 (dest n) = JNull"
    if "n \<in> {''--dynamic-config-yaml'', ''--dynamic-config-json''}" for n
  proof -
    have "opt_spec n ArgStr JNull \<in> set arg_table"
      using that by (auto simp: arg_table_def config_file_options_def)
    then obtain w where w: "option_value py_float [] given (opt_spec n ArgStr JNull) =
        Inr (dest (as_name (opt_spec n ArgStr JNull)), w)"
      and "map_of args0 (dest (as_name (opt_spec n ArgStr JNull))) = Some w"
      by (rule parser_attr [OF a0])
    moreover have "map_of given n = None" using that g by auto
    ultimately show ?thesis
      by (simp add: option_value_def opt_spec_def jget_def convert_default_def)
  qed
  have "dest ''--dynamic-config-yaml'' = ''dynamic_config_yaml''"
    and "dest ''--dynamic-config-json'' = ''dynamic_config_json''"
    by (simp_all add: dest_def)
  then have "args = args0"
    using load none [of "''--dynamic-config-yaml''"] none [of "''--dynamic-config-json''"]
    by (simp add: load_initial_config_from_config_file_if_required_def)
  moreover have "case as_default spec of JStr _ \<Rightarrow> as_kind spec = ArgStr | _ \<Rightarrow> True"
    using arg_table_defaults spec by (simp add: list_all_iff)
  moreover obtain w where "option_value py_float [] given spec = Inr (dest (as_name spec), w)"
    and "map_of args0 (dest (as_name spec)) = Some w"
    by (rule parser_attr [OF a0 spec])
  ultimately show "attr args (dest (as_name spec)) = as_default spec"
    using g by (auto simp: option_value_def jget_def convert_default_def bindE_eq_Inr split: json.splits)
qed

section \<open>What validation guarantees\<close>

lemma require_Inr [simp]: "require b msg = Inr u \<longleftrightarrow> b"
  by (simp add: require_def)

lemma validated:
  assumes "validate_args args = Inr u"
  shows "truthy (attr args ''routing_logic'')" and "truthy (attr args ''service_discovery'')"
    and "validate_static_args args = Inr ()"
    and "attr args ''routing_logic'' = JStr ''session'' \<Longrightarrow> attr args ''session_key'' \<noteq> JNull"
    and "\<exists>r > 0. json_number (attr args ''engine_stats_interval'') = Inr r"
    and "\<exists>r > 0. json_number (attr args ''request_stats_window'') = Inr r"
  using assms
  by (auto simp: validate_args_def verify_required_args_provided_def require_positive_def bindE_eq_Inr
      split: if_splits)

text \<open>Validation covers what the health checks need. When static discovery with health checks is
  configured and the arguments are accepted, every configured model type can be probed: the
  probe of a backend answers yes or no and never raises, whatever the backend does.\<close>

theorem validated_types_can_be_probed:
  assumes ok: "validate_args args = Inr ()"
    and static: "attr args ''service_discovery'' = JStr ''static''"
    and checks: "truthy (attr args ''static_backend_health_checks'')"
  shows "\<exists>ts. comma_separated (attr args ''static_model_types'') = Inr (Some ts) \<and>
    (\<forall>t \<in> set ts. \<forall>url model. \<exists>b. is_model_healthy post url model t = Inr b)"
proof -
  have v: "validate_static_model_types (attr args ''static_model_types'') = Inr ()"
    using validated(3) [OF ok] static checks by (auto simp: validate_static_args_def bindE_eq_Inr)
  then obtain ts where ts: "comma_separated (attr args ''static_model_types'') = Inr (Some ts)"
    and fields: "list_all (\<lambda>t. t \<in> set get_all_fields) ts"
    by (auto simp: validate_static_model_types_def comma_separated_def parse_comma_separated_args_def
        bindE_eq_Inr split: if_splits json.splits)
  show ?thesis
    using ts fields is_model_healthy_total by (auto simp: list_all_iff)
qed

section \<open>Witnesses\<close>

definition sample_given :: jobj where
  "sample_given =
     [(''--routing-logic'', JStr ''roundrobin''), (''--service-discovery'', JStr ''static''),
      (''--static-backends'', JStr ''http://localhost:8000''), (''--static-models'', JStr ''llama3''),
      (''--static-model-types'', JStr ''chat''), (''--static-backend-health-checks'', JBool True)]"

definition no_files :: config_files where
  "no_files = \<lparr>cf_yaml = (\<lambda>_. Inl (FileNotFoundError [])), cf_json = (\<lambda>_. Inl (FileNotFoundError []))\<rparr>"

definition result_is :: "('a \<Rightarrow> bool) \<Rightarrow> 'a result \<Rightarrow> bool" where
  "result_is p r = (case r of Inl _ \<Rightarrow> False | Inr x \<Rightarrow> p x)"

lemma sample_args_parse:
  "result_is (\<lambda>args. validate_args args = Inr () \<and> attr args ''service_discovery'' = JStr ''static'' \<and>
     truthy (attr args ''static_backend_health_checks''))
   (parse_args (\<lambda>_. []) (\<lambda>_. None) no_files sample_given)"
  by code_simp

lemma result_isE: "result_is p r \<Longrightarrow> (\<And>x. r = Inr x \<Longrightarrow> p x \<Longrightarrow> thesis) \<Longrightarrow> thesis"
  by (auto simp: result_is_def split: sum.splits)

theorem command_line_wins_witness:
  "result_is (\<lambda>args. attr args ''static_models'' = JStr ''llama3'' \<and> attr args ''request_stats_window'' = JInt 60)
     (parse_args (\<lambda>_. []) (\<lambda>_. None) no_files sample_given)"
proof -
  obtain args where args: "parse_args (\<lambda>_. []) (\<lambda>_. None) no_files sample_given = Inr args"
    by (rule result_isE [OF sample_args_parse])
  have "opt_spec ''--static-models'' ArgStr JNull \<in> set arg_table"
    "opt_spec ''--request-stats-window'' ArgInt (JInt 60) \<in> set arg_table"
    by (simp_all add: arg_table_def discovery_options_def monitoring_options_def)
  from command_line_wins [OF args this(1)] command_line_wins [OF args this(2)] show ?thesis
    unfolding args by (simp add: result_is_def opt_spec_def sample_given_def dest_def)
qed

theorem validated_types_can_be_probed_witness:
  "result_is (\<lambda>args. \<exists>b. comma_separated (attr args ''static_model_types'') = Inr (Some [''chat'']) \<and>
       is_model_healthy (\<lambda>_ _. HttpRaise) ''http://localhost:8000'' ''llama3'' ''chat'' = Inr b)
     (parse_args (\<lambda>_. []) (\<lambda>_. None) no_files sample_given)"
proof -
  obtain args where args: "parse_args (\<lambda>_. []) (\<lambda>_. None) no_files sample_given = Inr args"
    and ok: "validate_args args = Inr ()" and static: "attr args ''service_discovery'' = JStr ''static''"
    and checks: "truthy (attr args ''static_backend_health_checks'')"
    by (rule result_isE [OF sample_args_parse]) blast
  have "result_is (\<lambda>args. comma_separated (attr args ''static_model_types'') = Inr (Some [''chat'']))
     (parse_args (\<lambda>_. []) (\<lambda>_. None) no_files sample_given)"
    by code_simp
  with validated_types_can_be_probed [OF ok static checks, of "\<lambda>_ _. HttpRaise"] show ?thesis
    by (auto simp: args result_is_def)
qed

end
