(* ===== verification/Dynamic_Config.thy ===== *)
theory Dynamic_Config
  imports Router_Config Discovery_Factory Router_Registry
begin

text \<open>
  \<^verbatim>\<open>src/src/vllm_router/dynamic_config.py\<close> and
  \<^verbatim>\<open>src/src/vllm_router/services/callbacks_service/callbacks.py\<close>: the configuration that can be
  replaced while the router runs, and the thread that watches its file. A reconfiguration is a
  sequence of steps on the process state (the global discovery, the router registry and the
  application state); a step that raises ends the sequence and keeps what the earlier ones did.
\<close>

section \<open>Values read from a file\<close>

text \<open>Python's equality of decoded values: numbers compare by value, dictionaries without order.\<close>

function (sequential) py_eq :: "json \<Rightarrow> json \<Rightarrow> bool" where
  "py_eq (JList xs) (JList ys) =
     (length xs = length ys \<and> list_all (\<lambda>(x, y). py_eq x y) (zip xs ys))"
| "py_eq (JObj d) (JObj e) =
     (length d = length e \<and>
      list_all (\<lambda>(k, v). case map_of e k of None \<Rightarrow> False | Some w \<Rightarrow> py_eq v w) d)"
| "py_eq JNull JNull = True"
| "py_eq (JStr s) (JStr t) = (s = t)"
| "py_eq v w =
     (case (json_number v, json_number w) of (Inr r, Inr q) \<Rightarrow> r = q | _ \<Rightarrow> False)"
  by pat_completeness auto
termination
  by (relation "measure (\<lambda>(v, w). size v)")
     (auto dest!: set_zip_leftD simp: less_Suc_eq_le size_list_estimation' intro: size_list_estimation')

text \<open>A value whose dictionaries have distinct keys, as every decoded document's do.\<close>

fun json_wf :: "json \<Rightarrow> bool" where
  "json_wf (JList xs) = list_all json_wf xs"
| "json_wf (JObj d) = (distinct (map fst d) \<and> list_all (\<lambda>(k, v). json_wf v) d)"
| "json_wf _ = True"

lemma py_eq_refl: "json_wf v \<Longrightarrow> py_eq v v"
proof (induction v rule: json_wf.induct)
  case (1 xs)
  then show ?case by (auto simp: list_all_iff zip_same_conv_map)
next
  case (2 d)
  have "map_of d k = Some v" if "(k, v) \<in> set d" for k v
    using 2 that by simp
  with 2 show ?case by (fastforce simp: list_all_iff)
qed simp_all

text \<open>A session key is text for the routers; a key of another type is read as its text.\<close>

definition text_value :: "(json \<Rightarrow> string) \<Rightarrow> json \<Rightarrow> string option" where
  "text_value py_str v = (case v of JNull \<Rightarrow> None | JStr s \<Rightarrow> Some s | _ \<Rightarrow> Some (py_str v))"

definition static_urls :: "json \<Rightarrow> string list result" where
  "static_urls v = (case v of JStr s \<Rightarrow> Inr (parse_static_urls s) | _ \<Rightarrow> Inl (AttributeError ''split''))"

definition static_aliases :: "json \<Rightarrow> (string \<times> string) list option result" where
  "static_aliases v =
     (if truthy v
      then (case v of
              JStr s \<Rightarrow> bindE (parse_static_aliases s) (\<lambda>a. Inr (Some a))
            | _ \<Rightarrow> Inl (AttributeError ''split''))
      else Inr None)"

definition logic_of :: "json \<Rightarrow> RoutingLogic option" where
  "logic_of v =
     (if v = JStr ''roundrobin'' then Some ROUND_ROBIN
      else if v = JStr ''session'' then Some SESSION_BASED
      else if v = JStr ''kvaware'' then Some KVAWARE
      else if v = JStr ''prefixaware'' then Some PREFIXAWARE
      else if v = JStr ''disaggregated_prefill'' then Some DISAGGREGATED_PREFILL
      else None)"

section \<open>The configuration\<close>

record DynamicRouterConfig =
  dc_service_discovery :: json
  dc_routing_logic :: json
  dc_static_backends :: json
  dc_static_models :: json
  dc_static_aliases :: json
  dc_static_model_labels :: json
  dc_static_model_types :: json
  dc_static_backend_health_checks :: json
  dc_prefill_model_labels :: json
  dc_decode_model_labels :: json
  dc_k8s_port :: json
  dc_k8s_namespace :: json
  dc_k8s_label_selector :: json
  dc_session_key :: json
  dc_callbacks :: json

definition config_fields :: "string list" where
  "config_fields =
     [''service_discovery'', ''routing_logic'', ''static_backends'', ''static_models'', ''static_aliases'',
      ''static_model_labels'', ''static_model_types'', ''static_backend_health_checks'',
      ''prefill_model_labels'', ''decode_model_labels'', ''k8s_port'', ''k8s_namespace'',
      ''k8s_label_selector'', ''session_key'', ''callbacks'']"

text \<open>The call \<^verbatim>\<open>DynamicRouterConfig(**config)\<close>.\<close>

definition DynamicRouterConfig_init :: "jobj \<Rightarrow> DynamicRouterConfig result" where
  "DynamicRouterConfig_init config =
     (if list_ex (\<lambda>(k, _). k \<notin> set config_fields) config
      then Inl (TypeError ''got an unexpected keyword argument'')
      else if ''service_discovery'' \<notin> fst ` set config \<or> ''routing_logic'' \<notin> fst ` set config
      then Inl (TypeError ''missing required positional arguments'')
      else Inr \<lparr>dc_service_discovery = attr config ''service_discovery'',
                dc_routing_logic = attr config ''routing_logic'',
                dc_static_backends = attr config ''static_backends'',
                dc_static_models = attr config ''static_models'',
                dc_static_aliases = attr config ''static_aliases'',
                dc_static_model_labels = attr config ''static_model_labels'',
                dc_static_model_types = attr config ''static_model_types'',
                dc_static_backend_health_checks = jget config ''static_backend_health_checks'' (JBool False),
                dc_prefill_model_labels = attr config ''prefill_model_labels'',
                dc_decode_model_labels = attr config ''decode_model_labels'',
                dc_k8s_port = attr config ''k8s_port'',
                dc_k8s_namespace = attr config ''k8s_namespace'',
                dc_k8s_label_selector = attr config ''k8s_label_selector'',
                dc_session_key = attr config ''session_key'',
                dc_callbacks = attr config ''callbacks''\<rparr>)"

definition config_values :: "DynamicRouterConfig \<Rightarrow> json list" where
  "config_values c =
     [dc_service_discovery c, dc_routing_logic c, dc_static_backends c, dc_static_models c,
      dc_static_aliases c, dc_static_model_labels c, dc_static_model_types c,
      dc_static_backend_health_checks c, dc_prefill_model_labels c, dc_decode_model_labels c,
      dc_k8s_port c, dc_k8s_namespace c, dc_k8s_label_selector c, dc_session_key c, dc_callbacks c]"

text \<open>Equality of dataclass instances: that of the tuples of their fields.\<close>

definition config_eq :: "DynamicRouterConfig \<Rightarrow> DynamicRouterConfig \<Rightarrow> bool" where
  "config_eq c d \<longleftrightarrow> py_eq (JList (config_values c)) (JList (config_values d))"

text \<open>Four fields keep their defaults although the arguments have them.\<close>

definition from_args :: "jobj \<Rightarrow> DynamicRouterConfig" where
  "from_args args =
     \<lparr>dc_service_discovery = attr args ''service_discovery'',
      dc_routing_logic = attr args ''routing_logic'',
      dc_static_backends = attr args ''static_backends'',
      dc_static_models = attr args ''static_models'',
      dc_static_aliases = attr args ''static_aliases'',
      dc_static_model_labels = JNull,
      dc_static_model_types = attr args ''static_model_types'',
      dc_static_backend_health_checks = JBool False,
      dc_prefill_model_labels = JNull,
      dc_decode_model_labels = JNull,
      dc_k8s_port = attr args ''k8s_port'',
      dc_k8s_namespace = attr args ''k8s_namespace'',
      dc_k8s_label_selector = attr args ''k8s_label_selector'',
      dc_session_key = attr args ''session_key'',
      dc_callbacks = attr args ''callbacks''\<rparr>"

definition from_yaml :: "(json \<Rightarrow> string) \<Rightarrow> json result \<Rightarrow> DynamicRouterConfig result" where
  "from_yaml py_str loaded =
     bindE (read_and_process_yaml_config_file py_str loaded) DynamicRouterConfig_init"

definition from_json :: "json result \<Rightarrow> DynamicRouterConfig result" where
  "from_json loaded = bindE (json_document loaded) DynamicRouterConfig_init"

section \<open>Reconfiguration\<close>

record ('r, 't, 'cb) process =
  pr_discovery :: discovery_global
  pr_routers :: "('r, 't) registry"
  pr_app_router :: "('r, 't) router option"
  pr_callbacks :: "'cb option"

text \<open>What a pass takes from outside: fresh identifiers, the time, the outcome of loading the
  cluster configuration and of creating the cache controller, the hash ring, and the import of a
  module (its attributes).\<close>

record ('r, 'cb) dynamic_env =
  de_uuid4 :: "nat \<Rightarrow> string"
  de_now :: int
  de_kube :: "py_error option"
  de_clients :: client_state
  de_ring :: "'r ring_ops"
  de_lmcache :: "py_error option"
  de_import :: "string \<Rightarrow> (string \<Rightarrow> 'cb result) result"
  de_py_str :: "json \<Rightarrow> string"

type_synonym ('r, 't, 'cb) action = "('r, 't, 'cb) process \<Rightarrow> ('r, 't, 'cb) process \<times> unit result"

definition and_then :: "('s \<Rightarrow> 's \<times> unit result) \<Rightarrow> ('s \<Rightarrow> 's \<times> unit result) \<Rightarrow> 's \<Rightarrow> 's \<times> unit result" where
  "and_then f g s = (case f s of (s', Inl e) \<Rightarrow> (s', Inl e) | (s', Inr _) \<Rightarrow> g s')"

definition configure_custom_callbacks ::
  "('r, 'cb) dynamic_env \<Rightarrow> json \<Rightarrow> ('r, 't, 'cb) action" where
  "configure_custom_callbacks env callbacks_file_location p =
     (case callbacks_file_location of
        JStr location \<Rightarrow>
          let parts = split_on CHR ''.'' location;
              module_name = join ''.'' (butlast parts);
              instance_name = last parts
          in (case bindE (de_import env module_name) (\<lambda>module. module instance_name) of
                Inl e \<Rightarrow> (p, Inl e)
              | Inr cb \<Rightarrow> (p\<lparr>pr_callbacks := Some cb\<rparr>, Inr ()))
      | _ \<Rightarrow> (p, Inl (AttributeError ''split'')))"

definition dynamic_discovery_args ::
  "(json \<Rightarrow> string) \<Rightarrow> DynamicRouterConfig \<Rightarrow> (ServiceDiscoveryType \<times> discovery_args) result" where
  "dynamic_discovery_args py_str config =
     (if dc_service_discovery config = JStr ''static'' then
        bindE (static_urls (dc_static_backends config)) (\<lambda>urls.
        bindE (comma_separated (dc_static_models config)) (\<lambda>models.
        bindE (static_aliases (dc_static_aliases config)) (\<lambda>aliases.
        bindE (comma_separated (dc_static_model_labels config)) (\<lambda>model_labels.
        bindE (comma_separated (dc_static_model_types config)) (\<lambda>model_types.
        bindE (comma_separated (dc_prefill_model_labels config)) (\<lambda>pl.
        bindE (comma_separated (dc_decode_model_labels config)) (\<lambda>dl.
          Inr (STATIC, StaticArgs urls models aliases model_labels model_types
            (truthy (dc_static_backend_health_checks config))
            (map_option LabelList pl) (map_option LabelList dl)))))))))
      else if dc_service_discovery config = JStr ''k8s'' then
        bindE (comma_separated (dc_prefill_model_labels config)) (\<lambda>pl.
        bindE (comma_separated (dc_decode_model_labels config)) (\<lambda>dl.
          Inr (K8S, K8sArgs None (py_str (dc_k8s_namespace config)) (py_str (dc_k8s_port config))
            (map_option LabelList pl) (map_option LabelList dl))))
      else Inl (ValueError ''Invalid service discovery type''))"

definition watcher_reconfigure_service_discovery ::
  "('r, 'cb) dynamic_env \<Rightarrow> DynamicRouterConfig \<Rightarrow> ('r, 't, 'cb) action" where
  "watcher_reconfigure_service_discovery env config p =
     (case dynamic_discovery_args (de_py_str env) config of
        Inl e \<Rightarrow> (p, Inl e)
      | Inr (ty, args) \<Rightarrow>
          (case reconfigure_service_discovery (de_uuid4 env) (de_now env) (de_kube env) (de_clients env)
                  (Some ty) args (pr_discovery p) of
             (g, Inl e) \<Rightarrow> (p\<lparr>pr_discovery := g\<rparr>, Inl e)
           | (g, Inr _) \<Rightarrow> (p\<lparr>pr_discovery := g\<rparr>, Inr ())))"

definition watcher_reconfigure_routing_logic ::
  "('r, 'cb) dynamic_env \<Rightarrow> DynamicRouterConfig \<Rightarrow> ('r, 't, 'cb) action" where
  "watcher_reconfigure_routing_logic env config p =
     (case reconfigure_routing_logic (de_ring env) (de_lmcache env) (logic_of (dc_routing_logic config))
             \<lparr>rk_session_key = text_value (de_py_str env) (dc_session_key config),
              rk_kv_aware_threshold = None, rk_prefill_model_labels = None, rk_decode_model_labels = None\<rparr>
             (pr_routers p) of
        (reg, Inl e) \<Rightarrow> (p\<lparr>pr_routers := reg\<rparr>, Inl e)
      | (reg, Inr router) \<Rightarrow> (p\<lparr>pr_routers := reg, pr_app_router := Some router\<rparr>, Inr ()))"

definition reconfigure_batch_api :: "DynamicRouterConfig \<Rightarrow> ('r, 't, 'cb) action" where
  "reconfigure_batch_api config p = (p, Inr ())"

definition reconfigure_stats :: "DynamicRouterConfig \<Rightarrow> ('r, 't, 'cb) action" where
  "reconfigure_stats config p = (p, Inr ())"

definition reconfigure_callbacks ::
  "('r, 'cb) dynamic_env \<Rightarrow> DynamicRouterConfig \<Rightarrow> ('r, 't, 'cb) action" where
  "reconfigure_callbacks env config p =
     (if truthy (dc_callbacks config) then configure_custom_callbacks env (dc_callbacks config) p
      else (p\<lparr>pr_callbacks := None\<rparr>, Inr ()))"

definition reconfigure_all ::
  "('r, 'cb) dynamic_env \<Rightarrow> DynamicRouterConfig \<Rightarrow> ('r, 't, 'cb) action" where
  "reconfigure_all env config =
     and_then (watcher_reconfigure_service_discovery env config)
       (and_then (watcher_reconfigure_routing_logic env config)
         (and_then (reconfigure_batch_api config)
           (and_then (reconfigure_stats config) (reconfigure_callbacks env config))))"

section \<open>The watcher\<close>

record ('r, 't, 'cb) config_watcher =
  dw_config_file_type :: string
  dw_watch_interval :: nat
  dw_current_config :: DynamicRouterConfig
  dw_running :: bool
  dw_process :: "('r, 't, 'cb) process"

definition DynamicConfigWatcher_init ::
  "string \<Rightarrow> nat \<Rightarrow> DynamicRouterConfig \<Rightarrow> ('r, 't, 'cb) process \<Rightarrow> ('r, 't, 'cb) config_watcher" where
  "DynamicConfigWatcher_init config_file_type watch_interval init_config p =
     \<lparr>dw_config_file_type = config_file_type, dw_watch_interval = watch_interval,
      dw_current_config = init_config, dw_running = True, dw_process = p\<rparr>"

definition load_config :: "(json \<Rightarrow> string) \<Rightarrow> string \<Rightarrow> json result \<Rightarrow> DynamicRouterConfig result" where
  "load_config py_str config_file_type loaded =
     (if config_file_type = ''YAML'' then from_yaml py_str loaded
      else if config_file_type = ''JSON'' then from_json loaded
      else Inl (ValueError ''Unsupported config file type.''))"

text \<open>One turn of the loop in \<^verbatim>\<open>_watch_worker\<close>, up to the sleep: \<open>loaded\<close> is the content of the file
  at that moment. Every exception is caught.\<close>

definition watch_pass ::
  "('r, 'cb) dynamic_env \<Rightarrow> json result \<Rightarrow> ('r, 't, 'cb) config_watcher \<Rightarrow> ('r, 't, 'cb) config_watcher" where
  "watch_pass env loaded w =
     (case load_config (de_py_str env) (dw_config_file_type w) loaded of
        Inl _ \<Rightarrow> w
      | Inr config \<Rightarrow>
          if config_eq config (dw_current_config w) then w
          else (case reconfigure_all env config (dw_process w) of
                  (p, Inl _) \<Rightarrow> w\<lparr>dw_process := p\<rparr>
                | (p, Inr _) \<Rightarrow> w\<lparr>dw_process := p, dw_current_config := config\<rparr>))"

text \<open>\<^verbatim>\<open>_sleep_or_break\<close> with its check interval of one second: \<open>running t\<close> is the flag as read at
  second \<open>t\<close>, and the result is the second at which the loop is left. The whole worker is given
  one environment and file content per turn; it reports the seconds at which it made a pass.\<close>

fun watcher_sleep_or_break :: "nat \<Rightarrow> (nat \<Rightarrow> bool) \<Rightarrow> nat \<Rightarrow> nat" where
  "watcher_sleep_or_break 0 running t = t"
| "watcher_sleep_or_break (Suc n) running t = (if running t then watcher_sleep_or_break n running (Suc t) else t)"

fun watch_worker ::
  "(nat \<Rightarrow> bool) \<Rightarrow> (('r, 'cb) dynamic_env \<times> json result) list \<Rightarrow> nat \<Rightarrow> ('r, 't, 'cb) config_watcher \<Rightarrow>
   ('r, 't, 'cb) config_watcher \<times> nat list" where
  "watch_worker running [] t w = (w, [])"
| "watch_worker running ((env, loaded) # turns) t w =
     (if running t
      then (case watch_worker running turns (watcher_sleep_or_break (dw_watch_interval w) running t)
                   (watch_pass env loaded w) of
              (w', ts) \<Rightarrow> (w', t # ts))
      else (w, []))"

definition watcher_close :: "('r, 't, 'cb) config_watcher \<Rightarrow> ('r, 't, 'cb) config_watcher" where
  "watcher_close w = w\<lparr>dw_running := False\<rparr>"

section \<open>Agreement of the process state\<close>

text \<open>The discovery module has one running instance, and the registry is empty or holds exactly the
  router that requests are given to.\<close>

definition process_ok :: "('r, 't, 'cb) process \<Rightarrow> bool" where
  "process_ok p \<longleftrightarrow>
     lifecycle_ok (pr_discovery p) \<and>
     (pr_routers p = [] \<or> (\<exists>cls router. pr_routers p = [(cls, router)] \<and> pr_app_router p = Some router))"

lemma and_then_keeps:
  assumes "\<And>s. P s \<Longrightarrow> P (fst (f s))" and "\<And>s. P s \<Longrightarrow> P (fst (g s))" and "P s"
  shows "P (fst (and_then f g s))"
  using assms(1) [OF assms(3)] assms(2) [of "fst (f s)"]
  by (auto simp: and_then_def split: prod.splits sum.splits)

lemma reconfigure_discovery_lifecycle:
  "lifecycle_ok g \<Longrightarrow> lifecycle_ok (fst (reconfigure_service_discovery uuid4 now kube app ty args g))"
  using lifecycle_step [of g uuid4 now app "CallReconfigure ty args kube"] by simp

lemma reconfigured_discovery_ok:
  "reconfigure_service_discovery uuid4 now kube app ty args g = (g', r) \<Longrightarrow> lifecycle_ok g \<Longrightarrow> lifecycle_ok g'"
  using reconfigure_discovery_lifecycle [of g uuid4 now kube app ty args] by simp

lemma discovery_step_ok:
  "process_ok p \<Longrightarrow> process_ok (fst (watcher_reconfigure_service_discovery env config p))"
  by (auto simp: watcher_reconfigure_service_discovery_def process_ok_def split: sum.splits prod.splits
      dest!: reconfigured_discovery_ok)

lemma reconfigure_registry:
  fixes reg :: "('r, 't) registry"
  obtains (failed) e where "reconfigure_routing_logic ops lm lg kw reg = ([], Inl e)"
  | (replaced) router where "reconfigure_routing_logic ops lm lg kw reg = ([(logic_class (the lg), router)], Inr router)"
proof -
  obtain r :: "('r, 't) router result" where "initialize_routing_logic ops lm lg kw [] =
      ((case r of Inl e \<Rightarrow> [] | Inr i \<Rightarrow> [(logic_class (the lg), i)]), r)"
    using initialize_empty by blast
  then show ?thesis
    by (cases r) (auto simp: reconfigure_routing_logic_def cleanup_empty intro: that)
qed

lemma routing_step_ok:
  "process_ok p \<Longrightarrow> process_ok (fst (watcher_reconfigure_routing_logic env config p))"
  by (rule reconfigure_registry [of "de_ring env" "de_lmcache env" "logic_of (dc_routing_logic config)"
        "\<lparr>rk_session_key = text_value (de_py_str env) (dc_session_key config), rk_kv_aware_threshold = None,
          rk_prefill_model_labels = None, rk_decode_model_labels = None\<rparr>" "pr_routers p"])
     (auto simp: watcher_reconfigure_routing_logic_def process_ok_def)

lemma callbacks_step_ok: "process_ok p \<Longrightarrow> process_ok (fst (reconfigure_callbacks env config p))"
  by (auto simp: reconfigure_callbacks_def configure_custom_callbacks_def process_ok_def Let_def
      split: json.splits sum.splits)

lemma reconfigure_all_ok: "process_ok p \<Longrightarrow> process_ok (fst (reconfigure_all env config p))"
  unfolding reconfigure_all_def
  by (intro and_then_keeps [where P = process_ok])
     (simp_all add: discovery_step_ok routing_step_ok callbacks_step_ok reconfigure_batch_api_def reconfigure_stats_def)

lemma reconfigured_all_ok:
  "reconfigure_all env config p = (p', r) \<Longrightarrow> process_ok p \<Longrightarrow> process_ok p'"
  using reconfigure_all_ok [of p env config] by simp

lemma watch_pass_ok: "process_ok (dw_process w) \<Longrightarrow> process_ok (dw_process (watch_pass env loaded w))"
  by (auto simp: watch_pass_def split: sum.splits prod.splits dest: reconfigured_all_ok)


section \<open>Convergence\<close>

lemma config_eq_refl: "list_all json_wf (config_values c) \<Longrightarrow> config_eq c c"
  unfolding config_eq_def by (rule py_eq_refl) simp

lemma watch_pass_settled:
  assumes "load_config (de_py_str env) (dw_config_file_type w) loaded = Inr config"
    and "config_eq config (dw_current_config w)"
  shows "watch_pass env loaded w = w"
  using assms by (simp add: watch_pass_def)

text \<open>The watcher's other fields do not change in a pass.\<close>

lemma watch_pass_fields [simp]:
  "dw_config_file_type (watch_pass env loaded w) = dw_config_file_type w"
  "dw_watch_interval (watch_pass env loaded w) = dw_watch_interval w"
  "dw_running (watch_pass env loaded w) = dw_running w"
  by (auto simp: watch_pass_def split: sum.splits prod.splits)

text \<open>C14: the watcher converges. If the file keeps describing a configuration that can be applied, one
  pass makes it the current configuration, and from then on passes change nothing: the discovery
  and the router are not rebuilt again, whatever the environment does.\<close>

theorem watcher_converges:
  assumes load: "load_config py_str (dw_config_file_type w) loaded = Inr config"
    and wf: "list_all json_wf (config_values config)"
    and env: "de_py_str env = py_str" and envs: "\<forall>e \<in> set envs. de_py_str e = py_str"
    and new: "\<not> config_eq config (dw_current_config w)"
    and apply_ok: "reconfigure_all env config (dw_process w) = (p, Inr ())"
  shows "fold (\<lambda>e. watch_pass e loaded) (env # envs) w = w\<lparr>dw_process := p, dw_current_config := config\<rparr>"
proof -
  let ?w = "w\<lparr>dw_process := p, dw_current_config := config\<rparr>"
  have first: "watch_pass env loaded w = ?w"
    using load new apply_ok env by (simp add: watch_pass_def)
  have "fold (\<lambda>e. watch_pass e loaded) envs ?w = ?w"
    using envs
  proof (induction envs)
    case Nil
    show ?case by simp
  next
    case (Cons e envs)
    then have "watch_pass e loaded ?w = ?w"
      using load config_eq_refl [OF wf] by (intro watch_pass_settled [where config = config]) simp_all
    with Cons show ?case by simp
  qed
  with first show ?thesis by simp
qed

section \<open>Closing\<close>

text \<open>Once the flag is cleared, a sleep under way ends at once, and it never lasts beyond the watch
  interval.\<close>

lemma sleep_bounds:
  assumes "\<And>s. stop \<le> s \<Longrightarrow> \<not> running s"
  shows "t \<le> watcher_sleep_or_break n running t \<and> watcher_sleep_or_break n running t \<le> t + n \<and>
         watcher_sleep_or_break n running t \<le> max t stop"
proof (induction n arbitrary: t)
  case 0
  show ?case by simp
next
  case (Suc n)
  show ?case
  proof (cases "running t")
    case True
    with assms have "t < stop" by (meson not_le)
    with True Suc [of "Suc t"] show ?thesis by simp
  qed simp
qed

lemma passes_before_stop:
  assumes "\<And>s. stop \<le> s \<Longrightarrow> \<not> running s"
  shows "list_all (\<lambda>s. s < stop) (snd (watch_worker running turns t w))"
proof (induction turns arbitrary: t w)
  case Nil
  show ?case by simp
next
  case (Cons turn turns)
  obtain env loaded where turn: "turn = (env, loaded)" by (cases turn)
  have "running t \<Longrightarrow> t < stop" using assms by (meson not_le)
  with Cons.IH [of "watcher_sleep_or_break (dw_watch_interval w) running t" "watch_pass env loaded w"]
  show ?case by (simp add: turn case_prod_beta)
qed

text \<open>Closing is prompt. Once the running flag is cleared at second \<open>stop\<close> and stays cleared, the
  worker makes no pass at \<open>stop\<close> or later, and a sleep it has begun before ends by \<open>stop\<close>, and
  after the watch interval at the latest.\<close>

theorem watcher_closes_promptly:
  assumes stopped: "\<And>s. stop \<le> s \<Longrightarrow> \<not> running s" and before: "t \<le> stop"
  shows "list_all (\<lambda>s. s < stop) (snd (watch_worker running turns t w)) \<and>
         watcher_sleep_or_break (dw_watch_interval w) running t \<le> min stop (t + dw_watch_interval w)"
  using passes_before_stop [of stop running turns t w] sleep_bounds [of stop running t "dw_watch_interval w"]
    stopped before
  by (simp add: max_def)

section \<open>Partial failure\<close>

text \<open>What a pass does when the discovery can be rebuilt and the routing logic cannot.\<close>

lemma routing_failure_pass:
  fixes w :: "('r, 't, 'cb) config_watcher"
  assumes load: "load_config (de_py_str env) (dw_config_file_type w) loaded = Inr config"
    and new: "\<not> config_eq config (dw_current_config w)"
    and args: "dynamic_discovery_args (de_py_str env) config = Inr (ty, args)"
    and create: "create_service_discovery (de_uuid4 env) (de_now env) (de_kube env) (de_clients env) (Some ty) args = Inr d"
    and cur: "dg_current (pr_discovery (dw_process w)) = Some old"
    and bad: "logic_of (dc_routing_logic config) = None"
  shows "watch_pass env loaded w =
    w\<lparr>dw_process := (dw_process w)\<lparr>
        pr_discovery := \<lparr>dg_current = Some d,
                        dg_retired = dg_retired (pr_discovery (dw_process w)) @ [discovery_close old]\<rparr>,
        pr_routers := []\<rparr>\<rparr>"
proof -
  let ?p = "(dw_process w)\<lparr>
        pr_discovery := \<lparr>dg_current = Some d,
                        dg_retired = dg_retired (pr_discovery (dw_process w)) @ [discovery_close old]\<rparr>\<rparr>"
  have "watcher_reconfigure_service_discovery env config (dw_process w) = (?p, Inr ())"
    using args create cur by (simp add: watcher_reconfigure_service_discovery_def reconfigure_service_discovery_def)
  moreover have "watcher_reconfigure_routing_logic env config ?p =
      (?p\<lparr>pr_routers := []\<rparr>, Inl (ValueError ''Invalid routing logic''))"
    by (simp add: watcher_reconfigure_routing_logic_def reconfigure_routing_logic_def cleanup_empty
        initialize_routing_logic_def bad)
  ultimately have "reconfigure_all env config (dw_process w) =
      (?p\<lparr>pr_routers := []\<rparr>, Inl (ValueError ''Invalid routing logic''))"
    by (simp add: reconfigure_all_def and_then_def)
  then show ?thesis
    using load new by (simp add: watch_pass_def)
qed

text \<open>A configuration that is only half applicable is never given up. When the file names a
  discovery that can be created and a routing logic that does not exist, every pass replaces the
  running discovery by a new one and closes the old, so \<open>n\<close> passes retire \<open>n\<close> discoveries; the
  registry stays empty, the application goes on with the old router, and the configuration that
  counts as current is the old one.\<close>

theorem half_applicable_config_rebuilds_discovery:
  fixes w :: "('r, 't, 'cb) config_watcher"
  assumes load: "load_config (de_py_str env) (dw_config_file_type w) loaded = Inr config"
    and new: "\<not> config_eq config (dw_current_config w)"
    and args: "dynamic_discovery_args (de_py_str env) config = Inr (ty, args)"
    and create: "create_service_discovery (de_uuid4 env) (de_now env) (de_kube env) (de_clients env) (Some ty) args = Inr d"
    and cur: "dg_current (pr_discovery (dw_process w)) = Some old"
    and bad: "logic_of (dc_routing_logic config) = None" and pos: "0 < n"
    and w': "w' = (watch_pass env loaded ^^ n) w"
  shows "dg_current (pr_discovery (dw_process w')) = Some d \<and>
    length (dg_retired (pr_discovery (dw_process w'))) = length (dg_retired (pr_discovery (dw_process w))) + n \<and>
    pr_routers (dw_process w') = [] \<and> pr_app_router (dw_process w') = pr_app_router (dw_process w) \<and>
    dw_current_config w' = dw_current_config w"
proof -
  have "\<exists>u. (watch_pass env loaded ^^ n) w = u \<and>
      dw_config_file_type u = dw_config_file_type w \<and> dw_current_config u = dw_current_config w \<and>
      dg_current (pr_discovery (dw_process u)) = Some d \<and>
      length (dg_retired (pr_discovery (dw_process u))) = length (dg_retired (pr_discovery (dw_process w))) + n \<and>
      pr_routers (dw_process u) = [] \<and> pr_app_router (dw_process u) = pr_app_router (dw_process w)"
    using pos
  proof (induction n rule: nat_induct_non_zero)
    case 1
    show ?case
      using routing_failure_pass [OF load new args create cur bad] by simp
  next
    case (Suc n)
    then obtain u where u: "(watch_pass env loaded ^^ n) w = u"
      "dw_config_file_type u = dw_config_file_type w" "dw_current_config u = dw_current_config w"
      "dg_current (pr_discovery (dw_process u)) = Some d"
      "length (dg_retired (pr_discovery (dw_process u))) = length (dg_retired (pr_discovery (dw_process w))) + n"
      "pr_app_router (dw_process u) = pr_app_router (dw_process w)"
      by blast
    have "load_config (de_py_str env) (dw_config_file_type u) loaded = Inr config"
      "\<not> config_eq config (dw_current_config u)"
      using load new u by simp_all
    from routing_failure_pass [OF this args create u(4) bad] u show ?case by simp
  qed
  with w' show ?thesis by auto
qed

text \<open>The watcher never creates a service-name discovery: reconfigured to Kubernetes, the router
  always watches pods, since the watcher does not pass the Kubernetes discovery type on.\<close>

theorem dynamic_k8s_is_pod_ip:
  assumes "dc_service_discovery config = JStr ''k8s''" and "de_kube env = None"
    and "dg_current (pr_discovery p) = Some old"
    and "watcher_reconfigure_service_discovery env config p = (p', Inr ())"
  shows "\<exists>sd. dg_current (pr_discovery p') = Some (PodIP sd)"
proof -
  obtain ns port pl dl where args: "dynamic_discovery_args (de_py_str env) config = Inr (K8S, K8sArgs None ns port pl dl)"
    using assms
    by (auto simp: watcher_reconfigure_service_discovery_def dynamic_discovery_args_def bindE_eq_Inr
        split: sum.splits prod.splits)
  have "k8s_normalized_type None \<noteq> ''service-name''"
    by code_simp
  then show ?thesis
    using assms args
    by (auto simp: watcher_reconfigure_service_discovery_def reconfigure_service_discovery_def
        create_service_discovery_def)
qed

section \<open>Witnesses\<close>

definition sample_dynamic_env :: "(string list, unit) dynamic_env" where
  "sample_dynamic_env =
     \<lparr>de_uuid4 = (\<lambda>_. ''id''), de_now = 0, de_kube = None, de_clients = new_client_state,
      de_ring = min_ring, de_lmcache = None, de_import = (\<lambda>_. Inl (OtherException ''ModuleNotFoundError'')),
      de_py_str = (\<lambda>_. [])\<rparr>"

definition sample_discovery :: discovery where
  "sample_discovery = PodIP (K8sPodIPServiceDiscovery_init new_client_state [] [] None None)"

definition sample_process :: "(string list, nat, unit) process" where
  "sample_process =
     \<lparr>pr_discovery = \<lparr>dg_current = Some sample_discovery, dg_retired = []\<rparr>,
      pr_routers = [(PrefixAwareRouter, RPrefixAware PrefixAwareRouter_init)],
      pr_app_router = Some (RPrefixAware PrefixAwareRouter_init), pr_callbacks = None\<rparr>"

definition sample_watcher :: "(string list, nat, unit) config_watcher" where
  "sample_watcher = DynamicConfigWatcher_init ''JSON'' 10 (from_args []) sample_process"

definition sample_document :: "string \<Rightarrow> json result" where
  "sample_document logic =
     Inr (JObj [(''service_discovery'', JStr ''k8s''), (''routing_logic'', JStr logic)])"

definition sample_config :: "string \<Rightarrow> DynamicRouterConfig" where
  "sample_config logic = (from_args [(''service_discovery'', JStr ''k8s''), (''routing_logic'', JStr logic)])"

lemma sample_load:
  "load_config (de_py_str sample_dynamic_env) (dw_config_file_type sample_watcher) (sample_document logic) =
     Inr (sample_config logic)"
  by (simp add: load_config_def from_json_def json_document_def sample_document_def sample_watcher_def
      DynamicConfigWatcher_init_def DynamicRouterConfig_init_def config_fields_def sample_config_def
      from_args_def jget_def)

lemma sample_config_new: "\<not> config_eq (sample_config logic) (dw_current_config sample_watcher)"
  by (simp add: config_eq_def config_values_def sample_config_def sample_watcher_def
      DynamicConfigWatcher_init_def from_args_def jget_def)

lemma sample_discovery_args:
  "dynamic_discovery_args (de_py_str sample_dynamic_env) (sample_config logic) =
     Inr (K8S, K8sArgs None [] [] None None)"
  by (simp add: dynamic_discovery_args_def sample_config_def from_args_def jget_def comma_separated_def
      parse_comma_separated_args_def sample_dynamic_env_def)

lemma sample_create:
  "create_service_discovery (de_uuid4 sample_dynamic_env) (de_now sample_dynamic_env) (de_kube sample_dynamic_env)
     (de_clients sample_dynamic_env) (Some K8S) (K8sArgs None [] [] None None) = Inr sample_discovery"
proof -
  have "k8s_normalized_type None \<noteq> ''service-name''" by code_simp
  then show ?thesis
    by (simp add: create_service_discovery_def sample_dynamic_env_def sample_discovery_def)
qed

lemma sample_process_fields [simp]:
  "dw_process sample_watcher = sample_process"
  "dg_current (pr_discovery sample_process) = Some sample_discovery"
  "dg_retired (pr_discovery sample_process) = []"
  by (simp_all add: sample_watcher_def DynamicConfigWatcher_init_def sample_process_def)

lemma sample_process_ok: "process_ok sample_process"
  by (simp add: process_ok_def lifecycle_ok_def sample_process_def sample_discovery_def discovery_running_def
      K8sPodIPServiceDiscovery_init_def)

text \<open>The sample file applied: pods are watched afresh and requests go round.\<close>

definition sample_applied :: "(string list, nat, unit) process" where
  "sample_applied =
     \<lparr>pr_discovery = \<lparr>dg_current = Some sample_discovery, dg_retired = [discovery_close sample_discovery]\<rparr>,
      pr_routers = [(RoundRobinRouter, RRoundRobin RoundRobinRouter_init)],
      pr_app_router = Some (RRoundRobin RoundRobinRouter_init), pr_callbacks = None\<rparr>"

lemma sample_discovery_step:
  "watcher_reconfigure_service_discovery sample_dynamic_env (sample_config logic) sample_process =
     (sample_process\<lparr>pr_discovery := pr_discovery sample_applied\<rparr>, Inr ())"
  by (simp add: watcher_reconfigure_service_discovery_def sample_discovery_args reconfigure_service_discovery_def
      sample_create sample_applied_def)

lemma sample_apply:
  "reconfigure_all sample_dynamic_env (sample_config ''roundrobin'') sample_process = (sample_applied, Inr ())"
proof -
  have "dc_routing_logic (sample_config ''roundrobin'') = JStr ''roundrobin''"
    and "dc_callbacks (sample_config ''roundrobin'') = JNull"
    by (simp_all add: sample_config_def from_args_def jget_def)
  then show ?thesis
    unfolding reconfigure_all_def and_then_def sample_discovery_step
    by (simp add: watcher_reconfigure_routing_logic_def reconfigure_routing_logic_def cleanup_empty
        initialize_routing_logic_def class_call_empty logic_of_def reconfigure_batch_api_def
        reconfigure_stats_def reconfigure_callbacks_def sample_applied_def sample_process_def)
qed


theorem watcher_converges_witness:
  "fold (\<lambda>e. watch_pass e (sample_document ''roundrobin'')) [sample_dynamic_env, sample_dynamic_env] sample_watcher =
     sample_watcher\<lparr>dw_process := sample_applied, dw_current_config := sample_config ''roundrobin''\<rparr>"
proof (rule watcher_converges [OF sample_load])
  show "list_all json_wf (config_values (sample_config ''roundrobin''))"
    by (simp add: config_values_def sample_config_def from_args_def jget_def)
  show "reconfigure_all sample_dynamic_env (sample_config ''roundrobin'') (dw_process sample_watcher) =
      (sample_applied, Inr ())"
    by (simp add: sample_apply)
qed (simp_all add: sample_config_new)

theorem watcher_closes_promptly_witness:
  "list_all (\<lambda>s. s < 15) (snd (watch_worker (\<lambda>t. t < 15)
     (replicate 5 (sample_dynamic_env, sample_document ''roundrobin'')) 12 sample_watcher)) \<and>
   watcher_sleep_or_break (dw_watch_interval sample_watcher) (\<lambda>t. t < 15) 12 \<le> min 15 (12 + dw_watch_interval sample_watcher)"
  by (rule watcher_closes_promptly) simp_all

theorem half_applicable_config_rebuilds_discovery_witness:
  "length (dg_retired (pr_discovery (dw_process
     ((watch_pass sample_dynamic_env (sample_document ''nonsense'') ^^ 3) sample_watcher)))) = 3"
proof -
  have bad: "logic_of (dc_routing_logic (sample_config ''nonsense'')) = None"
    by (simp add: logic_of_def sample_config_def from_args_def jget_def)
  have cur: "dg_current (pr_discovery (dw_process sample_watcher)) = Some sample_discovery" by simp
  from half_applicable_config_rebuilds_discovery
    [OF sample_load sample_config_new sample_discovery_args sample_create cur bad _ refl, of 3]
  show ?thesis by simp
qed

theorem dynamic_k8s_is_pod_ip_witness:
  "\<exists>sd. dg_current (pr_discovery (fst (watcher_reconfigure_service_discovery sample_dynamic_env
     (sample_config ''roundrobin'') sample_process))) = Some (PodIP sd)"
proof -
  have "dc_service_discovery (sample_config ''roundrobin'') = JStr ''k8s''" "de_kube sample_dynamic_env = None"
    by (simp_all add: sample_config_def from_args_def jget_def sample_dynamic_env_def)
  from dynamic_k8s_is_pod_ip [OF this _ sample_discovery_step] show ?thesis
    unfolding sample_discovery_step by simp
qed

end
