(* ===== verification/Feature_Gates.thy ===== *)
theory Feature_Gates
  imports Router_Prelude
begin

text \<open>
  \<^verbatim>\<open>src/src/vllm_router/experimental/feature_gates.py\<close>: the set of enabled features and its
  configuration from a comma-separated text.
\<close>

datatype FeatureStage = ALPHA | BETA | GA

record feature_gates =
  fg_enabled_features :: "string set"

definition FeatureGates_init :: feature_gates where
  "FeatureGates_init = \<lparr>fg_enabled_features = {}\<rparr>"

definition gates_enable :: "string \<Rightarrow> feature_gates \<Rightarrow> feature_gates" where
  "gates_enable feature fg = fg\<lparr>fg_enabled_features := insert feature (fg_enabled_features fg)\<rparr>"

definition gates_disable :: "string \<Rightarrow> feature_gates \<Rightarrow> feature_gates" where
  "gates_disable feature fg = fg\<lparr>fg_enabled_features := fg_enabled_features fg - {feature}\<rparr>"

definition gates_is_enabled :: "feature_gates \<Rightarrow> string \<Rightarrow> bool" where
  "gates_is_enabled fg feature \<longleftrightarrow> feature \<in> fg_enabled_features fg"

fun gates_configure :: "(string \<times> bool) list \<Rightarrow> feature_gates \<Rightarrow> feature_gates" where
  "gates_configure [] fg = fg"
| "gates_configure ((feature, enabled) # config) fg =
     gates_configure config (if enabled then gates_enable feature fg else gates_disable feature fg)"

text \<open>One item of the text: the part before the first equals sign and the rest.\<close>

definition gate_item :: "string \<Rightarrow> (string \<times> bool) option" where
  "gate_item item =
     (if CHR ''='' \<in> set item
      then let name = takeWhile (\<lambda>c. c \<noteq> CHR ''='') item;
               value = drop 1 (dropWhile (\<lambda>c. c \<noteq> CHR ''='') item)
           in Some (strip name, lower (strip value) = ''true'')
      else None)"

fun gates_loop :: "string list \<Rightarrow> (string \<times> bool) list \<Rightarrow> (string \<times> bool) list" where
  "gates_loop [] features = features"
| "gates_loop (item # items) features =
     (case gate_item item of
        None \<Rightarrow> gates_loop items features
      | Some (name, value) \<Rightarrow> gates_loop items (AList.update name value features))"

definition initialize_feature_gates :: "string option \<Rightarrow> feature_gates \<Rightarrow> feature_gates" where
  "initialize_feature_gates config fg =
     (case config of
        None \<Rightarrow> fg
      | Some s \<Rightarrow> if s = [] then fg else gates_configure (gates_loop (split_on CHR '','' s) []) fg)"

section \<open>The meaning of a configuration\<close>

lemma gates_configure_enabled:
  "distinct (map fst config) \<Longrightarrow>
   gates_is_enabled (gates_configure config fg) f =
     (case map_of config f of None \<Rightarrow> gates_is_enabled fg f | Some b \<Rightarrow> b)"
proof (induction config arbitrary: fg)
  case Nil
  show ?case by simp
next
  case (Cons p config)
  obtain g b where p: "p = (g, b)" by (cases p)
  have "map_of config g = None"
    using Cons.prems p by (simp add: map_of_eq_None_iff)
  then show ?case
    using Cons p
    by (auto simp: gates_is_enabled_def gates_enable_def gates_disable_def split: option.splits)
qed

lemma gates_loop_distinct: "distinct (map fst acc) \<Longrightarrow> distinct (map fst (gates_loop items acc))"
  by (induction items acc rule: gates_loop.induct) (auto split: option.splits)

text \<open>The last item that names the feature, if any.\<close>

definition last_setting :: "string \<Rightarrow> string list \<Rightarrow> bool option" where
  "last_setting f items = map_of (rev (List.map_filter gate_item items)) f"

lemma gates_loop_get:
  "map_of (gates_loop items acc) f =
     (case last_setting f items of None \<Rightarrow> map_of acc f | Some b \<Rightarrow> Some b)"
  by (induction items acc rule: gates_loop.induct)
     (auto simp: last_setting_def map_filter_simps map_add_def split: option.splits)

text \<open>After initialisation a feature is enabled exactly when the last item naming it says
  \<^verbatim>\<open>true\<close>, up to case and blanks; a feature that no item names keeps its state, and items
  without an equals sign count for nothing.\<close>

theorem feature_gates_last_setting_wins:
  "gates_is_enabled (initialize_feature_gates (Some config) fg) f =
     (case last_setting f (split_on CHR '','' config) of None \<Rightarrow> gates_is_enabled fg f | Some b \<Rightarrow> b)"
  by (auto simp: initialize_feature_gates_def gates_configure_enabled gates_loop_distinct gates_loop_get
      last_setting_def gate_item_def map_filter_simps split: option.splits)

end
