(* ===== verification/App_Startup.thy ===== *)
theory App_Startup
  imports Dynamic_Config Feature_Gates Batch_Service Request_Service
begin

text \<open>
  \<^verbatim>\<open>src/src/vllm_router/app.py\<close> and \<^verbatim>\<open>aiohttp_client.py\<close>: start-up and shutdown. An exception
  during start-up ends the program, so \<open>initialize_all\<close> gives an application or an error. The
  watcher of the configuration file starts before the router is created; the passes it makes in
  between are an argument, and so are those between the steps of the shutdown.
\<close>

section \<open>The shared HTTP client\<close>

text \<open>\<^verbatim>\<open>AiohttpClientWrapper\<close>: the current session, and all sessions ever opened with whether they
  are closed.\<close>

record client_wrapper =
  cw_async_client :: "nat option"
  cw_sessions :: "bool list"

definition wrapper_init :: client_wrapper where
  "wrapper_init = \<lparr>cw_async_client = None, cw_sessions = []\<rparr>"

definition wrapper_start :: "client_wrapper \<Rightarrow> client_wrapper" where
  "wrapper_start c = \<lparr>cw_async_client = Some (length (cw_sessions c)), cw_sessions = cw_sessions c @ [False]\<rparr>"

definition wrapper_stop :: "client_wrapper \<Rightarrow> client_wrapper \<times> unit result" where
  "wrapper_stop c =
     (case cw_async_client c of
        None \<Rightarrow> (c, Inl (AttributeError ''closed''))
      | Some i \<Rightarrow> (\<lparr>cw_async_client = None, cw_sessions = (cw_sessions c)[i := True]\<rparr>, Inr ()))"

definition wrapper_call :: "client_wrapper \<Rightarrow> nat result" where
  "wrapper_call c = (case cw_async_client c of None \<Rightarrow> Inl (AssertionError []) | Some i \<Rightarrow> Inr i)"

section \<open>Start-up\<close>

text \<open>Labels as the command line or a configuration file gives them: a text stays a text.\<close>

definition labels_value :: "json \<Rightarrow> labels option" where
  "labels_value v =
     (case v of
        JStr s \<Rightarrow> Some (LabelString s)
      | JList xs \<Rightarrow> Some (LabelList (List.map_filter (\<lambda>x. case x of JStr s \<Rightarrow> Some s | _ \<Rightarrow> None) xs))
      | _ \<Rightarrow> None)"

definition comma_if_given :: "json \<Rightarrow> string list option result" where
  "comma_if_given v = (if truthy v then comma_separated v else Inr None)"

definition app_discovery_args :: "(json \<Rightarrow> string) \<Rightarrow> jobj \<Rightarrow> (ServiceDiscoveryType \<times> discovery_args) result" where
  "app_discovery_args py_str args =
     (if attr args ''service_discovery'' = JStr ''static'' then
        bindE (static_urls (attr args ''static_backends'')) (\<lambda>urls.
        bindE (comma_separated (attr args ''static_models'')) (\<lambda>models.
        bindE (static_aliases (attr args ''static_aliases'')) (\<lambda>aliases.
        bindE (comma_if_given (attr args ''static_model_types'')) (\<lambda>model_types.
        bindE (comma_if_given (attr args ''static_model_labels'')) (\<lambda>model_labels.
          Inr (STATIC, StaticArgs urls models aliases model_labels model_types
            (truthy (attr args ''static_backend_health_checks''))
            (labels_value (attr args ''prefill_model_labels''))
            (labels_value (attr args ''decode_model_labels''))))))))
      else if attr args ''service_discovery'' = JStr ''k8s'' then
        Inr (K8S, K8sArgs (Some (text_value py_str (attr args ''k8s_service_discovery_type'')))
          (py_str (attr args ''k8s_namespace'')) (py_str (attr args ''k8s_port''))
          (labels_value (attr args ''prefill_model_labels''))
          (labels_value (attr args ''decode_model_labels'')))
      else Inl (ValueError ''Invalid service discovery type''))"

definition number_value :: "json \<Rightarrow> rat option" where
  "number_value v = (case json_number v of Inl _ \<Rightarrow> None | Inr r \<Rightarrow> Some r)"

definition int_value :: "json \<Rightarrow> int option" where
  "int_value v = (case v of JInt i \<Rightarrow> Some i | _ \<Rightarrow> None)"

definition initialize_batch_api :: "os_env \<Rightarrow> jobj \<Rightarrow> fs \<Rightarrow> unit result" where
  "initialize_batch_api os args fs =
     (if truthy (attr args ''enable_batch_api'') then
        (case attr args ''file_storage_path'' of
           JStr path \<Rightarrow>
             (case initialize_storage os (case attr args ''file_storage_class'' of JStr c \<Rightarrow> c | _ \<Rightarrow> []) path fs of
                (fs', Inl e) \<Rightarrow> Inl e
              | (fs', Inr _) \<Rightarrow>
                  initialize_batch_processor (case attr args ''batch_processor'' of JStr b \<Rightarrow> b | _ \<Rightarrow> []))
         | _ \<Rightarrow> Inl (TypeError ''expected str, bytes or os.PathLike object''))
      else Inr ())"

record ('r, 't, 'cb) application =
  an_process :: "('r, 't, 'cb) process"
  an_scraper :: engine_scraper
  an_monitor :: request_monitor
  an_watcher :: "('r, 't, 'cb) config_watcher option"
  an_gates :: feature_gates
  an_rewriter :: bool
  an_client :: client_wrapper

text \<open>The watcher thread: started for a YAML file, else for a JSON file, with the configuration of the
  arguments, and making the passes \<open>early\<close> before the next step of the start-up.\<close>

definition start_watcher ::
  "jobj \<Rightarrow> (('r, 'cb) dynamic_env \<times> json result) list \<Rightarrow> ('r, 't, 'cb) process \<Rightarrow>
   ('r, 't, 'cb) config_watcher option" where
  "start_watcher args early p =
     (let run = (\<lambda>file_type. Some (fold (\<lambda>(env, loaded). watch_pass env loaded) early
                   (DynamicConfigWatcher_init file_type 10 (from_args args) p)))
      in if truthy (attr args ''dynamic_config_yaml'') then run ''YAML''
         else if truthy (attr args ''dynamic_config_json'') then run ''JSON'' else None)"

definition app_routing_kwargs :: "(json \<Rightarrow> string) \<Rightarrow> jobj \<Rightarrow> routing_kwargs" where
  "app_routing_kwargs py_str args =
     \<lparr>rk_session_key = text_value py_str (attr args ''session_key''),
      rk_kv_aware_threshold = int_value (attr args ''kv_aware_threshold''),
      rk_prefill_model_labels = labels_value (attr args ''prefill_model_labels''),
      rk_decode_model_labels = labels_value (attr args ''decode_model_labels'')\<rparr>"

definition feature_gates_text :: "json \<Rightarrow> string option" where
  "feature_gates_text v = (case v of JStr s \<Rightarrow> Some s | _ \<Rightarrow> None)"

text \<open>From the creation of the router on, given what the process has become by then.\<close>

definition finish_startup ::
  "('r, 'cb) dynamic_env \<Rightarrow> jobj \<Rightarrow> engine_scraper \<Rightarrow> request_monitor \<Rightarrow> ('r, 't, 'cb) config_watcher option \<Rightarrow>
   ('r, 't, 'cb) process \<Rightarrow> ('r, 't, 'cb) application result" where
  "finish_startup env args scraper monitor watcher p =
     (case initialize_routing_logic (de_ring env) (de_lmcache env) (logic_of (attr args ''routing_logic''))
             (app_routing_kwargs (de_py_str env) args) (pr_routers p) of
        (reg, Inl e) \<Rightarrow> Inl e
      | (reg, Inr _) \<Rightarrow>
          bindE (get_routing_logic reg) (\<lambda>router.
            let p' = p\<lparr>pr_routers := reg, pr_app_router := Some router\<rparr>
            in Inr \<lparr>an_process = p', an_scraper = scraper, an_monitor = monitor,
                    an_watcher = map_option (\<lambda>w. w\<lparr>dw_process := p'\<rparr>) watcher,
                    an_gates = initialize_feature_gates (feature_gates_text (attr args ''feature_gates'')) FeatureGates_init,
                    an_rewriter = get_request_rewriter False,
                    an_client = wrapper_init\<rparr>))"

text \<open>From the statistics to the callbacks, once the discovery \<open>g\<close> is initialised.\<close>

definition initialize_services ::
  "('r, 'cb) dynamic_env \<Rightarrow> os_env \<Rightarrow> fs \<Rightarrow> (('r, 'cb) dynamic_env \<times> json result) list \<Rightarrow> jobj \<Rightarrow>
   discovery_global \<Rightarrow> ('r, 't, 'cb) application result" where
  "initialize_services env os fs early args g =
     bindE (EngineStatsScraper_init (number_value (attr args ''engine_stats_interval''))) (\<lambda>scraper.
     bindE (RequestStatsMonitor_init (number_value (attr args ''request_stats_window''))) (\<lambda>monitor.
     bindE (initialize_batch_api os args fs) (\<lambda>_.
       let p0 = \<lparr>pr_discovery = g, pr_routers = [], pr_app_router = None, pr_callbacks = None\<rparr>;
           watcher = start_watcher args early p0;
           p1 = (case watcher of None \<Rightarrow> p0 | Some w \<Rightarrow> dw_process w)
       in (case (if truthy (attr args ''callbacks'')
                 then configure_custom_callbacks env (attr args ''callbacks'') p1 else (p1, Inr ())) of
             (p2, Inl e) \<Rightarrow> Inl e
           | (p2, Inr _) \<Rightarrow> finish_startup env args scraper monitor watcher p2))))"

definition initialize_all ::
  "('r, 'cb) dynamic_env \<Rightarrow> os_env \<Rightarrow> fs \<Rightarrow> (('r, 'cb) dynamic_env \<times> json result) list \<Rightarrow> jobj \<Rightarrow>
   ('r, 't, 'cb) application result" where
  "initialize_all env os fs early args =
     bindE (app_discovery_args (de_py_str env) args) (\<lambda>(ty, dargs).
       case initialize_service_discovery (de_uuid4 env) (de_now env) (de_kube env) (de_clients env) (Some ty) dargs
              \<lparr>dg_current = None, dg_retired = []\<rparr> of
         (g, Inl e) \<Rightarrow> Inl e
       | (g, Inr _) \<Rightarrow> initialize_services env os fs early args g)"

text \<open>The program up to the server: the arguments, then the components.\<close>

definition start_program ::
  "('r, 'cb) dynamic_env \<Rightarrow> os_env \<Rightarrow> fs \<Rightarrow> (('r, 'cb) dynamic_env \<times> json result) list \<Rightarrow>
   (string \<Rightarrow> rat option) \<Rightarrow> config_files \<Rightarrow> jobj \<Rightarrow> ('r, 't, 'cb) application result" where
  "start_program env os fs early py_float files given =
     bindE (parse_args (de_py_str env) py_float files given) (initialize_all env os fs early)"

section \<open>Shutdown\<close>

text \<open>The second half of \<^verbatim>\<open>lifespan\<close>. The client is stopped, the scraper and the discovery are closed,
  then the watcher, which may make the passes \<open>late\<close> after the discovery was closed, and at last
  the routers are removed.\<close>

definition close_discovery :: "('r, 't, 'cb) process \<Rightarrow> ('r, 't, 'cb) process" where
  "close_discovery p =
     p\<lparr>pr_discovery := (pr_discovery p)\<lparr>dg_current := map_option discovery_close (dg_current (pr_discovery p))\<rparr>\<rparr>"

definition lifespan_start :: "('r, 't, 'cb) application \<Rightarrow> ('r, 't, 'cb) application" where
  "lifespan_start a = a\<lparr>an_client := wrapper_start (an_client a)\<rparr>"

definition lifespan_end ::
  "(('r, 'cb) dynamic_env \<times> json result) list \<Rightarrow> ('r, 't, 'cb) application \<Rightarrow>
   ('r, 't, 'cb) application \<times> unit result" where
  "lifespan_end late a =
     (case wrapper_stop (an_client a) of
        (c, Inl e) \<Rightarrow> (a\<lparr>an_client := c\<rparr>, Inl e)
      | (c, Inr _) \<Rightarrow>
          (case get_service_discovery (pr_discovery (an_process a)) of
             Inl e \<Rightarrow> (a\<lparr>an_client := c, an_scraper := scraper_close (an_scraper a)\<rparr>, Inl e)
           | Inr _ \<Rightarrow>
               let p1 = close_discovery (an_process a);
                   w = map_option (\<lambda>w. watcher_close (fold (\<lambda>(env, loaded). watch_pass env loaded) late
                                        (w\<lparr>dw_process := p1\<rparr>))) (an_watcher a);
                   p2 = (case w of None \<Rightarrow> p1 | Some w \<Rightarrow> dw_process w)
               in (a\<lparr>an_client := c, an_scraper := scraper_close (an_scraper a), an_watcher := w,
                     an_process := p2\<lparr>pr_routers := cleanup_routing_logic (pr_routers p2)\<rparr>\<rparr>, Inr ())))"

section \<open>A started program\<close>

lemma class_call_fresh:
  assumes "class_call cls ctor reg = (reg', Inr i)" and "map_of reg cls = None"
  shows "ctor = Inr i \<and> reg' = AList.update cls i reg"
  using assms by (auto simp: class_call_def SingletonABCMeta_call_def split: sum.splits option.splits)

text \<open>A router that is created is added to the registry under its class.\<close>

lemma initialize_routing_adds:
  assumes "initialize_routing_logic ops lm lg kw reg = (reg', Inr i)" and "map_of reg (logic_class (the lg)) = None"
  shows "lg \<noteq> None \<and> reg' = AList.update (logic_class (the lg)) i reg"
  using assms
  by (auto simp: initialize_routing_logic_def Let_def dict_key_iff
      split: option.splits RoutingLogic.splits sum.splits prod.splits router.splits dest!: class_call_fresh)

lemma get_loop_member: "get_loop clss reg = Inr i \<Longrightarrow> \<exists>cls \<in> set clss. map_of reg cls = Some i"
  by (induction clss) (auto split: option.splits)

lemma finish_startup_cases:
  assumes "finish_startup env args scraper monitor watcher p = Inr a"
  obtains reg i router where
    "initialize_routing_logic (de_ring env) (de_lmcache env) (logic_of (attr args ''routing_logic''))
       (app_routing_kwargs (de_py_str env) args) (pr_routers p) = (reg, Inr i)"
    and "get_routing_logic reg = Inr router"
    and "an_process a = p\<lparr>pr_routers := reg, pr_app_router := Some router\<rparr>"
    and "an_scraper a = scraper" and "an_monitor a = monitor" and "an_client a = wrapper_init"
  using assms
  by (auto simp: finish_startup_def bindE_eq_Inr Let_def split: prod.splits sum.splits)

text \<open>What a successful start-up whose watcher has made no pass yet has gone through.\<close>

lemma initialized_discovery:
  assumes "initialize_all env os fs early args = Inr a"
  obtains g d where "dg_current g = Some d" "discovery_running d" "dg_retired g = []"
    and "initialize_services env os fs early args g = Inr a"
proof -
  obtain ty dargs where dargs: "app_discovery_args (de_py_str env) args = Inr (ty, dargs)"
    using assms by (auto simp: initialize_all_def bindE_eq_Inr)
  obtain g r where gr: "initialize_service_discovery (de_uuid4 env) (de_now env) (de_kube env)
        (de_clients env) (Some ty) dargs \<lparr>dg_current = None, dg_retired = []\<rparr> = (g, r)"
    by (cases "initialize_service_discovery (de_uuid4 env) (de_now env) (de_kube env)
        (de_clients env) (Some ty) dargs \<lparr>dg_current = None, dg_retired = []\<rparr>")
  then obtain d where r: "r = Inr d" and rest: "initialize_services env os fs early args g = Inr a"
    using assms dargs by (cases r) (auto simp: initialize_all_def)
  note init = gr [unfolded r]
  note rest
  moreover have "dg_current g = Some d" "discovery_running d" "dg_retired g = []"
    using init create_running by (auto simp: initialize_service_discovery_def split: sum.splits)
  ultimately show thesis using that by blast
qed

lemma configure_callbacks_fields:
  "configure_custom_callbacks env v p = (p', r) \<Longrightarrow> pr_discovery p' = pr_discovery p \<and> pr_routers p' = pr_routers p"
  by (auto simp: configure_custom_callbacks_def Let_def split: json.splits sum.splits)

lemma initialized_services:
  fixes a :: "('r, 't, 'cb) application"
  assumes "initialize_services env os fs [] args g = Inr a"
  obtains p scraper monitor watcher where "pr_discovery p = g" "pr_routers p = []"
    and "finish_startup env args scraper monitor watcher p = Inr a" and "sc_running scraper"
proof -
  let ?p0 = "\<lparr>pr_discovery = g, pr_routers = [], pr_app_router = None, pr_callbacks = None\<rparr> :: ('r, 't, 'cb) process"
  have start: "(case start_watcher args [] ?p0 of None \<Rightarrow> ?p0 | Some w \<Rightarrow> dw_process w) = ?p0"
    by (simp add: start_watcher_def DynamicConfigWatcher_init_def)
  obtain scraper monitor where sc: "EngineStatsScraper_init (number_value (attr args ''engine_stats_interval'')) = Inr scraper"
    and rest: "(case (if truthy (attr args ''callbacks'')
        then configure_custom_callbacks env (attr args ''callbacks'') ?p0 else (?p0, Inr ())) of
          (p2, Inl e) \<Rightarrow> Inl e
        | (p2, Inr _) \<Rightarrow> finish_startup env args scraper monitor (start_watcher args [] ?p0) p2) = Inr a"
    using assms unfolding initialize_services_def Let_def start bindE_eq_Inr by blast
  obtain p res where step: "(if truthy (attr args ''callbacks'')
      then configure_custom_callbacks env (attr args ''callbacks'') ?p0 else (?p0, Inr ())) = (p, res)"
    by (cases "if truthy (attr args ''callbacks'')
      then configure_custom_callbacks env (attr args ''callbacks'') ?p0 else (?p0, Inr ())")
  then have "pr_discovery p = g" "pr_routers p = []"
    by (auto split: if_splits dest: configure_callbacks_fields)
  moreover have "finish_startup env args scraper monitor (start_watcher args [] ?p0) p = Inr a"
    using rest unfolding step by (cases res) simp_all
  moreover have "sc_running scraper"
    using sc by (auto simp: EngineStatsScraper_init_def split: option.splits)
  ultimately show thesis using that by blast
qed

text \<open>A program that starts has exactly the components it was asked for: when the start-up
  succeeds and the watcher has not intervened, one discovery runs, the registry holds exactly one
  router, of the class of the requested routing logic, the application state has that same
  router, and the statistics are collected.\<close>

theorem started_program_has_its_components:
  fixes a :: "('r, 't, 'cb) application"
  assumes "initialize_all env os fs [] args = Inr a"
  shows "\<exists>d lg router. dg_current (pr_discovery (an_process a)) = Some d \<and> discovery_running d \<and>
    logic_of (attr args ''routing_logic'') = Some lg \<and>
    pr_routers (an_process a) = [(logic_class lg, router)] \<and> pr_app_router (an_process a) = Some router \<and>
    process_ok (an_process a) \<and> sc_running (an_scraper a)"
proof -
  obtain g d where g: "dg_current g = Some d" "discovery_running d" "dg_retired g = []"
    and services: "initialize_services env os fs [] args g = Inr a"
    by (rule initialized_discovery [OF assms])
  obtain p scraper monitor watcher where p: "pr_discovery p = g" "pr_routers p = []"
    and fin: "finish_startup env args scraper monitor watcher p = Inr a" and sc: "sc_running scraper"
    by (rule initialized_services [OF services])
  obtain reg i router where init: "initialize_routing_logic (de_ring env) (de_lmcache env)
        (logic_of (attr args ''routing_logic'')) (app_routing_kwargs (de_py_str env) args) (pr_routers p) = (reg, Inr i)"
    and get: "get_routing_logic reg = Inr router"
    and a: "an_process a = p\<lparr>pr_routers := reg, pr_app_router := Some router\<rparr>" "an_scraper a = scraper"
    by (rule finish_startup_cases [OF fin])
  have added: "logic_of (attr args ''routing_logic'') \<noteq> None"
    "reg = [(logic_class (the (logic_of (attr args ''routing_logic''))), i)]"
    using initialize_routing_adds [OF init] p(2) by auto
  then have "router = i"
    using get by (simp add: get_routing_logic_def get_loop_single router_classes_all)
  with added a p g sc show ?thesis
    by (auto simp: process_ok_def lifecycle_ok_def)
qed


text \<open>The watcher can overtake the start-up. If it has already installed a router of another class
  than the requested one when the start-up creates its own, both stay in the registry, and the
  application gets the one whose class comes first in the fixed order of the classes, not the one
  that was requested last.\<close>

theorem overtaking_watcher_leaves_two_routers:
  fixes p :: "('r, 't, 'cb) process"
  assumes fin: "finish_startup env args scraper monitor watcher p = Inr a"
    and lg: "logic_of (attr args ''routing_logic'') = Some lg"
    and other: "pr_routers p = [(cls, r)]" "cls \<noteq> logic_class lg"
  shows "\<exists>i. pr_routers (an_process a) = [(cls, r), (logic_class lg, i)] \<and>
    pr_app_router (an_process a) =
      Some (if find (\<lambda>c. c \<in> {cls, logic_class lg}) router_classes = Some cls then r else i) \<and>
    \<not> process_ok (an_process a)"
proof -
  obtain reg i router where init: "initialize_routing_logic (de_ring env) (de_lmcache env)
        (logic_of (attr args ''routing_logic'')) (app_routing_kwargs (de_py_str env) args) (pr_routers p) = (reg, Inr i)"
    and get: "get_routing_logic reg = Inr router"
    and a: "an_process a = p\<lparr>pr_routers := reg, pr_app_router := Some router\<rparr>"
    by (rule finish_startup_cases [OF fin])
  have reg: "reg = [(cls, r), (logic_class lg, i)]"
    using initialize_routing_adds [OF init] other lg by auto
  have "get_loop clss reg = Inr router \<Longrightarrow>
      router = (if find (\<lambda>c. c \<in> {cls, logic_class lg}) clss = Some cls then r else i)" for clss
    using other(2) by (induction clss) (auto simp: reg split: if_splits)
  then show ?thesis
    using get a reg by (auto simp: get_routing_logic_def process_ok_def)
qed

section \<open>Shutdown\<close>

text \<open>An orderly shutdown stops everything: when no pass of the watcher falls between the closing
  of the discovery and its own, the client session is closed, neither the scraper nor any
  discovery nor the watcher is running, and no router is left.\<close>

theorem shutdown_stops_everything:
  assumes ok: "process_ok (an_process a)" and cur: "dg_current (pr_discovery (an_process a)) = Some d"
    and ended: "lifespan_end [] (lifespan_start a) = (a', r)"
  shows "r = Inr () \<and> cw_async_client (an_client a') = None \<and>
    cw_sessions (an_client a') = cw_sessions (an_client a) @ [True] \<and>
    \<not> sc_running (an_scraper a') \<and> pr_routers (an_process a') = [] \<and>
    (case an_watcher a' of None \<Rightarrow> True | Some w \<Rightarrow> \<not> dw_running w) \<and>
    dg_current (pr_discovery (an_process a')) = Some (discovery_close d) \<and>
    list_all (\<lambda>d. \<not> discovery_running d) (discovery_close d # dg_retired (pr_discovery (an_process a')))"
  using assms
  by (auto simp: lifespan_end_def lifespan_start_def wrapper_stop_def wrapper_start_def get_service_discovery_def
      close_discovery_def Let_def cleanup_empty scraper_close_def watcher_close_def process_ok_def lifecycle_ok_def
      list_all_iff split: option.splits)

text \<open>A pass of the watcher after the discovery was closed can start a new one, which nothing closes.\<close>

lemma late_pass_leaves_discovery_running:
  assumes w: "an_watcher a = Some w" and cur: "dg_current (pr_discovery (an_process a)) = Some d0"
    and client: "cw_async_client (an_client a) = Some i"
    and pass: "dw_process (watch_pass env loaded (w\<lparr>dw_process := close_discovery (an_process a)\<rparr>)) = p"
    and new: "dg_current (pr_discovery p) = Some d" "discovery_running d"
  shows "\<exists>d. dg_current (pr_discovery (an_process (fst (lifespan_end [(env, loaded)] a)))) = Some d \<and> discovery_running d"
  using assms
  by (simp add: lifespan_end_def wrapper_stop_def get_service_discovery_def Let_def watcher_close_def)

section \<open>Witnesses\<close>

definition sample_args :: jobj where
  "sample_args =
     [(''service_discovery'', JStr ''k8s''), (''routing_logic'', JStr ''roundrobin''),
      (''engine_stats_interval'', JInt 30), (''request_stats_window'', JInt 60)]"

definition sample_globals :: discovery_global where
  "sample_globals = \<lparr>dg_current = Some sample_discovery, dg_retired = []\<rparr>"

definition sample_new_process :: "(string list, nat, unit) process" where
  "sample_new_process = \<lparr>pr_discovery = sample_globals, pr_routers = [], pr_app_router = None, pr_callbacks = None\<rparr>"

lemma sample_app_discovery:
  "app_discovery_args (de_py_str sample_dynamic_env) sample_args = Inr (K8S, K8sArgs (Some None) [] [] None None)"
  by (simp add: app_discovery_args_def sample_args_def sample_dynamic_env_def jget_def text_value_def labels_value_def)

lemma sample_initialize_discovery:
  "initialize_service_discovery (de_uuid4 sample_dynamic_env) (de_now sample_dynamic_env) (de_kube sample_dynamic_env)
     (de_clients sample_dynamic_env) (Some K8S) (K8sArgs (Some None) [] [] None None) \<lparr>dg_current = None, dg_retired = []\<rparr> =
   (sample_globals, Inr sample_discovery)"
proof -
  have "k8s_normalized_type (Some None) \<noteq> ''service-name''" by code_simp
  then show ?thesis
    by (simp add: initialize_service_discovery_def create_service_discovery_def sample_dynamic_env_def
        sample_discovery_def sample_globals_def)
qed

lemma sample_startup:
  "\<exists>a :: (string list, nat, unit) application. initialize_all sample_dynamic_env sample_os sample_fs [] sample_args = Inr a"
proof -
  have "attr sample_args ''callbacks'' = JNull" "attr sample_args ''enable_batch_api'' = JNull"
    "attr sample_args ''dynamic_config_yaml'' = JNull" "attr sample_args ''dynamic_config_json'' = JNull"
    "attr sample_args ''routing_logic'' = JStr ''roundrobin''"
    "attr sample_args ''engine_stats_interval'' = JInt 30" "attr sample_args ''request_stats_window'' = JInt 60"
    by (simp_all add: sample_args_def jget_def)
  then show ?thesis
    unfolding initialize_all_def sample_app_discovery bindE_Inr split_conv sample_initialize_discovery sum.case
    by (simp add: initialize_services_def number_value_def EngineStatsScraper_init_def RequestStatsMonitor_init_def
        initialize_batch_api_def start_watcher_def finish_startup_def logic_of_def initialize_routing_logic_def
        class_call_empty get_routing_logic_def router_classes_def Let_def)
qed

theorem started_program_has_its_components_witness:
  "\<exists>(a :: (string list, nat, unit) application) lg router.
     initialize_all sample_dynamic_env sample_os sample_fs [] sample_args = Inr a \<and>
     pr_routers (an_process a) = [(logic_class lg, router)] \<and> pr_app_router (an_process a) = Some router"
proof -
  obtain a :: "(string list, nat, unit) application"
    where a: "initialize_all sample_dynamic_env sample_os sample_fs [] sample_args = Inr a"
    using sample_startup by blast
  from started_program_has_its_components [OF a] a show ?thesis by blast
qed


definition running_scraper :: engine_scraper where
  "running_scraper = \<lparr>sc_engine_stats = [], sc_scrape_interval = 30, sc_running = True\<rparr>"

theorem overtaking_watcher_leaves_two_routers_witness:
  "\<exists>(a :: (string list, nat, unit) application) i.
     pr_routers (an_process a) = [(PrefixAwareRouter, RPrefixAware PrefixAwareRouter_init), (RoundRobinRouter, i)] \<and>
     \<not> process_ok (an_process a)"
proof -
  obtain m where m: "RequestStatsMonitor_init (Some 60) = Inr m" by (simp add: RequestStatsMonitor_init_def)
  let ?p = "sample_new_process\<lparr>pr_routers := [(PrefixAwareRouter, RPrefixAware PrefixAwareRouter_init)]\<rparr>"
  have lg: "logic_of (attr sample_args ''routing_logic'') = Some ROUND_ROBIN"
    by (simp add: sample_args_def jget_def logic_of_def)
  then obtain a where "finish_startup sample_dynamic_env sample_args running_scraper m None ?p = Inr a"
    by (simp add: finish_startup_def initialize_routing_logic_def class_call_def SingletonABCMeta_call_def
        get_routing_logic_def router_classes_def Let_def)
  from overtaking_watcher_leaves_two_routers [OF this lg, of PrefixAwareRouter "RPrefixAware PrefixAwareRouter_init"]
  show ?thesis by auto
qed

theorem shutdown_stops_everything_witness:
  "\<exists>a :: (string list, nat, unit) application.
     initialize_all sample_dynamic_env sample_os sample_fs [] sample_args = Inr a \<and>
     snd (lifespan_end [] (lifespan_start a)) = Inr () \<and> pr_routers (an_process (fst (lifespan_end [] (lifespan_start a)))) = []"
proof -
  obtain a :: "(string list, nat, unit) application"
    where a: "initialize_all sample_dynamic_env sample_os sample_fs [] sample_args = Inr a"
    using sample_startup by blast
  obtain g d where g: "dg_current g = Some d" "discovery_running d" "dg_retired g = []"
    and services: "initialize_services sample_dynamic_env sample_os sample_fs [] sample_args g = Inr a"
    by (rule initialized_discovery [OF a])
  obtain p scraper monitor watcher where p: "pr_discovery p = g" "pr_routers p = []"
    and fin: "finish_startup sample_dynamic_env sample_args scraper monitor watcher p = Inr a"
    by (rule initialized_services [OF services])
  obtain reg i router where init: "initialize_routing_logic (de_ring sample_dynamic_env) (de_lmcache sample_dynamic_env)
        (logic_of (attr sample_args ''routing_logic'')) (app_routing_kwargs (de_py_str sample_dynamic_env) sample_args)
        (pr_routers p) = (reg, Inr i)"
    and get: "get_routing_logic reg = Inr router"
    and pa: "an_process a = p\<lparr>pr_routers := reg, pr_app_router := Some router\<rparr>"
    by (rule finish_startup_cases [OF fin])
  have "reg = [(logic_class (the (logic_of (attr sample_args ''routing_logic''))), i)]"
    using initialize_routing_adds [OF init] p(2) by simp
  then have "process_ok (an_process a)"
    using get g p pa by (simp add: process_ok_def lifecycle_ok_def get_routing_logic_def get_loop_single router_classes_all)
  from shutdown_stops_everything [OF this _ prod.collapse [symmetric]] a g p pa show ?thesis by auto
qed

end
