(* ===== verification/Semantic_Cache.thy ===== *)
theory Semantic_Cache
  imports Dynamic_Config Feature_Gates
begin

text \<open>
  The experimental semantic cache: \<^verbatim>\<open>src/src/vllm_router/experimental/semantic_cache/\<close>
  (\<^verbatim>\<open>semantic_cache.py\<close>, \<^verbatim>\<open>__init__.py\<close>, \<^verbatim>\<open>db_adapters/faiss_adapter.py\<close>) and
  \<^verbatim>\<open>semantic_cache_integration.py\<close>. The sentence transformer and the vector index are third-party
  code: the embedding of a text, the inner product, the index search and the comparison with the threshold
  are parameters, and what the index promises is the predicate \<open>flat_search\<close>. The module \<^verbatim>\<open>experimental/semantic_cache.py\<close>
  is hidden by the package of the same name and is not modelled.
\<close>

section \<open>The vector database\<close>

record 'v vector_ops =
  vo_dimension :: nat
  vo_encode :: "string \<Rightarrow> 'v"
  vo_inner :: "'v \<Rightarrow> 'v \<Rightarrow> rat"
  vo_search :: "'v list \<Rightarrow> 'v \<Rightarrow> int \<times> rat"
  vo_at_least :: "rat \<Rightarrow> json \<Rightarrow> bool result"
  vo_py_str :: "json \<Rightarrow> string"

text \<open>An exact inner-product index returns, for a nonempty collection, the position of a vector with
  the greatest inner product, and that product. It refuses vectors of another dimension than its
  own. The comparison of a product with a threshold is numpy's, and raises on what is no number.\<close>

definition flat_search :: "'v vector_ops \<Rightarrow> bool" where
  "flat_search ops \<longleftrightarrow>
     (\<forall>vs e. vs \<noteq> [] \<longrightarrow>
        (\<exists>i < length vs. vo_search ops vs e = (int i, vo_inner ops e (vs ! i)) \<and>
           (\<forall>v \<in> set vs. vo_inner ops e v \<le> vo_inner ops e (vs ! i))))"

record 'v flat_index =
  fi_dimension :: nat
  fi_vectors :: "'v list"

record cache_entry =
  ce_request_messages :: json
  ce_response_messages :: "json list"
  ce_model :: json
  ce_usage :: json

text \<open>The two files. A file may be absent, hold what was written last, or be damaged by a write that
  failed half way.\<close>

datatype 'a disk_file = Absent | Damaged | Holds 'a

record 'v cache_disk =
  cd_index :: "'v flat_index disk_file"
  cd_metadata :: "cache_entry list disk_file"

text \<open>How a save ends: both files written, or the first or the second write fails, damaging the file
  or leaving it as it was.\<close>

datatype save_outcome = Saved | Index_fails bool | Metadata_fails bool

record 'v faiss_db =
  fd_index :: "'v flat_index"
  fd_metadata :: "cache_entry list"
  fd_disk :: "'v cache_disk"

definition save_index :: "save_outcome \<Rightarrow> 'v faiss_db \<Rightarrow> 'v faiss_db" where
  "save_index out db =
     (let disk = fd_disk db in
      db\<lparr>fd_disk :=
        (case out of
           Saved \<Rightarrow> \<lparr>cd_index = Holds (fd_index db), cd_metadata = Holds (fd_metadata db)\<rparr>
         | Index_fails damaging \<Rightarrow> if damaging then disk\<lparr>cd_index := Damaged\<rparr> else disk
         | Metadata_fails damaging \<Rightarrow>
             \<lparr>cd_index = Holds (fd_index db),
              cd_metadata = (if damaging then Damaged else cd_metadata disk)\<rparr>)\<rparr>)"

definition load_index :: "'v vector_ops \<Rightarrow> save_outcome \<Rightarrow> 'v cache_disk \<Rightarrow> 'v faiss_db" where
  "load_index ops out disk =
     (case (cd_index disk, cd_metadata disk) of
        (Holds index, Holds metadata) \<Rightarrow> \<lparr>fd_index = index, fd_metadata = metadata, fd_disk = disk\<rparr>
      | _ \<Rightarrow> save_index out
               \<lparr>fd_index = \<lparr>fi_dimension = vo_dimension ops, fi_vectors = []\<rparr>, fd_metadata = [], fd_disk = disk\<rparr>)"

definition FAISSAdapter_init :: "'v vector_ops \<Rightarrow> save_outcome \<times> save_outcome \<Rightarrow> 'v cache_disk \<Rightarrow> 'v faiss_db" where
  "FAISSAdapter_init ops outs disk =
     save_index (snd outs)
       (if cd_index disk \<noteq> Absent \<and> cd_metadata disk \<noteq> Absent then load_index ops (fst outs) disk
        else \<lparr>fd_index = \<lparr>fi_dimension = vo_dimension ops, fi_vectors = []\<rparr>, fd_metadata = [], fd_disk = disk\<rparr>)"

record cache_hit =
  ch_response_messages :: "json list"
  ch_similarity_score :: rat
  ch_usage :: json

definition db_search :: "'v vector_ops \<Rightarrow> 'v \<Rightarrow> json \<Rightarrow> json \<Rightarrow> 'v faiss_db \<Rightarrow> cache_hit option result" where
  "db_search ops embedding model similarity_threshold db =
     (if fi_vectors (fd_index db) = [] then Inr None
      else if fi_dimension (fd_index db) \<noteq> vo_dimension ops then Inl (AssertionError ''d == self.d'')
      else (case vo_search ops (fi_vectors (fd_index db)) embedding of
              (i, distance) \<Rightarrow>
                if i = -1 then Inr None
                else bindE (vo_at_least ops distance similarity_threshold) (\<lambda>near.
                  if \<not> near then Inr None
                  else bindE (py_nth (fd_metadata db) (nat i)) (\<lambda>metadata.
                    Inr (if py_eq (ce_model metadata) model
                         then Some \<lparr>ch_response_messages = ce_response_messages metadata,
                                    ch_similarity_score = distance, ch_usage = ce_usage metadata\<rparr>
                         else None)))))"

definition db_store ::
  "'v vector_ops \<Rightarrow> save_outcome \<Rightarrow> 'v \<Rightarrow> cache_entry \<Rightarrow> 'v faiss_db \<Rightarrow> 'v faiss_db result" where
  "db_store ops out embedding entry db =
     (if fi_dimension (fd_index db) \<noteq> vo_dimension ops then Inl (AssertionError ''d == self.d'')
      else Inr (save_index out
             (db\<lparr>fd_index := (fd_index db)\<lparr>fi_vectors := fi_vectors (fd_index db) @ [embedding]\<rparr>,
                 fd_metadata := fd_metadata db @ [entry]\<rparr>)))"

section \<open>The cache\<close>

record 'v pending_search =
  ps_embedding :: 'v
  ps_model :: json
  ps_similarity_threshold :: json

record 'v pending_store =
  pt_embedding :: 'v
  pt_request_messages :: json
  pt_model :: json

text \<open>The cache object and the gauge of its size, which its methods set.\<close>

record 'v semantic_cache =
  sm_db :: "'v faiss_db"
  sm_default_similarity_threshold :: json
  sm_pending_searches :: "(string \<times> 'v pending_search) list"
  sm_pending_stores :: "(string \<times> 'v pending_store) list"
  sm_size_gauge :: nat

definition SemanticCache_init ::
  "'v vector_ops \<Rightarrow> save_outcome \<times> save_outcome \<Rightarrow> 'v cache_disk \<Rightarrow> json \<Rightarrow> 'v semantic_cache" where
  "SemanticCache_init ops outs disk default_similarity_threshold =
     \<lparr>sm_db = FAISSAdapter_init ops outs disk,
      sm_default_similarity_threshold = default_similarity_threshold,
      sm_pending_searches = [], sm_pending_stores = [], sm_size_gauge = 0\<rparr>"

text \<open>\<^verbatim>\<open>msg.get(key, default)\<close> of a decoded value.\<close>

fun py_get :: "json \<Rightarrow> string \<Rightarrow> json \<Rightarrow> json result" where
  "py_get (JObj d) k dflt = Inr (jget d k dflt)"
| "py_get _ k dflt = Inl (AttributeError ''get'')"

definition message_text :: "(json \<Rightarrow> string) \<Rightarrow> json \<Rightarrow> string result" where
  "message_text py_str msg =
     bindE (py_get msg ''role'' (JStr ''user'')) (\<lambda>role.
     bindE (py_get msg ''content'' (JStr [])) (\<lambda>content.
       Inr (py_str role @ '': '' @ py_str content)))"

definition get_embedding :: "'v vector_ops \<Rightarrow> json \<Rightarrow> 'v result" where
  "get_embedding ops messages =
     bindE (py_iter messages) (\<lambda>msgs.
     bindE (mapE (message_text (vo_py_str ops)) msgs) (\<lambda>texts.
       Inr (vo_encode ops (join '' '' texts))))"

definition effective_threshold :: "'v semantic_cache \<Rightarrow> json \<Rightarrow> json" where
  "effective_threshold sc similarity_threshold =
     (if similarity_threshold = JNull then sm_default_similarity_threshold sc else similarity_threshold)"

definition cache_search ::
  "'v vector_ops \<Rightarrow> json \<Rightarrow> json \<Rightarrow> json \<Rightarrow> 'v semantic_cache \<Rightarrow> cache_hit option result" where
  "cache_search ops messages model similarity_threshold sc =
     bindE (get_embedding ops messages) (\<lambda>embedding.
       db_search ops embedding model (effective_threshold sc similarity_threshold) (sm_db sc))"

text \<open>What both ways of storing do with the database: keep it, or take the new one and set the gauge.\<close>

definition after_store :: "'v faiss_db result \<Rightarrow> 'v semantic_cache \<Rightarrow> 'v semantic_cache \<times> bool" where
  "after_store r sc =
     (case r of
        Inl _ \<Rightarrow> (sc, False)
      | Inr db \<Rightarrow> (sc\<lparr>sm_db := db, sm_size_gauge := length (fi_vectors (fd_index db))\<rparr>, True))"

definition cache_store ::
  "'v vector_ops \<Rightarrow> save_outcome \<Rightarrow> json \<Rightarrow> json list \<Rightarrow> json \<Rightarrow> json \<Rightarrow> 'v semantic_cache \<Rightarrow>
   'v semantic_cache \<times> bool" where
  "cache_store ops out request_messages response_messages model usage sc =
     after_store
       (bindE (get_embedding ops request_messages) (\<lambda>embedding.
          db_store ops out embedding
            \<lparr>ce_request_messages = request_messages, ce_response_messages = response_messages,
             ce_model = model, ce_usage = usage\<rparr> (sm_db sc))) sc"

definition initiate_search ::
  "'v vector_ops \<Rightarrow> string \<Rightarrow> json \<Rightarrow> json \<Rightarrow> json \<Rightarrow> 'v semantic_cache \<Rightarrow> 'v semantic_cache \<times> string result" where
  "initiate_search ops uuid4 messages model similarity_threshold sc =
     (case get_embedding ops messages of
        Inl e \<Rightarrow> (sc, Inl e)
      | Inr embedding \<Rightarrow>
          (sc\<lparr>sm_pending_searches := AList.update uuid4
               \<lparr>ps_embedding = embedding, ps_model = model,
                ps_similarity_threshold = effective_threshold sc similarity_threshold\<rparr> (sm_pending_searches sc)\<rparr>,
           Inr uuid4))"

definition complete_search ::
  "'v vector_ops \<Rightarrow> string \<Rightarrow> 'v semantic_cache \<Rightarrow> 'v semantic_cache \<times> cache_hit option result" where
  "complete_search ops request_id sc =
     (case map_of (sm_pending_searches sc) request_id of
        None \<Rightarrow> (sc, Inr None)
      | Some search_data \<Rightarrow>
          (sc\<lparr>sm_pending_searches := AList.delete request_id (sm_pending_searches sc)\<rparr>,
           db_search ops (ps_embedding search_data) (ps_model search_data)
             (ps_similarity_threshold search_data) (sm_db sc)))"

definition initiate_store ::
  "'v vector_ops \<Rightarrow> string \<Rightarrow> json \<Rightarrow> json \<Rightarrow> 'v semantic_cache \<Rightarrow> 'v semantic_cache \<times> string result" where
  "initiate_store ops uuid4 request_messages model sc =
     (case get_embedding ops request_messages of
        Inl e \<Rightarrow> (sc, Inl e)
      | Inr embedding \<Rightarrow>
          (sc\<lparr>sm_pending_stores := AList.update uuid4
               \<lparr>pt_embedding = embedding, pt_request_messages = request_messages, pt_model = model\<rparr>
               (sm_pending_stores sc)\<rparr>, Inr uuid4))"

definition complete_store ::
  "'v vector_ops \<Rightarrow> save_outcome \<Rightarrow> string \<Rightarrow> json list \<Rightarrow> json \<Rightarrow> 'v semantic_cache \<Rightarrow> 'v semantic_cache \<times> bool" where
  "complete_store ops out request_id response_messages usage sc =
     (case map_of (sm_pending_stores sc) request_id of
        None \<Rightarrow> (sc, False)
      | Some store_data \<Rightarrow>
          after_store
            (db_store ops out (pt_embedding store_data)
               \<lparr>ce_request_messages = pt_request_messages store_data, ce_response_messages = response_messages,
                ce_model = pt_model store_data, ce_usage = usage\<rparr> (sm_db sc))
            (sc\<lparr>sm_pending_stores := AList.delete request_id (sm_pending_stores sc)\<rparr>))"

section \<open>The integration with the router\<close>

definition semantic_cache_options :: "arg_spec list" where
  "semantic_cache_options =
     [opt_spec ''--semantic-cache-model'' ArgStr (JStr ''all-MiniLM-L6-v2''),
      opt_spec ''--semantic-cache-dir'' ArgStr (JStr ''semantic_cache''),
      opt_spec ''--semantic-cache-threshold'' ArgFloat (JFloat (95 / 100))]"

text \<open>The module's global instance and flag, the feature gates and the gauges of the lookups.\<close>

record 'v cache_module =
  cm_instance :: "'v semantic_cache option"
  cm_enabled :: bool
  cm_gates :: feature_gates
  cm_hits :: nat
  cm_misses :: nat
  cm_hit_ratio :: rat
  cm_latency :: rat

definition is_semantic_cache_enabled :: "'v cache_module \<Rightarrow> bool" where
  "is_semantic_cache_enabled m \<longleftrightarrow> cm_enabled m \<or> gates_is_enabled (cm_gates m) ''SemanticCache''"

definition enable_semantic_cache :: "'v cache_module \<Rightarrow> 'v cache_module" where
  "enable_semantic_cache m = m\<lparr>cm_enabled := True\<rparr>"

definition initialize_semantic_cache ::
  "'v vector_ops \<Rightarrow> save_outcome \<times> save_outcome \<Rightarrow> 'v cache_disk \<Rightarrow> json \<Rightarrow> 'v cache_module \<Rightarrow> 'v cache_module" where
  "initialize_semantic_cache ops outs disk default_similarity_threshold m =
     (case cm_instance m of
        Some _ \<Rightarrow> m
      | None \<Rightarrow> m\<lparr>cm_instance := Some (SemanticCache_init ops outs disk default_similarity_threshold)\<rparr>)"

definition get_semantic_cache :: "'v cache_module \<Rightarrow> 'v semantic_cache option" where
  "get_semantic_cache m = cm_instance m"

text \<open>The part of the start-up that concerns the cache, where its packages are installed.\<close>

definition start_semantic_cache ::
  "'v vector_ops \<Rightarrow> save_outcome \<times> save_outcome \<Rightarrow> 'v cache_disk \<Rightarrow> jobj \<Rightarrow> 'v cache_module \<Rightarrow> 'v cache_module" where
  "start_semantic_cache ops outs disk args m =
     (if gates_is_enabled (cm_gates m) ''SemanticCache'' then
        let m1 = enable_semantic_cache m in
        if truthy (attr args ''semantic_cache_model'') then
          let m2 = initialize_semantic_cache ops outs disk (attr args ''semantic_cache_threshold'') m1
          in m2\<lparr>cm_instance := map_option (\<lambda>sc. sc\<lparr>sm_size_gauge := length (fi_vectors (fd_index (sm_db sc)))\<rparr>)
                                 (cm_instance m2)\<rparr>
        else m1
      else m)"

text \<open>The first message is looked at for the log: \<^verbatim>\<open>messages[0].get("content", "")[:50]\<close>. A text or a
  list can be cut, other values cannot.\<close>

fun sliceable :: "json \<Rightarrow> bool" where
  "sliceable (JStr _) = True"
| "sliceable (JList _) = True"
| "sliceable _ = False"

definition log_content :: "json \<Rightarrow> unit result" where
  "log_content msg =
     bindE (py_get msg ''content'' (JStr [])) (\<lambda>content.
       if sliceable content then Inr () else Inl (TypeError ''object is not subscriptable''))"

definition log_first_message :: "json \<Rightarrow> unit result" where
  "log_first_message messages =
     (if \<not> truthy messages then Inr ()
      else (case messages of
              JList (msg # _) \<Rightarrow> log_content msg
            | JStr (c # _) \<Rightarrow> Inl (AttributeError ''get'')
            | JObj _ \<Rightarrow> Inl (KeyError ''0'')
            | _ \<Rightarrow> Inl (TypeError ''object has no len()'')))"

definition log_response :: "json list \<Rightarrow> unit result" where
  "log_response response_messages = (case response_messages of [] \<Rightarrow> Inr () | r # _ \<Rightarrow> log_content r)"

fun response_messages_loop :: "json list \<Rightarrow> json list \<Rightarrow> json list result" where
  "response_messages_loop [] acc = Inr acc"
| "response_messages_loop (choice # choices) acc =
     bindE (py_in ''message'' choice) (\<lambda>b.
       if b then bindE (py_item ''message'' choice) (\<lambda>m. response_messages_loop choices (acc @ [m]))
       else response_messages_loop choices acc)"

definition response_messages_of :: "json \<Rightarrow> json list result" where
  "response_messages_of response_body =
     bindE (py_in ''choices'' response_body) (\<lambda>b.
       if b then bindE (py_item ''choices'' response_body) (\<lambda>v.
                   bindE (py_iter v) (\<lambda>choices. response_messages_loop choices []))
       else Inr [])"

definition no_usage :: json where
  "no_usage = JObj [(''prompt_tokens'', JInt 0), (''completion_tokens'', JInt 0), (''total_tokens'', JInt 0)]"

text \<open>\<^verbatim>\<open>store_in_semantic_cache\<close>: \<open>request_body\<close> and \<open>response_body\<close> are the parsed bodies, or the
  error of parsing. Whatever raises is caught, and then nothing is stored.\<close>

definition what_to_store :: "json result \<Rightarrow> json result \<Rightarrow> (json \<times> json list \<times> json \<times> json) option result" where
  "what_to_store request_body response_body =
     bindE request_body (\<lambda>req.
     bindE (py_get req ''skip_cache'' (JBool False)) (\<lambda>skip.
     if truthy skip then Inr None else
     bindE (py_get req ''stream'' (JBool False)) (\<lambda>stream.
     if truthy stream then Inr None else
     (case response_body of
        Inl _ \<Rightarrow> Inr None
      | Inr resp \<Rightarrow>
          bindE (py_get req ''model'' (JStr [])) (\<lambda>model.
          bindE (py_get req ''messages'' (JList [])) (\<lambda>request_messages.
          bindE (log_first_message request_messages) (\<lambda>_.
          bindE (response_messages_of resp) (\<lambda>response_messages.
          bindE (py_get resp ''usage'' no_usage) (\<lambda>usage.
          bindE (log_response response_messages) (\<lambda>_.
            Inr (Some (request_messages, response_messages, model, usage))))))))))))"

definition store_in_semantic_cache ::
  "'v vector_ops \<Rightarrow> save_outcome \<Rightarrow> string \<Rightarrow> string \<Rightarrow> json result \<Rightarrow> json result \<Rightarrow> 'v cache_module \<Rightarrow> 'v cache_module" where
  "store_in_semantic_cache ops out endpoint method body chunk m =
     (if \<not> is_semantic_cache_enabled m then m
      else (case get_semantic_cache m of
              None \<Rightarrow> m
            | Some sc \<Rightarrow>
                if endpoint = ''/v1/chat/completions'' \<and> method = ''POST'' then
                  (case what_to_store body chunk of
                     Inr (Some (request_messages, response_messages, model, usage)) \<Rightarrow>
                       m\<lparr>cm_instance := Some (fst (cache_store ops out request_messages response_messages model usage sc))\<rparr>
                   | _ \<Rightarrow> m)
                else m))"

definition count_lookup :: "bool \<Rightarrow> 'v cache_module \<Rightarrow> 'v cache_module" where
  "count_lookup hit m =
     (let m1 = (if hit then m\<lparr>cm_hits := Suc (cm_hits m)\<rparr> else m\<lparr>cm_misses := Suc (cm_misses m)\<rparr>);
          total = cm_hits m1 + cm_misses m1
      in if 0 < total then m1\<lparr>cm_hit_ratio := of_nat (cm_hits m1) / of_nat total\<rparr> else m1)"

definition cached_response :: "string \<Rightarrow> int \<Rightarrow> json \<Rightarrow> cache_hit \<Rightarrow> jobj" where
  "cached_response uuid4 now model hit =
     [(''id'', JStr (''chatcmpl-'' @ uuid4)), (''object'', JStr ''chat.completion''), (''created'', JInt now),
      (''model'', model),
      (''choices'', JList (map (\<lambda>(i, msg). JObj [(''index'', JInt (int i)), (''message'', msg),
                                                (''finish_reason'', JStr ''stop'')])
                            (enumerate 0 (ch_response_messages hit)))),
      (''usage'', ch_usage hit), (''cached'', JBool True),
      (''similarity_score'', JFloat (ch_similarity_score hit))]"

text \<open>\<^verbatim>\<open>check_semantic_cache\<close> has no \<^verbatim>\<open>try\<close>: what raises reaches the client as an error. The lookup of
  a request, and then the whole function: the reply it makes, if any.\<close>

definition lookup_request ::
  "'v vector_ops \<Rightarrow> string \<Rightarrow> int \<Rightarrow> rat \<Rightarrow> jobj \<Rightarrow> 'v semantic_cache \<Rightarrow> 'v cache_module \<Rightarrow> 'v cache_module \<times> jobj option result" where
  "lookup_request ops uuid4 now latency body sc m =
     (let model = jget body ''model'' (JStr []); messages = jget body ''messages'' (JList []) in
      case bindE (log_first_message messages) (\<lambda>_.
             cache_search ops messages model (jget body ''cache_similarity_threshold'' JNull) sc) of
        Inl e \<Rightarrow> (m, Inl e)
      | Inr None \<Rightarrow> (count_lookup False (m\<lparr>cm_latency := latency\<rparr>), Inr None)
      | Inr (Some hit) \<Rightarrow>
          (count_lookup True (m\<lparr>cm_latency := latency\<rparr>),
           bindE (log_response (ch_response_messages hit)) (\<lambda>_.
             Inr (Some (cached_response uuid4 now model hit)))))"

definition check_semantic_cache ::
  "'v vector_ops \<Rightarrow> string \<Rightarrow> int \<Rightarrow> rat \<Rightarrow> json result \<Rightarrow> 'v cache_module \<Rightarrow> 'v cache_module \<times> jobj option result" where
  "check_semantic_cache ops uuid4 now latency parsed m =
     (if \<not> is_semantic_cache_enabled m then (m, Inr None)
      else (case parsed of
              Inl e \<Rightarrow> (m, Inl e)
            | Inr body \<Rightarrow>
                (case (get_semantic_cache m, body) of
                   (None, _) \<Rightarrow> (m, Inr None)
                 | (Some sc, JObj d) \<Rightarrow>
                     if truthy (jget d ''skip_cache'' (JBool False)) \<or> \<not> truthy (jget d ''messages'' (JList []))
                     then (m, Inr None)
                     else lookup_request ops uuid4 now latency d sc m
                 | (Some sc, _) \<Rightarrow> (m, Inl (AttributeError ''get'')))))"

section \<open>Hits\<close>

text \<open>Every vector has its metadata.\<close>

definition in_step :: "'v faiss_db \<Rightarrow> bool" where
  "in_step db \<longleftrightarrow> length (fi_vectors (fd_index db)) = length (fd_metadata db)"

lemma save_index_memory [simp]:
  "fd_index (save_index out db) = fd_index db" "fd_metadata (save_index out db) = fd_metadata db"
  by (simp_all add: save_index_def Let_def)

lemma db_search_memory:
  assumes "fd_index db = fd_index db'" "fd_metadata db = fd_metadata db'"
  shows "db_search ops e model thr db = db_search ops e model thr db'"
  unfolding db_search_def assms ..

lemma flat_searchD:
  assumes "flat_search ops" "vs \<noteq> []"
  shows "\<exists>i < length vs. vo_search ops vs e = (int i, vo_inner ops e (vs ! i)) \<and>
           (\<forall>v \<in> set vs. vo_inner ops e v \<le> vo_inner ops e (vs ! i))"
  using assms by (simp add: flat_search_def)

lemma db_search_at:
  assumes "vo_search ops (fi_vectors (fd_index db)) e = (int i, s)" "i < length (fi_vectors (fd_index db))"
    and "in_step db" "fi_dimension (fd_index db) = vo_dimension ops"
  shows "db_search ops e model thr db =
    bindE (vo_at_least ops s thr) (\<lambda>near. Inr (
      if near \<and> py_eq (ce_model (fd_metadata db ! i)) model
      then Some \<lparr>ch_response_messages = ce_response_messages (fd_metadata db ! i),
                 ch_similarity_score = s, ch_usage = ce_usage (fd_metadata db ! i)\<rparr>
      else None))"
  using assms by (auto simp: db_search_def in_step_def py_nth_def intro!: bindE_cong)

text \<open>C17: a hit of the semantic cache is sound. The messages returned were stored for an entry of the
  same model, the similarity reported is the one of that entry, it is at least the threshold in
  force (the request's, or the default), and no entry of the cache is more similar to the request.\<close>

theorem cache_hit_sound:
  assumes "flat_search ops" "in_step (sm_db sc)"
    and hit: "cache_search ops messages model threshold sc = Inr (Some hit)"
  shows "\<exists>e i. get_embedding ops messages = Inr e \<and> i < length (fd_metadata (sm_db sc)) \<and>
    py_eq (ce_model (fd_metadata (sm_db sc) ! i)) model \<and>
    ch_response_messages hit = ce_response_messages (fd_metadata (sm_db sc) ! i) \<and>
    ch_usage hit = ce_usage (fd_metadata (sm_db sc) ! i) \<and>
    ch_similarity_score hit = vo_inner ops e (fi_vectors (fd_index (sm_db sc)) ! i) \<and>
    vo_at_least ops (ch_similarity_score hit) (effective_threshold sc threshold) = Inr True \<and>
    (\<forall>v \<in> set (fi_vectors (fd_index (sm_db sc))). vo_inner ops e v \<le> ch_similarity_score hit)"
proof -
  let ?db = "sm_db sc"
  obtain e where e: "get_embedding ops messages = Inr e"
    and s: "db_search ops e model (effective_threshold sc threshold) ?db = Inr (Some hit)"
    using hit by (auto simp: cache_search_def bindE_eq_Inr)
  have ne: "fi_vectors (fd_index ?db) \<noteq> []" and dim: "fi_dimension (fd_index ?db) = vo_dimension ops"
    using s by (auto simp: db_search_def split: if_splits)
  obtain i where i: "i < length (fi_vectors (fd_index ?db))"
    "vo_search ops (fi_vectors (fd_index ?db)) e = (int i, vo_inner ops e (fi_vectors (fd_index ?db) ! i))"
    "\<forall>v \<in> set (fi_vectors (fd_index ?db)). vo_inner ops e v \<le> vo_inner ops e (fi_vectors (fd_index ?db) ! i)"
    using flat_searchD [OF assms(1) ne, of e] by blast
  show ?thesis
    using s i(3) i(1) e assms(2) unfolding db_search_at [OF i(2) i(1) assms(2) dim]
    by (intro exI [of _ e] exI [of _ i]) (auto simp: bindE_eq_Inr in_step_def split: if_splits)
qed

text \<open>An entry that is strictly closest to its own request is found again.\<close>

lemma newest_is_found:
  assumes fs: "flat_search ops" and st: "in_step db" and dim: "fi_dimension (fd_index db) = vo_dimension ops"
    and self: "\<forall>v \<in> set (fi_vectors (fd_index db)). vo_inner ops e v < vo_inner ops e e"
    and near: "vo_at_least ops (vo_inner ops e e) thr = Inr True"
    and model: "py_eq (ce_model entry) model"
    and store: "db_store ops out e entry db = Inr db'"
  shows "db_search ops e model thr db' =
    Inr (Some \<lparr>ch_response_messages = ce_response_messages entry, ch_similarity_score = vo_inner ops e e,
               ch_usage = ce_usage entry\<rparr>)"
proof -
  let ?vs = "fi_vectors (fd_index db)"
  have db': "fi_vectors (fd_index db') = ?vs @ [e]" "fd_metadata db' = fd_metadata db @ [entry]"
    "fi_dimension (fd_index db') = vo_dimension ops"
    using store dim by (auto simp: db_store_def)
  obtain i where i: "i < length (?vs @ [e])"
    "vo_search ops (?vs @ [e]) e = (int i, vo_inner ops e ((?vs @ [e]) ! i))"
    "\<forall>v \<in> set (?vs @ [e]). vo_inner ops e v \<le> vo_inner ops e ((?vs @ [e]) ! i)"
    using flat_searchD [OF fs, of "?vs @ [e]" e] by blast
  have last: "i = length ?vs"
  proof (rule ccontr)
    assume "i \<noteq> length ?vs"
    then have "(?vs @ [e]) ! i \<in> set ?vs" using i(1) by (simp add: nth_append)
    then show False using self i(3) by fastforce
  qed
  have step': "in_step db'" using st db' by (simp add: in_step_def)
  have "vo_search ops (fi_vectors (fd_index db')) e = (int i, vo_inner ops e e)"
    using i(2) last db' by simp
  from db_search_at [OF this _ step' db'(3), of model thr] last near model db' st
  show ?thesis by (simp add: in_step_def)
qed

text \<open>Storing a reply and asking again with the same request.\<close>

lemma stored_then_checked:
  assumes en: "is_semantic_cache_enabled m" and inst: "get_semantic_cache m = Some sc"
    and fs: "flat_search ops" and st: "in_step (sm_db sc)"
    and dim: "fi_dimension (fd_index (sm_db sc)) = vo_dimension ops"
    and flags: "\<not> truthy (jget d ''skip_cache'' (JBool False))" "\<not> truthy (jget d ''stream'' (JBool False))"
    and model: "jget d ''model'' (JStr []) = JStr name"
    and msgs: "truthy (jget d ''messages'' (JList []))" "log_first_message (jget d ''messages'' (JList [])) = Inr ()"
    and emb: "get_embedding ops (jget d ''messages'' (JList [])) = Inr e"
    and resp: "response_messages_of (JObj rd) = Inr rs" "log_response rs = Inr ()"
    and self: "\<forall>v \<in> set (fi_vectors (fd_index (sm_db sc))). vo_inner ops e v < vo_inner ops e e"
    and near: "vo_at_least ops (vo_inner ops e e)
                 (effective_threshold sc (jget d ''cache_similarity_threshold'' JNull)) = Inr True"
  shows "snd (check_semantic_cache ops uuid4 now latency (Inr (JObj d))
           (store_in_semantic_cache ops out ''/v1/chat/completions'' ''POST'' (Inr (JObj d)) (Inr (JObj rd)) m)) =
         Inr (Some (cached_response uuid4 now (JStr name)
           \<lparr>ch_response_messages = rs, ch_similarity_score = vo_inner ops e e,
            ch_usage = jget rd ''usage'' no_usage\<rparr>))"
proof -
  let ?ms = "jget d ''messages'' (JList [])"
  let ?entry = "\<lparr>ce_request_messages = ?ms, ce_response_messages = rs, ce_model = JStr name,
                 ce_usage = jget rd ''usage'' no_usage\<rparr>"
  obtain db' where db': "db_store ops out e ?entry (sm_db sc) = Inr db'"
    using dim by (simp add: db_store_def)
  let ?sc = "sc\<lparr>sm_db := db', sm_size_gauge := length (fi_vectors (fd_index db'))\<rparr>"
  have stored: "store_in_semantic_cache ops out ''/v1/chat/completions'' ''POST'' (Inr (JObj d)) (Inr (JObj rd)) m
      = m\<lparr>cm_instance := Some ?sc\<rparr>"
    using en inst flags model msgs resp emb db'
    by (simp add: store_in_semantic_cache_def what_to_store_def cache_store_def after_store_def)
  have thr: "effective_threshold ?sc t = effective_threshold sc t" for t
    by (simp add: effective_threshold_def)
  have found: "cache_search ops ?ms (JStr name) (jget d ''cache_similarity_threshold'' JNull) ?sc =
      Inr (Some \<lparr>ch_response_messages = rs, ch_similarity_score = vo_inner ops e e,
                 ch_usage = jget rd ''usage'' no_usage\<rparr>)"
    using newest_is_found [OF fs st dim self near _ db', of "JStr name"] emb by (simp add: cache_search_def thr)
  have "is_semantic_cache_enabled (m\<lparr>cm_instance := Some ?sc\<rparr>)"
    using en by (simp add: is_semantic_cache_enabled_def)
  then show ?thesis
    unfolding stored
    using flags msgs model found resp
    by (simp add: check_semantic_cache_def get_semantic_cache_def lookup_request_def)
qed

text \<open>A reply is served from the cache to the next identical request. With the cache enabled, a
  request that neither streams nor skips the cache, and an embedding closer to itself than to every
  earlier entry and at least at the threshold, the check after the store replies with the messages
  and the usage of the stored reply.\<close>

theorem stored_reply_is_served:
  assumes "is_semantic_cache_enabled m" "get_semantic_cache m = Some sc"
    and "flat_search ops" "in_step (sm_db sc)"
    and "fi_dimension (fd_index (sm_db sc)) = vo_dimension ops"
    and "\<not> truthy (jget d ''skip_cache'' (JBool False))" "\<not> truthy (jget d ''stream'' (JBool False))"
    and "jget d ''model'' (JStr []) = JStr name"
    and "truthy (jget d ''messages'' (JList []))" "log_first_message (jget d ''messages'' (JList [])) = Inr ()"
    and "get_embedding ops (jget d ''messages'' (JList [])) = Inr e"
    and "response_messages_of (JObj rd) = Inr rs" "log_response rs = Inr ()"
    and "\<forall>v \<in> set (fi_vectors (fd_index (sm_db sc))). vo_inner ops e v < vo_inner ops e e"
    and "vo_at_least ops (vo_inner ops e e)
           (effective_threshold sc (jget d ''cache_similarity_threshold'' JNull)) = Inr True"
  shows "snd (check_semantic_cache ops uuid4 now latency (Inr (JObj d))
           (store_in_semantic_cache ops out ''/v1/chat/completions'' ''POST'' (Inr (JObj d)) (Inr (JObj rd)) m)) =
         Inr (Some (cached_response uuid4 now (JStr name)
           \<lparr>ch_response_messages = rs, ch_similarity_score = vo_inner ops e e,
            ch_usage = jget rd ''usage'' no_usage\<rparr>))"
  using assms by (rule stored_then_checked)

text \<open>C39: an error reply is cached too. The store does not look at the status: a JSON reply without
  choices, such as the error object of an engine, is stored with no messages, and the next identical
  request is answered from the cache with an empty list of choices, and not forwarded.\<close>

theorem error_reply_is_served:
  assumes "is_semantic_cache_enabled m" "get_semantic_cache m = Some sc"
    and "flat_search ops" "in_step (sm_db sc)"
    and "fi_dimension (fd_index (sm_db sc)) = vo_dimension ops"
    and "\<not> truthy (jget d ''skip_cache'' (JBool False))" "\<not> truthy (jget d ''stream'' (JBool False))"
    and "jget d ''model'' (JStr []) = JStr name"
    and "truthy (jget d ''messages'' (JList []))" "log_first_message (jget d ''messages'' (JList [])) = Inr ()"
    and "get_embedding ops (jget d ''messages'' (JList [])) = Inr e"
    and no_choices: "map_of rd ''choices'' = None"
    and "\<forall>v \<in> set (fi_vectors (fd_index (sm_db sc))). vo_inner ops e v < vo_inner ops e e"
    and "vo_at_least ops (vo_inner ops e e)
           (effective_threshold sc (jget d ''cache_similarity_threshold'' JNull)) = Inr True"
  shows "\<exists>reply. snd (check_semantic_cache ops uuid4 now latency (Inr (JObj d))
           (store_in_semantic_cache ops out ''/v1/chat/completions'' ''POST'' (Inr (JObj d)) (Inr (JObj rd)) m)) =
         Inr (Some reply) \<and> map_of reply ''choices'' = Some (JList [])"
proof -
  have "response_messages_of (JObj rd) = Inr []"
    using no_choices by (simp add: response_messages_of_def map_of_eq_None_iff)
  note served = stored_then_checked [OF assms(1-11) this _ assms(13,14), of uuid4 now latency out]
  show ?thesis by (simp add: served log_response_def cached_response_def)
qed

text \<open>Only the single most similar entry is compared with the model of the request, so an entry of
  another model hides a reply: although the cache holds an entry of the requested model within the
  threshold, the lookup is a miss whenever the closest entry belongs to another model.\<close>

theorem other_model_hides_hit:
  assumes "flat_search ops" "in_step (sm_db sc)"
    and dim: "fi_dimension (fd_index (sm_db sc)) = vo_dimension ops"
    and "get_embedding ops messages = Inr e"
    and k: "k < length (fd_metadata (sm_db sc))" "\<not> py_eq (ce_model (fd_metadata (sm_db sc) ! k)) model"
    and closest: "\<forall>j < length (fd_metadata (sm_db sc)). j \<noteq> k \<longrightarrow>
      vo_inner ops e (fi_vectors (fd_index (sm_db sc)) ! j) < vo_inner ops e (fi_vectors (fd_index (sm_db sc)) ! k)"
    and near: "vo_at_least ops (vo_inner ops e (fi_vectors (fd_index (sm_db sc)) ! k))
                 (effective_threshold sc threshold) = Inr True"
    and valid: "i < length (fd_metadata (sm_db sc))" "py_eq (ce_model (fd_metadata (sm_db sc) ! i)) model"
      "vo_at_least ops (vo_inner ops e (fi_vectors (fd_index (sm_db sc)) ! i)) (effective_threshold sc threshold) = Inr True"
  shows "cache_search ops messages model threshold sc = Inr None"
proof -
  let ?db = "sm_db sc"
  have len: "length (fi_vectors (fd_index ?db)) = length (fd_metadata ?db)" using assms(2) by (simp add: in_step_def)
  then have ne: "fi_vectors (fd_index ?db) \<noteq> []" using k(1) by auto
  obtain j where j: "j < length (fi_vectors (fd_index ?db))"
    "vo_search ops (fi_vectors (fd_index ?db)) e = (int j, vo_inner ops e (fi_vectors (fd_index ?db) ! j))"
    "\<forall>v \<in> set (fi_vectors (fd_index ?db)). vo_inner ops e v \<le> vo_inner ops e (fi_vectors (fd_index ?db) ! j)"
    using flat_searchD [OF assms(1) ne, of e] by blast
  have "fi_vectors (fd_index ?db) ! k \<in> set (fi_vectors (fd_index ?db))" using k(1) len by simp
  then have "j = k" using closest j(1,3) len by force
  then show ?thesis
    using assms(4) near k(2) j(2) db_search_at [OF j(2) j(1) assms(2) dim, of model "effective_threshold sc threshold"]
    by (simp add: cache_search_def)
qed

section \<open>The life of the cache\<close>

datatype cache_call =
    Call_store save_outcome json "json list" json json
  | Call_initiate_search string json json json
  | Call_complete_search string
  | Call_initiate_store string json json
  | Call_complete_store save_outcome string "json list" json

fun run_call :: "'v vector_ops \<Rightarrow> cache_call \<Rightarrow> 'v semantic_cache \<Rightarrow> 'v semantic_cache" where
  "run_call ops (Call_store out req resp model usage) sc = fst (cache_store ops out req resp model usage sc)"
| "run_call ops (Call_initiate_search u msgs model thr) sc = fst (initiate_search ops u msgs model thr sc)"
| "run_call ops (Call_complete_search u) sc = fst (complete_search ops u sc)"
| "run_call ops (Call_initiate_store u msgs model) sc = fst (initiate_store ops u msgs model sc)"
| "run_call ops (Call_complete_store out u resp usage) sc = fst (complete_store ops out u resp usage sc)"

definition disk_in_step :: "'v cache_disk \<Rightarrow> bool" where
  "disk_in_step disk =
     (case (cd_index disk, cd_metadata disk) of
        (Holds index, Holds metadata) \<Rightarrow> length (fi_vectors index) = length metadata
      | _ \<Rightarrow> True)"

lemma init_in_step: "disk_in_step disk \<Longrightarrow> in_step (FAISSAdapter_init ops outs disk)"
  by (auto simp: FAISSAdapter_init_def load_index_def in_step_def disk_in_step_def split: disk_file.splits)

lemma db_store_in_step: "db_store ops out e entry db = Inr db' \<Longrightarrow> in_step db \<Longrightarrow> in_step db'"
  by (auto simp: db_store_def in_step_def split: if_splits)

lemma after_store_in_step:
  assumes "\<And>db. r = Inr db \<Longrightarrow> in_step db" "in_step (sm_db sc)"
  shows "in_step (sm_db (fst (after_store r sc)))"
  using assms by (cases r) (simp_all add: after_store_def)

lemma run_call_in_step: "in_step (sm_db sc) \<Longrightarrow> in_step (sm_db (run_call ops c sc))"
  by (cases c)
     (auto simp: cache_store_def initiate_search_def complete_search_def initiate_store_def complete_store_def
        bindE_eq_Inr intro!: after_store_in_step elim!: db_store_in_step split: sum.splits option.splits)

text \<open>The vectors and the metadata of the cache stay in step. Started from files that are absent,
  damaged or agree with each other, and whatever the calls that follow and however their saves end,
  every vector of the index has its metadata, so no lookup runs out of the metadata list.\<close>

theorem cache_stays_in_step:
  assumes "disk_in_step disk"
  shows "in_step (sm_db (fold (run_call ops) calls (SemanticCache_init ops outs disk threshold)))"
proof -
  have "in_step (sm_db sc) \<Longrightarrow> in_step (sm_db (fold (run_call ops) calls sc))" for sc
    by (induction calls arbitrary: sc) (simp_all add: run_call_in_step)
  moreover have "in_step (sm_db (SemanticCache_init ops outs disk threshold))"
    using init_in_step [OF assms] by (simp add: SemanticCache_init_def)
  ultimately show ?thesis by blast
qed

text \<open>A cache whose last save succeeded comes back whole.\<close>

lemma restart_restores:
  assumes "db_store ops Saved e entry db = Inr db'"
  shows "fd_index (FAISSAdapter_init ops outs (fd_disk db')) = fd_index db'"
    "fd_metadata (FAISSAdapter_init ops outs (fd_disk db')) = fd_metadata db'"
  using assms by (auto simp: db_store_def FAISSAdapter_init_def load_index_def save_index_def Let_def split: if_splits)

text \<open>A cache survives a restart. Replies stored by a process whose save succeeded are found by the
  next one: a search in the cache built from the files gives what the search in the old cache gives.\<close>

theorem restart_keeps_replies:
  assumes "cache_store ops Saved req resp model usage sc = (sc', True)"
    and "sm_default_similarity_threshold sc' = default_threshold"
  shows "cache_search ops messages model' threshold (SemanticCache_init ops outs (fd_disk (sm_db sc')) default_threshold) =
         cache_search ops messages model' threshold sc'"
proof -
  obtain e entry where "db_store ops Saved e entry (sm_db sc) = Inr (sm_db sc')"
    using assms(1) by (auto simp: cache_store_def after_store_def bindE_eq_Inr split: sum.splits)
  note restored = restart_restores [OF this, of outs]
  have thr: "effective_threshold (SemanticCache_init ops outs (fd_disk (sm_db sc')) default_threshold) threshold =
      effective_threshold sc' threshold"
    using assms(2) by (simp add: effective_threshold_def SemanticCache_init_def)
  show ?thesis
    by (simp add: cache_search_def thr)
       (simp add: SemanticCache_init_def db_search_memory [OF restored])
qed

text \<open>A metadata write that fails without touching the old file leaves the two files out of step. After
  the next start, a request closest to the vector without metadata raises.\<close>

lemma lost_metadata_write:
  assumes "fi_dimension (fd_index db) = vo_dimension ops" "in_step db"
    and "cd_metadata (fd_disk db) = Holds (fd_metadata db)"
    and "db_store ops (Metadata_fails False) e entry db = Inr db'"
    and "vo_search ops (fi_vectors (fd_index db) @ [e]) q = (int (length (fd_metadata db)), s)"
    and "vo_at_least ops s threshold = Inr True"
  shows "db_search ops q model threshold (FAISSAdapter_init ops outs (fd_disk db')) = Inl IndexError"
  using assms
  by (auto simp: db_store_def db_search_def FAISSAdapter_init_def load_index_def save_index_def Let_def
      py_nth_def in_step_def)

text \<open>The search in two phases is the search. Completing a search under the identifier that its
  initiation returned gives the result of the plain search in the cache as it is then, and takes the
  pending search away, so the cache is as it was and the identifier works once.\<close>

theorem two_phase_search_is_search:
  assumes "initiate_search ops uuid4 messages model threshold sc = (sc1, Inr request_id)"
    and "map_of (sm_pending_searches sc) uuid4 = None"
  shows "complete_search ops request_id sc1 = (sc, cache_search ops messages model threshold sc) \<and>
         complete_search ops request_id sc = (sc, Inr None)"
proof (intro conjI)
  have new: "uuid4 \<notin> fst ` set (sm_pending_searches sc)" using assms(2) by (simp add: map_of_eq_None_iff)
  have "AList.delete uuid4 (AList.update uuid4 q (sm_pending_searches sc)) = sm_pending_searches sc" for q
    using new by (simp add: delete_update_same delete_id)
  with assms show "complete_search ops request_id sc1 = (sc, cache_search ops messages model threshold sc)"
    by (auto simp: initiate_search_def complete_search_def cache_search_def update_conv' split: sum.splits)
  show "complete_search ops request_id sc = (sc, Inr None)"
    using assms by (auto simp: initiate_search_def complete_search_def split: sum.splits)
qed

section \<open>The gauges\<close>

definition module_init :: "feature_gates \<Rightarrow> 'v cache_module" where
  "module_init gates =
     \<lparr>cm_instance = None, cm_enabled = False, cm_gates = gates, cm_hits = 0, cm_misses = 0,
      cm_hit_ratio = 0, cm_latency = 0\<rparr>"

definition ratio_ok :: "'v cache_module \<Rightarrow> bool" where
  "ratio_ok m \<longleftrightarrow> cm_hit_ratio m * of_nat (cm_hits m + cm_misses m) = of_nat (cm_hits m) \<and>
     0 \<le> cm_hit_ratio m \<and> cm_hit_ratio m \<le> 1"

lemma count_lookup_ratio: "ratio_ok (count_lookup hit m)"
  by (simp add: count_lookup_def ratio_ok_def Let_def del: of_nat_Suc of_nat_add)

lemma check_ratio: "ratio_ok m \<Longrightarrow> ratio_ok (fst (check_semantic_cache ops uuid4 now latency parsed m))"
  by (auto simp: check_semantic_cache_def lookup_request_def Let_def count_lookup_ratio
      split: sum.splits option.splits json.splits)

datatype module_call =
    Lookup string int rat "json result"
  | Keep save_outcome string string "json result" "json result"

fun run_module :: "'v vector_ops \<Rightarrow> module_call \<Rightarrow> 'v cache_module \<Rightarrow> 'v cache_module" where
  "run_module ops (Lookup uuid4 now latency parsed) m = fst (check_semantic_cache ops uuid4 now latency parsed m)"
| "run_module ops (Keep out endpoint method body chunk) m = store_in_semantic_cache ops out endpoint method body chunk m"

lemma store_ratio: "ratio_ok m \<Longrightarrow> ratio_ok (store_in_semantic_cache ops out endpoint method body chunk m)"
  by (auto simp: store_in_semantic_cache_def ratio_ok_def split: sum.splits option.splits)

text \<open>The hit ratio that the cache exports is the share of the lookups that hit, and lies between
  0 and 1, after any sequence of lookups and stores from the start of the program.\<close>

theorem hit_ratio_bounds:
  "let m = fold (run_module ops) calls (start_semantic_cache ops outs disk args (module_init gates))
   in 0 \<le> cm_hit_ratio m \<and> cm_hit_ratio m \<le> 1 \<and>
      cm_hit_ratio m * of_nat (cm_hits m + cm_misses m) = of_nat (cm_hits m)"
proof -
  have step: "ratio_ok m \<Longrightarrow> ratio_ok (run_module ops c m)" for c m
    by (cases c) (simp_all add: check_ratio store_ratio)
  have "ratio_ok m \<Longrightarrow> ratio_ok (fold (run_module ops) calls m)" for m
    by (induction calls arbitrary: m) (simp_all add: step)
  moreover have "ratio_ok (start_semantic_cache ops outs disk args (module_init gates))"
    by (simp add: start_semantic_cache_def enable_semantic_cache_def initialize_semantic_cache_def
        module_init_def ratio_ok_def Let_def)
  ultimately show ?thesis by (simp add: ratio_ok_def Let_def)
qed

text \<open>A cache directory written with another embedding model stops the service. The loaded index
  keeps its own dimension; once it holds an entry, every chat request that is checked against the
  cache raises, and reaches the client as an error.\<close>

theorem changed_embedding_model_fails_requests:
  assumes "is_semantic_cache_enabled m" "get_semantic_cache m = Some (SemanticCache_init ops outs disk threshold)"
    and "cd_index disk = Holds index" "cd_metadata disk = Holds metadata"
    and "fi_vectors index \<noteq> []" "fi_dimension index \<noteq> vo_dimension ops"
    and "\<not> truthy (jget d ''skip_cache'' (JBool False))" "truthy (jget d ''messages'' (JList []))"
    and "log_first_message (jget d ''messages'' (JList [])) = Inr ()"
    and "get_embedding ops (jget d ''messages'' (JList [])) = Inr e"
  shows "check_semantic_cache ops uuid4 now latency (Inr (JObj d)) m = (m, Inl (AssertionError ''d == self.d''))"
  using assms
  by (simp add: check_semantic_cache_def lookup_request_def Let_def cache_search_def SemanticCache_init_def
      FAISSAdapter_init_def load_index_def db_search_def)

section \<open>A sample embedding\<close>

text \<open>Texts of different lengths are orthogonal unit vectors.\<close>

definition length_ops :: "nat vector_ops" where
  "length_ops =
     \<lparr>vo_dimension = 384, vo_encode = length, vo_inner = (\<lambda>a b. if a = b then 1 else 0),
      vo_search = (\<lambda>vs e. if e \<in> set vs then (int (length (takeWhile (\<lambda>v. v \<noteq> e) vs)), 1) else (0, 0)),
      vo_at_least = (\<lambda>d t. case t of JFloat r \<Rightarrow> Inr (r \<le> d) | JInt i \<Rightarrow> Inr (of_int i \<le> d)
                                  | _ \<Rightarrow> Inl (TypeError ''not supported between instances'')),
      vo_py_str = (\<lambda>v. case v of JStr s \<Rightarrow> s | _ \<Rightarrow> ''?'')\<rparr>"

lemma takeWhile_stops: "v \<in> set vs \<Longrightarrow> \<not> P v \<Longrightarrow> length (takeWhile P vs) < length vs"
  by (induction vs) auto

lemma length_ops_flat: "flat_search length_ops"
proof -
  have "\<exists>i < length vs. vo_search length_ops vs e = (int i, vo_inner length_ops e (vs ! i)) \<and>
      (\<forall>v \<in> set vs. vo_inner length_ops e v \<le> vo_inner length_ops e (vs ! i))" if "vs \<noteq> []" for vs e
  proof (cases "e \<in> set vs")
    case True
    let ?k = "length (takeWhile (\<lambda>v. v \<noteq> e) vs)"
    have k: "?k < length vs" using takeWhile_stops [OF True, of "\<lambda>v. v \<noteq> e"] by simp
    then have "vs ! ?k = e" using nth_length_takeWhile [of "\<lambda>v. v \<noteq> e" vs] by simp
    then show ?thesis using True k by (auto simp: length_ops_def intro!: exI [of _ ?k])
  next
    case False
    then have "vs ! 0 \<noteq> e" using that by (metis length_greater_0_conv nth_mem)
    then show ?thesis using False that by (auto simp: length_ops_def intro!: exI [of _ 0])
  qed
  then show ?thesis by (simp add: flat_search_def)
qed

definition chat :: "string \<Rightarrow> string \<Rightarrow> jobj" where
  "chat model text_in =
     [(''model'', JStr model), (''messages'', JList [JObj [(''role'', JStr ''user''), (''content'', JStr text_in)]])]"

definition chat_reply :: jobj where
  "chat_reply = [(''choices'', JList [JObj [(''message'', JObj [(''content'', JStr ''Hello'')])]])]"

definition engine_error :: jobj where
  "engine_error = [(''object'', JStr ''error''), (''code'', JInt 400)]"

definition kept :: "string \<Rightarrow> string \<Rightarrow> cache_entry" where
  "kept model reply =
     \<lparr>ce_request_messages = JList [], ce_response_messages = [JObj [(''content'', JStr reply)]],
      ce_model = JStr model, ce_usage = no_usage\<rparr>"

text \<open>A cache with two entries: one for a request of eight characters and one of nine.\<close>

definition sample_cache :: "nat semantic_cache" where
  "sample_cache =
     \<lparr>sm_db = \<lparr>fd_index = \<lparr>fi_dimension = 384, fi_vectors = [8, 9]\<rparr>, fd_metadata = [kept ''m'' ''a'', kept ''n'' ''b''],
               fd_disk = \<lparr>cd_index = Absent, cd_metadata = Absent\<rparr>\<rparr>,
      sm_default_similarity_threshold = JFloat (95 / 100), sm_pending_searches = [], sm_pending_stores = [],
      sm_size_gauge = 2\<rparr>"

definition sample_module :: "nat cache_module" where
  "sample_module = (module_init FeatureGates_init)\<lparr>cm_instance := Some sample_cache, cm_enabled := True\<rparr>"

lemmas cache_samples = sample_cache_def sample_module_def chat_def chat_reply_def engine_error_def kept_def
  module_init_def in_step_def length_ops_def get_embedding_def message_text_def effective_threshold_def
  log_first_message_def log_content_def log_response_def is_semantic_cache_enabled_def get_semantic_cache_def
  response_messages_of_def jget_def

theorem cache_hit_sound_witness:
  "\<exists>hit. cache_search length_ops (JList [JObj [(''content'', JStr ''hi'')]]) (JStr ''m'') JNull sample_cache = Inr (Some hit) \<and>
     ch_response_messages hit = [JObj [(''content'', JStr ''a'')]] \<and> ch_similarity_score hit = 1"
proof -
  let ?q = "JList [JObj [(''content'', JStr ''hi'')]]"
  have s: "\<exists>hit. cache_search length_ops ?q (JStr ''m'') JNull sample_cache = Inr (Some hit)"
    by (simp add: cache_search_def db_search_def py_nth_def cache_samples)
  then obtain hit where hit: "cache_search length_ops ?q (JStr ''m'') JNull sample_cache = Inr (Some hit)" ..
  have "in_step (sm_db sample_cache)" by (simp add: cache_samples)
  from cache_hit_sound [OF length_ops_flat this hit] obtain e i where
    i: "i < length (fd_metadata (sm_db sample_cache))"
      "py_eq (ce_model (fd_metadata (sm_db sample_cache) ! i)) (JStr ''m'')"
      "ch_response_messages hit = ce_response_messages (fd_metadata (sm_db sample_cache) ! i)"
    and e: "get_embedding length_ops ?q = Inr e"
      "ch_similarity_score hit = vo_inner length_ops e (fi_vectors (fd_index (sm_db sample_cache)) ! i)"
    by (elim exE conjE)
  have "i = 0" using i(1,2) by (auto simp: sample_cache_def kept_def less_Suc_eq)
  then have "ch_response_messages hit = [JObj [(''content'', JStr ''a'')]] \<and> ch_similarity_score hit = 1"
    using i(3) e by (auto simp: cache_samples)
  with hit show ?thesis by blast
qed

theorem stored_reply_is_served_witness:
  "snd (check_semantic_cache length_ops ''u'' 7 0 (Inr (JObj (chat ''m'' ''hi there'')))
     (store_in_semantic_cache length_ops Saved ''/v1/chat/completions'' ''POST'' (Inr (JObj (chat ''m'' ''hi there'')))
        (Inr (JObj chat_reply)) sample_module)) =
   Inr (Some (cached_response ''u'' 7 (JStr ''m'')
     \<lparr>ch_response_messages = [JObj [(''content'', JStr ''Hello'')]], ch_similarity_score = 1, ch_usage = no_usage\<rparr>))"
proof -
  have step: "in_step (sm_db sample_cache)" by (simp add: cache_samples)
  have "snd (check_semantic_cache length_ops ''u'' 7 0 (Inr (JObj (chat ''m'' ''hi there'')))
     (store_in_semantic_cache length_ops Saved ''/v1/chat/completions'' ''POST'' (Inr (JObj (chat ''m'' ''hi there'')))
        (Inr (JObj chat_reply)) sample_module)) =
    Inr (Some (cached_response ''u'' 7 (JStr ''m'')
     \<lparr>ch_response_messages = [JObj [(''content'', JStr ''Hello'')]], ch_similarity_score = vo_inner length_ops 14 14,
      ch_usage = jget chat_reply ''usage'' no_usage\<rparr>))"
    by (rule stored_reply_is_served [OF _ _ length_ops_flat step]) (simp_all add: cache_samples)
  moreover have "vo_inner length_ops 14 14 = 1" "jget chat_reply ''usage'' no_usage = no_usage"
    by (simp_all add: length_ops_def chat_reply_def jget_def)
  ultimately show ?thesis by simp
qed

theorem error_reply_is_served_witness:
  "\<exists>reply. snd (check_semantic_cache length_ops ''u'' 7 0 (Inr (JObj (chat ''m'' ''hi there'')))
     (store_in_semantic_cache length_ops Saved ''/v1/chat/completions'' ''POST'' (Inr (JObj (chat ''m'' ''hi there'')))
        (Inr (JObj engine_error)) sample_module)) = Inr (Some reply) \<and> map_of reply ''choices'' = Some (JList [])"
proof -
  have step: "in_step (sm_db sample_cache)" by (simp add: cache_samples)
  show ?thesis
    by (rule error_reply_is_served [OF _ _ length_ops_flat step, where e = 14 and name = "''m''"])
       (simp_all add: cache_samples)
qed

text \<open>The constant embedding: all requests are equally close, and the second entry wins by its length.\<close>

definition scaled_ops :: "rat vector_ops" where
  "scaled_ops =
     \<lparr>vo_dimension = 384, vo_encode = (\<lambda>_. 1), vo_inner = (\<lambda>a b. a * b),
      vo_search = (\<lambda>vs e. let best = foldr (\<lambda>v b. max (e * v) b) (tl vs) (e * hd vs)
                           in (int (length (takeWhile (\<lambda>v. e * v \<noteq> best) vs)), best)),
      vo_at_least = (\<lambda>d t. case t of JFloat r \<Rightarrow> Inr (r \<le> d) | _ \<Rightarrow> Inl (TypeError ''not supported'')),
      vo_py_str = (\<lambda>v. case v of JStr s \<Rightarrow> s | _ \<Rightarrow> ''?'')\<rparr>"

lemma foldr_max: "(\<forall>v \<in> set (x # vs). f v \<le> foldr (\<lambda>v b. max (f v) b) vs (f x)) \<and>
    (\<exists>v \<in> set (x # vs). foldr (\<lambda>v b. max (f v) b) vs (f x) = (f v :: rat))"
  by (induction vs) (auto simp: max_def)

lemma scaled_ops_flat: "flat_search scaled_ops"
proof -
  have "\<exists>i < length vs. vo_search scaled_ops vs e = (int i, vo_inner scaled_ops e (vs ! i)) \<and>
      (\<forall>v \<in> set vs. vo_inner scaled_ops e v \<le> vo_inner scaled_ops e (vs ! i))" if "vs \<noteq> []" for vs e
  proof -
    define best where "best = foldr (\<lambda>v b. max (e * v) b) (tl vs) (e * hd vs)"
    have "hd vs # tl vs = vs" using that by simp
    then have b: "\<forall>v \<in> set vs. e * v \<le> best" "\<exists>v \<in> set vs. best = e * v"
      using foldr_max [of "hd vs" "tl vs" "\<lambda>v. e * v"] by (simp_all add: best_def)
    let ?k = "length (takeWhile (\<lambda>v. e * v \<noteq> best) vs)"
    have k: "?k < length vs" using b(2) takeWhile_stops [of _ vs "\<lambda>v. e * v \<noteq> best"] by auto
    then have "e * (vs ! ?k) = best" using nth_length_takeWhile [of "\<lambda>v. e * v \<noteq> best" vs] by simp
    then show ?thesis using k b(1) by (auto simp: scaled_ops_def best_def Let_def intro!: exI [of _ ?k])
  qed
  then show ?thesis by (simp add: flat_search_def)
qed

definition crowded_cache :: "rat semantic_cache" where
  "crowded_cache =
     \<lparr>sm_db = \<lparr>fd_index = \<lparr>fi_dimension = 384, fi_vectors = [96 / 100, 99 / 100]\<rparr>,
               fd_metadata = [kept ''m'' ''a'', kept ''n'' ''b''],
               fd_disk = \<lparr>cd_index = Absent, cd_metadata = Absent\<rparr>\<rparr>,
      sm_default_similarity_threshold = JFloat (95 / 100), sm_pending_searches = [], sm_pending_stores = [],
      sm_size_gauge = 2\<rparr>"

theorem other_model_hides_hit_witness:
  "cache_search scaled_ops (JList [JObj [(''content'', JStr ''hi'')]]) (JStr ''m'') JNull crowded_cache = Inr None"
proof -
  have step: "in_step (sm_db crowded_cache)" by (simp add: crowded_cache_def in_step_def)
  have emb: "get_embedding scaled_ops (JList [JObj [(''content'', JStr ''hi'')]]) = Inr 1"
    by (simp add: get_embedding_def message_text_def scaled_ops_def)
  show ?thesis
    by (rule other_model_hides_hit [OF scaled_ops_flat step _ emb, of 1 "JStr ''m''" JNull 0])
       (simp_all add: crowded_cache_def scaled_ops_def kept_def effective_threshold_def less_Suc_eq numeral_2_eq_2)
qed

theorem cache_stays_in_step_witness:
  "in_step (sm_db (fold (run_call length_ops)
     [Call_store (Metadata_fails True) (JList [JObj [(''content'', JStr ''hi'')]]) [] (JStr ''m'') no_usage,
      Call_initiate_store ''u'' (JList []) (JStr ''m''), Call_complete_store Saved ''u'' [] no_usage]
     (SemanticCache_init length_ops (Saved, Saved) \<lparr>cd_index = Absent, cd_metadata = Damaged\<rparr> (JFloat (95 / 100)))))"
proof -
  have "disk_in_step (\<lparr>cd_index = Absent, cd_metadata = Damaged\<rparr> :: nat cache_disk)" by (simp add: disk_in_step_def)
  then show ?thesis by (rule cache_stays_in_step)
qed

theorem restart_keeps_replies_witness:
  "let sc = fst (cache_store length_ops Saved (JList [JObj [(''content'', JStr ''hello'')]]) [] (JStr ''m'') no_usage sample_cache)
   in cache_search length_ops (JList [JObj [(''content'', JStr ''hello'')]]) (JStr ''m'') JNull
        (SemanticCache_init length_ops (Saved, Saved) (fd_disk (sm_db sc)) (JFloat (95 / 100))) =
      Inr (Some \<lparr>ch_response_messages = [], ch_similarity_score = 1, ch_usage = no_usage\<rparr>)"
proof -
  let ?q = "JList [JObj [(''content'', JStr ''hello'')]]"
  let ?r = "cache_store length_ops Saved ?q [] (JStr ''m'') no_usage sample_cache"
  have r: "?r = (fst ?r, True)" "sm_default_similarity_threshold (fst ?r) = JFloat (95 / 100)"
    by (simp_all add: cache_store_def after_store_def db_store_def cache_samples)
  have "cache_search length_ops ?q (JStr ''m'') JNull (fst ?r) =
      Inr (Some \<lparr>ch_response_messages = [], ch_similarity_score = 1, ch_usage = no_usage\<rparr>)"
    by (simp add: cache_store_def after_store_def db_store_def cache_search_def db_search_def py_nth_def cache_samples)
  with restart_keeps_replies [OF r, of ?q "JStr ''m''" JNull "(Saved, Saved)"] show ?thesis by (simp add: Let_def)
qed

theorem two_phase_search_is_search_witness:
  "let sc1 = fst (initiate_search length_ops ''u'' (JList [JObj [(''content'', JStr ''hi'')]]) (JStr ''m'') JNull sample_cache)
   in complete_search length_ops ''u'' sc1 =
        (sample_cache, Inr (Some \<lparr>ch_response_messages = [JObj [(''content'', JStr ''a'')]],
                                  ch_similarity_score = 1, ch_usage = no_usage\<rparr>))"
proof -
  let ?q = "JList [JObj [(''content'', JStr ''hi'')]]"
  let ?r = "initiate_search length_ops ''u'' ?q (JStr ''m'') JNull sample_cache"
  have r: "?r = (fst ?r, Inr ''u'')" "map_of (sm_pending_searches sample_cache) ''u'' = None"
    by (simp_all add: initiate_search_def cache_samples)
  have "cache_search length_ops ?q (JStr ''m'') JNull sample_cache =
      Inr (Some \<lparr>ch_response_messages = [JObj [(''content'', JStr ''a'')]], ch_similarity_score = 1, ch_usage = no_usage\<rparr>)"
    by (simp add: cache_search_def db_search_def py_nth_def cache_samples)
  with two_phase_search_is_search [OF r] show ?thesis by (simp add: Let_def)
qed

theorem changed_embedding_model_fails_requests_witness:
  "let m = sample_module\<lparr>cm_instance := Some (SemanticCache_init length_ops (Saved, Saved)
             \<lparr>cd_index = Holds \<lparr>fi_dimension = 768, fi_vectors = [8]\<rparr>, cd_metadata = Holds [kept ''m'' ''a'']\<rparr> (JFloat (95 / 100)))\<rparr>
   in check_semantic_cache length_ops ''u'' 7 0 (Inr (JObj (chat ''m'' ''hi''))) m = (m, Inl (AssertionError ''d == self.d''))"
  unfolding Let_def
  by (rule changed_embedding_model_fails_requests
        [where index = "\<lparr>fi_dimension = 768, fi_vectors = [8]\<rparr>" and metadata = "[kept ''m'' ''a'']" and e = 8
           and outs = "(Saved, Saved)" and threshold = "JFloat (95 / 100)"
           and disk = "\<lparr>cd_index = Holds \<lparr>fi_dimension = 768, fi_vectors = [8]\<rparr>, cd_metadata = Holds [kept ''m'' ''a'']\<rparr>"])
     (simp_all add: cache_samples)

end
