(* ===== verification/Main_Routes.thy ===== *)
theory Main_Routes
  imports Request_Properties App_Startup Semantic_Cache
begin

text \<open>
  The HTTP routes of the router: \<^verbatim>\<open>src/src/vllm_router/routers/main_router.py\<close>, the metrics route
  (\<^verbatim>\<open>routers/metrics_router.py\<close>) with the gauges of \<^verbatim>\<open>services/metrics_service\<close>, the periodic log of
  the statistics (\<^verbatim>\<open>stats/log_stats.py\<close>) and the cards of \<^verbatim>\<open>protocols.py\<close>. Building a pydantic model
  is third-party code: the parameter \<open>make_card\<close> is \<^verbatim>\<open>ModelCard(**fields).model_dump()\<close>. So are the text
  of the exported metrics and the liveness of a thread.
\<close>

section \<open>The forwarding routes\<close>

definition general_routes :: "string list" where
  "general_routes =
     [''/v1/completions'', ''/v1/embeddings'', ''/tokenize'', ''/detokenize'', ''/v1/rerank'', ''/rerank'',
      ''/v1/score'', ''/score'']"

definition sleep_routes :: "(string \<times> string) list" where
  "sleep_routes = [(''POST'', ''/sleep''), (''POST'', ''/wake_up''), (''GET'', ''/is_sleeping'')]"

definition route_general_post ::
  "('r, 't, 'cb) service_env \<Rightarrow> string \<Rightarrow> http_request \<Rightarrow> ('r, 't) app_state \<Rightarrow>
   (('r, 't) app_state \<times> 'cb answer result) option" where
  "route_general_post env path req app =
     (if path \<in> set general_routes then Some (route_general_request env path req app) else None)"

definition route_sleep ::
  "('r, 't, 'cb) service_env \<Rightarrow> string \<Rightarrow> string \<Rightarrow> http_request \<Rightarrow> ('r, 't) app_state \<Rightarrow>
   (backend_request list \<times> (string \<times> string option) list option \<times> 'cb answer result) option" where
  "route_sleep env method path req app =
     (if (method, path) \<in> set sleep_routes then Some (route_sleep_wakeup_request env path req app) else None)"

definition route_v1_audio_transcriptions ::
  "('r, 't, 'cb) service_env \<Rightarrow> (string \<Rightarrow> upload \<Rightarrow> (string \<times> string) list \<Rightarrow> backend_answer) \<Rightarrow>
   (string \<Rightarrow> bool) \<Rightarrow> http_request \<Rightarrow> form \<Rightarrow> ('r, 't) app_state \<Rightarrow> ('r, 't) app_state \<times> 'cb answer result" where
  "route_v1_audio_transcriptions env post_form client_error req fm app =
     route_general_transcriptions env post_form client_error ''/v1/audio/transcriptions'' req fm app"

text \<open>\<^verbatim>\<open>await request.json()\<close>.\<close>

definition parsed_body :: "('r, 't, 'cb) service_env \<Rightarrow> http_request \<Rightarrow> json result" where
  "parsed_body env req = (case sv_loads env (rq_body req) of None \<Rightarrow> Inl JSONDecodeError | Some v \<Rightarrow> Inr v)"

text \<open>The chat route asks the semantic cache first, where its packages are installed.\<close>

definition route_chat_completion ::
  "('r, 't, 'cb) service_env \<Rightarrow> 'v vector_ops \<Rightarrow> rat \<Rightarrow> http_request \<Rightarrow> 'v cache_module \<Rightarrow> ('r, 't) app_state \<Rightarrow>
   'v cache_module \<times> ('r, 't) app_state \<times> 'cb answer result" where
  "route_chat_completion env ops latency req m app =
     (case (if ap_semantic_cache app
            then check_semantic_cache ops (sv_uuid4 env) (sv_now env) latency (parsed_body env req) m
            else (m, Inr None)) of
        (m', Inl e) \<Rightarrow> (m', app, Inl e)
      | (m', Inr (Some cache_response)) \<Rightarrow> (m', app, Inr (reply.JsonReply 200 (JObj cache_response), []))
      | (m', Inr None) \<Rightarrow>
          (case route_general_request env ''/v1/chat/completions'' req app of (app', r) \<Rightarrow> (m', app', r)))"

section \<open>The lists\<close>

definition show_version :: "string \<Rightarrow> 'cb reply" where
  "show_version version = reply.JsonReply 200 (JObj [(''version'', JStr version)])"

definition card_fields :: "json \<Rightarrow> model_info \<Rightarrow> jobj" where
  "card_fields model_id info =
     [(''id'', model_id), (''object'', JStr ''model''), (''created'', mi_created info),
      (''owned_by'', mi_owned_by info), (''parent'', mi_parent info)]"

text \<open>The inner loop over the models of one endpoint, then the loop over the endpoints; the state is the
  set of the models seen and the cards so far.\<close>

fun model_cards_loop ::
  "(jobj \<Rightarrow> jobj result) \<Rightarrow> model_infos \<Rightarrow> json set \<times> jobj list \<Rightarrow> (json set \<times> jobj list) result" where
  "model_cards_loop make_card [] acc = Inr acc"
| "model_cards_loop make_card ((model_id, info) # infos) (existing_models, model_cards) =
     (if model_id \<in> existing_models then model_cards_loop make_card infos (existing_models, model_cards)
      else bindE (make_card (card_fields model_id info)) (\<lambda>model_card.
             model_cards_loop make_card infos (insert model_id existing_models, model_cards @ [model_card])))"

fun endpoint_cards_loop ::
  "(jobj \<Rightarrow> jobj result) \<Rightarrow> endpoint_info list \<Rightarrow> json set \<times> jobj list \<Rightarrow> (json set \<times> jobj list) result" where
  "endpoint_cards_loop make_card [] acc = Inr acc"
| "endpoint_cards_loop make_card (e # endpoints) acc =
     (if no_model_info e then endpoint_cards_loop make_card endpoints acc
      else bindE (model_cards_loop make_card (model_info_items e) acc) (endpoint_cards_loop make_card endpoints))"

definition model_list :: "jobj list \<Rightarrow> json" where
  "model_list model_cards = JObj [(''object'', JStr ''list''), (''data'', JList (map JObj model_cards))]"

definition show_models ::
  "(jobj \<Rightarrow> jobj result) \<Rightarrow> (string \<Rightarrow> string) \<Rightarrow> int \<Rightarrow> discovery \<Rightarrow> json result" where
  "show_models make_card md5 now d =
     bindE (discovery_get_endpoint_info md5 now d) (\<lambda>endpoints.
     bindE (endpoint_cards_loop make_card endpoints ({}, [])) (\<lambda>(_, model_cards).
       Inr (model_list model_cards)))"

definition engine_card :: "endpoint_info \<Rightarrow> json" where
  "engine_card e =
     JObj [(''engine_id'', JStr (ep_Id e)), (''serving_models'', JList (ep_model_names e)),
           (''created'', JInt (ep_added_timestamp e))]"

fun engines_loop :: "endpoint_info list \<Rightarrow> string set \<Rightarrow> endpoint_info list" where
  "engines_loop [] existing_engines = []"
| "engines_loop (e # endpoints) existing_engines =
     (if ep_Id e \<in> existing_engines then engines_loop endpoints existing_engines
      else e # engines_loop endpoints (insert (ep_Id e) existing_engines))"

definition get_engine_instances :: "(string \<Rightarrow> string) \<Rightarrow> int \<Rightarrow> discovery \<Rightarrow> json result" where
  "get_engine_instances md5 now d =
     bindE (discovery_get_endpoint_info md5 now d) (\<lambda>endpoints.
       Inr (JList (map engine_card (engines_loop endpoints {}))))"

section \<open>Health\<close>

definition discovery_get_health :: "bool \<Rightarrow> discovery \<Rightarrow> bool" where
  "discovery_get_health watcher_alive d = (case d of Static _ \<Rightarrow> True | _ \<Rightarrow> watcher_alive)"

definition config_json :: "DynamicRouterConfig \<Rightarrow> json" where
  "config_json c = JObj (zip config_fields (config_values c))"

definition health :: "bool \<Rightarrow> bool \<Rightarrow> discovery \<Rightarrow> ('r, 't, 'cb) config_watcher option \<Rightarrow> int \<times> jobj" where
  "health watcher_alive scraper_alive d watcher =
     (if \<not> discovery_get_health watcher_alive d
      then (503, [(''status'', JStr ''Service discovery module is down.'')])
      else if \<not> scraper_alive then (503, [(''status'', JStr ''Engine stats scraper is down.'')])
      else (case watcher of
              Some w \<Rightarrow> (200, [(''status'', JStr ''healthy''), (''dynamic_config'', config_json (dw_current_config w))])
            | None \<Rightarrow> (200, [(''status'', JStr ''healthy'')])))"

section \<open>Metrics\<close>

text \<open>The gauges with a server label: the name of the gauge and the server to the value set last. The
  three gauges of the process have no label, here the empty one.\<close>

type_synonym gauges = "((string \<times> string) \<times> rat) list"

definition set_gauge :: "string \<Rightarrow> string \<Rightarrow> rat \<Rightarrow> gauges \<Rightarrow> gauges" where
  "set_gauge name server v g = AList.update (name, server) v g"

definition set_gauges :: "string \<Rightarrow> (string \<times> rat) list \<Rightarrow> gauges \<Rightarrow> gauges" where
  "set_gauges server vs g = fold (\<lambda>(name, v). set_gauge name server v) vs g"

definition request_values :: "RequestStats \<Rightarrow> (string \<times> rat) list" where
  "request_values st =
     [(''vllm:current_qps'', rs_qps st),
      (''vllm:avg_decoding_length'', rs_avg_decoding_length st),
      (''vllm:num_prefill_requests'', of_int (rs_in_prefill_requests st)),
      (''vllm:num_decoding_requests'', of_int (rs_in_decoding_requests st)),
      (''vllm:num_requests_running'', of_int (rs_in_prefill_requests st + rs_in_decoding_requests st)),
      (''vllm:avg_latency'', rs_avg_latency st),
      (''vllm:avg_itl'', rs_avg_itl st),
      (''vllm:num_requests_swapped'', of_int (rs_num_swapped_requests st))]"

definition engine_values :: "EngineStats \<Rightarrow> (string \<times> rat) list" where
  "engine_values st =
     [(''vllm:gpu_prefix_cache_hit_rate'', es_gpu_prefix_cache_hit_rate st),
      (''vllm:gpu_prefix_cache_hits_total'', es_gpu_prefix_cache_hits_total st),
      (''vllm:gpu_prefix_cache_queries_total'', es_gpu_prefix_cache_queries_total st)]"

definition process_values :: "rat \<Rightarrow> rat \<Rightarrow> rat \<Rightarrow> (string \<times> rat) list" where
  "process_values cpu memory disk =
     [(''router_cpu_usage_percent'', cpu), (''router_memory_usage_percent'', memory),
      (''router_disk_usage_percent'', disk)]"

text \<open>The route: the gauges of the process, of the request statistics, of the engine statistics and of
  the endpoints, in this order. An endpoint has no attribute \<^verbatim>\<open>healthy\<close>, so its gauge is set to 1. The
  answer is the text of all gauges.\<close>

definition metrics ::
  "(gauges \<Rightarrow> string) \<Rightarrow> (string \<Rightarrow> string) \<Rightarrow> int \<Rightarrow> rat \<Rightarrow> rat \<times> rat \<times> rat \<Rightarrow> ('r, 't) app_state \<Rightarrow> gauges \<Rightarrow>
   ('r, 't) app_state \<times> gauges \<times> string result" where
  "metrics generate_latest md5 now time usage app g =
     (case usage of
        (cpu, memory, disk) \<Rightarrow>
          let g1 = set_gauges [] (process_values cpu memory disk) g in
          (case get_request_stats time (ap_monitor app) of
             (m, Inl e) \<Rightarrow> (app\<lparr>ap_monitor := m\<rparr>, g1, Inl e)
           | (m, Inr stats) \<Rightarrow>
               let g2 = fold (\<lambda>(server, st). set_gauges server (request_values st)) stats g1;
                   g3 = fold (\<lambda>(server, st). set_gauges server (engine_values st)) (ap_engine_stats app) g2
               in (case discovery_get_endpoint_info md5 now (ap_discovery app) of
                     Inl e \<Rightarrow> (app\<lparr>ap_monitor := m\<rparr>, g3, Inl e)
                   | Inr endpoints \<Rightarrow>
                       let g4 = fold (\<lambda>ep. set_gauge ''vllm:healthy_pods_total'' (ep_url ep) 1) endpoints g3
                       in (app\<lparr>ap_monitor := m\<rparr>, g4, Inr (generate_latest g4)))))"

section \<open>The log of the statistics\<close>

record log_format =
  lf_two_digits :: "rat \<Rightarrow> string"
  lf_str :: "rat \<Rightarrow> string"
  lf_json :: "json \<Rightarrow> string"

definition nl :: string where
  "nl = [CHR 0x0A]"

definition log_model :: "log_format \<Rightarrow> json \<times> model_info \<Rightarrow> string" where
  "log_model lf = (\<lambda>(model_id, info).
     ''  - '' @ lf_json lf model_id @
     (if truthy (mi_parent info) then '' (adapter for '' @ lf_json lf (mi_parent info) @ '')'' else []) @ nl)"

definition log_models :: "log_format \<Rightarrow> endpoint_info \<Rightarrow> string" where
  "log_models lf e =
     (if no_model_info e then ''Models: No model information available'' @ nl
      else ''Models:'' @ nl @ concat (map (log_model lf) (model_info_items e)))"

definition log_engine :: "log_format \<Rightarrow> EngineStats option \<Rightarrow> string" where
  "log_engine lf st =
     (case st of
        None \<Rightarrow> '' Engine Stats: No stats available'' @ nl
      | Some es \<Rightarrow>
          '' Engine Stats: Running Requests: '' @ lf_str lf (es_num_running_requests es) @
          '', Queued Requests: '' @ lf_str lf (es_num_queuing_requests es) @
          '', GPU Cache Hit Rate: '' @ lf_two_digits lf (es_gpu_prefix_cache_hit_rate es) @ nl)"

definition log_requests :: "log_format \<Rightarrow> RequestStats option \<Rightarrow> string" where
  "log_requests lf st =
     (case st of
        None \<Rightarrow> '' Request Stats: No stats available'' @ nl
      | Some rs \<Rightarrow>
          '' Request Stats: QPS: '' @ lf_two_digits lf (rs_qps rs) @
          '', Avg Latency: '' @ lf_two_digits lf (rs_avg_latency rs) @
          '', Avg ITL: '' @ lf_str lf (rs_avg_itl rs) @
          '', Prefill Requests: '' @ lf_str lf (of_int (rs_in_prefill_requests rs)) @
          '', Decoding Requests: '' @ lf_str lf (of_int (rs_in_decoding_requests rs)) @
          '', Swapped Requests: '' @ lf_str lf (of_int (rs_num_swapped_requests rs)) @
          '', Finished: '' @ lf_str lf (of_int (rs_finished_requests rs)) @
          '', Uptime: '' @ lf_two_digits lf (rs_uptime rs) @ '' sec'' @ nl)"

text \<open>One endpoint: what is appended to the log and the gauges that are set.\<close>

definition log_endpoint ::
  "log_format \<Rightarrow> (string \<times> EngineStats) list \<Rightarrow> (string \<times> RequestStats) list \<Rightarrow> endpoint_info \<Rightarrow>
   string \<times> gauges \<Rightarrow> string \<times> gauges" where
  "log_endpoint lf engine_stats request_stats e acc =
     (case acc of
        (logstr, g) \<Rightarrow>
          let url = ep_url e;
              g1 = (case map_of engine_stats url of None \<Rightarrow> g | Some es \<Rightarrow> set_gauges url (engine_values es) g);
              g2 = (case map_of request_stats url of None \<Rightarrow> g1 | Some rs \<Rightarrow> set_gauges url (request_values rs) g1)
          in (logstr @ ''Server: '' @ url @ nl @ log_models lf e @ log_engine lf (map_of engine_stats url) @
                log_requests lf (map_of request_stats url) @ replicate 50 CHR ''-'' @ nl, g2))"

text \<open>One turn of the loop: the line logged, or the exception that ends the thread.\<close>

definition log_stats_turn ::
  "log_format \<Rightarrow> (string \<Rightarrow> string) \<Rightarrow> int \<Rightarrow> rat \<Rightarrow> ('r, 't) app_state \<Rightarrow> gauges \<Rightarrow>
   ('r, 't) app_state \<times> gauges \<times> string result" where
  "log_stats_turn lf md5 now time app g =
     (case discovery_get_endpoint_info md5 now (ap_discovery app) of
        Inl e \<Rightarrow> (app, g, Inl e)
      | Inr endpoints \<Rightarrow>
          (case get_request_stats time (ap_monitor app) of
             (m, Inl e) \<Rightarrow> (app\<lparr>ap_monitor := m\<rparr>, g, Inl e)
           | (m, Inr request_stats) \<Rightarrow>
               (case fold (log_endpoint lf (ap_engine_stats app) request_stats) endpoints
                       (nl @ replicate 50 CHR ''='' @ nl, g) of
                  (logstr, g') \<Rightarrow>
                    (app\<lparr>ap_monitor := m\<rparr>, g', Inr (logstr @ replicate 50 CHR ''='' @ nl)))))"

text \<open>The thread over a sequence of turns, each at its time, until one raises.\<close>

fun log_stats ::
  "log_format \<Rightarrow> (string \<Rightarrow> string) \<Rightarrow> (int \<times> rat) list \<Rightarrow> ('r, 't) app_state \<Rightarrow> gauges \<Rightarrow>
   ('r, 't) app_state \<times> gauges \<times> string list \<times> py_error option" where
  "log_stats lf md5 [] app g = (app, g, [], None)"
| "log_stats lf md5 ((now, time) # turns) app g =
     (case log_stats_turn lf md5 now time app g of
        (app', g', Inl e) \<Rightarrow> (app', g', [], Some e)
      | (app', g', Inr line) \<Rightarrow>
          (case log_stats lf md5 turns app' g' of
             (app2, g2, logged, e) \<Rightarrow> (app2, g2, line # logged, e)))"

section \<open>The list of models\<close>

definition cards_ok :: "json set \<times> jobj list \<Rightarrow> bool" where
  "cards_ok = (\<lambda>(existing_models, model_cards).
     distinct (map (\<lambda>c. map_of c ''id'') model_cards) \<and>
     set (map (\<lambda>c. map_of c ''id'') model_cards) = Some ` existing_models)"

text \<open>Every model of an endpoint gives a card under its own id.\<close>

definition cards_made :: "(jobj \<Rightarrow> jobj result) \<Rightarrow> model_infos \<Rightarrow> bool" where
  "cards_made make_card infos \<longleftrightarrow>
     (\<forall>(model_id, info) \<in> set infos. \<exists>c. make_card (card_fields model_id info) = Inr c \<and> map_of c ''id'' = Some model_id)"

lemma model_cards_loop_ok:
  "cards_made make_card infos \<Longrightarrow> cards_ok (seen, cards) \<Longrightarrow>
   \<exists>cards'. model_cards_loop make_card infos (seen, cards) = Inr (seen \<union> fst ` set infos, cards') \<and>
     cards_ok (seen \<union> fst ` set infos, cards')"
proof (induction infos arbitrary: seen cards)
  case (Cons x infos)
  obtain i info where x: "x = (i, info)" by (cases x)
  from Cons.prems(1) obtain c where c: "make_card (card_fields i info) = Inr c" "map_of c ''id'' = Some i"
    and rest: "cards_made make_card infos"
    by (auto simp: cards_made_def x)
  show ?case
  proof (cases "i \<in> seen")
    case True
    then show ?thesis using Cons.IH [OF rest Cons.prems(2)] by (simp add: x insert_absorb)
  next
    case False
    have "cards_ok (insert i seen, cards @ [c])"
      using Cons.prems(2) False c(2) by (auto simp: cards_ok_def)
    from Cons.IH [OF rest this] show ?thesis using False c(1) by (simp add: x)
  qed
qed (simp add: cards_ok_def)

lemma endpoint_cards_loop_ok:
  "\<forall>e \<in> set endpoints. cards_made make_card (model_info_items e) \<Longrightarrow> cards_ok (seen, cards) \<Longrightarrow>
   \<exists>cards'. endpoint_cards_loop make_card endpoints (seen, cards) =
       Inr (seen \<union> (\<Union>e \<in> set endpoints. fst ` set (model_info_items e)), cards') \<and>
     cards_ok (seen \<union> (\<Union>e \<in> set endpoints. fst ` set (model_info_items e)), cards')"
proof (induction endpoints arbitrary: seen cards)
  case (Cons e endpoints)
  show ?case
  proof (cases "no_model_info e")
    case True
    then have "model_info_items e = []"
      by (auto simp: no_model_info_def model_info_items_def split: option.splits)
    with True Cons show ?thesis by simp
  next
    case False
    from Cons.prems model_cards_loop_ok [of make_card "model_info_items e" seen cards] obtain cards1
      where "model_cards_loop make_card (model_info_items e) (seen, cards) =
          Inr (seen \<union> fst ` set (model_info_items e), cards1)"
        "cards_ok (seen \<union> fst ` set (model_info_items e), cards1)" by auto
    with False Cons.IH [OF _ this(2)] Cons.prems(1) show ?thesis by (simp add: Un_assoc)
  qed
qed simp

text \<open>The list of models is complete and has no duplicates. Where a card can be built for every
  model, the route answers with one card per model that some endpoint serves, however many endpoints
  serve it, and with no other card.\<close>

theorem models_listed_once:
  assumes "discovery_get_endpoint_info md5 now d = Inr endpoints"
    and "\<forall>e \<in> set endpoints. cards_made make_card (model_info_items e)"
  shows "\<exists>cards. show_models make_card md5 now d = Inr (model_list cards) \<and>
    distinct (map (\<lambda>c. map_of c ''id'') cards) \<and>
    set (map (\<lambda>c. map_of c ''id'') cards) = Some ` (\<Union>e \<in> set endpoints. fst ` set (model_info_items e))"
  using endpoint_cards_loop_ok [OF assms(2), of "{}" "[]"] assms(1)
  by (auto simp: show_models_def cards_ok_def)

lemma engines_loop_ids:
  "distinct (map ep_Id (engines_loop endpoints seen)) \<and>
   ep_Id ` set (engines_loop endpoints seen) = ep_Id ` set endpoints - seen"
proof (induction endpoints arbitrary: seen)
  case (Cons e endpoints)
  from Cons [of seen] Cons [of "insert (ep_Id e) seen"] show ?case by auto
qed simp

lemma engines_listed_once:
  assumes "discovery_get_endpoint_info md5 now d = Inr endpoints"
  shows "\<exists>es. get_engine_instances md5 now d = Inr (JList (map engine_card es)) \<and> set es \<subseteq> set endpoints \<and>
    distinct (map ep_Id es) \<and> ep_Id ` set es = ep_Id ` set endpoints"
proof -
  have "set (engines_loop es seen) \<subseteq> set es" for es seen
    by (induction es arbitrary: seen) (simp_all add: subset_insertI2 subset_iff)
  then show ?thesis using assms engines_loop_ids [of endpoints "{}"]
    by (intro exI [of _ "engines_loop endpoints {}"]) (simp add: get_engine_instances_def)
qed

section \<open>The exported gauges\<close>

lemma set_gauges_get:
  "distinct (map fst vs) \<Longrightarrow> map_of (set_gauges server vs g) (name, s) =
     (if s = server then (case map_of vs name of None \<Rightarrow> map_of g (name, s) | Some v \<Rightarrow> Some v) else map_of g (name, s))"
proof (induction vs arbitrary: g)
  case (Cons x vs)
  obtain n v where x: "x = (n, v)" by (cases x)
  have "map_of vs name = None" if "name = n" using Cons.prems that x by (auto simp: map_of_eq_None_iff)
  with Cons show ?case
    by (simp add: x set_gauges_def set_gauge_def update_conv' split: option.splits)
qed (simp add: set_gauges_def)

lemma fold_gauges_get:
  assumes names: "\<And>st. distinct (map fst (f st))"
  shows "distinct (map fst xs) \<Longrightarrow> map_of (fold (\<lambda>(server, st). set_gauges server (f st)) xs g) (name, s) =
    (case map_of xs s of
       None \<Rightarrow> map_of g (name, s)
     | Some st \<Rightarrow> (case map_of (f st) name of None \<Rightarrow> map_of g (name, s) | Some v \<Rightarrow> Some v))"
proof (induction xs arbitrary: g)
  case (Cons x xs)
  obtain server st where x: "x = (server, st)" by (cases x)
  have "map_of xs s = None" if "s = server" using Cons.prems that x by (auto simp: map_of_eq_None_iff)
  with Cons show ?case by (auto simp: x set_gauges_get [OF names] split: option.splits)
qed simp

lemma healthy_get:
  "map_of (fold (\<lambda>ep. set_gauge ''vllm:healthy_pods_total'' (ep_url ep) 1) endpoints g) (name, s) =
     (if name = ''vllm:healthy_pods_total'' \<and> s \<in> ep_url ` set endpoints then Some 1 else map_of g (name, s))"
  by (induction endpoints arbitrary: g) (auto simp: set_gauge_def update_conv')

lemma request_value_names: "distinct (map fst (request_values st))"
  by (simp add: request_values_def)

lemma engine_value_names: "distinct (map fst (engine_values st))"
  by (simp add: engine_values_def)

lemma process_value_names: "distinct (map fst (process_values c m d))"
  by (simp add: process_values_def)

lemma stats_loop_urls: "stats_loop t urls m = (m', Inr stats) \<Longrightarrow> map fst stats = urls"
  by (induction urls arbitrary: m m' stats) (auto split: prod.splits sum.splits)

lemma request_stats_distinct: "get_request_stats t m = (m', Inr stats) \<Longrightarrow> distinct (map fst stats)"
  by (simp add: get_request_stats_def stats_loop_urls monitored_urls_def)

text \<open>The value of a gauge after a successful answer.\<close>

lemma metrics_get:
  assumes "metrics generate_latest md5 now time usage app g = (app', g', Inr text_out)"
    and stats: "get_request_stats time (ap_monitor app) = (m, Inr stats)"
    and eps: "discovery_get_endpoint_info md5 now (ap_discovery app) = Inr endpoints"
    and engines: "distinct (map fst (ap_engine_stats app))" and server: "s \<noteq> []"
  shows "map_of g' (name, s) =
    (if name = ''vllm:healthy_pods_total'' \<and> s \<in> ep_url ` set endpoints then Some 1
     else case map_option engine_values (map_of (ap_engine_stats app) s) of
            Some vs \<Rightarrow> (case map_of vs name of Some v \<Rightarrow> Some v | None \<Rightarrow>
              (case map_of stats s of None \<Rightarrow> map_of g (name, s)
               | Some st \<Rightarrow> (case map_of (request_values st) name of None \<Rightarrow> map_of g (name, s) | Some v \<Rightarrow> Some v)))
          | None \<Rightarrow> (case map_of stats s of None \<Rightarrow> map_of g (name, s)
               | Some st \<Rightarrow> (case map_of (request_values st) name of None \<Rightarrow> map_of g (name, s) | Some v \<Rightarrow> Some v)))"
proof -
  obtain c mm dd where u: "usage = (c, mm, dd)" by (cases usage)
  let ?g1 = "set_gauges [] (process_values c mm dd) g"
  let ?g2 = "fold (\<lambda>(server, st). set_gauges server (request_values st)) stats ?g1"
  let ?g3 = "fold (\<lambda>(server, st). set_gauges server (engine_values st)) (ap_engine_stats app) ?g2"
  have g': "g' = fold (\<lambda>ep. set_gauge ''vllm:healthy_pods_total'' (ep_url ep) 1) endpoints ?g3"
    using assms(1) by (simp add: metrics_def u stats eps Let_def)
  have g1: "map_of ?g1 (name, s) = map_of g (name, s)"
    using server by (simp add: set_gauges_get [OF process_value_names])
  have "map_of ?g2 (name, s) = (case map_of stats s of None \<Rightarrow> map_of g (name, s)
      | Some st \<Rightarrow> (case map_of (request_values st) name of None \<Rightarrow> map_of g (name, s) | Some v \<Rightarrow> Some v))"
    unfolding fold_gauges_get [OF request_value_names request_stats_distinct [OF stats]] g1 ..
  then show ?thesis
    unfolding g' healthy_get fold_gauges_get [OF engine_value_names engines]
    by (auto split: option.splits)
qed

lemma healthy_name:
  "map_of (engine_values es) ''vllm:healthy_pods_total'' = None"
  "map_of (request_values st) ''vllm:healthy_pods_total'' = None"
  by (simp_all add: engine_values_def request_values_def)

lemma value_names_disjoint: "fst ` set (engine_values es) \<inter> fst ` set (request_values st) = {}"
  by (simp add: engine_values_def request_values_def)

lemma value_names_apart:
  "map_of (request_values st) name = Some v \<Longrightarrow> map_of (engine_values es) name = None"
  using value_names_disjoint [of es st] map_of_SomeD [of "request_values st" name v]
  by (force simp: map_of_eq_None_iff disjoint_iff)

text \<open>The exported gauges are the statistics. After the metrics route answered, every gauge of the
  request statistics of a server has the value of the monitor's current statistics (the running
  requests are those in prefill and in decoding together), every gauge of the engine statistics the
  value scraped last, and every endpoint found by the discovery counts as healthy.\<close>

theorem metrics_export_the_statistics:
  assumes "metrics generate_latest md5 now time usage app g = (app', g', Inr text_out)"
    and "get_request_stats time (ap_monitor app) = (m, Inr stats)"
    and "discovery_get_endpoint_info md5 now (ap_discovery app) = Inr endpoints"
    and "distinct (map fst (ap_engine_stats app))" "server \<noteq> []"
    and "map_of stats server = Some st" "map_of (ap_engine_stats app) server = Some es"
    and "server \<in> ep_url ` set endpoints"
  shows "(\<forall>(name, v) \<in> set (request_values st). map_of g' (name, server) = Some v) \<and>
    (\<forall>(name, v) \<in> set (engine_values es). map_of g' (name, server) = Some v) \<and>
    map_of g' (''vllm:healthy_pods_total'', server) = Some 1"
proof (intro conjI ballI, clarify)
  note get = metrics_get [OF assms(1-5)]
  show "map_of g' (''vllm:healthy_pods_total'', server) = Some 1" using assms(8) by (simp add: get)
  fix name v assume "(name, v) \<in> set (request_values st)"
  then have "map_of (request_values st) name = Some v" by (simp add: request_value_names)
  moreover from this have "name \<noteq> ''vllm:healthy_pods_total''" by (auto simp: healthy_name)
  ultimately show "map_of g' (name, server) = Some v"
    using value_names_apart [of st name v es] assms(6,7) by (simp add: get)
next
  note get = metrics_get [OF assms(1-5)]
  fix x assume "x \<in> set (engine_values es)"
  moreover obtain name v where x: "x = (name, v)" by (cases x)
  ultimately have "map_of (engine_values es) name = Some v" by (simp add: engine_value_names)
  moreover from this have "name \<noteq> ''vllm:healthy_pods_total''" by (auto simp: healthy_name)
  ultimately show "case x of (name, v) \<Rightarrow> map_of g' (name, server) = Some v"
    using assms(7) by (simp add: get x)
qed

text \<open>An engine that is gone stays exported as healthy. Gauges are set and never removed: if a server
  was exported as healthy, the metrics route still exports it as healthy when the discovery does not
  list it any more, whatever the statistics hold.\<close>

theorem gone_engine_stays_healthy:
  assumes "metrics generate_latest md5 now time usage app g = (app', g', Inr text_out)"
    and "map_of g (''vllm:healthy_pods_total'', server) = Some 1"
    and "discovery_get_endpoint_info md5 now (ap_discovery app) = Inr endpoints"
    and "server \<notin> ep_url ` set endpoints" "server \<noteq> []" "distinct (map fst (ap_engine_stats app))"
  shows "map_of g' (''vllm:healthy_pods_total'', server) = Some 1"
proof -
  obtain m stats where stats: "get_request_stats time (ap_monitor app) = (m, Inr stats)"
    using assms(1) by (auto simp: metrics_def Let_def split: prod.splits sum.splits)
  show ?thesis
    unfolding metrics_get [OF assms(1) stats assms(3,6,5)]
    using assms(2,4) by (simp add: healthy_name split: option.split)
qed

section \<open>Sample states\<close>

definition listed_info :: model_info where
  "listed_info =
     \<lparr>mi_id = JStr ''m'', mi_object = JStr ''model'', mi_created = JInt 1, mi_owned_by = JStr ''vllm'',
      mi_root = JNull, mi_parent = JNull, mi_is_adapter = False\<rparr>"

definition listed_engine :: "string \<Rightarrow> endpoint_info" where
  "listed_engine url = sample_info\<lparr>ep_url := url, ep_Id := url, ep_model_info := Some [(JStr ''m'', listed_info)]\<rparr>"

definition serving :: "string list \<Rightarrow> discovery" where
  "serving urls = PodIP (sample_sd\<lparr>psd_available_engines := map (\<lambda>u. (u, listed_engine u)) urls\<rparr>)"

lemma serving_endpoints: "discovery_get_endpoint_info md5 now (serving urls) = Inr (map listed_engine urls)"
  by (simp add: serving_def discovery_get_endpoint_info_def pod_get_endpoint_info_def)

definition measured_app :: "string list \<Rightarrow> (string list, nat) app_state" where
  "measured_app urls =
     sample_app\<lparr>ap_monitor := on_new_request ''http://a'' ''r'' 1 sample_monitor,
       ap_engine_stats := [(''http://a'', EngineStats_default)], ap_discovery := serving urls\<rparr>"

lemma distinct_singleton:
  assumes "distinct xs" "set xs = {x}"
  shows "xs = [x]"
proof -
  have "length xs = 1" using assms distinct_card [of xs] by simp
  then show ?thesis using assms(2) by (cases xs) auto
qed

theorem models_listed_once_witness:
  "\<exists>cards. show_models Inr (\<lambda>s. s) 0 (serving [''http://a'', ''http://b'']) = Inr (model_list cards) \<and>
     map (\<lambda>c. map_of c ''id'') cards = [Some (JStr ''m'')]"
proof -
  have "\<forall>e \<in> set (map listed_engine [''http://a'', ''http://b'']). cards_made Inr (model_info_items e)"
    by (simp add: cards_made_def model_info_items_def listed_engine_def card_fields_def)
  from models_listed_once [OF serving_endpoints this, of "\<lambda>s. s" 0] obtain cards where
    cards: "show_models Inr (\<lambda>s. s) 0 (serving [''http://a'', ''http://b'']) = Inr (model_list cards)"
    "distinct (map (\<lambda>c. map_of c ''id'') cards)" "set (map (\<lambda>c. map_of c ''id'') cards) = {Some (JStr ''m'')}"
    by (elim exE conjE) (simp add: model_info_items_def listed_engine_def)
  from cards(2,3) have "map (\<lambda>c. map_of c ''id'') cards = [Some (JStr ''m'')]"
    by (rule distinct_singleton)
  with cards(1) show ?thesis by (intro exI conjI)
qed

lemma measured_monitor: "ap_monitor (measured_app urls) = on_new_request ''http://a'' ''r'' 1 sample_monitor"
  by (simp add: measured_app_def)

lemma measured_stats:
  obtains m stats st where "get_request_stats 2 (ap_monitor (measured_app urls)) = (m, Inr stats)"
    and "map_of stats ''http://a'' = Some st"
proof -
  let ?mon = "ap_monitor (measured_app urls)"
  have mon: "rm_sliding_window_size ?mon = 10" "''http://a'' \<in> set (monitored_urls ?mon)"
    unfolding measured_monitor by (simp_all add: on_new_request_def sample_monitor_def monitored_urls_def)
  obtain m r where mr: "get_request_stats 2 ?mon = (m, r)" by (cases "get_request_stats 2 ?mon")
  then obtain stats where stats: "r = Inr stats"
    using stats_loop_total [of ?mon 2 "monitored_urls ?mon"] mon(1) by (auto simp: get_request_stats_def)
  have "map fst stats = monitored_urls ?mon"
    by (rule stats_loop_urls [OF mr [unfolded stats get_request_stats_def]])
  then have "''http://a'' \<in> set (map fst stats)" using mon(2) by simp
  then have "map_of stats ''http://a'' \<noteq> None" by (simp add: map_of_eq_None_iff)
  then obtain st where "map_of stats ''http://a'' = Some st" by blast
  then show thesis by (rule that [OF mr [unfolded stats]])
qed

lemma measured_answer:
  assumes "get_request_stats 2 (ap_monitor (measured_app urls)) = (m, Inr stats)"
  shows "\<exists>app' g'. metrics (\<lambda>_. ''text'') (\<lambda>s. s) 0 2 (1, 1, 1) (measured_app urls) g = (app', g', Inr ''text'')"
  using assms serving_endpoints [of _ _ urls] by (simp add: metrics_def Let_def measured_app_def)

theorem metrics_export_the_statistics_witness:
  "let g = fst (snd (metrics (\<lambda>_. ''text'') (\<lambda>s. s) 0 2 (1, 1, 1) (measured_app [''http://a'']) []))
   in (\<exists>v. map_of g (''vllm:num_requests_running'', ''http://a'') = Some v) \<and>
      map_of g (''vllm:gpu_prefix_cache_hits_total'', ''http://a'') = Some 0 \<and>
      map_of g (''vllm:healthy_pods_total'', ''http://a'') = Some 1"
proof -
  let ?app = "measured_app [''http://a'']"
  obtain m stats st where st: "get_request_stats 2 (ap_monitor ?app) = (m, Inr stats)" "map_of stats ''http://a'' = Some st"
    by (rule measured_stats)
  from measured_answer [OF st(1), of "[]"] obtain app' g' where
    g': "metrics (\<lambda>_. ''text'') (\<lambda>s. s) 0 2 (1, 1, 1) ?app [] = (app', g', Inr ''text'')" by blast
  have eps: "discovery_get_endpoint_info (\<lambda>s. s) 0 (ap_discovery ?app) = Inr [listed_engine ''http://a'']"
    by (simp add: measured_app_def serving_endpoints)
  have es: "distinct (map fst (ap_engine_stats ?app))" "map_of (ap_engine_stats ?app) ''http://a'' = Some EngineStats_default"
    by (simp_all add: measured_app_def)
  have url: "''http://a'' \<in> ep_url ` set [listed_engine ''http://a'']" by (simp add: listed_engine_def)
  from metrics_export_the_statistics [OF g' st(1) eps es(1) _ st(2) es(2) url]
  show ?thesis by (simp add: g' request_values_def engine_values_def EngineStats_default_def)
qed

theorem gone_engine_stays_healthy_witness:
  "map_of (fst (snd (metrics (\<lambda>_. ''text'') (\<lambda>s. s) 0 2 (1, 1, 1) (measured_app [''http://b''])
      [((''vllm:healthy_pods_total'', ''http://a''), 1)]))) (''vllm:healthy_pods_total'', ''http://a'') = Some 1"
proof -
  let ?app = "measured_app [''http://b'']" and ?g = "[((''vllm:healthy_pods_total'', ''http://a''), 1)]"
  obtain m stats st where st: "get_request_stats 2 (ap_monitor ?app) = (m, Inr stats)" "map_of stats ''http://a'' = Some st"
    by (rule measured_stats)
  from measured_answer [OF st(1), of ?g] obtain app' g' where
    g': "metrics (\<lambda>_. ''text'') (\<lambda>s. s) 0 2 (1, 1, 1) ?app ?g = (app', g', Inr ''text'')" by blast
  have eps: "discovery_get_endpoint_info (\<lambda>s. s) 0 (ap_discovery ?app) = Inr [listed_engine ''http://b'']"
    by (simp add: measured_app_def serving_endpoints)
  have "map_of g' (''vllm:healthy_pods_total'', ''http://a'') = Some 1"
    by (rule gone_engine_stays_healthy [OF g' _ eps]) (simp_all add: measured_app_def listed_engine_def)
  with g' show ?thesis by simp
qed

end
