(* ===== verification/Jev_Decide.thy ===== *)
theory Jev_Decide
  imports Router_Config
begin

text \<open>
  The decision client \<^verbatim>\<open>src/skills/jev-decide/scripts/decide.py\<close>: it builds and validates a request,
  sends it with bounded retries, and appends a hash-chained event to an audit log before it prints
  the answer. The server, the files, the JSON text codec and SHA-256 are parameters. JSON numbers
  are finite here, so the test of the threshold for infinity has no case to refuse. The command
  line is given as parsed.
\<close>

section \<open>Errors\<close>

text \<open>A \<^verbatim>\<open>ClientError\<close> with its message and number of attempts, an \<^verbatim>\<open>OSError\<close>, or any other exception:
  the last is not caught by \<^verbatim>\<open>main\<close>.\<close>

datatype jev_error = ClientError string nat | OSError string | Escapes py_error

type_synonym 'a jev = "jev_error + 'a"

definition bindJ :: "'a jev \<Rightarrow> ('a \<Rightarrow> 'b jev) \<Rightarrow> 'b jev" where
  "bindJ m f = (case m of Inl e \<Rightarrow> Inl e | Inr x \<Rightarrow> f x)"

definition client_error :: "string \<Rightarrow> 'a jev" where
  "client_error message = Inl (ClientError message 0)"

definition VERSION :: string where
  "VERSION = ''0.3.0''"

definition FIELDS :: "string list" where
  "FIELDS =
     [''kind'', ''state'', ''question'', ''options'', ''strategy'', ''thinking'', ''threshold'', ''think_budget'',
      ''reasoning_effort'', ''chat_template_kwargs'', ''return_reasoning'', ''debug'', ''system2_only'']"

definition KINDS :: "string list" where
  "KINDS = [''choice'', ''noul'', ''score'']"

definition RETRYABLE_HTTP_STATUSES :: "int list" where
  "RETRYABLE_HTTP_STATUSES = [408, 425, 429, 500, 502, 503, 504]"

definition ZERO_HASH :: string where
  "ZERO_HASH = replicate 64 CHR ''0''"

section \<open>What the client gets from outside\<close>

text \<open>Decoding JSON from bytes: a value, no JSON with the decoder's message, or no text at all.\<close>

datatype decoded = Decoded json | Not_JSON string | Not_text

text \<open>One try to send a request: the body of an answer, an HTTP error with its body, a failed
  connection, or another exception of the HTTP library.\<close>

datatype try_outcome = Answer string | HTTPError int string | ConnectionFailed string | LibraryError py_error

record jev_request =
  jr_url :: string
  jr_method :: string
  jr_headers :: "(string \<times> string) list"
  jr_data :: "string option"

text \<open>\<^verbatim>\<open>float()\<close> of a text: not a number, an infinite value or NaN, or a finite number.\<close>

datatype float_text = Not_numeric | Not_finite | Finite rat

record jev_env =
  je_environ :: "(string \<times> string) list"
  je_send :: "jev_request \<Rightarrow> nat \<Rightarrow> try_outcome"
  je_loads :: "string \<Rightarrow> decoded"
  je_dumps :: "json \<Rightarrow> string"
  je_sha256 :: "string \<Rightarrow> string"
  je_float :: "string \<Rightarrow> float_text"
  je_resolve :: "string \<Rightarrow> string"
  je_read :: "string \<Rightarrow> string jev"
  je_utf8 :: "string \<Rightarrow> string option"
  je_stdin :: string
  je_argv :: "string list"
  je_uuid4 :: string
  je_home :: string
  je_parent :: "string \<Rightarrow> string"

definition sha256_json :: "jev_env \<Rightarrow> json option \<Rightarrow> json" where
  "sha256_json env value =
     (case value of None \<Rightarrow> JNull | Some v \<Rightarrow> JStr (je_sha256 env (je_dumps env v)))"

section \<open>The endpoint\<close>

text \<open>\<^verbatim>\<open>urllib.parse.urlsplit\<close>: leading blanks and embedded tabs and line ends are dropped, then the scheme,
  the network location, the path, the query and the fragment are cut off. The check of the address
  inside brackets is left out.\<close>

record url_parts =
  up_scheme :: string
  up_netloc :: string
  up_path :: string
  up_query :: string
  up_fragment :: string

definition clean_url :: "string \<Rightarrow> string" where
  "clean_url url =
     filter (\<lambda>c. (of_char c :: nat) \<notin> {9, 10, 13}) (dropWhile (\<lambda>c. (of_char c :: nat) \<le> 32) url)"

definition alpha :: "char \<Rightarrow> bool" where
  "alpha c \<longleftrightarrow> (let n = of_char c :: nat in 65 \<le> n \<and> n \<le> 90 \<or> 97 \<le> n \<and> n \<le> 122)"

definition scheme_char :: "char \<Rightarrow> bool" where
  "scheme_char c \<longleftrightarrow> alpha c \<or> digit_class c \<or> c \<in> {CHR ''+'', CHR ''-'', CHR ''.''}"

definition split_scheme :: "string \<Rightarrow> string \<times> string" where
  "split_scheme url =
     (let s = takeWhile (\<lambda>c. c \<noteq> CHR '':'') url
      in if CHR '':'' \<in> set url \<and> s \<noteq> [] \<and> alpha (hd s) \<and> list_all scheme_char s
         then (lower s, drop (length s + 1) url) else ([], url))"

definition split_netloc :: "string \<Rightarrow> string \<times> string" where
  "split_netloc url =
     (if starts_with url ''//''
      then let netloc = takeWhile (\<lambda>c. c \<notin> {CHR ''/'', CHR ''?'', CHR ''#''}) (drop 2 url)
           in (netloc, drop (length netloc + 2) url)
      else ([], url))"

definition cut_at :: "char \<Rightarrow> string \<Rightarrow> string \<times> string" where
  "cut_at c s = (takeWhile (\<lambda>d. d \<noteq> c) s, drop 1 (dropWhile (\<lambda>d. d \<noteq> c) s))"

definition urlsplit :: "string \<Rightarrow> url_parts jev" where
  "urlsplit url =
     (case split_scheme (clean_url url) of
        (scheme, url1) \<Rightarrow>
          (case split_netloc url1 of
             (netloc, url2) \<Rightarrow>
               if (CHR ''['' \<in> set netloc) \<noteq> (CHR '']'' \<in> set netloc) then Inl (Escapes (ValueError ''Invalid IPv6 URL''))
               else (case cut_at CHR ''#'' url2 of
                       (url3, fragment) \<Rightarrow>
                         (case cut_at CHR ''?'' url3 of
                            (path, query) \<Rightarrow>
                              Inr \<lparr>up_scheme = scheme, up_netloc = netloc, up_path = path, up_query = query,
                                   up_fragment = fragment\<rparr>))))"

text \<open>A user name or a password in front of the last at sign.\<close>

definition has_credentials :: "string \<Rightarrow> bool" where
  "has_credentials netloc \<longleftrightarrow>
     CHR ''@'' \<in> set netloc \<and>
     (let userinfo = rev (drop 1 (dropWhile (\<lambda>c. c \<noteq> CHR ''@'') (rev netloc)))
      in fst (cut_at CHR '':'' userinfo) \<noteq> [] \<or> snd (cut_at CHR '':'' userinfo) \<noteq> [])"

definition rstrip_slash :: "string \<Rightarrow> string" where
  "rstrip_slash s = rev (dropWhile (\<lambda>c. c = CHR ''/'') (rev s))"

definition base_path :: "string \<Rightarrow> string" where
  "base_path p =
     (let path = rstrip_slash p
      in if ends_with path ''/v1/decide'' then take (length path - length ''/v1/decide'') path
         else if ends_with path ''/v1'' then take (length path - length ''/v1'') path
         else path)"

definition urlunsplit :: "string \<Rightarrow> string \<Rightarrow> string \<Rightarrow> string" where
  "urlunsplit scheme netloc path =
     scheme @ ''://'' @ netloc @ (if path \<noteq> [] \<and> hd path \<noteq> CHR ''/'' then CHR ''/'' # path else path)"

definition endpoint :: "string \<Rightarrow> bool \<Rightarrow> string jev" where
  "endpoint base_url info =
     (if base_url = [] then client_error ''JEV_BASE_URL is required''
      else bindJ (urlsplit base_url) (\<lambda>parsed.
        if up_scheme parsed \<notin> {''http'', ''https''} \<or> up_netloc parsed = []
        then client_error ''JEV_BASE_URL must be an absolute http(s) URL''
        else if has_credentials (up_netloc parsed) \<or> up_query parsed \<noteq> [] \<or> up_fragment parsed \<noteq> []
        then client_error ''JEV_BASE_URL must not contain credentials, query, or fragment''
        else Inr (urlunsplit (up_scheme parsed) (up_netloc parsed)
               (base_path (up_path parsed) @ (if info then ''/v1/decide/info'' else ''/v1/decide'')))))"

section \<open>The request\<close>

definition load_json :: "jev_env \<Rightarrow> string \<Rightarrow> string \<Rightarrow> json jev" where
  "load_json env s source =
     (case je_loads env s of
        Decoded v \<Rightarrow> Inr v
      | Not_JSON msg \<Rightarrow> client_error (source @ '' is not valid JSON: '' @ msg)
      | Not_text \<Rightarrow> Inl (Escapes (ValueError ''decode'')))"

text \<open>The checks of \<^verbatim>\<open>validate\<close>. Testing an unhashable kind for membership in a set raises a \<^verbatim>\<open>TypeError\<close>.\<close>

definition check_kind :: "json \<Rightarrow> string jev" where
  "check_kind kind =
     (if \<not> hashable kind then Inl (Escapes (TypeError ''unhashable type''))
      else (case kind of
              JStr k \<Rightarrow> if k \<in> set KINDS then Inr k else client_error ''kind must be choice, noul, or score''
            | _ \<Rightarrow> client_error ''kind must be choice, noul, or score''))"

definition question_ok :: "json \<Rightarrow> bool" where
  "question_ok q \<longleftrightarrow> (case q of JStr s \<Rightarrow> strip s \<noteq> [] | _ \<Rightarrow> False)"

definition choices_ok :: "json \<Rightarrow> bool" where
  "choices_ok options \<longleftrightarrow>
     (case options of
        JList xs \<Rightarrow> 2 \<le> length xs \<and> length xs \<le> 256 \<and> list_all (\<lambda>x. case x of JStr s \<Rightarrow> s \<noteq> [] | _ \<Rightarrow> False) xs
      | _ \<Rightarrow> False)"

definition threshold_ok :: "json \<Rightarrow> bool" where
  "threshold_ok t \<longleftrightarrow> (case t of JNull \<Rightarrow> True | JInt _ \<Rightarrow> True | JFloat _ \<Rightarrow> True | _ \<Rightarrow> False)"

definition unknown_fields :: "jobj \<Rightarrow> string list" where
  "unknown_fields d = sort (remdups (filter (\<lambda>k. k \<notin> set FIELDS) (map fst d)))"

definition validate :: "json \<Rightarrow> jobj jev" where
  "validate body =
     (case body of
        JObj d \<Rightarrow>
          if unknown_fields d \<noteq> [] then client_error (''unknown request fields: '' @ join '', '' (unknown_fields d))
          else bindJ (check_kind (jget d ''kind'' JNull)) (\<lambda>kind.
            if \<not> question_ok (jget d ''question'' JNull) then client_error ''question must be a non-empty string''
            else if kind = ''choice'' \<and> \<not> choices_ok (jget d ''options'' JNull)
            then client_error ''choice requires 2-256 non-empty string options''
            else if kind \<noteq> ''choice'' \<and> jget d ''options'' JNull \<noteq> JNull
            then client_error ''options is valid only for choice''
            else if \<not> threshold_ok (jget d ''threshold'' JNull)
            then client_error ''threshold must be a finite number or null''
            else Inr d)
      | _ \<Rightarrow> client_error ''request must be a JSON object'')"

text \<open>The parsed command line.\<close>

record jev_args =
  ja_info :: bool
  ja_request_file :: "string option"
  ja_kind :: "string option"
  ja_question :: "string option"
  ja_state_json :: "string option"
  ja_state_file :: "string option"
  ja_evidence_file :: "string list"
  ja_options :: "string list option"
  ja_strategy :: "string option"
  ja_thinking :: "string option"

definition parser_accepts :: "jev_args \<Rightarrow> bool" where
  "parser_accepts a \<longleftrightarrow>
     (case ja_kind a of None \<Rightarrow> True | Some k \<Rightarrow> k \<in> set KINDS) \<and>
     (case ja_strategy a of None \<Rightarrow> True | Some s \<Rightarrow> s \<in> set [''auto'', ''single'', ''tournament'', ''permute'']) \<and>
     (case ja_thinking a of None \<Rightarrow> True | Some t \<Rightarrow> t \<in> set [''default'', ''off'', ''auto'', ''on''])"

definition nonempty :: "string option \<Rightarrow> bool" where
  "nonempty s \<longleftrightarrow> (case s of None \<Rightarrow> False | Some t \<Rightarrow> t \<noteq> [])"

record manifest =
  mf_role :: string
  mf_path :: string
  mf_size_bytes :: nat
  mf_sha256 :: string

definition manifest_json :: "manifest \<Rightarrow> json" where
  "manifest_json m =
     JObj [(''role'', JStr (mf_role m)), (''path'', JStr (mf_path m)), (''size_bytes'', JInt (int (mf_size_bytes m))),
           (''sha256'', JStr (mf_sha256 m))]"

definition jev_read_file :: "jev_env \<Rightarrow> string \<Rightarrow> string \<Rightarrow> (string \<times> manifest) jev" where
  "jev_read_file env path_value label =
     (let path = je_resolve env path_value in
      case je_read env path of
        Inl (OSError e) \<Rightarrow> client_error (''cannot read '' @ label @ '': '' @ e)
      | Inl e \<Rightarrow> Inl e
      | Inr data \<Rightarrow>
          Inr (data, \<lparr>mf_role = label, mf_path = path, mf_size_bytes = length data, mf_sha256 = je_sha256 env data\<rparr>))"

definition decode_file :: "jev_env \<Rightarrow> string \<Rightarrow> string \<Rightarrow> string jev" where
  "decode_file env raw what =
     (case je_utf8 env raw of None \<Rightarrow> client_error (what @ '' must be UTF-8'') | Some s \<Rightarrow> Inr s)"

definition request_from_file :: "jev_env \<Rightarrow> string \<Rightarrow> (jobj \<times> manifest list) jev" where
  "request_from_file env file =
     (if file = ''-''
      then bindJ (load_json env (je_stdin env) ''request file'') (\<lambda>v. bindJ (validate v) (\<lambda>d. Inr (d, [])))
      else bindJ (jev_read_file env file ''request_file'') (\<lambda>(raw, entry).
           bindJ (decode_file env raw ''request file'') (\<lambda>s.
           bindJ (load_json env s ''request file'') (\<lambda>v.
           bindJ (validate v) (\<lambda>d. Inr (d, [entry]))))))"

text \<open>The state from the command line: at most one of the two ways.\<close>

definition request_state :: "jev_env \<Rightarrow> jev_args \<Rightarrow> (jobj \<times> manifest list) jev" where
  "request_state env a =
     (case (ja_state_json a, ja_state_file a) of
        (Some s, _) \<Rightarrow> bindJ (load_json env s ''--state-json'') (\<lambda>v. Inr ([(''state'', v)], []))
      | (None, Some file) \<Rightarrow>
          bindJ (jev_read_file env file ''state_file'') (\<lambda>(raw, entry).
          bindJ (decode_file env raw ''state file'') (\<lambda>s.
          bindJ (load_json env s ''--state-file'') (\<lambda>v. Inr ([(''state'', v)], [entry]))))
      | (None, None) \<Rightarrow> Inr ([], []))"

definition given_fields :: "jev_args \<Rightarrow> jobj" where
  "given_fields a =
     (case ja_options a of None \<Rightarrow> [] | Some xs \<Rightarrow> [(''options'', JList (map JStr xs))]) @
     (case ja_strategy a of None \<Rightarrow> [] | Some s \<Rightarrow> [(''strategy'', JStr s)]) @
     (case ja_thinking a of None \<Rightarrow> [] | Some t \<Rightarrow> [(''thinking'', JStr t)])"

definition request_from_args :: "jev_env \<Rightarrow> jev_args \<Rightarrow> (jobj \<times> manifest list) jev" where
  "request_from_args env a =
     (case (ja_kind a, ja_question a) of
        (Some kind, Some question) \<Rightarrow>
          if kind = [] then client_error ''--kind and --question are required''
          else if ja_state_json a \<noteq> None \<and> ja_state_file a \<noteq> None
          then client_error ''use only one of --state-json and --state-file''
          else bindJ (request_state env a) (\<lambda>(state, evidence).
               bindJ (validate (JObj ([(''kind'', JStr kind), (''question'', JStr question)] @ state @ given_fields a)))
                 (\<lambda>d. Inr (d, evidence)))
      | _ \<Rightarrow> client_error ''--kind and --question are required'')"

fun bind_evidence :: "jev_env \<Rightarrow> string list \<Rightarrow> manifest list \<Rightarrow> manifest list jev" where
  "bind_evidence env [] evidence = Inr evidence"
| "bind_evidence env (file # files) evidence =
     bindJ (jev_read_file env file ''evidence_file'') (\<lambda>(_, entry).
       bind_evidence env files
         (if mf_path entry \<in> mf_path ` set evidence then evidence else evidence @ [entry]))"

definition build_body :: "jev_env \<Rightarrow> jev_args \<Rightarrow> (jobj \<times> manifest list) jev" where
  "build_body env a =
     bindJ (case ja_request_file a of
              Some file \<Rightarrow> if file \<noteq> [] then request_from_file env file else request_from_args env a
            | None \<Rightarrow> request_from_args env a) (\<lambda>(body, evidence).
       bindJ (bind_evidence env (ja_evidence_file a) evidence) (\<lambda>evidence'. Inr (body, evidence')))"

section \<open>Sending\<close>

definition getenv :: "jev_env \<Rightarrow> string \<Rightarrow> string option" where
  "getenv env name = map_of (je_environ env) name"

definition env_text :: "jev_env \<Rightarrow> string \<Rightarrow> string \<Rightarrow> string" where
  "env_text env name dflt = (case getenv env name of None \<Rightarrow> dflt | Some s \<Rightarrow> s)"

text \<open>A bound with its text.\<close>

type_synonym bound = "rat \<times> string"

definition in_range :: "string \<Rightarrow> bound \<Rightarrow> bound \<Rightarrow> rat \<Rightarrow> rat jev" where
  "in_range name minimum maximum v =
     (if fst minimum \<le> v \<and> v \<le> fst maximum then Inr v
      else client_error (name @ '' must be between '' @ snd minimum @ '' and '' @ snd maximum))"

definition env_number :: "jev_env \<Rightarrow> string \<Rightarrow> string \<Rightarrow> bound \<Rightarrow> bound \<Rightarrow> rat jev" where
  "env_number env name dflt minimum maximum =
     (case je_float env (env_text env name dflt) of
        Not_numeric \<Rightarrow> client_error (name @ '' must be numeric'')
      | Not_finite \<Rightarrow> client_error (name @ '' must be finite'')
      | Finite v \<Rightarrow> in_range name minimum maximum v)"

definition env_integer :: "jev_env \<Rightarrow> string \<Rightarrow> string \<Rightarrow> bound \<Rightarrow> bound \<Rightarrow> int jev" where
  "env_integer env name dflt minimum maximum =
     (case py_int (env_text env name dflt) of
        None \<Rightarrow> client_error (name @ '' must be numeric'')
      | Some i \<Rightarrow> bindJ (in_range name minimum maximum (of_int i)) (\<lambda>_. Inr i))"

definition request_headers :: "jev_env \<Rightarrow> bool \<Rightarrow> (string \<times> string) list" where
  "request_headers env has_body =
     [(''Accept'', ''application/json'')] @
     (case getenv env ''JEV_API_KEY'' of
        None \<Rightarrow> [] | Some key \<Rightarrow> if key = [] then [] else [(''Authorization'', ''Bearer '' @ key)]) @
     (if has_body then [(''Content-Type'', ''application/json'')] else [])"

definition answer_object :: "jev_env \<Rightarrow> string \<Rightarrow> nat \<Rightarrow> (jobj \<times> nat) jev" where
  "answer_object env raw attempts =
     (case je_loads env raw of
        Decoded (JObj result) \<Rightarrow> Inr (result, attempts)
      | Decoded _ \<Rightarrow> Inl (ClientError ''upstream response must be a JSON object'' attempts)
      | Not_JSON _ \<Rightarrow> Inl (ClientError ''upstream returned invalid JSON'' attempts)
      | Not_text \<Rightarrow> Inl (Escapes (ValueError ''decode'')))"

text \<open>The loop: \<open>left\<close> is the number of retries left at retry index \<open>i\<close>; the result has the times slept.\<close>

definition after_sleep :: "rat \<Rightarrow> nat \<Rightarrow> rat list \<times> 'a \<Rightarrow> rat list \<times> 'a" where
  "after_sleep backoff i r = ((if backoff \<noteq> 0 then [min (backoff * 2 ^ i) 10] else []) @ fst r, snd r)"

definition http_error :: "int \<Rightarrow> string \<Rightarrow> nat \<Rightarrow> 'a jev" where
  "http_error code detail attempts =
     Inl (ClientError (''upstream HTTP '' @ show_int code @ '': '' @ take 2000 detail) attempts)"

fun send_loop :: "jev_env \<Rightarrow> jev_request \<Rightarrow> rat \<Rightarrow> nat \<Rightarrow> nat \<Rightarrow> rat list \<times> (jobj \<times> nat) jev" where
  "send_loop env req backoff i left =
     (case je_send env req i of
        Answer raw \<Rightarrow> ([], answer_object env raw (Suc i))
      | HTTPError code detail \<Rightarrow>
          (case left of
             0 \<Rightarrow> ([], http_error code detail (Suc i))
           | Suc n \<Rightarrow>
               if code \<notin> set RETRYABLE_HTTP_STATUSES then ([], http_error code detail (Suc i))
               else after_sleep backoff i (send_loop env req backoff (Suc i) n))
      | ConnectionFailed reason \<Rightarrow>
          (case left of
             0 \<Rightarrow> ([], Inl (ClientError (''upstream connection failed: '' @ reason) (Suc i)))
           | Suc n \<Rightarrow> after_sleep backoff i (send_loop env req backoff (Suc i) n))
      | LibraryError e \<Rightarrow> ([], Inl (Escapes e)))"

declare send_loop.simps [simp del]

definition jev_request_json :: "jev_env \<Rightarrow> string \<Rightarrow> string \<Rightarrow> jobj option \<Rightarrow> rat list \<times> (jobj \<times> nat) jev" where
  "jev_request_json env url method body =
     (case bindJ (env_number env ''JEV_TIMEOUT_SECONDS'' ''60'' (1 / 1000, ''0.001'') (3600, ''3600'')) (\<lambda>timeout.
           bindJ (env_integer env ''JEV_MAX_RETRIES'' ''2'' (0, ''0'') (5, ''5'')) (\<lambda>max_retries.
           bindJ (env_number env ''JEV_RETRY_BACKOFF_SECONDS'' ''0.25'' (0, ''0'') (10, ''10'')) (\<lambda>backoff.
             Inr (max_retries, backoff)))) of
        Inl e \<Rightarrow> ([], Inl e)
      | Inr (max_retries, backoff) \<Rightarrow>
          send_loop env \<lparr>jr_url = url, jr_method = method, jr_headers = request_headers env (body \<noteq> None),
                         jr_data = map_option (\<lambda>d. je_dumps env (JObj d)) body\<rparr> backoff 0 (nat max_retries))"

section \<open>The audit log\<close>

text \<open>The directory with its permission bits if it exists, and the log file.\<close>

datatype audit_file = No_file | Regular string | Irregular

record audit_store =
  as_dir :: "nat option"
  as_file :: audit_file

text \<open>How the input and output of one call end: well, with an \<^verbatim>\<open>OSError\<close> before anything is written, or
  with one after the line was written. The permission bits of the file itself are left out.\<close>

datatype io_outcome = Io_ok | Io_fails_before string | Io_fails_after string

definition audit_log_path :: "jev_env \<Rightarrow> string" where
  "audit_log_path env =
     (if nonempty (getenv env ''JEV_AUDIT_LOG'') then je_resolve env (env_text env ''JEV_AUDIT_LOG'' [])
      else let root = (if nonempty (getenv env ''XDG_STATE_HOME'') then env_text env ''XDG_STATE_HOME'' []
                       else je_home env @ ''/.local/state'')
           in je_resolve env (root @ ''/jev-decide/audit.jsonl''))"

definition newline :: char where
  "newline = CHR 0x0A"

text \<open>\<^verbatim>\<open>line.strip()\<close> of bytes, which keeps the separators 28 to 31 that it drops from a text.\<close>

definition blank_bytes :: "string \<Rightarrow> bool" where
  "blank_bytes l \<longleftrightarrow> list_all (\<lambda>c. (of_char c :: nat) \<in> {9, 10, 11, 12, 13, 32}) l"

definition last_line :: "string \<Rightarrow> string option" where
  "last_line content =
     (let ls = filter (\<lambda>l. \<not> blank_bytes l) (split_on newline content) in if ls = [] then None else Some (last ls))"

definition previous_event_hash :: "jev_env \<Rightarrow> string \<Rightarrow> json jev" where
  "previous_event_hash env content =
     (case last_line content of
        None \<Rightarrow> Inr (JStr ZERO_HASH)
      | Some line \<Rightarrow>
          (case je_loads env line of
             Decoded (JObj previous) \<Rightarrow>
               (case map_of previous ''event_hash'' of
                  Some h \<Rightarrow> Inr h
                | None \<Rightarrow> client_error (''audit log is malformed and was not appended: '' @ audit_log_path env))
           | Decoded _ \<Rightarrow> Inl (Escapes (TypeError ''indices must be integers''))
           | _ \<Rightarrow> client_error (''audit log is malformed and was not appended: '' @ audit_log_path env)))"

definition chain_event :: "jev_env \<Rightarrow> jobj \<Rightarrow> json \<Rightarrow> jobj" where
  "chain_event env event_record previous_hash =
     (let event = AList.update ''previous_event_hash'' previous_hash event_record
      in AList.update ''event_hash'' (JStr (je_sha256 env (je_dumps env (JObj event)))) event)"

definition dir_private :: "nat \<Rightarrow> bool" where
  "dir_private mode \<longleftrightarrow> mode mod 64 = 0"

definition append_audit :: "jev_env \<Rightarrow> io_outcome \<Rightarrow> jobj \<Rightarrow> audit_store \<Rightarrow> audit_store \<times> jobj jev" where
  "append_audit env io event_record st =
     (let failed = (\<lambda>e. client_error (''cannot write audit log '' @ audit_log_path env @ '': '' @ e)) in
      case io of
        Io_fails_before e \<Rightarrow> (st, failed e)
      | _ \<Rightarrow>
          if (case as_dir st of None \<Rightarrow> False | Some mode \<Rightarrow> \<not> dir_private mode)
          then (st, client_error (''audit directory permits group/other access: '' @ je_parent env (audit_log_path env)))
          else let st1 = st\<lparr>as_dir := Some (case as_dir st of None \<Rightarrow> 448 | Some mode \<Rightarrow> mode)\<rparr> in
               (case as_file st of
                  Irregular \<Rightarrow> (st1, client_error (''audit log is not a regular file: '' @ audit_log_path env))
                | file \<Rightarrow>
                    let content = (case file of Regular c \<Rightarrow> c | _ \<Rightarrow> []) in
                    (case previous_event_hash env content of
                       Inl e \<Rightarrow> (st1\<lparr>as_file := Regular content\<rparr>, Inl e)
                     | Inr previous_hash \<Rightarrow>
                         let event = chain_event env event_record previous_hash;
                             st2 = st1\<lparr>as_file := Regular (content @ je_dumps env (JObj event) @ [newline])\<rparr>
                         in (st2, case io of Io_fails_after e \<Rightarrow> failed e | _ \<Rightarrow> Inr event))))"

definition public_metadata :: "jev_env \<Rightarrow> json \<Rightarrow> json \<Rightarrow> nat \<Rightarrow> json" where
  "public_metadata env request_hash response_hash attempts =
     JObj [(''client_version'', JStr VERSION), (''audit_id'', JStr (je_uuid4 env)), (''audit_log'', JStr (audit_log_path env)),
           (''request_sha256'', request_hash), (''response_sha256'', response_hash), (''attempts'', JInt (int attempts)),
           (''decision_authority'', JStr ''advisory_only''),
           (''final_authorization'', JStr ''external_approval_or_waiver_required'')]"

definition opt_object :: "jobj option \<Rightarrow> json" where
  "opt_object d = (case d of None \<Rightarrow> JNull | Some o' \<Rightarrow> JObj o')"

text \<open>What \<^verbatim>\<open>main\<close> knows of the call so far.\<close>

record jev_call =
  jc_operation :: string
  jc_url :: "string option"
  jc_request :: "jobj option"
  jc_response :: "jobj option"
  jc_evidence :: "manifest list"
  jc_attempts :: nat

definition opt_str :: "string option \<Rightarrow> json" where
  "opt_str s = (case s of None \<Rightarrow> JNull | Some t \<Rightarrow> JStr t)"

definition audit_record :: "jev_env \<Rightarrow> string \<Rightarrow> jev_call \<Rightarrow> string option \<Rightarrow> jobj" where
  "audit_record env utc_now c error =
     [(''schema_version'', JInt 1), (''client_version'', JStr VERSION), (''timestamp'', JStr utc_now),
      (''audit_id'', JStr (je_uuid4 env)), (''operation'', JStr (jc_operation c)), (''endpoint'', opt_str (jc_url c)),
      (''argv'', JList (map JStr (je_argv env))), (''request'', opt_object (jc_request c)),
      (''request_sha256'', sha256_json env (map_option JObj (jc_request c))),
      (''response'', opt_object (jc_response c)),
      (''response_sha256'', sha256_json env (map_option JObj (jc_response c))),
      (''evidence'', JList (map manifest_json (jc_evidence c))), (''attempts'', JInt (int (jc_attempts c))),
      (''outcome'', JStr (if nonempty error then ''error'' else ''success'')), (''error'', opt_str error),
      (''decision_authority'', JStr ''advisory_only''),
      (''final_authorization'', JStr ''external_approval_or_waiver_required'')]"

section \<open>The program\<close>

text \<open>The part of \<^verbatim>\<open>main\<close> up to the answer: what is known at its end, also when it fails.\<close>

definition decision_inputs :: "jev_args \<Rightarrow> bool" where
  "decision_inputs a \<longleftrightarrow>
     nonempty (ja_request_file a) \<or> nonempty (ja_kind a) \<or> nonempty (ja_question a) \<or>
     nonempty (ja_state_json a) \<or> nonempty (ja_state_file a) \<or> ja_evidence_file a \<noteq> []"

definition ask_server :: "jev_env \<Rightarrow> jev_call \<Rightarrow> string \<Rightarrow> string \<Rightarrow> rat list \<times> jev_call \<times> unit jev" where
  "ask_server env c url method =
     (case jev_request_json env url method (jc_request c) of
        (slept, Inl e) \<Rightarrow> (slept, c\<lparr>jc_url := Some url\<rparr>, Inl e)
      | (slept, Inr (response, attempts)) \<Rightarrow>
          (slept, c\<lparr>jc_url := Some url, jc_response := Some response, jc_attempts := attempts\<rparr>, Inr ()))"

definition perform :: "jev_env \<Rightarrow> jev_args \<Rightarrow> rat list \<times> jev_call \<times> unit jev" where
  "perform env a =
     (let base = env_text env ''JEV_BASE_URL'' [];
          c = \<lparr>jc_operation = (if ja_info a then ''info'' else ''decide''), jc_url = None, jc_request = None,
               jc_response = None, jc_evidence = [], jc_attempts = 0\<rparr>
      in if ja_info a then
           if decision_inputs a then ([], c, client_error ''--info cannot be combined with decision inputs'')
           else (case endpoint base True of
                   Inl e \<Rightarrow> ([], c, Inl e)
                 | Inr url \<Rightarrow> ask_server env c url ''GET'')
         else (case build_body env a of
                 Inl e \<Rightarrow> ([], c, Inl e)
               | Inr (body, evidence) \<Rightarrow>
                   let c1 = c\<lparr>jc_request := Some body, jc_evidence := evidence\<rparr> in
                   (case endpoint base False of
                      Inl e \<Rightarrow> ([], c1, Inl e)
                    | Inr url \<Rightarrow> ask_server env c1 url ''POST'')))"

text \<open>The end of the process: exit code and the JSON printed, or an exception that nothing catches.\<close>

datatype jev_exit = Printed jobj | Failed jobj | Crashed py_error

definition record_hash :: "jobj \<Rightarrow> string \<Rightarrow> json" where
  "record_hash event_record k = jget event_record k JNull"

text \<open>The handler of \<^verbatim>\<open>ClientError\<close> and \<^verbatim>\<open>OSError\<close>.\<close>

definition report_error ::
  "jev_env \<Rightarrow> io_outcome \<Rightarrow> string \<Rightarrow> jev_call \<Rightarrow> jev_error \<Rightarrow> audit_store \<Rightarrow> audit_store \<times> jev_exit" where
  "report_error env io utc_now c e st =
     (case e of
        Escapes x \<Rightarrow> (st, Crashed x)
      | _ \<Rightarrow>
          let original_error = (case e of ClientError m _ \<Rightarrow> m | OSError m \<Rightarrow> m | Escapes _ \<Rightarrow> []);
              c1 = c\<lparr>jc_attempts := max (jc_attempts c) (case e of ClientError _ n \<Rightarrow> n | _ \<Rightarrow> 0)\<rparr>;
              event_record = audit_record env utc_now c1 (Some original_error);
              payload = (\<lambda>message. [(''error'', JStr message),
                (''_jev_client'', public_metadata env (record_hash event_record ''request_sha256'')
                   (record_hash event_record ''response_sha256'') (jc_attempts c1))])
          in (case append_audit env io event_record st of
                (st', Inr _) \<Rightarrow> (st', Failed (payload original_error))
              | (st', Inl (ClientError m _)) \<Rightarrow>
                  (st', Failed (payload (original_error @ ''; audit logging also failed: '' @ m)))
              | (st', Inl (OSError m)) \<Rightarrow> (st', Crashed (OtherException m))
              | (st', Inl (Escapes x)) \<Rightarrow> (st', Crashed x)))"

text \<open>The whole program. \<open>io1\<close> and \<open>io2\<close> are the ends of the two possible writes to the log, \<open>out\<close> the
  error of writing to the standard output, if any.\<close>

definition jev_main ::
  "jev_env \<Rightarrow> io_outcome \<Rightarrow> io_outcome \<Rightarrow> string option \<Rightarrow> string \<times> string \<Rightarrow> jev_args \<Rightarrow> audit_store \<Rightarrow>
   audit_store \<times> jev_exit" where
  "jev_main env io1 io2 out stamps a st =
     (case perform env a of
        (_, c, Inl e) \<Rightarrow> report_error env io1 (fst stamps) c e st
      | (_, c, Inr _) \<Rightarrow>
          let event_record = audit_record env (fst stamps) c None in
          (case append_audit env io1 event_record st of
             (st', Inl e) \<Rightarrow> report_error env io2 (snd stamps) c e st'
           | (st', Inr _) \<Rightarrow>
               (case out of
                  Some e \<Rightarrow> report_error env io2 (snd stamps) c (OSError e) st'
                | None \<Rightarrow>
                    (st', Printed (AList.update ''_jev_client''
                       (public_metadata env (record_hash event_record ''request_sha256'') (record_hash event_record ''response_sha256'')
                          (jc_attempts c))
                       (case jc_response c of None \<Rightarrow> [] | Some r \<Rightarrow> r))))))"

section \<open>The chain of events\<close>

lemma bindJ_simps [simp, result_simps]: "bindJ (Inl e) f = Inl e" "bindJ (Inr x) f = f x"
  by (simp_all add: bindJ_def)

lemma bindJ_eq_Inr [result_simps]: "bindJ m f = Inr y \<longleftrightarrow> (\<exists>x. m = Inr x \<and> f x = Inr y)"
  by (cases m) auto

definition log_text :: "jev_env \<Rightarrow> jobj list \<Rightarrow> string" where
  "log_text env events = concat (map (\<lambda>e. je_dumps env (JObj e) @ [newline]) events)"

text \<open>What an auditor checks of an event: it names the hash of the event before it, and its own hash
  is the hash of the event without it.\<close>

definition event_ok :: "jev_env \<Rightarrow> json \<Rightarrow> jobj \<Rightarrow> bool" where
  "event_ok env previous e \<longleftrightarrow>
     map_of e ''previous_event_hash'' = Some previous \<and>
     map_of e ''event_hash'' = Some (JStr (je_sha256 env (je_dumps env (JObj (AList.delete ''event_hash'' e)))))"

fun chained :: "jev_env \<Rightarrow> json \<Rightarrow> jobj list \<Rightarrow> bool" where
  "chained env previous [] = True"
| "chained env previous (e # es) = (event_ok env previous e \<and> chained env (jget e ''event_hash'' JNull) es)"

definition last_hash :: "json \<Rightarrow> jobj list \<Rightarrow> json" where
  "last_hash previous events = (if events = [] then previous else jget (last events) ''event_hash'' JNull)"

lemma chained_append:
  "chained env previous (events @ [e]) \<longleftrightarrow> chained env previous events \<and> event_ok env (last_hash previous events) e"
  by (induction events arbitrary: previous) (auto simp: last_hash_def)

text \<open>A line of the log that can be read back.\<close>

definition readable :: "jev_env \<Rightarrow> jobj \<Rightarrow> bool" where
  "readable env e \<longleftrightarrow>
     je_loads env (je_dumps env (JObj e)) = Decoded (JObj e) \<and>
     newline \<notin> set (je_dumps env (JObj e)) \<and> \<not> blank_bytes (je_dumps env (JObj e))"

lemma blank_bytes_Nil [simp]: "blank_bytes []"
  by (simp add: blank_bytes_def)

lemma log_lines:
  assumes "newline \<notin> set d"
  shows "\<exists>ls. split_on newline (log_text env events @ d @ [newline]) = ls @ [d, []]"
proof (cases events rule: rev_cases)
  case Nil
  then show ?thesis using assms by (simp add: log_text_def split_on_append_sep)
next
  case (snoc es e)
  have "log_text env events @ d @ [newline] = (log_text env es @ je_dumps env (JObj e)) @ newline # (d @ newline # [])"
    by (simp add: snoc log_text_def)
  then show ?thesis using assms by (simp only: split_on_append) (simp add: split_on_no_sep)
qed

lemma last_line_log:
  assumes "readable env e"
  shows "last_line (log_text env (events @ [e])) = Some (je_dumps env (JObj e))"
proof -
  obtain ls where "split_on newline (log_text env events @ je_dumps env (JObj e) @ [newline]) = ls @ [je_dumps env (JObj e), []]"
    using assms log_lines by (meson readable_def)
  moreover have "log_text env (events @ [e]) = log_text env events @ je_dumps env (JObj e) @ [newline]"
    by (simp add: log_text_def)
  ultimately show ?thesis using assms by (simp add: last_line_def readable_def Let_def)
qed

lemma previous_hash_of_log:
  assumes "chained env (JStr ZERO_HASH) events" "events \<noteq> [] \<Longrightarrow> readable env (last events)"
  shows "previous_event_hash env (log_text env events) = Inr (last_hash (JStr ZERO_HASH) events)"
proof (cases events rule: rev_cases)
  case Nil
  then show ?thesis by (simp add: previous_event_hash_def log_text_def last_line_def last_hash_def)
next
  case (snoc es e)
  then have r: "readable env e" and "event_ok env (last_hash (JStr ZERO_HASH) es) e"
    using assms by (auto simp: chained_append)
  then obtain h where "map_of e ''event_hash'' = Some h" by (auto simp: event_ok_def)
  then show ?thesis
    using r by (simp add: snoc previous_event_hash_def last_line_log readable_def last_hash_def jget_def)
qed

lemma chain_event_ok:
  assumes "''event_hash'' \<notin> fst ` set event_record"
  shows "event_ok env previous (chain_event env event_record previous)"
proof -
  let ?ev = "AList.update ''previous_event_hash'' previous event_record"
  have "''event_hash'' \<notin> fst ` set ?ev" using assms by (simp add: dom_update)
  then have "AList.delete ''event_hash'' (chain_event env event_record previous) = ?ev"
    by (simp add: chain_event_def Let_def delete_update_same delete_id)
  then show ?thesis by (simp add: event_ok_def) (simp add: chain_event_def Let_def update_conv')
qed

lemma chain_event_get:
  "k \<noteq> ''event_hash'' \<Longrightarrow> k \<noteq> ''previous_event_hash'' \<Longrightarrow> map_of (chain_event env event_record p) k = map_of event_record k"
  by (simp add: chain_event_def Let_def update_conv')

definition audit_content :: "audit_store \<Rightarrow> string" where
  "audit_content st = (case as_file st of Regular c \<Rightarrow> c | _ \<Rightarrow> [])"

text \<open>What a successful call of \<open>append_audit\<close> does to a chained log.\<close>

lemma append_audit_extends:
  assumes call: "append_audit env io event_record st = (st', Inr event)"
    and log: "audit_content st = log_text env events" "chained env (JStr ZERO_HASH) events"
      "events \<noteq> [] \<Longrightarrow> readable env (last events)"
    and "''event_hash'' \<notin> fst ` set event_record"
  shows "event = chain_event env event_record (last_hash (JStr ZERO_HASH) events) \<and>
    as_file st' = Regular (log_text env (events @ [event])) \<and>
    chained env (JStr ZERO_HASH) (events @ [event])"
proof -
  have prev: "previous_event_hash env (audit_content st) = Inr (last_hash (JStr ZERO_HASH) events)"
    using previous_hash_of_log [OF log(2,3)] log(1) by simp
  have "event = chain_event env event_record (last_hash (JStr ZERO_HASH) events) \<and>
      as_file st' = Regular (audit_content st @ je_dumps env (JObj event) @ [newline])"
    using call prev
    by (cases "as_file st"; cases io; cases "as_dir st")
       (auto simp: append_audit_def audit_content_def Let_def client_error_def split: if_splits)
  moreover from this have "chained env (JStr ZERO_HASH) (events @ [event])"
    using log(2) chain_event_ok [OF assms(5)] by (simp add: chained_append)
  ultimately show ?thesis by (simp add: log(1) log_text_def)
qed

text \<open>C20: the audit log is a hash chain. Appending an event to a chained log gives a chained log: the
  lines are the old ones and the new one, the new event names the hash of the last event before it
  (or 64 zeros), and its own hash is the hash of the event without it; the fields of the record are
  kept.\<close>

theorem append_extends_chain:
  assumes "append_audit env io event_record st = (st', Inr event)"
    and "audit_content st = log_text env events" "chained env (JStr ZERO_HASH) events"
    and "events = [] \<or> readable env (last events)"
    and "''event_hash'' \<notin> fst ` set event_record" "''previous_event_hash'' \<notin> fst ` set event_record"
  shows "audit_content st' = log_text env (events @ [event]) \<and> chained env (JStr ZERO_HASH) (events @ [event]) \<and>
    list_all (\<lambda>(k, v). map_of event k = map_of event_record k) event_record"
proof -
  note ext = append_audit_extends [OF assms(1-3) _ assms(5)]
  have "map_of event k = map_of event_record k" if "(k, v) \<in> set event_record" for k v
  proof -
    have "k \<noteq> ''event_hash''" "k \<noteq> ''previous_event_hash''" using assms(5,6) that by force+
    then show ?thesis using ext assms(4) chain_event_get by blast
  qed
  then show ?thesis using ext assms(4) by (auto simp: audit_content_def list_all_iff)
qed

lemma report_error_prints_nothing: "report_error env io t c e s \<noteq> (s', Printed x)"
  by (auto simp: report_error_def Let_def split: jev_error.splits prod.splits sum.splits)

lemma perform_response: "perform env a = (slept, c, Inr ()) \<Longrightarrow> \<exists>response. jc_response c = Some response"
  by (auto simp: perform_def ask_server_def Let_def client_error_def split: if_splits sum.splits prod.splits)


section \<open>Retries\<close>

definition retryable :: "try_outcome \<Rightarrow> bool" where
  "retryable t =
     (case t of HTTPError code _ \<Rightarrow> code \<in> set RETRYABLE_HTTP_STATUSES | ConnectionFailed _ \<Rightarrow> True | _ \<Rightarrow> False)"

text \<open>The number of tries that a result reports.\<close>

definition tries_of :: "(jobj \<times> nat) jev \<Rightarrow> nat \<Rightarrow> bool" where
  "tries_of r n =
     (case r of Inr (_, m) \<Rightarrow> m = n | Inl (ClientError _ m) \<Rightarrow> m = n | Inl (Escapes _) \<Rightarrow> True | Inl (OSError _) \<Rightarrow> False)"

lemma tries_of_simps [simp]:
  "tries_of (Inr (x, m)) n \<longleftrightarrow> m = n" "tries_of (Inl (ClientError e m)) n \<longleftrightarrow> m = n" "tries_of (Inl (Escapes z)) n"
  by (simp_all add: tries_of_def)

lemma answer_object_cases:
  "tries_of (answer_object env raw n) n \<and>
   (\<forall>res m. answer_object env raw n = Inr (res, m) \<longrightarrow> je_loads env raw = Decoded (JObj res))"
  by (simp add: answer_object_def tries_of_def split: decoded.split json.split)

lemma send_loop_spec:
  assumes "0 \<le> backoff"
  shows "send_loop env req backoff i left = (slept, r) \<Longrightarrow>
    \<exists>n. i < n \<and> n \<le> Suc (i + left) \<and> tries_of r n \<and> i + length slept < n \<and>
      (\<forall>x \<in> set slept. 0 \<le> x \<and> x \<le> 10) \<and>
      (\<forall>j. i \<le> j \<longrightarrow> Suc j < n \<longrightarrow> retryable (je_send env req j)) \<and>
      (\<forall>res m. r = Inr (res, m) \<longrightarrow>
         (\<exists>raw. je_send env req (n - 1) = Answer raw \<and> je_loads env raw = Decoded (JObj res)))"
proof (induction left arbitrary: i slept r)
  case 0
  then show ?case
    by (intro exI [of _ "Suc i"])
       (auto simp: send_loop.simps [of _ _ _ i] http_error_def answer_object_cases
          dest: answer_object_cases [THEN conjunct2, rule_format] split: try_outcome.splits)
next
  case (Suc left)
  show ?case
  proof (cases "retryable (je_send env req i)")
    case False
    with Suc.prems show ?thesis
      by (intro exI [of _ "Suc i"])
         (auto simp: send_loop.simps [of _ _ _ i] http_error_def answer_object_cases retryable_def
            dest: answer_object_cases [THEN conjunct2, rule_format] split: try_outcome.splits if_splits)
  next
    case True
    obtain sl' r' where rec: "send_loop env req backoff (Suc i) left = (sl', r')"
      by (cases "send_loop env req backoff (Suc i) left")
    have eq: "(slept, r) = after_sleep backoff i (sl', r')"
      using Suc.prems True rec by (auto simp: send_loop.simps [of _ _ _ i] retryable_def split: try_outcome.splits)
    from Suc.IH [OF rec] obtain n where n: "Suc i < n" "n \<le> Suc (Suc i + left)" "tries_of r' n" "Suc i + length sl' < n"
      "\<forall>x \<in> set sl'. 0 \<le> x \<and> x \<le> 10"
      "\<forall>j. Suc i \<le> j \<longrightarrow> Suc j < n \<longrightarrow> retryable (je_send env req j)"
      "\<forall>res m. r' = Inr (res, m) \<longrightarrow> (\<exists>raw. je_send env req (n - 1) = Answer raw \<and> je_loads env raw = Decoded (JObj res))"
      by blast
    have "retryable (je_send env req j)" if "i \<le> j" "Suc j < n" for j
      using that n(6) True by (cases "j = i") auto
    with n eq assms show ?thesis
      by (intro exI [of _ n]) (auto simp: after_sleep_def)
  qed
qed

lemma env_limits:
  assumes "env_integer env name dflt (0, t) (5, u) = Inr k"
  shows "0 \<le> k" "k \<le> 5"
  using assms
  by (auto simp: env_integer_def in_range_def client_error_def bindJ_def split: option.splits sum.splits if_splits)

lemma env_backoff:
  assumes "env_number env name dflt (0, t) (b, u) = Inr k"
  shows "0 \<le> k"
  using assms
  by (auto simp: env_number_def in_range_def client_error_def split: float_text.splits if_splits)

lemma bounded_pauses:
  assumes "\<forall>x \<in> set xs. x \<le> (10 :: rat)" "length xs \<le> 5"
  shows "sum_list xs \<le> 50"
proof -
  have "sum_list xs \<le> 10 * of_nat (length xs)"
    using assms(1) by (induction xs) (auto simp: algebra_simps)
  also have "\<dots> \<le> 50" using assms(2) by simp
  finally show ?thesis .
qed

lemma invalid_settings:
  "env_number env name dflt lo hi = Inl e \<Longrightarrow> \<exists>m. e = ClientError m 0"
  "env_integer env name dflt lo hi = Inl e \<Longrightarrow> \<exists>m. e = ClientError m 0"
  by (auto simp: env_number_def env_integer_def in_range_def client_error_def bindJ_def
      split: float_text.splits option.splits sum.splits if_splits)

text \<open>C29: retries are bounded and only for what may be retried. Whatever the settings, the server and the
  outcome, a request is tried at most six times, with pauses of at most fifty seconds in total (none
  and no try if a setting is invalid); every try but the last failed in a retryable way, the number
  of tries is the one reported, and an answer is the object that the last try returned.\<close>

theorem retries_are_bounded:
  assumes "jev_request_json env url method body = (slept, r)"
  shows "sum_list slept \<le> 50 \<and>
    (\<exists>n req. n \<le> 6 \<and> tries_of r n \<and> length slept \<le> n - 1 \<and> jr_url req = url \<and> jr_method req = method \<and>
       (\<forall>j. Suc j < n \<longrightarrow> retryable (je_send env req j)) \<and>
       (\<forall>response m. r = Inr (response, m) \<longrightarrow>
          0 < n \<and> (\<exists>raw. je_send env req (n - 1) = Answer raw \<and> je_loads env raw = Decoded (JObj response))))"
proof -
  define req where "req = \<lparr>jr_url = url, jr_method = method, jr_headers = request_headers env (body \<noteq> None),
               jr_data = map_option (\<lambda>d. je_dumps env (JObj d)) body\<rparr>"
  consider (invalid) m where "slept = []" "r = Inl (ClientError m 0)"
    | (sent) k b where "env_integer env ''JEV_MAX_RETRIES'' ''2'' (0, ''0'') (5, ''5'') = Inr k"
      "env_number env ''JEV_RETRY_BACKOFF_SECONDS'' ''0.25'' (0, ''0'') (10, ''10'') = Inr b"
      "send_loop env req b 0 (nat k) = (slept, r)"
    using assms invalid_settings
    by (fastforce simp: jev_request_json_def bindJ_def req_def split: sum.splits)
  then show ?thesis
  proof cases
    case invalid
    then show ?thesis by (auto intro!: exI [of _ 0] exI [of _ req] simp: req_def)
  next
    case sent
    from send_loop_spec [OF env_backoff [OF sent(2)] sent(3)] obtain n where n: "0 < n" "n \<le> Suc (nat k)"
      "tries_of r n" "length slept < n" "\<forall>x \<in> set slept. x \<le> 10" "\<forall>j. Suc j < n \<longrightarrow> retryable (je_send env req j)"
      "\<forall>res m. r = Inr (res, m) \<longrightarrow> (\<exists>raw. je_send env req (n - 1) = Answer raw \<and> je_loads env raw = Decoded (JObj res))"
      by auto
    have "n \<le> 6" using n(2) env_limits [OF sent(1)] by auto
    with n bounded_pauses [OF n(5)] show ?thesis
      by (intro conjI exI [of _ n] exI [of _ req]) (auto simp: req_def)
  qed
qed

section \<open>The key\<close>

text \<open>Requests that differ in the header with the key at most.\<close>

definition same_but_key :: "jev_request \<Rightarrow> jev_request \<Rightarrow> bool" where
  "same_but_key r s \<longleftrightarrow>
     jr_url r = jr_url s \<and> jr_method r = jr_method s \<and> jr_data r = jr_data s \<and>
     filter (\<lambda>(n, _). n \<noteq> ''Authorization'') (jr_headers r) = filter (\<lambda>(n, _). n \<noteq> ''Authorization'') (jr_headers s)"

text \<open>Congruences that simplify inside the branches.\<close>

lemmas strong_cases = sum.case_cong jev_error.case_cong option.case_cong prod.case_cong decoded.case_cong
  try_outcome.case_cong nat.case_cong audit_file.case_cong io_outcome.case_cong json.case_cong if_cong

lemma env_parts [simp]:
  "jev_read_file (env\<lparr>je_environ := E, je_send := S\<rparr>) = jev_read_file env"
  "decode_file (env\<lparr>je_environ := E, je_send := S\<rparr>) = decode_file env"
  "load_json (env\<lparr>je_environ := E, je_send := S\<rparr>) = load_json env"
  "sha256_json (env\<lparr>je_environ := E, je_send := S\<rparr>) = sha256_json env"
  "answer_object (env\<lparr>je_environ := E, je_send := S\<rparr>) = answer_object env"
  "chain_event (env\<lparr>je_environ := E, je_send := S\<rparr>) = chain_event env"
  by (simp_all add: fun_eq_iff jev_read_file_def decode_file_def load_json_def sha256_json_def answer_object_def
      chain_event_def Let_def cong: strong_cases)

lemma bind_evidence_env [simp]:
  "bind_evidence (env\<lparr>je_environ := E, je_send := S\<rparr>) files ev = bind_evidence env files ev"
  by (induction files arbitrary: ev) simp_all

lemma build_body_env [simp]: "build_body (env\<lparr>je_environ := E, je_send := S\<rparr>) a = build_body env a"
  by (simp add: build_body_def request_from_file_def request_from_args_def request_state_def cong: strong_cases)

lemma audit_record_env [simp]: "audit_record (env\<lparr>je_environ := E, je_send := S\<rparr>) t c e = audit_record env t c e"
  by (simp add: audit_record_def)

lemma send_loop_env:
  assumes "\<And>i. je_send env req i = S req' i"
  shows "send_loop (env\<lparr>je_environ := E, je_send := S\<rparr>) req' b i left = send_loop env req b i left"
proof (induction left arbitrary: i)
  case 0
  show ?case by (simp add: send_loop.simps [of _ _ _ i 0] assms cong: strong_cases)
next
  case (Suc left)
  show ?case unfolding send_loop.simps [of _ _ _ i "Suc left"] by (simp add: Suc assms cong: strong_cases)
qed

text \<open>Environments that differ in the key at most.\<close>

definition same_environ :: "jev_env \<Rightarrow> (string \<times> string) list \<Rightarrow> bool" where
  "same_environ env E \<longleftrightarrow> (\<forall>name. name \<noteq> ''JEV_API_KEY'' \<longrightarrow> map_of E name = getenv env name)"

lemma same_environ_parts:
  assumes "same_environ env E"
  shows "name \<noteq> ''JEV_API_KEY'' \<Longrightarrow> env_text (env\<lparr>je_environ := E, je_send := S\<rparr>) name d = env_text env name d"
    "audit_log_path (env\<lparr>je_environ := E, je_send := S\<rparr>) = audit_log_path env"
  using assms by (simp_all add: env_text_def getenv_def same_environ_def audit_log_path_def)

lemma request_headers_env:
  "filter (\<lambda>(n, _). n \<noteq> ''Authorization'') (request_headers env b) =
   [(''Accept'', ''application/json'')] @ (if b then [(''Content-Type'', ''application/json'')] else [])"
  by (simp add: request_headers_def split: option.split)

lemma request_json_env:
  assumes E: "same_environ env E"
    and S: "\<And>req req' i. same_but_key req req' \<Longrightarrow> je_send env req i = S req' i"
  shows "jev_request_json (env\<lparr>je_environ := E, je_send := S\<rparr>) url method body = jev_request_json env url method body"
proof -
  let ?env = "env\<lparr>je_environ := E, je_send := S\<rparr>"
  have "send_loop ?env \<lparr>jr_url = url, jr_method = method, jr_headers = request_headers ?env b, jr_data = d\<rparr> k i left =
      send_loop env \<lparr>jr_url = url, jr_method = method, jr_headers = request_headers env b, jr_data = d\<rparr> k i left" for b d k i left
    by (rule send_loop_env, rule S) (simp add: same_but_key_def request_headers_env)
  then show ?thesis
    by (simp add: jev_request_json_def env_number_def env_integer_def same_environ_parts(1) [OF E] cong: strong_cases)
qed

lemma perform_env:
  assumes "same_environ env E"
    and "\<And>req req' i. same_but_key req req' \<Longrightarrow> je_send env req i = S req' i"
  shows "perform (env\<lparr>je_environ := E, je_send := S\<rparr>) a = perform env a"
  by (simp add: perform_def ask_server_def request_json_env [OF assms] same_environ_parts(1) [OF assms(1)] cong: strong_cases)

lemma append_audit_env:
  assumes "same_environ env E"
  shows "append_audit (env\<lparr>je_environ := E, je_send := S\<rparr>) io r st = append_audit env io r st"
  by (simp add: append_audit_def previous_event_hash_def same_environ_parts(2) [OF assms] cong: strong_cases)


section \<open>The request\<close>

lemma read_file_entry:
  "jev_read_file env f label = Inr (data, m) \<Longrightarrow>
     mf_path m = je_resolve env f \<and> je_read env (mf_path m) = Inr data \<and>
     mf_size_bytes m = length data \<and> mf_sha256 m = je_sha256 env data"
  by (auto simp: jev_read_file_def client_error_def Let_def split: sum.splits jev_error.splits)

definition entry_bound :: "jev_env \<Rightarrow> manifest \<Rightarrow> bool" where
  "entry_bound env m \<longleftrightarrow>
     (\<exists>data. je_read env (mf_path m) = Inr data \<and> mf_size_bytes m = length data \<and> mf_sha256 m = je_sha256 env data)"

definition evidence_ok :: "jev_env \<Rightarrow> manifest list \<Rightarrow> bool" where
  "evidence_ok env ev \<longleftrightarrow> distinct (map mf_path ev) \<and> list_all (entry_bound env) ev"

lemma bind_evidence_ok:
  "bind_evidence env files ev = Inr ev' \<Longrightarrow> evidence_ok env ev \<Longrightarrow>
   evidence_ok env ev' \<and> mf_path ` set ev' = mf_path ` set ev \<union> je_resolve env ` set files"
proof (induction files arbitrary: ev)
  case (Cons f files)
  then obtain data m where rd: "jev_read_file env f ''evidence_file'' = Inr (data, m)"
    and rest: "bind_evidence env files (if mf_path m \<in> mf_path ` set ev then ev else ev @ [m]) = Inr ev'"
    by (auto simp: bindJ_eq_Inr)
  note m = read_file_entry [OF rd]
  have "evidence_ok env (if mf_path m \<in> mf_path ` set ev then ev else ev @ [m])"
    using Cons.prems(2) m by (auto simp: evidence_ok_def entry_bound_def)
  from Cons.IH [OF rest this] m show ?case by (auto split: if_splits)
qed auto

lemma validate_again:
  assumes "validate v = Inr d"
  shows "validate (JObj d) = Inr d"
proof -
  have "v = JObj d" using assms
    by (auto simp: validate_def client_error_def bindJ_eq_Inr split: json.splits if_splits)
  with assms show ?thesis by simp
qed

lemma request_part_ok:
  assumes "request_from_file env file = Inr (body, ev) \<or> request_from_args env a = Inr (body, ev)"
  shows "validate (JObj body) = Inr body \<and> evidence_ok env ev"
  using assms
proof
  assume "request_from_file env file = Inr (body, ev)"
  then show ?thesis
    by (auto simp: request_from_file_def bindJ_eq_Inr evidence_ok_def entry_bound_def
        dest!: read_file_entry dest: validate_again split: if_splits)
next
  assume "request_from_args env a = Inr (body, ev)"
  then show ?thesis
    by (auto simp: request_from_args_def request_state_def bindJ_eq_Inr evidence_ok_def entry_bound_def client_error_def
        dest!: read_file_entry dest: validate_again split: option.splits if_splits)
qed

text \<open>What is sent is valid and what it rests on is bound. A body that was built passes the
  validation again, the evidence lists every file once, with the size and the hash of the bytes
  read, and every evidence file that was named is in the list.\<close>

theorem built_request_is_valid_and_bound:
  assumes "build_body env a = Inr (body, evidence)"
  shows "validate (JObj body) = Inr body \<and> distinct (map mf_path evidence) \<and>
    (\<forall>m \<in> set evidence. \<exists>data. je_read env (mf_path m) = Inr data \<and> mf_size_bytes m = length data \<and>
       mf_sha256 m = je_sha256 env data) \<and>
    je_resolve env ` set (ja_evidence_file a) \<subseteq> mf_path ` set evidence"
proof -
  obtain ev where part: "request_from_file env (case ja_request_file a of Some f \<Rightarrow> f | None \<Rightarrow> []) = Inr (body, ev) \<or>
      request_from_args env a = Inr (body, ev)" and bind: "bind_evidence env (ja_evidence_file a) ev = Inr evidence"
    using assms by (auto simp: build_body_def bindJ_eq_Inr split: option.splits if_splits)
  from request_part_ok [OF part] bind_evidence_ok [OF bind] show ?thesis
    by (auto simp: evidence_ok_def entry_bound_def list_all_iff)
qed

text \<open>A request whose kind is a list or an object crashes the program. The test for membership in a
  set raises, nothing catches the exception, and the failure is not recorded in the log.\<close>

theorem unhashable_kind_is_not_recorded:
  assumes "\<not> ja_info a" "ja_request_file a = Some ''-''"
    and "je_loads env (je_stdin env) = Decoded (JObj d)" "unknown_fields d = []"
    and "\<not> hashable (jget d ''kind'' JNull)"
  shows "jev_main env io1 io2 out stamps a st = (st, Crashed (TypeError ''unhashable type''))"
  using assms
  by (simp add: jev_main_def perform_def build_body_def request_from_file_def load_json_def validate_def check_kind_def
      report_error_def Let_def)

section \<open>The endpoint is a fixed point\<close>

lemma takeWhile_all: "list_all P xs \<Longrightarrow> takeWhile P (xs @ y # ys) = xs @ (if P y then y # takeWhile P ys else [])"
  by (induction xs) auto

lemma cut_at_none: "c \<notin> set s \<Longrightarrow> cut_at c s = (s, [])"
  by (induction s) (auto simp: cut_at_def)

lemma clean_url_id:
  assumes "u \<noteq> []" "\<not> (of_char (hd u) :: nat) \<le> 32" "\<forall>c \<in> set u. (of_char c :: nat) \<notin> {9, 10, 13}"
  shows "clean_url u = u"
  using assms by (cases u) (auto simp: clean_url_def intro!: filter_True)

lemma clean_url_chars: "c \<in> set (clean_url u) \<Longrightarrow> (of_char c :: nat) \<notin> {9, 10, 13}"
  by (auto simp: clean_url_def)

text \<open>The parts of a URL that was split.\<close>

lemma urlsplit_parts:
  assumes "urlsplit u = Inr p" "up_netloc p \<noteq> []"
  shows "set (up_netloc p) \<union> set (up_path p) \<subseteq> set (clean_url u)"
    "set (up_netloc p) \<inter> {CHR ''/'', CHR ''?'', CHR ''#''} = {}"
    "up_path p = [] \<or> hd (up_path p) = CHR ''/''" "CHR ''?'' \<notin> set (up_path p)" "CHR ''#'' \<notin> set (up_path p)"
    "(CHR ''['' \<in> set (up_netloc p)) = (CHR '']'' \<in> set (up_netloc p))"
proof -
  let ?P = "\<lambda>c. c \<notin> {CHR ''/'', CHR ''?'', CHR ''#''}"
  obtain sch u1 where u1: "split_scheme (clean_url u) = (sch, u1)" by (cases "split_scheme (clean_url u)")
  have sub: "set u1 \<subseteq> set (clean_url u)"
    using u1 by (auto simp: split_scheme_def Let_def split: if_splits dest: in_set_dropD)
  obtain n u2 where n: "split_netloc u1 = (n, u2)" by (cases "split_netloc u1")
  have p: "up_netloc p = n" "up_path p = fst (cut_at CHR ''?'' (fst (cut_at CHR ''#'' u2)))"
    "(CHR ''['' \<in> set n) = (CHR '']'' \<in> set n)"
    using assms(1) by (auto simp: urlsplit_def u1 n split: prod.splits if_splits)
  then have "n = takeWhile ?P (drop 2 u1)" "u2 = dropWhile ?P (drop 2 u1)"
    using assms(2) n by (auto simp: split_netloc_def Let_def dropWhile_eq_drop add.commute split: if_splits)
  moreover have "set (drop 2 u1) \<subseteq> set (clean_url u)" using sub set_drop_subset [of 2 u1] by blast
  moreover have "u2 = [] \<or> \<not> ?P (hd u2)" using calculation(2) hd_dropWhile [of ?P "drop 2 u1"] by blast
  ultimately have u2: "set n \<subseteq> set (clean_url u)" "set u2 \<subseteq> set (clean_url u)" "\<forall>c \<in> set n. ?P c" "u2 = [] \<or> \<not> ?P (hd u2)"
    by (auto dest: set_takeWhileD set_dropWhileD)
  show "set (up_netloc p) \<union> set (up_path p) \<subseteq> set (clean_url u)"
    using u2 by (auto simp: p cut_at_def dest!: set_takeWhileD)
  show "set (up_netloc p) \<inter> {CHR ''/'', CHR ''?'', CHR ''#''} = {}" using u2(3) p(1) by auto
  show "up_path p = [] \<or> hd (up_path p) = CHR ''/''" using u2(4) by (cases u2) (auto simp: p cut_at_def)
  show "CHR ''?'' \<notin> set (up_path p)" "CHR ''#'' \<notin> set (up_path p)"
    by (auto simp: p cut_at_def dest!: set_takeWhileD)
  show "(CHR ''['' \<in> set (up_netloc p)) = (CHR '']'' \<in> set (up_netloc p))" using p by simp
qed

lemma urlsplit_built:
  assumes "scheme = ''http'' \<or> scheme = ''https''" and n: "set netloc \<inter> {CHR ''/'', CHR ''?'', CHR ''#''} = {}"
    "(CHR ''['' \<in> set netloc) = (CHR '']'' \<in> set netloc)"
    and path: "CHR ''?'' \<notin> set path" "CHR ''#'' \<notin> set path"
    and clean: "\<forall>c \<in> set netloc \<union> set path. (of_char c :: nat) \<notin> {9, 10, 13}"
  shows "urlsplit (scheme @ ''://'' @ netloc @ CHR ''/'' # path) =
    Inr \<lparr>up_scheme = scheme, up_netloc = netloc, up_path = CHR ''/'' # path, up_query = [], up_fragment = []\<rparr>"
proof -
  let ?u = "scheme @ ''://'' @ netloc @ CHR ''/'' # path"
  have "clean_url ?u = ?u" using assms(1) clean by (intro clean_url_id) auto
  moreover have "split_scheme ?u = (scheme, ''//'' @ netloc @ CHR ''/'' # path)"
    using assms(1) by (auto simp: split_scheme_def Let_def alpha_def scheme_char_def lower_def lower_char_def)
  moreover have "takeWhile (\<lambda>c. c \<notin> {CHR ''/'', CHR ''?'', CHR ''#''}) (netloc @ CHR ''/'' # path) = netloc"
    using n(1) by (subst takeWhile_all) (auto simp: list_all_iff)
  then have "split_netloc (''//'' @ netloc @ CHR ''/'' # path) = (netloc, CHR ''/'' # path)"
    by (simp add: split_netloc_def Let_def)
  ultimately show ?thesis
    using n(2) path by (simp add: urlsplit_def cut_at_none)
qed

lemma base_path_again:
  "base_path (q @ ''/v1/decide'') = q"
  by (simp add: base_path_def rstrip_slash_def ends_with_def Let_def)

lemma base_path_prefix: "\<exists>n. base_path p = take n p"
proof -
  have r: "\<exists>n. rstrip_slash p = take n p"
  proof -
    have "rstrip_slash p = take (length (rstrip_slash p)) p"
      unfolding rstrip_slash_def by (metis append_eq_conv_conj rev_append rev_rev_ident takeWhile_dropWhile_id length_rev)
    then show ?thesis by blast
  qed
  then show ?thesis by (auto simp: base_path_def Let_def min_def)
qed

text \<open>The address computed from the base URL is stable. The same endpoint results from the bare base
  URL, from one that ends in \<^verbatim>\<open>/v1\<close> and from the full address: computing the endpoint of a computed
  endpoint gives it back unchanged.\<close>

theorem endpoint_is_fixed_point:
  assumes "endpoint u False = Inr v"
  shows "endpoint v False = Inr v"
proof -
  obtain p where p: "urlsplit u = Inr p" and scheme: "up_scheme p = ''http'' \<or> up_scheme p = ''https''"
    and n: "up_netloc p \<noteq> []" "\<not> has_credentials (up_netloc p)"
    and v: "v = urlunsplit (up_scheme p) (up_netloc p) (base_path (up_path p) @ ''/v1/decide'')"
    using assms by (auto simp: endpoint_def client_error_def bindJ_eq_Inr split: if_splits)
  note parts = urlsplit_parts [OF p n(1)]
  obtain k where k: "base_path (up_path p) = take k (up_path p)" using base_path_prefix by blast
  obtain path where path: "base_path (up_path p) @ ''/v1/decide'' = CHR ''/'' # path"
  proof (cases "base_path (up_path p)")
    case (Cons c q)
    then have "hd (take k (up_path p)) = c" "take k (up_path p) \<noteq> []" by (simp_all add: k [symmetric])
    then have "c = CHR ''/''" using parts(3) by (auto simp: hd_take)
    with Cons show ?thesis by (intro that [of "q @ ''/v1/decide''"]) simp
  next
    case Nil
    then show ?thesis by (intro that [of "''v1/decide''"]) simp
  qed
  define suffix where "suffix = ''/v1/decide''"
  have plain: "\<forall>c \<in> set suffix. c \<noteq> CHR ''?'' \<and> c \<noteq> CHR ''#'' \<and> (of_char c :: nat) \<notin> {9, 10, 13}"
    by (simp add: suffix_def)
  have "set (CHR ''/'' # path) \<subseteq> set (up_path p) \<union> set suffix"
    unfolding path [symmetric] k set_append suffix_def using set_take_subset [of k "up_path p"] by blast
  then have set_path: "set path \<subseteq> set (up_path p) \<union> set suffix" by (meson order_trans set_subset_Cons)
  have v': "v = up_scheme p @ ''://'' @ up_netloc p @ CHR ''/'' # path"
    by (simp add: v path urlunsplit_def)
  have "urlsplit v = Inr \<lparr>up_scheme = up_scheme p, up_netloc = up_netloc p, up_path = CHR ''/'' # path,
      up_query = [], up_fragment = []\<rparr>"
    unfolding v'
  proof (rule urlsplit_built [OF scheme parts(2,6)])
    show "CHR ''?'' \<notin> set path" "CHR ''#'' \<notin> set path" using set_path parts(4,5) plain by blast+
    show "\<forall>c \<in> set (up_netloc p) \<union> set path. (of_char c :: nat) \<notin> {9, 10, 13}"
    proof
      fix c assume "c \<in> set (up_netloc p) \<union> set path"
      then have "c \<in> set (clean_url u) \<or> c \<in> set suffix" using set_path parts(1) by blast
      then show "(of_char c :: nat) \<notin> {9, 10, 13}" using clean_url_chars plain by blast
    qed
  qed
  moreover have "v \<noteq> []" using scheme v' by auto
  moreover have "base_path (CHR ''/'' # path) = base_path (up_path p)" using base_path_again [of "base_path (up_path p)"] by (simp only: path)
  ultimately show ?thesis
    unfolding endpoint_def using scheme n path by (simp add: v) (use scheme in blast)
qed

section \<open>Samples\<close>

text \<open>A server that fails once and then answers, and a codec that knows three texts.\<close>

definition first_event :: jobj where
  "first_event =
     [(''audit_id'', JStr ''first''), (''previous_event_hash'', JStr ZERO_HASH), (''event_hash'', JStr ''H'')]"

definition sample_jev :: jev_env where
  "sample_jev =
     \<lparr>je_environ = [(''JEV_BASE_URL'', ''https://host/v1'')],
      je_send = (\<lambda>req i. if i = 0 then HTTPError 503 ''busy'' else Answer ''R''),
      je_loads = (\<lambda>s. if s = ''R'' then Decoded (JObj [(''choice'', JStr ''a'')])
                       else if s = ''K'' then Decoded (JObj [(''kind'', JList [])])
                       else Decoded (JObj first_event)),
      je_dumps = (\<lambda>_. ''D''), je_sha256 = (\<lambda>_. ''H''),
      je_float = (\<lambda>s. if s = ''60'' then Finite 60 else if s = ''0.25'' then Finite (1 / 4) else Not_numeric),
      je_resolve = (\<lambda>s. s), je_read = (\<lambda>_. Inr ''bytes''), je_utf8 = Some, je_stdin = ''K'',
      je_argv = [], je_uuid4 = ''u'', je_home = ''/home/u'', je_parent = (\<lambda>s. s)\<rparr>"

definition sample_jev_args :: jev_args where
  "sample_jev_args =
     \<lparr>ja_info = False, ja_request_file = None, ja_kind = Some ''noul'', ja_question = Some ''ok?'',
      ja_state_json = None, ja_state_file = None, ja_evidence_file = [''f'', ''f''], ja_options = None,
      ja_strategy = None, ja_thinking = None\<rparr>"

definition one_event_store :: audit_store where
  "one_event_store = \<lparr>as_dir = Some 448, as_file = Regular (log_text sample_jev [first_event])\<rparr>"

lemmas jev_samples = sample_jev_def sample_jev_args_def

lemma sample_body:
  "build_body sample_jev sample_jev_args =
     Inr ([(''kind'', JStr ''noul''), (''question'', JStr ''ok?'')],
          [\<lparr>mf_role = ''evidence_file'', mf_path = ''f'', mf_size_bytes = 5, mf_sha256 = ''H''\<rparr>])"
proof -
  have "unknown_fields [(''kind'', JStr ''noul''), (''question'', JStr ''ok?'')] = []"
    by (simp add: unknown_fields_def FIELDS_def)
  then show ?thesis
    by (simp add: jev_samples build_body_def request_from_args_def request_state_def given_fields_def validate_def
        check_kind_def KINDS_def question_ok_def threshold_ok_def jget_def strip_def is_space_def jev_read_file_def)
qed

lemma sample_endpoint: "endpoint ''https://host/v1'' False = Inr ''https://host/v1/decide''"
  by code_simp

lemma sample_server_answer:
  "jev_request_json sample_jev ''https://host/v1/decide'' ''POST'' body = ([1 / 4], Inr ([(''choice'', JStr ''a'')], 2))"
proof -
  have "py_int ''2'' = Some 2" by code_simp
  then show ?thesis
    by (simp add: jev_request_json_def env_number_def env_integer_def env_text_def getenv_def in_range_def jev_samples
        send_loop.simps numeral_2_eq_2 RETRYABLE_HTTP_STATUSES_def after_sleep_def answer_object_def)
qed

lemma sample_chain:
  "audit_content one_event_store = log_text sample_jev [first_event]" "chained sample_jev (JStr ZERO_HASH) [first_event]"
  "readable sample_jev first_event"
  by (simp_all add: one_event_store_def audit_content_def event_ok_def first_event_def sample_jev_def readable_def
      newline_def blank_bytes_def)

lemma sample_append:
  "\<exists>st' event. append_audit sample_jev Io_ok event_record one_event_store = (st', Inr event)"
proof -
  have "previous_event_hash sample_jev (log_text sample_jev [first_event]) = Inr (last_hash (JStr ZERO_HASH) [first_event])"
    by (rule previous_hash_of_log) (use sample_chain in simp_all)
  then show ?thesis by (simp add: append_audit_def one_event_store_def dir_private_def Let_def)
qed

theorem append_extends_chain_witness:
  "\<exists>st' event. append_audit sample_jev Io_ok [(''audit_id'', JStr ''u'')] one_event_store = (st', Inr event) \<and>
     audit_content st' = log_text sample_jev [first_event, event] \<and> chained sample_jev (JStr ZERO_HASH) [first_event, event]"
proof -
  obtain st' event where e: "append_audit sample_jev Io_ok [(''audit_id'', JStr ''u'')] one_event_store = (st', Inr event)"
    using sample_append by blast
  from append_extends_chain [OF e sample_chain(1,2)] sample_chain(3) e show ?thesis by auto
qed

lemma sample_perform:
  "\<exists>c. perform sample_jev sample_jev_args = ([1 / 4], c, Inr ())"
proof -
  have "env_text sample_jev ''JEV_BASE_URL'' [] = ''https://host/v1''" "\<not> ja_info sample_jev_args"
    by (simp_all add: env_text_def getenv_def jev_samples)
  then show ?thesis
    using sample_server_answer [of "Some [(''kind'', JStr ''noul''), (''question'', JStr ''ok?'')]"]
    by (simp add: perform_def ask_server_def sample_body sample_endpoint Let_def)
qed


theorem retries_are_bounded_witness:
  "\<exists>req raw. retryable (je_send sample_jev req 0) \<and> je_send sample_jev req 1 = Answer raw"
  using retries_are_bounded [OF sample_server_answer [of None]] by auto


theorem built_request_is_valid_and_bound_witness:
  "\<exists>body evidence. build_body sample_jev sample_jev_args = Inr (body, evidence) \<and> validate (JObj body) = Inr body \<and>
     map mf_path evidence = [''f'']"
  using built_request_is_valid_and_bound [OF sample_body] sample_body by simp

theorem unhashable_kind_is_not_recorded_witness:
  "jev_main sample_jev Io_ok Io_ok None (''t1'', ''t2'') (sample_jev_args\<lparr>ja_request_file := Some ''-''\<rparr>) one_event_store =
     (one_event_store, Crashed (TypeError ''unhashable type''))"
  by (rule unhashable_kind_is_not_recorded [where d = "[(''kind'', JList [])]"])
     (simp_all add: jev_samples unknown_fields_def FIELDS_def jget_def)

theorem endpoint_is_fixed_point_witness:
  "endpoint ''https://host/v1'' False = Inr ''https://host/v1/decide'' \<and>
   endpoint ''https://host/v1/decide'' False = Inr ''https://host/v1/decide''"
  using endpoint_is_fixed_point [OF sample_endpoint] sample_endpoint by simp

end
