(* ===== verification/Regex_Search.thy ===== *)
theory Regex_Search
  imports Router_Utils
begin

text \<open>
  Searching with Python's \<^verbatim>\<open>re\<close>, as far as the sources use it: patterns of classes, sequences,
  alternatives, starred classes (greedy or lazy), word boundaries and the end of the text, with
  groups. A position in a text is a cursor, the text before it reversed and the text after it.
  \<open>ends\<close> lists the ends of the matches from a cursor in the order in which backtracking tries them;
  \<open>ends_iff\<close> shows that they are exactly the matches of the pattern.
\<close>

section \<open>Patterns and cursors\<close>

type_synonym cursor = "string \<times> string"

definition start_of_text :: "string \<Rightarrow> cursor" where
  "start_of_text s = ([], s)"

definition text_of :: "cursor \<Rightarrow> string" where
  "text_of c = rev (fst c) @ snd c"

definition pos :: "cursor \<Rightarrow> nat" where
  "pos c = length (fst c)"

text \<open>The text between two cursors, the second not before the first.\<close>

definition between :: "cursor \<Rightarrow> cursor \<Rightarrow> string" where
  "between c d = rev (take (pos d - pos c) (fst d))"

datatype pat =
    PEps
  | PChar "char \<Rightarrow> bool"
  | PSeq pat pat
  | PAlt pat pat
  | PStar bool "char \<Rightarrow> bool"
  | PBound
  | PEnd

text \<open>The classes of word characters and of blanks, on the code points below 256.\<close>

definition re_word :: "char \<Rightarrow> bool" where
  "re_word c \<longleftrightarrow> word_char c \<or> digit_class c \<or> c = CHR ''_'' \<or>
     (let n = of_char c :: nat in
      n \<in> {170, 178, 179, 181, 185, 186, 188, 189, 190} \<or> 192 \<le> n \<and> n \<noteq> 215 \<and> n \<noteq> 247)"

definition re_space :: "char \<Rightarrow> bool" where
  "re_space c \<longleftrightarrow> is_space c \<or> (of_char c :: nat) \<in> {133, 160}"

definition at_boundary :: "cursor \<Rightarrow> bool" where
  "at_boundary c \<longleftrightarrow>
     (case fst c of [] \<Rightarrow> False | x # _ \<Rightarrow> re_word x) \<noteq> (case snd c of [] \<Rightarrow> False | x # _ \<Rightarrow> re_word x)"

definition at_end :: "cursor \<Rightarrow> bool" where
  "at_end c \<longleftrightarrow> snd c = [] \<or> snd c = [CHR 0x0A]"

text \<open>The places where a starred class can stop, the nearest first.\<close>

fun stops :: "(char \<Rightarrow> bool) \<Rightarrow> string \<Rightarrow> string \<Rightarrow> cursor list" where
  "stops P u [] = [(u, [])]"
| "stops P u (x # v) = (u, x # v) # (if P x then stops P (x # u) v else [])"

fun ends :: "pat \<Rightarrow> cursor \<Rightarrow> cursor list" where
  "ends PEps c = [c]"
| "ends (PChar P) c = (case snd c of [] \<Rightarrow> [] | x # v \<Rightarrow> if P x then [(x # fst c, v)] else [])"
| "ends (PSeq p q) c = concat (map (ends q) (ends p c))"
| "ends (PAlt p q) c = ends p c @ ends q c"
| "ends (PStar greedy P) c = (let ds = stops P (fst c) (snd c) in if greedy then rev ds else ds)"
| "ends PBound c = (if at_boundary c then [c] else [])"
| "ends PEnd c = (if at_end c then [c] else [])"

text \<open>A pattern with groups is the list of its parts; a match is the cursors at the start and after each
  part.\<close>

fun runs :: "pat list \<Rightarrow> cursor \<Rightarrow> cursor list list" where
  "runs [] c = [[c]]"
| "runs (p # ps) c = concat (map (\<lambda>d. map ((#) c) (runs ps d)) (ends p c))"

definition re_match :: "pat list \<Rightarrow> string \<Rightarrow> cursor list option" where
  "re_match ps s = (case runs ps (start_of_text s) of [] \<Rightarrow> None | m # _ \<Rightarrow> Some m)"

definition re_group :: "cursor list \<Rightarrow> nat \<Rightarrow> string" where
  "re_group m k = between (m ! k) (m ! Suc k)"

text \<open>\<^verbatim>\<open>search\<close>: the leftmost match.\<close>

fun search_from :: "pat list \<Rightarrow> string \<Rightarrow> string \<Rightarrow> cursor list option" where
  "search_from ps u v =
     (case runs ps (u, v) of
        m # _ \<Rightarrow> Some m
      | [] \<Rightarrow> (case v of [] \<Rightarrow> None | x # v' \<Rightarrow> search_from ps (x # u) v'))"

definition re_search :: "pat list \<Rightarrow> string \<Rightarrow> cursor list option" where
  "re_search ps s = search_from ps [] s"

text \<open>\<^verbatim>\<open>finditer\<close>: the leftmost match, then on from its end. The patterns of the sources match no empty
  text, so what \<^verbatim>\<open>re\<close> does after an empty match does not arise.\<close>

function finditer_from :: "pat list \<Rightarrow> string \<Rightarrow> string \<Rightarrow> cursor list list" where
  "finditer_from ps u v =
     (case runs ps (u, v) of
        m # _ \<Rightarrow>
          m # (if length (snd (last m)) < length v then finditer_from ps (fst (last m)) (snd (last m))
               else (case v of [] \<Rightarrow> [] | x # v' \<Rightarrow> finditer_from ps (x # u) v'))
      | [] \<Rightarrow> (case v of [] \<Rightarrow> [] | x # v' \<Rightarrow> finditer_from ps (x # u) v'))"
  by pat_completeness auto
termination
  by (relation "measure (\<lambda>(ps, u, v). length v)") (auto simp: split_beta)

declare search_from.simps [simp del] finditer_from.simps [simp del]

definition finditer :: "pat list \<Rightarrow> string \<Rightarrow> cursor list list" where
  "finditer ps s = finditer_from ps [] s"

section \<open>Ways to write patterns\<close>

definition p_lit :: "string \<Rightarrow> pat" where
  "p_lit w = foldr (\<lambda>c p. PSeq (PChar (\<lambda>d. d = c)) p) w PEps"

text \<open>The same ignoring the case of letters.\<close>

definition p_lit_nocase :: "string \<Rightarrow> pat" where
  "p_lit_nocase w = foldr (\<lambda>c p. PSeq (PChar (\<lambda>d. lower_char d = lower_char c)) p) w PEps"

definition p_opt :: "pat \<Rightarrow> pat" where
  "p_opt p = PAlt p PEps"

fun p_rep :: "nat \<Rightarrow> pat \<Rightarrow> pat" where
  "p_rep 0 p = PEps"
| "p_rep (Suc n) p = PSeq p (p_rep n p)"

fun p_upto :: "nat \<Rightarrow> pat \<Rightarrow> pat" where
  "p_upto 0 p = PEps"
| "p_upto (Suc n) p = p_opt (PSeq p (p_upto n p))"

definition p_between :: "nat \<Rightarrow> nat \<Rightarrow> pat \<Rightarrow> pat" where
  "p_between n m p = PSeq (p_rep n p) (p_upto (m - n) p)"

definition p_seq :: "pat list \<Rightarrow> pat" where
  "p_seq ps = foldr PSeq ps PEps"

definition p_some :: "(char \<Rightarrow> bool) \<Rightarrow> pat" where
  "p_some P = PSeq (PChar P) (PStar True P)"

definition p_any :: pat where
  "p_any = PStar True (\<lambda>c. c \<noteq> CHR 0x0A)"

section \<open>What a pattern matches\<close>

inductive spans :: "pat \<Rightarrow> cursor \<Rightarrow> cursor \<Rightarrow> bool" where
  sp_eps: "spans PEps c c"
| sp_char: "P x \<Longrightarrow> spans (PChar P) (u, x # v) (x # u, v)"
| sp_seq: "spans p c d \<Longrightarrow> spans q d e \<Longrightarrow> spans (PSeq p q) c e"
| sp_altl: "spans p c d \<Longrightarrow> spans (PAlt p q) c d"
| sp_altr: "spans q c d \<Longrightarrow> spans (PAlt p q) c d"
| sp_stop: "spans (PStar g P) c c"
| sp_step: "P x \<Longrightarrow> spans (PStar g P) (x # u, v) d \<Longrightarrow> spans (PStar g P) (u, x # v) d"
| sp_bound: "at_boundary c \<Longrightarrow> spans PBound c c"
| sp_end: "at_end c \<Longrightarrow> spans PEnd c c"

inductive_simps spans_simps:
  "spans PEps c d" "spans (PChar P) c d" "spans (PSeq p q) c d" "spans (PAlt p q) c d" "spans PBound c d"
  "spans PEnd c d"

lemma spans_PSeq: "spans (PSeq p q) c d \<longleftrightarrow> (\<exists>e. spans p c e \<and> spans q e d)"
  by (simp add: spans_simps)

inductive_cases spans_StarE: "spans (PStar g P) (u, v) d"

lemma stops_iff: "d \<in> set (stops P u v) \<longleftrightarrow> spans (PStar g P) (u, v) d"
proof (induction v arbitrary: u)
  case Nil
  then show ?case by (auto intro: sp_stop elim: spans_StarE)
next
  case (Cons x v)
  then show ?case by (auto intro: sp_stop sp_step elim: spans_StarE split: if_splits)
qed

lemma ends_iff: "d \<in> set (ends p c) \<longleftrightarrow> spans p c d"
proof (induction p arbitrary: c d)
  case (PChar P)
  then show ?case by (cases c) (auto simp: spans_simps split: list.splits)
next
  case (PStar g P)
  then show ?case using stops_iff [of d P "fst c" "snd c" g] by (simp add: Let_def)
next
  case (PSeq p q)
  have "d \<in> set (ends (PSeq p q) c) \<longleftrightarrow> (\<exists>e. e \<in> set (ends p c) \<and> d \<in> set (ends q e))" by (simp add: Bex_def)
  then show ?case unfolding PSeq spans_PSeq .
qed (auto simp: spans_simps)

lemma spans_text: "spans p c d \<Longrightarrow> text_of d = text_of c \<and> pos c \<le> pos d"
  by (induction rule: spans.induct) (auto simp: text_of_def pos_def)

fun min_width :: "pat \<Rightarrow> nat" where
  "min_width PEps = 0"
| "min_width (PChar _) = 1"
| "min_width (PSeq p q) = min_width p + min_width q"
| "min_width (PAlt p q) = min (min_width p) (min_width q)"
| "min_width (PStar _ _) = 0"
| "min_width PBound = 0"
| "min_width PEnd = 0"

lemma spans_width: "spans p c d \<Longrightarrow> pos c + min_width p \<le> pos d"
  by (induction rule: spans.induct) (auto simp: pos_def)

lemma width_combinators [simp]:
  "min_width (p_rep n p) = n * min_width p" "min_width (p_upto n p) = 0" "min_width (p_opt p) = 0"
  "min_width (p_between n m p) = n * min_width p" "min_width (p_some P) = 1" "min_width (p_lit w) = length w"
  "min_width (p_seq ps) = sum_list (map min_width ps)"
proof -
  show r: "min_width (p_rep n p) = n * min_width p" for n p by (induction n) auto
  show o: "min_width (p_opt p) = 0" for p by (simp add: p_opt_def)
  show u: "min_width (p_upto n p) = 0" for n p by (cases n) (simp_all add: o)
  show "min_width (p_between n m p) = n * min_width p" by (simp add: p_between_def r u)
  show "min_width (p_some P) = 1" by (simp add: p_some_def)
  show "min_width (p_lit w) = length w" by (induction w) (simp_all add: p_lit_def)
  show "min_width (p_seq ps) = sum_list (map min_width ps)" by (induction ps) (simp_all add: p_seq_def)
qed

section \<open>What a search finds\<close>

text \<open>The matches of a pattern with groups.\<close>

fun run_ok :: "pat list \<Rightarrow> cursor \<Rightarrow> cursor list \<Rightarrow> bool" where
  "run_ok [] c m = (m = [c])"
| "run_ok (p # ps) c m = (case m of [] \<Rightarrow> False | x # m' \<Rightarrow> x = c \<and> m' \<noteq> [] \<and> spans p c (hd m') \<and> run_ok ps (hd m') m')"

lemma run_ok_hd: "run_ok ps c m \<Longrightarrow> m \<noteq> [] \<and> hd m = c"
  by (cases ps) (auto split: list.splits)

lemma run_ok_Cons: "run_ok (p # ps) c m \<longleftrightarrow> (\<exists>d m'. spans p c d \<and> run_ok ps d m' \<and> m = c # m')"
proof (cases m)
  case (Cons x m')
  have "(\<exists>d. spans p c d \<and> run_ok ps d m') \<longleftrightarrow> m' \<noteq> [] \<and> spans p c (hd m') \<and> run_ok ps (hd m') m'"
    using run_ok_hd [of ps _ m'] by blast
  then show ?thesis unfolding Cons by simp blast
qed simp

lemma runs_iff: "m \<in> set (runs ps c) \<longleftrightarrow> run_ok ps c m"
proof (induction ps arbitrary: c m)
  case (Cons p ps)
  have "m \<in> set (runs (p # ps) c) \<longleftrightarrow> (\<exists>d \<in> set (ends p c). \<exists>m' \<in> set (runs ps d). m = c # m')"
    by (simp add: image_iff)
  also have "\<dots> \<longleftrightarrow> (\<exists>d m'. spans p c d \<and> run_ok ps d m' \<and> m = c # m')"
    unfolding Bex_def ends_iff Cons.IH by blast
  finally show ?case unfolding run_ok_Cons .
qed auto

text \<open>A match somewhere in a text.\<close>

definition occurs :: "pat list \<Rightarrow> string \<Rightarrow> cursor list \<Rightarrow> bool" where
  "occurs ps s m \<longleftrightarrow> (\<exists>c. text_of c = s \<and> run_ok ps c m)"

lemma run_ok_text: "run_ok ps c m \<Longrightarrow> text_of (last m) = text_of c"
proof (induction ps arbitrary: c m)
  case (Cons p ps)
  from Cons.prems obtain m' where m: "m = c # m'" "m' \<noteq> []" "spans p c (hd m')" "run_ok ps (hd m') m'"
    by (cases m) auto
  with Cons.IH spans_text [OF m(3)] show ?case by simp
qed auto

lemma runs_Nil_iff: "runs ps c = [] \<longleftrightarrow> (\<forall>m. \<not> run_ok ps c m)"
  using runs_iff [of _ ps c] by (metis list.set_intros(1) neq_Nil_conv empty_iff set_empty)

lemma runs_hd: "runs ps c = m # ms \<Longrightarrow> run_ok ps c m"
  using runs_iff [of m ps c] by simp

lemma finditer_from_occurs: "m \<in> set (finditer_from ps u v) \<Longrightarrow> occurs ps (rev u @ v) m"
proof (induction ps u v rule: finditer_from.induct)
  case (1 ps u v)
  show ?case
  proof (cases "runs ps (u, v)")
    case Nil
    with 1 show ?thesis by (subst (asm) (2) finditer_from.simps) (auto split: list.splits)
  next
    case (Cons n ns)
    note first = runs_hd [OF Cons]
    have rest: "rev (fst (last n)) @ snd (last n) = rev u @ v"
      using run_ok_text [OF first] by (simp add: text_of_def)
    have "occurs ps (rev u @ v) n"
      unfolding occurs_def using first by (intro exI [of _ "(u, v)"]) (simp add: text_of_def)
    with 1 Cons rest show ?thesis
      by (subst (asm) (4) finditer_from.simps) (auto split: list.splits if_splits)
  qed
qed

lemma finditer_from_Nil: "finditer_from ps u v = [] \<Longrightarrow> run_ok ps (rev w @ u, v') m \<Longrightarrow> v = w @ v' \<Longrightarrow> False"
proof (induction w arbitrary: u v)
  case Nil
  then show ?case by (subst (asm) finditer_from.simps) (auto simp: runs_Nil_iff split: list.splits)
next
  case (Cons x w)
  then have "finditer_from ps (x # u) (w @ v') = []"
    by (subst (asm) (2) finditer_from.simps) (auto split: list.splits)
  with Cons show ?case by auto
qed

lemma finditer_occurs: "m \<in> set (finditer ps s) \<Longrightarrow> occurs ps s m"
  unfolding finditer_def using finditer_from_occurs [of m ps "[]" s] by simp

text \<open>A search finds a match if and only if there is one.\<close>

lemma finditer_iff: "finditer ps s \<noteq> [] \<longleftrightarrow> (\<exists>m. occurs ps s m)"
proof
  assume "finditer ps s \<noteq> []"
  then obtain m where "m \<in> set (finditer ps s)" by (cases "finditer ps s") auto
  then show "\<exists>m. occurs ps s m" using finditer_occurs by blast
next
  assume "\<exists>m. occurs ps s m"
  then obtain m c where c: "s = rev (fst c) @ snd c" "run_ok ps (rev (rev (fst c)) @ [], snd c) m"
    unfolding occurs_def text_of_def by (elim exE conjE) (rule that, simp_all)
  then show "finditer ps s \<noteq> []"
    unfolding finditer_def using finditer_from_Nil [OF _ c(2,1)] by blast
qed

lemma search_from_None: "search_from ps u v = None \<Longrightarrow> run_ok ps (rev w @ u, v') m \<Longrightarrow> v = w @ v' \<Longrightarrow> False"
proof (induction w arbitrary: u v)
  case Nil
  then show ?case by (subst (asm) search_from.simps) (auto simp: runs_Nil_iff split: list.splits)
next
  case (Cons x w)
  then have "search_from ps (x # u) (w @ v') = None"
    by (subst (asm) (2) search_from.simps) (auto split: list.splits)
  with Cons show ?case by auto
qed

lemma search_from_Some: "search_from ps u v = Some m \<Longrightarrow> occurs ps (rev u @ v) m"
proof (induction v arbitrary: u)
  case Nil
  then show ?case
    by (subst (asm) search_from.simps) (force simp: occurs_def text_of_def dest: runs_hd split: list.splits)
next
  case (Cons x v)
  show ?case
  proof (cases "runs ps (u, x # v)")
    case Nil
    with Cons.prems have "search_from ps (x # u) v = Some m" by (simp add: search_from.simps [of ps u])
    with Cons.IH show ?thesis by fastforce
  next
    case (Cons n ns)
    with Cons.prems have "m = n" by (simp add: search_from.simps [of ps u])
    with runs_hd [OF Cons] show ?thesis
      unfolding occurs_def by (intro exI [of _ "(u, x # v)"]) (simp add: text_of_def)
  qed
qed

lemma re_search_iff: "re_search ps s \<noteq> None \<longleftrightarrow> (\<exists>m. occurs ps s m)"
proof
  assume "re_search ps s \<noteq> None"
  then obtain m where "search_from ps [] s = Some m" by (auto simp: re_search_def)
  then show "\<exists>m. occurs ps s m" using search_from_Some by fastforce
next
  assume "\<exists>m. occurs ps s m"
  then obtain m c where c: "s = rev (fst c) @ snd c" "run_ok ps (rev (rev (fst c)) @ [], snd c) m"
    unfolding occurs_def text_of_def by (elim exE conjE) (rule that, simp_all)
  then show "re_search ps s \<noteq> None"
    unfolding re_search_def using search_from_None [OF _ c(2,1)] by blast
qed

lemma re_search_occurs: "re_search ps s = Some m \<Longrightarrow> occurs ps s m"
  unfolding re_search_def using search_from_Some [of ps "[]" s] by simp

section \<open>The first match\<close>

lemma stops_split:
  "list_all P w \<Longrightarrow> r = [] \<or> \<not> P (hd r) \<Longrightarrow> \<exists>ds. stops P u (w @ r) = ds @ [(rev w @ u, r)]"
proof (induction w arbitrary: u)
  case Nil
  then show ?case by (cases r) auto
next
  case (Cons x w)
  then show ?case by (auto dest!: Cons.IH [of "x # u"])
qed

text \<open>A greedy star first tries to take all it can.\<close>

lemma star_first:
  assumes "list_all P w" "r = [] \<or> \<not> P (hd r)"
  shows "\<exists>ds. ends (PStar True P) (u, w @ r) = (rev w @ u, r) # ds"
proof -
  obtain ds where "stops P u (w @ r) = ds @ [(rev w @ u, r)]" using stops_split [OF assms] by blast
  then show ?thesis by (simp add: Let_def)
qed

lemma some_first:
  assumes "list_all P w" "w \<noteq> []" "r = [] \<or> \<not> P (hd r)"
  shows "\<exists>ds. ends (p_some P) (u, w @ r) = (rev w @ u, r) # ds"
proof -
  obtain x w' where w: "w = x # w'" using assms(2) by (cases w) auto
  then show ?thesis using star_first [of P w' r "x # u"] assms by (auto simp: p_some_def)
qed

lemma lit_ends: "ends (p_lit w) (u, w @ r) = [(rev w @ u, r)]"
  by (induction w arbitrary: u) (simp_all add: p_lit_def)

lemma runs_first:
  assumes "ends p c = d # ds" "runs ps d = m # ms"
  shows "\<exists>ns. runs (p # ps) c = (c # m) # ns"
  using assms by simp

lemma spans_star: "spans (PStar g P) c d \<Longrightarrow> \<exists>w. snd c = w @ snd d \<and> fst d = rev w @ fst c \<and> list_all P w"
proof (induction "PStar g P" c d rule: spans.induct)
  case (sp_step x u v d)
  then obtain w where "v = w @ snd d" "fst d = rev w @ x # u" "list_all P w" by auto
  with sp_step show ?case by (intro exI [of _ "x # w"]) simp
qed simp

lemma spans_some: "spans (p_some P) c d \<Longrightarrow> \<exists>w. snd c = w @ snd d \<and> fst d = rev w @ fst c \<and> w \<noteq> [] \<and> list_all P w"
  unfolding p_some_def spans_PSeq by (auto simp: spans_simps dest!: spans_star)

lemma spans_lit: "spans (p_lit w) c d \<Longrightarrow> snd c = w @ snd d \<and> fst d = rev w @ fst c"
  by (induction w arbitrary: c) (auto simp: p_lit_def spans_simps)

end
