(* ===== verification/Pii_Detection.thy ===== *)
theory Pii_Detection
  imports Router_Config Regex_Search
begin

text \<open>
  The experimental detection of personal data, \<^verbatim>\<open>src/src/vllm_router/experimental/pii/\<close>: the types, the
  configuration and its dictionary form, the regular-expression and Presidio analyzers, their
  factory and global instance, and the check of a request. No route of the program calls it.
  \<^verbatim>\<open>json.dumps\<close> is defined here with its defaults: texts are of code points below 256, and the checked
  text, which \<^verbatim>\<open>dumps\<close> makes, is ASCII. Presidio, the text of a float and the clock are parameters. A set is a list of its elements in some order.
\<close>

section \<open>Types and configuration\<close>

datatype PIIAction = BLOCK

datatype PIITarget = REQUEST | RESPONSE | BOTH

datatype PIIType =
    EMAIL | PHONE | SSN | CREDIT_CARD | IP_ADDRESS | API_KEY | BANK_ACCOUNT | PASSPORT | DRIVERS_LICENSE | TAX_ID
  | MEDICAL_RECORD | HEALTH_INFO | MAC_ADDRESS | NAME | DOB | PASSWORD | USERNAME | ADDRESS

definition PIIType_values :: "(PIIType \<times> string) list" where
  "PIIType_values =
     [(EMAIL, ''email''), (PHONE, ''phone''), (SSN, ''ssn''), (CREDIT_CARD, ''credit_card''), (IP_ADDRESS, ''ip_address''),
      (API_KEY, ''api_key''), (BANK_ACCOUNT, ''bank_account''), (PASSPORT, ''passport''),
      (DRIVERS_LICENSE, ''drivers_license''), (TAX_ID, ''tax_id''), (MEDICAL_RECORD, ''medical_record''),
      (HEALTH_INFO, ''health_info''), (MAC_ADDRESS, ''mac_address''), (NAME, ''name''), (DOB, ''date_of_birth''),
      (PASSWORD, ''password''), (USERNAME, ''username''), (ADDRESS, ''address'')]"

definition PIIType_value :: "PIIType \<Rightarrow> string" where
  "PIIType_value t = (case map_of PIIType_values t of None \<Rightarrow> [] | Some v \<Rightarrow> v)"

text \<open>\<^verbatim>\<open>PIIType(v)\<close>: the member with this value. An unhashable \<open>v\<close> is compared with every member.\<close>

definition PIIType_of :: "json \<Rightarrow> PIIType result" where
  "PIIType_of v =
     (case v of
        JStr s \<Rightarrow> (case map_of (map prod.swap PIIType_values) s of
                      Some t \<Rightarrow> Inr t
                    | None \<Rightarrow> Inl (ValueError ''is not a valid PIIType''))
      | _ \<Rightarrow> Inl (ValueError ''is not a valid PIIType''))"

record pii_config =
  pc_enabled :: json
  pc_pii_types :: "PIIType list option"
  pc_score_threshold :: json

definition PIIConfig_from_dict :: "jobj \<Rightarrow> pii_config result" where
  "PIIConfig_from_dict config_dict =
     bindE (case map_of config_dict ''pii_types'' of
              None \<Rightarrow> Inr None
            | Some v \<Rightarrow> bindE (py_iter v) (\<lambda>ts. bindE (mapE PIIType_of ts) (\<lambda>types. Inr (Some (remdups types)))))
       (\<lambda>types. Inr \<lparr>pc_enabled = jget config_dict ''enabled'' (JBool True), pc_pii_types = types,
                    pc_score_threshold = jget config_dict ''score_threshold'' (JFloat (1 / 2))\<rparr>)"

definition PIIConfig_to_dict :: "pii_config \<Rightarrow> jobj" where
  "PIIConfig_to_dict c =
     [(''enabled'', pc_enabled c),
      (''pii_types'', (case pc_pii_types c of
                         None \<Rightarrow> JNull
                       | Some ts \<Rightarrow> if ts = [] then JNull else JList (map (JStr \<circ> PIIType_value) ts))),
      (''score_threshold'', pc_score_threshold c)]"

section \<open>Patterns\<close>

definition dash_or_dot :: pat where
  "dash_or_dot = p_opt (PChar (\<lambda>c. c = CHR ''-'' \<or> c = CHR ''.''))"

definition p_digits :: "nat \<Rightarrow> pat" where
  "p_digits n = p_rep n (PChar digit_class)"

definition PII_PATTERNS :: "(PIIType \<times> pat) list" where
  "PII_PATTERNS =
     [(EMAIL, p_seq [p_some (\<lambda>c. word_char c \<or> digit_class c \<or> c \<in> set ''._%+-''), p_lit ''@'',
                     p_some (\<lambda>c. word_char c \<or> digit_class c \<or> c \<in> set ''.-''), p_lit ''.'',
                     p_rep 2 (PChar word_char), PStar True word_char]),
      (PHONE, p_seq [PBound, p_opt (p_seq [p_opt (p_lit ''+''), p_lit ''1'', dash_or_dot]), PStar True re_space,
                     PAlt (p_seq [p_lit ''('', p_digits 3, p_lit '')'']) (p_digits 3),
                     dash_or_dot, p_digits 3, dash_or_dot, p_digits 4, PBound]),
      (SSN, p_seq [PBound, p_digits 3, dash_or_dot, p_digits 2, dash_or_dot, p_digits 4, PBound]),
      (CREDIT_CARD, p_seq [PBound,
                     p_between 13 16 (PSeq (PChar digit_class) (PStar False (\<lambda>c. c = CHR '' '' \<or> c = CHR ''-''))),
                     PBound]),
      (IP_ADDRESS, p_seq [PBound, p_rep 3 (PSeq (p_between 1 3 (PChar digit_class)) (p_lit ''.'')),
                     p_between 1 3 (PChar digit_class), PBound])]"

section \<open>The text of a body\<close>

text \<open>\<^verbatim>\<open>json.dumps\<close> with its defaults, given the text of a float.\<close>

definition hex_digit :: "nat \<Rightarrow> char" where
  "hex_digit n = ''0123456789abcdef'' ! n"

definition json_escape :: "char \<Rightarrow> string" where
  "json_escape c =
     (let n = of_char c :: nat; esc = (\<lambda>d. [CHR 0x5C, d]) in
      if c = CHR 0x22 \<or> c = CHR 0x5C then esc c
      else if n = 10 then esc (CHR ''n'')
      else if n = 13 then esc (CHR ''r'')
      else if n = 9 then esc (CHR ''t'')
      else if n = 12 then esc (CHR ''f'')
      else if n = 8 then esc (CHR ''b'')
      else if 32 \<le> n \<and> n \<le> 126 then [c]
      else esc (CHR ''u'') @ ''00'' @ [hex_digit (n div 16), hex_digit (n mod 16)])"

definition json_quote :: "string \<Rightarrow> string" where
  "json_quote s = [CHR 0x22] @ concat (map json_escape s) @ [CHR 0x22]"

fun json_dumps :: "(rat \<Rightarrow> string) \<Rightarrow> json \<Rightarrow> string"
  and json_dumps_list :: "(rat \<Rightarrow> string) \<Rightarrow> json list \<Rightarrow> string list"
  and json_dumps_items :: "(rat \<Rightarrow> string) \<Rightarrow> (string \<times> json) list \<Rightarrow> string list" where
  "json_dumps ft JNull = ''null''"
| "json_dumps ft (JBool b) = (if b then ''true'' else ''false'')"
| "json_dumps ft (JInt i) = show_int i"
| "json_dumps ft (JFloat r) = ft r"
| "json_dumps ft (JStr s) = json_quote s"
| "json_dumps ft (JList vs) = ''['' @ join '', '' (json_dumps_list ft vs) @ '']''"
| "json_dumps ft (JObj d) = ''{'' @ join '', '' (json_dumps_items ft d) @ ''}''"
| "json_dumps_list ft [] = []"
| "json_dumps_list ft (v # vs) = json_dumps ft v # json_dumps_list ft vs"
| "json_dumps_items ft [] = []"
| "json_dumps_items ft ((k, v) # d) = (json_quote k @ '': '' @ json_dumps ft v) # json_dumps_items ft d"

section \<open>Analyzers\<close>

record pii_location =
  pl_start :: nat
  pl_end :: nat
  pl_pii_type :: PIIType
  pl_value :: string
  pl_score :: rat

record pii_result =
  ar_has_pii :: bool
  ar_detected_types :: "PIIType list"
  ar_pii_locations :: "pii_location list option"

text \<open>The world outside: the version of pydantic if it can be imported, whether Presidio can, the error
  of building its engine, if any, what the engine finds (entity type, start, end and score), and the
  text of a float.\<close>

record pii_env =
  pe_pydantic_version :: "string option"
  pe_presidio_present :: bool
  pe_engine_error :: "string option"
  pe_engine_analyze :: "string \<Rightarrow> string list option \<Rightarrow> json \<Rightarrow> string + (string \<times> nat \<times> nat \<times> rat) list"
  pe_float_repr :: "rat \<Rightarrow> string"

text \<open>The order of tuples of integers.\<close>

fun tuple_less :: "int list \<Rightarrow> int list \<Rightarrow> bool" where
  "tuple_less _ [] = False"
| "tuple_less [] (_ # _) = True"
| "tuple_less (x # xs) (y # ys) = (x < y \<or> x = y \<and> tuple_less xs ys)"

text \<open>\<^verbatim>\<open>MISSING_DEPS\<close>, made when the module is imported: a version that is not numeric makes the import
  raise.\<close>

definition MISSING_DEPS :: "pii_env \<Rightarrow> string list result" where
  "MISSING_DEPS env =
     bindE (case pe_pydantic_version env of
              None \<Rightarrow> Inr [''pydantic>=2.0.0'']
            | Some version \<Rightarrow>
                bindE (mapE (\<lambda>w. case py_int w of None \<Rightarrow> Inl (ValueError ''invalid literal for int()'') | Some i \<Rightarrow> Inr i)
                         (split_on CHR ''.'' version))
                  (\<lambda>v. Inr (if tuple_less v [2, 0, 0] then [''pydantic>=2.0.0''] else [])))
       (\<lambda>deps. Inr (deps @ (if pe_presidio_present env then [] else [''presidio-analyzer>=2.2.0''])))"

text \<open>An analyzer: its configuration, and its compiled patterns or whether it has an engine.\<close>

datatype analyzer = RegexAnalyzer jobj "(PIIType \<times> pat) list" | PresidioAnalyzer jobj bool

definition add_type :: "PIIType \<Rightarrow> PIIType list \<Rightarrow> PIIType list" where
  "add_type t ts = (if t \<in> set ts then ts else ts @ [t])"

definition PIIAnalysisResult :: "PIIType list \<times> pii_location list \<Rightarrow> pii_result" where
  "PIIAnalysisResult = (\<lambda>(types, locations).
     \<lparr>ar_has_pii = types \<noteq> [], ar_detected_types = types,
      ar_pii_locations = (if locations = [] then None else Some locations)\<rparr>)"

definition patterns_to_check :: "PIIType list option \<Rightarrow> (PIIType \<times> pat) list \<Rightarrow> (PIIType \<times> pat) list" where
  "patterns_to_check pii_types patterns =
     (case pii_types of
        None \<Rightarrow> patterns
      | Some ts \<Rightarrow>
          if ts = [] then patterns
          else concat (map (\<lambda>t. case map_of patterns t of None \<Rightarrow> [] | Some p \<Rightarrow> [(t, p)]) ts))"

definition match_location :: "PIIType \<Rightarrow> cursor list \<Rightarrow> pii_location" where
  "match_location t m =
     \<lparr>pl_start = pos (hd m), pl_end = pos (last m), pl_pii_type = t, pl_value = between (hd m) (last m), pl_score = 1\<rparr>"

fun regex_loop ::
  "string \<Rightarrow> (PIIType \<times> pat) list \<Rightarrow> PIIType list \<times> pii_location list \<Rightarrow> PIIType list \<times> pii_location list" where
  "regex_loop s [] acc = acc"
| "regex_loop s ((t, p) # ps) acc =
     regex_loop s ps
       (fold (\<lambda>m (types, locations). (add_type t types, locations @ [match_location t m])) (finditer [p] s) acc)"

definition PII_TO_PRESIDIO :: "(PIIType \<times> string) list" where
  "PII_TO_PRESIDIO =
     [(EMAIL, ''EMAIL_ADDRESS''), (PHONE, ''PHONE_NUMBER''), (SSN, ''US_SSN''), (CREDIT_CARD, ''CREDIT_CARD''),
      (IP_ADDRESS, ''IP_ADDRESS''), (API_KEY, ''API_KEY'')]"

definition PRESIDIO_TO_PII :: "(string \<times> PIIType) list" where
  "PRESIDIO_TO_PII = map prod.swap PII_TO_PRESIDIO"

fun presidio_loop ::
  "string \<Rightarrow> (string \<times> nat \<times> nat \<times> rat) list \<Rightarrow> PIIType list \<times> pii_location list \<Rightarrow> PIIType list \<times> pii_location list" where
  "presidio_loop s [] acc = acc"
| "presidio_loop s ((entity_type, i, j, score) # results) (types, locations) =
     (case map_of PRESIDIO_TO_PII entity_type of
        None \<Rightarrow> presidio_loop s results (types, locations)
      | Some t \<Rightarrow>
          presidio_loop s results
            (add_type t types,
             locations @ [\<lparr>pl_start = i, pl_end = j, pl_pii_type = t, pl_value = take (j - i) (drop i s),
                           pl_score = score\<rparr>]))"

definition presidio_entities :: "PIIType list option \<Rightarrow> string list option" where
  "presidio_entities pii_types =
     (case pii_types of
        None \<Rightarrow> None
      | Some ts \<Rightarrow>
          if ts = [] then None
          else Some (concat (map (\<lambda>t. case map_of PII_TO_PRESIDIO t of None \<Rightarrow> [] | Some e \<Rightarrow> [e]) ts)))"

definition regex_analyze :: "(PIIType \<times> pat) list \<Rightarrow> string \<Rightarrow> PIIType list option \<Rightarrow> pii_result result" where
  "regex_analyze patterns s pii_types =
     (if patterns = [] then Inl (RuntimeError ''Analyzer not initialized. Call initialize() first.'')
      else Inr (PIIAnalysisResult (regex_loop s (patterns_to_check pii_types patterns) ([], []))))"

definition presidio_analyze ::
  "pii_env \<Rightarrow> bool \<Rightarrow> string \<Rightarrow> PIIType list option \<Rightarrow> json \<Rightarrow> pii_result result" where
  "presidio_analyze env ready s pii_types score_threshold =
     (if \<not> ready then Inl (RuntimeError ''Analyzer not initialized. Call initialize() first.'')
      else (case pe_engine_analyze env s (presidio_entities pii_types) score_threshold of
              Inl e \<Rightarrow> Inl (RuntimeError (''Error analyzing text with Presidio: '' @ e))
            | Inr results \<Rightarrow> Inr (PIIAnalysisResult (presidio_loop s results ([], [])))))"

definition analyze ::
  "pii_env \<Rightarrow> analyzer \<Rightarrow> string \<Rightarrow> PIIType list option \<Rightarrow> json \<Rightarrow> pii_result result" where
  "analyze env az s pii_types score_threshold =
     (case az of
        RegexAnalyzer _ patterns \<Rightarrow> regex_analyze patterns s pii_types
      | PresidioAnalyzer _ ready \<Rightarrow> presidio_analyze env ready s pii_types score_threshold)"

definition missing_message :: "string list \<Rightarrow> string" where
  "missing_message deps =
     (let pip_deps = filter (\<lambda>d. \<not> starts_with d ''python'') deps;
          spacy_deps = filter (\<lambda>d. starts_with d ''python'') deps;
          deps_msg = (if pip_deps \<noteq> [] then [''pip install '' @ join '' '' pip_deps] else []) @ spacy_deps
      in ''Missing required dependencies for PII detection. Please run the following commands:'' @ [CHR 0x0A]
           @ join [CHR 0x0A] deps_msg)"

definition presidio_initialize :: "pii_env \<Rightarrow> string list \<Rightarrow> bool result" where
  "presidio_initialize env deps =
     (if deps \<noteq> [] then Inl (RuntimeError (missing_message deps))
      else (case pe_engine_error env of
              Some e \<Rightarrow>
                Inl (RuntimeError (''Failed to initialize Presidio analyzer: '' @ e @ [CHR 0x0A]
                  @ ''This might be due to incompatible package versions. ''
                  @ ''Please ensure you have installed the correct versions:'' @ [CHR 0x0A]
                  @ ''pip install -r src/vllm_router/experimental/pii/requirements.txt''))
            | None \<Rightarrow> Inr True))"

definition analyzer_initialize :: "pii_env \<Rightarrow> string list \<Rightarrow> analyzer \<Rightarrow> analyzer result" where
  "analyzer_initialize env deps az =
     (case az of
        RegexAnalyzer config _ \<Rightarrow> Inr (RegexAnalyzer config PII_PATTERNS)
      | PresidioAnalyzer config _ \<Rightarrow> bindE (presidio_initialize env deps) (\<lambda>ready. Inr (PresidioAnalyzer config ready)))"

definition analyzer_shutdown :: "analyzer \<Rightarrow> analyzer" where
  "analyzer_shutdown az =
     (case az of RegexAnalyzer config _ \<Rightarrow> RegexAnalyzer config [] | PresidioAnalyzer config _ \<Rightarrow> PresidioAnalyzer config False)"

definition ANALYZERS :: "(string \<times> (jobj \<Rightarrow> analyzer)) list" where
  "ANALYZERS = [(''presidio'', \<lambda>config. PresidioAnalyzer config False), (''regex'', \<lambda>config. RegexAnalyzer config [])]"

text \<open>\<open>deps\<close> is the value of \<^verbatim>\<open>MISSING_DEPS\<close>.\<close>

definition create_analyzer :: "pii_env \<Rightarrow> string list \<Rightarrow> string \<Rightarrow> jobj option \<Rightarrow> analyzer result" where
  "create_analyzer env deps analyzer_type config =
     (case map_of ANALYZERS analyzer_type of
        None \<Rightarrow> Inl (ValueError (''Unsupported analyzer type: '' @ analyzer_type))
      | Some analyzer_class \<Rightarrow>
          (case analyzer_initialize env deps (analyzer_class (case config of None \<Rightarrow> [] | Some d \<Rightarrow> d)) of
             Inl _ \<Rightarrow> Inl (RuntimeError (''Failed to create '' @ analyzer_type @ '' analyzer''))
           | Inr az \<Rightarrow> Inr az))"

text \<open>The module's global instance. A shutdown also closes the object, which others may hold.\<close>

definition initialize_pii_detection ::
  "pii_env \<Rightarrow> string list \<Rightarrow> string \<Rightarrow> jobj option \<Rightarrow> analyzer option \<Rightarrow> analyzer option \<times> unit result" where
  "initialize_pii_detection env deps analyzer_type config g =
     (case create_analyzer env deps analyzer_type config of Inl e \<Rightarrow> (g, Inl e) | Inr az \<Rightarrow> (Some az, Inr ()))"

definition shutdown_pii_detection :: "analyzer option \<Rightarrow> analyzer option \<times> analyzer option" where
  "shutdown_pii_detection g = (None, map_option analyzer_shutdown g)"

definition get_pii_analyzer :: "analyzer option \<Rightarrow> analyzer option" where
  "get_pii_analyzer g = g"

definition is_pii_detection_enabled :: "analyzer option \<Rightarrow> bool" where
  "is_pii_detection_enabled g \<longleftrightarrow> g \<noteq> None"

section \<open>The check of a request\<close>

text \<open>The metrics: histograms keep the observations in their order.\<close>

record pii_metrics =
  pm_requests_total :: "(string \<times> int) list"
  pm_detected_total :: "((string \<times> string) \<times> int) list"
  pm_detection_time :: "((string \<times> string) \<times> rat) list"
  pm_detection_score :: "(string \<times> rat) list"
  pm_analyzer_errors :: "(string \<times> int) list"

fun error_name :: "py_error \<Rightarrow> string" where
  "error_name IndexError = ''IndexError''"
| "error_name (KeyError _) = ''KeyError''"
| "error_name (ValueError _) = ''ValueError''"
| "error_name (TypeError _) = ''TypeError''"
| "error_name (AttributeError _) = ''AttributeError''"
| "error_name (AssertionError _) = ''AssertionError''"
| "error_name (RuntimeError _) = ''RuntimeError''"
| "error_name ZeroDivisionError = ''ZeroDivisionError''"
| "error_name (UnboundLocalError _) = ''UnboundLocalError''"
| "error_name (FileNotFoundError _) = ''FileNotFoundError''"
| "error_name JSONDecodeError = ''JSONDecodeError''"
| "error_name (ClientResponseError _) = ''ClientResponseError''"
| "error_name (OtherException n) = n"

text \<open>\<open>t0\<close> and \<open>t1\<close> are the clock before and after the analysis.\<close>

definition check_pii_content ::
  "pii_env \<Rightarrow> rat \<Rightarrow> rat \<Rightarrow> string \<Rightarrow> analyzer \<Rightarrow> pii_config \<Rightarrow> pii_metrics \<Rightarrow>
   pii_metrics \<times> (bool \<times> PIIType list) option" where
  "check_pii_content env t0 t1 s az config m =
     (if s = [] then (m, None)
      else (case analyze env az s (pc_pii_types config) (pc_score_threshold config) of
              Inl e \<Rightarrow>
                (m\<lparr>pm_detection_time := pm_detection_time m @ [((''analyze'', ''error''), t1 - t0)],
                   pm_analyzer_errors := dict_incr (error_name e) (pm_analyzer_errors m)\<rparr>, Some (True, []))
            | Inr r \<Rightarrow>
                (let m1 = m\<lparr>pm_detection_time := pm_detection_time m @ [((''analyze'', ''success''), t1 - t0)]\<rparr>
                 in if \<not> ar_has_pii r then (m1, None)
                    else (m1\<lparr>pm_detection_score := pm_detection_score m1 @
                               map (\<lambda>l. (PIIType_value (pl_pii_type l), pl_score l))
                                 (case ar_pii_locations r of None \<Rightarrow> [] | Some ls \<Rightarrow> ls)\<rparr>,
                          Some (True, ar_detected_types r)))))"

definition pii_reply :: "PIIType list \<Rightarrow> int \<times> jobj" where
  "pii_reply types =
     (400, [(''error'', JObj [(''message'', JStr ''PII detected in request''),
                              (''types'', JList (map (JStr \<circ> PIIType_value) types))])])"

text \<open>\<open>None\<close> lets the request proceed. \<open>parsed\<close> is what \<^verbatim>\<open>request.json()\<close> returns or raises.\<close>

definition check_pii ::
  "pii_env \<Rightarrow> rat \<Rightarrow> rat \<Rightarrow> string \<Rightarrow> json result \<Rightarrow> analyzer \<Rightarrow> pii_config option \<Rightarrow> pii_metrics \<Rightarrow>
   pii_metrics \<times> (int \<times> jobj) option" where
  "check_pii env t0 t1 path parsed az config m =
     (case config of
        None \<Rightarrow> (m, None)
      | Some c \<Rightarrow>
          if \<not> truthy (pc_enabled c) then (m, None)
          else (case parsed of
                  Inl e \<Rightarrow> (m\<lparr>pm_analyzer_errors := dict_incr (error_name e) (pm_analyzer_errors m)\<rparr>, None)
                | Inr body \<Rightarrow>
                    (case check_pii_content env t0 t1 (json_dumps (pe_float_repr env) body) az c m of
                       (m1, None) \<Rightarrow> (m1, None)
                     | (m1, Some (should_block, types)) \<Rightarrow>
                         if should_block
                         then (m1\<lparr>pm_detected_total :=
                                   fold (\<lambda>t. dict_incr (path, PIIType_value t)) types (pm_detected_total m1)\<rparr>,
                               Some (pii_reply types))
                         else (m1, None))))"

section \<open>Detection\<close>

lemma pattern_widths [simp]: "min_width (p_digits n) = n" "min_width dash_or_dot = 0"
  by (simp_all add: p_digits_def dash_or_dot_def)

lemma pattern_consumes:
  assumes "(t, p) \<in> set PII_PATTERNS" "spans p c d"
  shows "pos c < pos d"
proof -
  have "0 < min_width p" using assms(1) by (auto simp: PII_PATTERNS_def)
  with spans_width [OF assms(2)] show ?thesis by simp
qed

lemma single_finditer: "finditer [p] s \<noteq> [] \<longleftrightarrow> (\<exists>c d. text_of c = s \<and> spans p c d)"
proof -
  have "(\<exists>m. run_ok [p] c m) \<longleftrightarrow> (\<exists>d. spans p c d)" for c
    unfolding run_ok_Cons by (simp only: run_ok.simps(1)) blast
  then show ?thesis unfolding finditer_iff occurs_def by blast
qed

lemma add_type_set [simp]: "set (add_type t ts) = insert t (set ts)"
  by (auto simp: add_type_def)

lemma match_fold_types:
  "set (fst (fold (\<lambda>m (types, locations). (add_type t types, locations @ [f m])) ms acc)) =
     set (fst acc) \<union> (if ms = [] then {} else {t})"
  by (induction ms arbitrary: acc) (auto split: prod.splits)

lemma regex_loop_types:
  "set (fst (regex_loop s ps acc)) = set (fst acc) \<union> {t. \<exists>p. (t, p) \<in> set ps \<and> finditer [p] s \<noteq> []}"
proof (induction ps arbitrary: acc)
  case (Cons tp ps)
  then show ?case by (cases tp) (auto simp: match_fold_types)
qed simp

lemma patterns_to_check_mem:
  assumes "distinct (map fst patterns)"
  shows "(t, p) \<in> set (patterns_to_check types patterns) \<longleftrightarrow>
    (t, p) \<in> set patterns \<and> (case types of None \<Rightarrow> True | Some ts \<Rightarrow> ts = [] \<or> t \<in> set ts)"
  using assms by (auto simp: patterns_to_check_def split: option.splits dest: map_of_SomeD)

text \<open>The types that a text shows, among those selected: \<open>None\<close> and the empty set select all.\<close>

definition shown_types :: "PIIType list option \<Rightarrow> string \<Rightarrow> PIIType set" where
  "shown_types selected s =
     {t. \<exists>p c d. (t, p) \<in> set PII_PATTERNS \<and> text_of c = s \<and> spans p c d \<and>
        (case selected of None \<Rightarrow> True | Some ts \<Rightarrow> ts = [] \<or> t \<in> set ts)}"

lemma regex_detects:
  "\<exists>r. regex_analyze PII_PATTERNS s types = Inr r \<and> set (ar_detected_types r) = shown_types types s \<and>
     (ar_has_pii r \<longleftrightarrow> ar_detected_types r \<noteq> [])"
proof -
  have ne: "PII_PATTERNS \<noteq> []" and d: "distinct (map fst PII_PATTERNS)" by (simp_all add: PII_PATTERNS_def)
  let ?acc = "regex_loop s (patterns_to_check types PII_PATTERNS) ([], [])"
  have "set (fst ?acc) = shown_types types s"
    unfolding regex_loop_types shown_types_def patterns_to_check_mem [OF d]
    unfolding single_finditer by (simp del: split_paired_Ex) blast
  with ne show ?thesis by (simp add: regex_analyze_def PIIAnalysisResult_def split_beta)
qed

lemma empty_text_shows_nothing: "shown_types types [] = {}"
proof -
  have False if "(t, p) \<in> set PII_PATTERNS" "text_of c = []" "spans p c d" for t p c d
    using pattern_consumes [OF that(1,3)] spans_text [OF that(3)] that(2) by (simp add: text_of_def pos_def)
  then show ?thesis unfolding shown_types_def by blast
qed

text \<open>C27: the check refuses exactly the requests that show personal data. With detection enabled and a
  regular-expression analyzer from the factory, a request whose body can be read is answered with
  status 400 if and only if the JSON text of its body contains a match of the pattern of a selected
  type; the types the answer names are exactly those matched.\<close>

theorem pii_check_blocks_exactly:
  assumes "truthy (pc_enabled c)" "create_analyzer env deps ''regex'' config = Inr az"
  shows "\<exists>types. set types = shown_types (pc_pii_types c) (json_dumps (pe_float_repr env) body) \<and>
    snd (check_pii env t0 t1 path (Inr body) az (Some c) m) = (if types = [] then None else Some (pii_reply types))"
proof -
  let ?s = "json_dumps (pe_float_repr env) body"
  obtain d where az: "az = RegexAnalyzer d PII_PATTERNS"
    using assms(2) by (auto simp: create_analyzer_def ANALYZERS_def analyzer_initialize_def)
  obtain r where r: "regex_analyze PII_PATTERNS ?s (pc_pii_types c) = Inr r"
    "set (ar_detected_types r) = shown_types (pc_pii_types c) ?s" "ar_has_pii r \<longleftrightarrow> ar_detected_types r \<noteq> []"
    using regex_detects by blast
  show ?thesis
  proof (cases "?s = []")
    case True
    then show ?thesis
      using assms(1) by (intro exI [of _ "[]"]) (simp add: check_pii_def check_pii_content_def empty_text_shows_nothing)
  next
    case False
    with r assms(1) show ?thesis
      by (intro exI [of _ "ar_detected_types r"]) (simp add: az check_pii_def check_pii_content_def analyze_def Let_def)
  qed
qed

text \<open>A failure of the analysis blocks the request and names no type; a failure of reading the body
  lets it pass. Both are counted.\<close>

lemma analysis_error_blocks:
  assumes "truthy (pc_enabled c)" "json_dumps (pe_float_repr env) body \<noteq> []"
    and "analyze env az (json_dumps (pe_float_repr env) body) (pc_pii_types c) (pc_score_threshold c) = Inl e"
  shows "snd (check_pii env t0 t1 path (Inr body) az (Some c) m) = Some (pii_reply [])"
  using assms by (simp add: check_pii_def check_pii_content_def)

lemma unreadable_body_passes:
  "snd (check_pii env t0 t1 path (Inl e) az config m) = None"
  by (simp add: check_pii_def split: option.split)

text \<open>Selecting only types that have no pattern switches the regular-expression check off.\<close>

lemma unsupported_types_pass:
  assumes "ts \<noteq> []" "\<forall>t \<in> set ts. map_of PII_PATTERNS t = None"
  shows "shown_types (Some ts) s = {}"
  using assms by (force simp: shown_types_def map_of_eq_None_iff)

text \<open>A closed analyzer raises, so a request that arrives after the shutdown is refused.\<close>

lemma closed_analyzer_raises:
  "analyze env (analyzer_shutdown az) s types threshold =
     Inl (RuntimeError ''Analyzer not initialized. Call initialize() first.'')"
  by (simp add: analyze_def analyzer_shutdown_def regex_analyze_def presidio_analyze_def split: analyzer.split)

text \<open>The counter of checked requests is declared and never raised.\<close>

lemma requests_total_unused:
  "pm_requests_total (fst (check_pii env t0 t1 path parsed az config m)) = pm_requests_total m"
  by (auto simp: check_pii_def check_pii_content_def Let_def split: option.splits sum.splits prod.splits if_splits)

section \<open>Configurations\<close>

lemma PIIType_roundtrip [simp]: "PIIType_of (JStr (PIIType_value t)) = Inr t"
  by (cases t) (simp_all add: PIIType_of_def PIIType_value_def PIIType_values_def)

text \<open>A configuration survives its dictionary if and only if it names types. With a nonempty set of
  types, reading back the dictionary gives the configuration; without one (all types, the default)
  the dictionary says \<^verbatim>\<open>None\<close>, over which the reader cannot iterate, and it raises.\<close>

theorem pii_config_dict_roundtrip:
  assumes "case pc_pii_types c of None \<Rightarrow> True | Some ts \<Rightarrow> distinct ts"
  shows "PIIConfig_from_dict (PIIConfig_to_dict c) =
    (if pc_pii_types c = None \<or> pc_pii_types c = Some [] then Inl (TypeError ''object is not iterable'') else Inr c)"
proof (cases "pc_pii_types c")
  case None
  then show ?thesis by (simp add: PIIConfig_from_dict_def PIIConfig_to_dict_def)
next
  case (Some ts)
  have "mapE PIIType_of (map (JStr \<circ> PIIType_value) ts) = Inr ts"
    by (induction ts) simp_all
  then show ?thesis
    using assms Some by (simp add: PIIConfig_from_dict_def PIIConfig_to_dict_def jget_def distinct_remdups_id)
qed

section \<open>Samples\<close>

definition bare_env :: pii_env where
  "bare_env =
     \<lparr>pe_pydantic_version = None, pe_presidio_present = False, pe_engine_error = None,
      pe_engine_analyze = (\<lambda>_ _ _. Inr []), pe_float_repr = (\<lambda>_. ''0.0'')\<rparr>"

definition all_types :: pii_config where
  "all_types = \<lparr>pc_enabled = JBool True, pc_pii_types = None, pc_score_threshold = JFloat (1 / 2)\<rparr>"

definition prompt_body :: "string \<Rightarrow> json" where
  "prompt_body s = JObj [(''prompt'', JStr s)]"

definition no_metrics :: pii_metrics where
  "no_metrics = \<lparr>pm_requests_total = [], pm_detected_total = [], pm_detection_time = [], pm_detection_score = [],
                 pm_analyzer_errors = []\<rparr>"

definition regex_check :: "string \<Rightarrow> (int \<times> jobj) option" where
  "regex_check s =
     snd (check_pii bare_env 0 1 ''/v1'' (Inr (prompt_body s)) (RegexAnalyzer [] PII_PATTERNS) (Some all_types) no_metrics)"

text \<open>A number at the start of a line escapes the check. The patterns are searched in the JSON text,
  where a line break is a backslash and the letter n; between that letter and a digit there is no
  word boundary. A prompt with a social security number after a blank is refused, the same
  prompt with the number on a line of its own is let through.\<close>

theorem newline_hides_pii:
  "regex_check (''id '' @ ''123-45-6789'') = Some (pii_reply [SSN]) \<and>
   regex_check (''id'' @ [CHR 0x0A] @ ''123-45-6789'') = None"
  by code_simp

theorem pii_check_blocks_exactly_witness:
  "snd (check_pii bare_env 0 1 ''/v1'' (Inr (prompt_body ''a@b.cd'')) (RegexAnalyzer [] PII_PATTERNS) (Some all_types) no_metrics)
     \<noteq> None"
proof -
  have az: "create_analyzer bare_env [] ''regex'' None = Inr (RegexAnalyzer [] PII_PATTERNS)"
    by (simp add: create_analyzer_def ANALYZERS_def analyzer_initialize_def)
  let ?s = "json_dumps (pe_float_repr bare_env) (prompt_body ''a@b.cd'')"
  have "finditer [snd (hd PII_PATTERNS)] ?s \<noteq> []" by code_simp
  moreover have "(EMAIL, snd (hd PII_PATTERNS)) \<in> set PII_PATTERNS" by (simp add: PII_PATTERNS_def)
  ultimately have "EMAIL \<in> shown_types (pc_pii_types all_types) ?s"
    unfolding shown_types_def single_finditer by (simp add: all_types_def del: split_paired_Ex) blast
  moreover have "truthy (pc_enabled all_types)" by (simp add: all_types_def)
  ultimately show ?thesis
    using pii_check_blocks_exactly [OF _ az, of all_types "prompt_body ''a@b.cd''" 0 1 "''/v1''" no_metrics]
    by (auto split: if_splits)
qed

theorem pii_config_dict_roundtrip_witness:
  "PIIConfig_from_dict (PIIConfig_to_dict (all_types\<lparr>pc_pii_types := Some [EMAIL, SSN]\<rparr>)) =
     Inr (all_types\<lparr>pc_pii_types := Some [EMAIL, SSN]\<rparr>) \<and>
   PIIConfig_from_dict (PIIConfig_to_dict all_types) = Inl (TypeError ''object is not iterable'')"
  using pii_config_dict_roundtrip [of "all_types\<lparr>pc_pii_types := Some [EMAIL, SSN]\<rparr>"] pii_config_dict_roundtrip [of all_types]
  by (simp add: all_types_def)

end
