(* ===== verification/Nvlink_Log.thy ===== *)
theory Nvlink_Log
  imports Regex_Search "HOL-Library.AList"
begin

text \<open>
  Reading the debug log in \<^verbatim>\<open>src/debug/issue-6/analyze_nvlink_nvdbg.py\<close>: lines, the prefix of
  \<^verbatim>\<open>kubectl logs\<close>, the events with their fields, the GPU reservations and the lines kept as symptoms.
  Texts are of code points below 256.
\<close>

section \<open>Lines\<close>

definition LF :: char where
  "LF = CHR 0x0A"

definition line_break :: "char \<Rightarrow> bool" where
  "line_break c \<longleftrightarrow> (of_char c :: nat) \<in> {10, 11, 12, 13, 28, 29, 30, 133}"

text \<open>\<^verbatim>\<open>splitlines(True)\<close>; the first argument is the line read so far, reversed.\<close>

fun splitlines_from :: "string \<Rightarrow> string \<Rightarrow> string list" where
  "splitlines_from cur [] = (if cur = [] then [] else [rev cur])"
| "splitlines_from cur (c # s) =
     (if c = CHR 0x0D \<and> s \<noteq> [] \<and> hd s = LF then rev (LF # c # cur) # splitlines_from [] (tl s)
      else if line_break c then rev (c # cur) # splitlines_from [] s
      else splitlines_from (c # cur) s)"

definition splitlines :: "string \<Rightarrow> string list" where
  "splitlines s = splitlines_from [] s"

definition rstrip_newlines :: "string \<Rightarrow> string" where
  "rstrip_newlines s = rev (dropWhile (\<lambda>c. c = LF) (rev s))"

definition re_strip :: "string \<Rightarrow> string" where
  "re_strip s = rev (dropWhile re_space (rev (dropWhile re_space s)))"

section \<open>Patterns\<close>

definition non_space :: "char \<Rightarrow> bool" where
  "non_space c \<longleftrightarrow> \<not> re_space c"

definition PREFIX_RE :: "pat list" where
  "PREFIX_RE = [p_lit ''[pod/'', p_some (\<lambda>c. c \<noteq> CHR ''/''), p_lit ''/'', p_some (\<lambda>c. c \<noteq> CHR '']''), p_lit '']'',
                PStar True re_space, p_any, PEnd]"

definition tag_char :: "char \<Rightarrow> bool" where
  "tag_char c \<longleftrightarrow> (let n = of_char c :: nat in 65 \<le> n \<and> n \<le> 90) \<or> c = CHR ''_''"

definition TAG_RE :: "pat list" where
  "TAG_RE = [p_lit ''[NVDBG]['', p_some tag_char, p_lit '']'']"

definition key_first :: "char \<Rightarrow> bool" where
  "key_first c \<longleftrightarrow> word_char c \<or> c = CHR ''_''"

definition key_char :: "char \<Rightarrow> bool" where
  "key_char c \<longleftrightarrow> word_char c \<or> digit_class c \<or> c = CHR ''_''"

definition FIELD_RE :: "pat list" where
  "FIELD_RE = [PBound, PSeq (PChar key_first) (PStar True key_char), p_lit ''='', p_some non_space]"

definition ERR_STRING_RE :: "pat list" where
  "ERR_STRING_RE = [PBound, p_lit ''err_string='', PStar False (\<lambda>c. c \<noteq> LF), p_some re_space, p_lit ''segment='']"

definition DECODE_PULL_FAIL_RE :: "pat list" where
  "DECODE_PULL_FAIL_RE =
     [p_lit_nocase ''pulling kv_caches'', p_any, p_lit_nocase ''failed'', p_any,
      p_lit_nocase ''Mooncake transfer engine returned'', p_some re_space, p_lit ''-1'']"

definition GUARDIAN_RE :: "pat list" where
  "GUARDIAN_RE = [p_lit ''[pd-cell-guardian]'']"

definition PD_GPU_RE :: "pat list" where
  "PD_GPU_RE =
     [p_lit ''[pd-gpu]'', p_some re_space,
      PAlt (p_lit ''reserved-cvd'') (PAlt (p_lit ''selected-indices'') (p_lit ''selected-uuids'')),
      p_lit ''='', p_some non_space]"

section \<open>Events\<close>

record event =
  ev_line_no :: nat
  ev_raw :: string
  ev_msg :: string
  ev_pod :: string
  ev_container :: string
  ev_tag :: string
  ev_fields :: "(string \<times> string) list"

definition unknown_pod :: string where
  "unknown_pod = ''<unknown-pod>''"

definition unknown_container :: string where
  "unknown_container = ''<unknown-container>''"

definition split_prefix :: "string \<Rightarrow> string \<times> string \<times> string" where
  "split_prefix line =
     (case re_match PREFIX_RE line of
        None \<Rightarrow> (unknown_pod, unknown_container, line)
      | Some m \<Rightarrow> (re_group m 1, re_group m 3, re_group m 6))"

definition collect_fields :: "cursor list list \<Rightarrow> (string \<times> string) list \<Rightarrow> (string \<times> string) list" where
  "collect_fields ms d = fold (\<lambda>m. AList.update (re_group m 1) (re_group m 3)) ms d"

definition parse_fields :: "string \<Rightarrow> (string \<times> string) list" where
  "parse_fields msg =
     (let fields = collect_fields (finditer FIELD_RE msg) []
      in case re_search ERR_STRING_RE msg of
           None \<Rightarrow> fields
         | Some m \<Rightarrow> AList.update ''err_string'' (re_strip (re_group m 2)) fields)"

type_synonym gpu_maps = "((string \<times> string) \<times> (string \<times> string) list) list"

record parsed_log =
  lg_events :: "event list"
  lg_decode_failures :: "(nat \<times> string) list"
  lg_guardian_lines :: "(nat \<times> string) list"
  lg_gpu_maps :: gpu_maps

definition empty_log :: parsed_log where
  "empty_log = \<lparr>lg_events = [], lg_decode_failures = [], lg_guardian_lines = [], lg_gpu_maps = []\<rparr>"

definition set_gpu :: "string \<times> string \<Rightarrow> string \<Rightarrow> string \<Rightarrow> gpu_maps \<Rightarrow> gpu_maps" where
  "set_gpu scope key v maps =
     AList.update scope (AList.update key v (case map_of maps scope of None \<Rightarrow> [] | Some d \<Rightarrow> d)) maps"

text \<open>One turn of the loop.\<close>

definition parse_line :: "nat \<Rightarrow> string \<Rightarrow> parsed_log \<Rightarrow> parsed_log" where
  "parse_line line_no raw_line lg =
     (let raw = rstrip_newlines raw_line in
      case split_prefix raw of
        (pod, container, msg) \<Rightarrow>
          lg\<lparr>lg_decode_failures := lg_decode_failures lg @
                (if re_search DECODE_PULL_FAIL_RE msg \<noteq> None then [(line_no, raw)] else []),
             lg_guardian_lines := lg_guardian_lines lg @ (if re_search GUARDIAN_RE msg \<noteq> None then [(line_no, raw)] else []),
             lg_gpu_maps :=
                (case re_search PD_GPU_RE msg of
                   None \<Rightarrow> lg_gpu_maps lg
                 | Some gm \<Rightarrow> set_gpu (pod, container) (re_group gm 2) (re_group gm 4) (lg_gpu_maps lg)),
             lg_events := lg_events lg @
                (case re_search TAG_RE msg of
                   None \<Rightarrow> []
                 | Some tm \<Rightarrow>
                     [\<lparr>ev_line_no = line_no, ev_raw = raw, ev_msg = msg, ev_pod = pod, ev_container = container,
                       ev_tag = re_group tm 1, ev_fields = parse_fields msg\<rparr>])\<rparr>)"

definition parse_log :: "string list \<Rightarrow> parsed_log" where
  "parse_log lines = fold (\<lambda>(line_no, raw_line). parse_line line_no raw_line) (enumerate 1 lines) empty_log"

section \<open>What the parser keeps\<close>

text \<open>Every line kept by the parser is a line of the log, under its own number.\<close>

definition from_line :: "string list \<Rightarrow> nat \<Rightarrow> string \<Rightarrow> bool" where
  "from_line lines n raw \<longleftrightarrow> 0 < n \<and> n \<le> length lines \<and> raw = rstrip_newlines (lines ! (n - 1))"

definition log_lines_ok :: "string list \<Rightarrow> parsed_log \<Rightarrow> bool" where
  "log_lines_ok lines lg \<longleftrightarrow>
     (\<forall>e \<in> set (lg_events lg). from_line lines (ev_line_no e) (ev_raw e)) \<and>
     (\<forall>(n, raw) \<in> set (lg_decode_failures lg) \<union> set (lg_guardian_lines lg). from_line lines n raw)"

lemma parse_line_events:
  "lg_events (parse_line n l lg) = lg_events lg @
     (case split_prefix (rstrip_newlines l) of (pod, container, msg) \<Rightarrow>
        (case re_search TAG_RE msg of
           None \<Rightarrow> []
         | Some tm \<Rightarrow>
             [\<lparr>ev_line_no = n, ev_raw = rstrip_newlines l, ev_msg = msg, ev_pod = pod, ev_container = container,
               ev_tag = re_group tm 1, ev_fields = parse_fields msg\<rparr>]))"
  by (simp add: parse_line_def Let_def split: prod.split)

lemma parse_line_ok:
  assumes "log_lines_ok lines lg" "from_line lines n (rstrip_newlines l)"
  shows "log_lines_ok lines (parse_line n l lg)"
  using assms by (auto simp: log_lines_ok_def parse_line_def Let_def split: prod.splits option.splits if_splits)

lemma parse_log_ok: "log_lines_ok lines (parse_log lines)"
proof -
  have "log_lines_ok lines (fold (\<lambda>(n, l). parse_line n l) nls lg)"
    if "log_lines_ok lines lg" "\<forall>(n, l) \<in> set nls. from_line lines n (rstrip_newlines l)" for nls lg
    using that by (induction nls arbitrary: lg) (auto simp: parse_line_ok)
  moreover have "log_lines_ok lines empty_log" by (simp add: log_lines_ok_def empty_log_def)
  moreover have "\<forall>(n, l) \<in> set (enumerate 1 lines). from_line lines n (rstrip_newlines l)"
    by (auto simp: in_set_enumerate_eq from_line_def)
  ultimately show ?thesis unfolding parse_log_def by blast
qed

text \<open>The events come in the order of the lines, at most one from a line.\<close>

lemma parse_log_sorted: "sorted_wrt (<) (map ev_line_no (lg_events (parse_log lines)))"
proof -
  have "sorted_wrt (<) (map ev_line_no (lg_events (fold (\<lambda>(n, l). parse_line n l) (enumerate k ls) lg)))"
    if "sorted_wrt (<) (map ev_line_no (lg_events lg))" "\<forall>e \<in> set (lg_events lg). ev_line_no e < k" for k ls lg
    using that
  proof (induction ls arbitrary: k lg)
    case (Cons l ls)
    have "sorted_wrt (<) (map ev_line_no (lg_events (parse_line k l lg)))"
      using Cons.prems by (auto simp: parse_line_events sorted_wrt_append split: prod.splits option.splits)
    moreover have "\<forall>e \<in> set (lg_events (parse_line k l lg)). ev_line_no e < Suc k"
      using Cons.prems(2) by (auto simp: parse_line_events less_Suc_eq split: prod.splits option.splits)
    ultimately show ?case using Cons.IH by simp
  qed simp
  then show ?thesis unfolding parse_log_def by (simp add: empty_log_def)
qed

section \<open>Reading back fields\<close>

text \<open>A field as it is written, with the blank before it.\<close>

definition field_text :: "string \<times> string \<Rightarrow> string" where
  "field_text = (\<lambda>(k, v). CHR '' '' # k @ CHR ''='' # v)"

definition field_ok :: "string \<times> string \<Rightarrow> bool" where
  "field_ok = (\<lambda>(k, v). k \<noteq> [] \<and> key_first (hd k) \<and> list_all key_char k \<and> v \<noteq> [] \<and> list_all non_space v)"

lemma blank_char [simp]: "re_space (CHR '' '')" "\<not> non_space (CHR '' '')" "\<not> key_char (CHR '' '')" "\<not> re_word (CHR '' '')"
  by code_simp+

lemma equals_char [simp]: "\<not> key_char (CHR ''='')" "\<not> re_space (CHR ''='')"
  by code_simp+

lemma key_first_word: "key_first c \<Longrightarrow> re_word c \<and> key_char c"
  by (auto simp: key_first_def re_word_def key_char_def)

lemma key_char_non_space: "key_char c \<Longrightarrow> non_space c"
  by (auto simp: key_char_def non_space_def re_space_def is_space_def word_char_def digit_class_def Let_def)

lemma field_match_key:
  assumes "run_ok FIELD_RE (u, v) m"
  shows "\<exists>k r. v = k @ CHR ''='' # r \<and> k \<noteq> [] \<and> list_all key_char k"
proof -
  from assms obtain d e where "spans (PSeq (PChar key_first) (PStar True key_char)) (u, v) d" "spans (p_lit ''='') d e"
    unfolding FIELD_RE_def run_ok_Cons by (auto simp: spans_simps(5))
  then obtain x v' where v: "v = x # v'" "key_first x" "spans (PStar True key_char) (x # u, v') d" "snd d = CHR ''='' # snd e"
    by (auto simp: spans_PSeq spans_simps dest!: spans_lit)
  from spans_star [OF v(3)] obtain w where "v' = w @ CHR ''='' # snd e" "list_all key_char w" using v(4) by auto
  then show ?thesis using v(1) key_first_word [OF v(2)] by (intro exI [of _ "x # w"] exI [of _ "snd e"]) simp
qed

lemma no_field_before_blank:
  assumes "CHR ''='' \<notin> set w" "r = [] \<or> hd r = CHR '' ''"
  shows "runs FIELD_RE (u, w @ r) = []"
proof -
  have False if "w @ r = k @ CHR ''='' # r'" "list_all key_char k" for k r'
  proof -
    from that(1) consider b where "k = w @ b" "r = b @ CHR ''='' # r'" | b where "w = k @ b" "b \<noteq> []" "b @ r = CHR ''='' # r'"
      unfolding append_eq_append_conv2 by (metis append_Nil append_Nil2)
    then show False
    proof cases
      case 1
      then show False using assms(2) that(2) by (cases b) auto
    next
      case 2
      then show False using assms(1) by (auto simp: append_eq_Cons_conv)
    qed
  qed
  then show ?thesis unfolding runs_Nil_iff using field_match_key by blast
qed

lemma field_first:
  assumes "field_ok (k, v)" "r = [] \<or> hd r = CHR '' ''"
  shows "\<exists>m ms. runs FIELD_RE (CHR '' '' # u, k @ CHR ''='' # v @ r) = m # ms \<and> re_group m 1 = k \<and> re_group m 3 = v \<and>
    last m = (rev (k @ CHR ''='' # v) @ CHR '' '' # u, r)"
proof -
  let ?c = "(CHR '' '' # u, k @ CHR ''='' # v @ r)"
  let ?d = "(rev k @ CHR '' '' # u, CHR ''='' # v @ r)"
  let ?e = "(CHR ''='' # rev k @ CHR '' '' # u, v @ r)"
  let ?f = "(rev v @ CHR ''='' # rev k @ CHR '' '' # u, r)"
  obtain x k' where k: "k = x # k'" "key_first x" "list_all key_char k'" using assms(1) by (cases k) (auto simp: field_ok_def)
  have b: "ends PBound ?c = [?c]" using k key_first_word by (auto simp: at_boundary_def)
  obtain ds where ds: "ends (PSeq (PChar key_first) (PStar True key_char)) ?c = ?d # ds"
    using star_first [of key_char k' "CHR ''='' # v @ r" "x # CHR '' '' # u"] k by auto
  have e: "ends (p_lit ''='') ?d = [?e]" using lit_ends [of "''=''"] by simp
  obtain fs where fs: "ends (p_some non_space) ?e = ?f # fs"
    using some_first [of non_space v r] assms by (cases r) (auto simp: field_ok_def)
  obtain ns where "runs FIELD_RE ?c = [?c, ?c, ?d, ?e, ?f] # ns"
    unfolding FIELD_RE_def using b ds e fs by simp
  then show ?thesis by (auto simp: re_group_def between_def pos_def numeral_eq_Suc)
qed

lemma finditer_fields:
  assumes "list_all field_ok fs"
  shows "map (\<lambda>m. (re_group m 1, re_group m 3)) (finditer_from FIELD_RE u (concat (map field_text fs))) = fs"
  using assms
proof (induction fs arbitrary: u)
  case Nil
  then show ?case using no_field_before_blank [of "[]" "[]" u] by (simp add: finditer_from.simps)
next
  case (Cons f fs)
  obtain k v where f: "f = (k, v)" by (cases f)
  let ?r = "concat (map field_text fs)"
  have r: "?r = [] \<or> hd ?r = CHR '' ''" by (cases fs) (auto simp: field_text_def split: prod.splits)
  obtain m ms where m: "runs FIELD_RE (CHR '' '' # u, k @ CHR ''='' # v @ ?r) = m # ms" "re_group m 1 = k" "re_group m 3 = v"
    "last m = (rev (k @ CHR ''='' # v) @ CHR '' '' # u, ?r)"
    using field_first [OF _ r] Cons.prems f by (metis list.pred_inject(2))
  have "finditer_from FIELD_RE u (field_text f @ ?r) = finditer_from FIELD_RE (CHR '' '' # u) (k @ CHR ''='' # v @ ?r)"
    using no_field_before_blank [of "[]" "field_text f @ ?r" u]
    by (subst finditer_from.simps) (simp add: f field_text_def)
  also have "\<dots> = m # finditer_from FIELD_RE (rev (k @ CHR ''='' # v) @ CHR '' '' # u) ?r"
    by (subst finditer_from.simps) (simp add: m)
  finally show ?case using Cons m(2,3) f by simp
qed

lemma finditer_after_header:
  assumes "CHR ''='' \<notin> set h" "r = [] \<or> hd r = CHR '' ''"
  shows "finditer_from FIELD_RE u (h @ r) = finditer_from FIELD_RE (rev h @ u) r"
  using assms(1)
proof (induction h arbitrary: u)
  case (Cons x h)
  then show ?case
    using no_field_before_blank [of "x # h" r u] assms(2) by (subst finditer_from.simps) simp
qed simp

lemma collect_distinct:
  assumes "distinct (map fst fs)" "map (\<lambda>m. (re_group m 1, re_group m 3)) ms = fs"
  shows "collect_fields ms [] = fs"
proof -
  have "fold (\<lambda>(k, v). AList.update k v) gs d = d @ gs"
    if "distinct (map fst gs)" "fst ` set d \<inter> fst ` set gs = {}" for gs d :: "(string \<times> string) list"
    using that
  proof (induction gs arbitrary: d)
    case (Cons g gs)
    have "AList.update k v d = d @ [(k, v)]" if "k \<notin> fst ` set d" for k v
      using that by (induction d) auto
    with Cons show ?case by (cases g) (auto simp: image_Un)
  qed simp
  from this [of fs "[]"] assms show ?thesis
    unfolding collect_fields_def by (auto simp: fold_map comp_def)
qed

text \<open>The error text needs a blank followed by the name of the next field.\<close>

definition segment_follows :: "string \<Rightarrow> bool" where
  "segment_follows s \<longleftrightarrow> (\<exists>x b y. s = x @ b # ''segment='' @ y \<and> re_space b)"

lemma err_string_needs_segment: "occurs ERR_STRING_RE s m \<Longrightarrow> segment_follows s"
proof -
  assume "occurs ERR_STRING_RE s m"
  then obtain c d e f where c: "text_of d = s" "spans (p_some re_space) d e" "spans (p_lit ''segment='') e f"
    unfolding occurs_def ERR_STRING_RE_def run_ok_Cons using spans_text by metis
  obtain w where w: "snd d = w @ snd e" "w \<noteq> []" "list_all re_space w" using spans_some [OF c(2)] by blast
  have "s = rev (fst d) @ (butlast w @ [last w]) @ ''segment='' @ snd f"
    using c(1) w spans_lit [OF c(3)] unfolding append_butlast_last_id [OF w(2)] by (simp add: text_of_def)
  then have "s = (rev (fst d) @ butlast w) @ last w # ''segment='' @ snd f" by simp
  moreover have "re_space (last w)" using w by (simp add: list_all_iff)
  ultimately show ?thesis unfolding segment_follows_def by blast
qed

lemma two_splits:
  "a @ p # r = x @ b # s \<Longrightarrow>
     (\<exists>w. a = x @ b # w \<and> w @ p # r = s) \<or> (a = x \<and> p = b \<and> r = s) \<or> (\<exists>w. x = a @ p # w \<and> r = w @ b # s)"
proof (induction a arbitrary: x)
  case Nil
  then show ?case by (cases x) auto
next
  case (Cons y a)
  then show ?case by (cases x) auto
qed

lemma segment_follows_field:
  assumes "\<not> segment_follows t" "field_ok (k, v)" "k \<noteq> ''segment''"
  shows "\<not> segment_follows (t @ field_text (k, v))"
proof
  define seg where "seg = ''segment''"
  have seg: "CHR '' '' \<notin> set seg" "CHR ''='' \<notin> set seg" by (simp_all add: seg_def)
  have key: "CHR ''='' \<notin> set k" "list_all non_space k"
    using assms(2) key_char_non_space by (auto simp: field_ok_def list_all_iff)
  assume "segment_follows (t @ field_text (k, v))"
  then obtain x b y where eq: "t @ CHR '' '' # k @ CHR ''='' # v = x @ b # seg @ CHR ''='' # y" and b: "re_space b"
    unfolding segment_follows_def seg_def field_text_def by auto
  from eq consider (inside) w where "t = x @ b # w" "w @ CHR '' '' # k @ CHR ''='' # v = seg @ CHR ''='' # y"
    | (here) "t = x" "k @ CHR ''='' # v = seg @ CHR ''='' # y"
    | (later) w where "k @ CHR ''='' # v = w @ b # seg @ CHR ''='' # y"
    using two_splits [OF eq] by blast
  then show False
  proof cases
    case inside
    then obtain w' where "w = seg @ CHR ''='' # w'" using seg(1) two_splits [OF inside(2)] by auto
    with inside(1) b have "segment_follows t"
      unfolding segment_follows_def seg_def by (intro exI [of _ x] exI [of _ b] exI [of _ w']) simp
    with assms(1) show False by simp
  next
    case here
    then have "k = seg" using key(1) seg(2) two_splits [OF here(2)] by auto
    with assms(3) show False by (simp add: seg_def)
  next
    case later
    then have "b \<in> set (k @ CHR ''='' # v)" by simp
    then show False using key(2) b assms(2) by (auto simp: field_ok_def list_all_iff non_space_def)
  qed
qed

lemma no_segment:
  assumes "CHR ''='' \<notin> set h" "list_all field_ok fs" "''segment'' \<notin> fst ` set fs"
  shows "\<not> segment_follows (h @ concat (map field_text fs))"
  using assms(2,3)
proof (induction fs rule: rev_induct)
  case Nil
  show ?case using assms(1) unfolding segment_follows_def by auto
next
  case (snoc f fs)
  obtain k v where f: "f = (k, v)" by (cases f)
  with snoc segment_follows_field [of "h @ concat (map field_text fs)" k v] show ?case by auto
qed



end
