(* ===== verification/Nvlink_Report.thy ===== *)
theory Nvlink_Report
  imports Nvlink_Log Router_Config "HOL-Library.Product_Lexorder"
begin

text \<open>
  The analysis and the report of \<^verbatim>\<open>src/debug/issue-6/analyze_nvlink_nvdbg.py\<close>: correlating the events of
  a failed import, classifying it under six hypotheses, and the sections printed. The report is in
  Korean; here a printed line is the constructor of its message with the values it shows. The
  command line is given as parsed.
\<close>

section \<open>Fields\<close>

definition TAGS :: "string list" where
  "TAGS = [''INSTALL'', ''EXPORT'', ''IPC_OPEN_BEGIN'', ''IPC_OPEN_OK'', ''IPC_OPEN_FAIL'', ''TRANSFER_ABORT'', ''COPY_FAIL'',
           ''UNREGISTER'', ''DTOR'', ''RANGE_MISS'', ''REMAP_HIT'']"

definition field :: "event \<Rightarrow> string \<Rightarrow> string option" where
  "field e key = map_of (ev_fields e) key"

definition field_or :: "event \<Rightarrow> string \<Rightarrow> string" where
  "field_or e key = (case field e key of None \<Rightarrow> ''?'' | Some v \<Rightarrow> v)"

text \<open>\<^verbatim>\<open>int(value, 0)\<close>: the prefix gives the base, single underscores may separate digits, and a decimal number
  other than zero has no leading zero and at most 4300 digits.\<close>

definition hex_value :: "char \<Rightarrow> nat option" where
  "hex_value c =
     (let n = of_char (lower_char c) :: nat in
      if 48 \<le> n \<and> n \<le> 57 then Some (n - 48) else if 97 \<le> n \<and> n \<le> 102 then Some (n - 87) else None)"

definition digits_in :: "nat \<Rightarrow> string \<Rightarrow> bool" where
  "digits_in b ds \<longleftrightarrow> list_all (\<lambda>c. case hex_value c of None \<Rightarrow> False | Some d \<Rightarrow> d < b) ds"

definition number_in :: "nat \<Rightarrow> string \<Rightarrow> int" where
  "number_in b ds = foldl (\<lambda>n c. int b * n + int (case hex_value c of None \<Rightarrow> 0 | Some d \<Rightarrow> d)) 0 ds"

definition grouped_digits :: "nat \<Rightarrow> string \<Rightarrow> string option" where
  "grouped_digits b s =
     (let gs = split_on CHR ''_'' s
      in if list_all (\<lambda>g. g \<noteq> [] \<and> digits_in b g) gs then Some (concat gs) else None)"

definition prefixed_digits :: "nat \<Rightarrow> string \<Rightarrow> int option" where
  "prefixed_digits b s = map_option (number_in b) (grouped_digits b (if starts_with s ''_'' then drop 1 s else s))"

definition decimal_digits :: "string \<Rightarrow> int option" where
  "decimal_digits s =
     (case grouped_digits 10 s of
        None \<Rightarrow> None
      | Some ds \<Rightarrow>
          if 4300 < length ds \<or> hd ds = CHR ''0'' \<and> number_in 10 ds \<noteq> 0 then None else Some (number_in 10 ds))"

definition unsigned_base0 :: "string \<Rightarrow> int option" where
  "unsigned_base0 s =
     (let p = lower (take 2 s) in
      if p = ''0x'' then prefixed_digits 16 (drop 2 s)
      else if p = ''0o'' then prefixed_digits 8 (drop 2 s)
      else if p = ''0b'' then prefixed_digits 2 (drop 2 s)
      else decimal_digits s)"

definition int_base0 :: "string \<Rightarrow> int option" where
  "int_base0 t =
     (let s = re_strip t in
      if starts_with s ''-'' then map_option uminus (unsigned_base0 (drop 1 s))
      else if starts_with s ''+'' then unsigned_base0 (drop 1 s)
      else unsigned_base0 s)"

definition int_field :: "event option \<Rightarrow> string \<Rightarrow> int option" where
  "int_field e key = (case e of None \<Rightarrow> None | Some e' \<Rightarrow> Option.bind (field e' key) int_base0)"

definition is_null_ctx :: "string option \<Rightarrow> bool" where
  "is_null_ctx v = (case v of None \<Rightarrow> False | Some s \<Rightarrow> lower s \<in> set [''0'', ''0x0'', ''(nil)'', ''nullptr'', ''null''])"

section \<open>Correlation\<close>

definition same_scope :: "event \<Rightarrow> event \<Rightarrow> bool" where
  "same_scope a b \<longleftrightarrow>
     \<not> (ev_pod a \<noteq> unknown_pod \<and> ev_pod b \<noteq> unknown_pod \<and> ev_pod a \<noteq> ev_pod b) \<and>
     \<not> (ev_container a \<noteq> unknown_container \<and> ev_container b \<noteq> unknown_container \<and> ev_container a \<noteq> ev_container b)"

fun match_fields_loop :: "event \<Rightarrow> event \<Rightarrow> string list \<Rightarrow> nat \<Rightarrow> bool" where
  "match_fields_loop a b [] compared = (0 < compared)"
| "match_fields_loop a b (key # ks) compared =
     (case (field a key, field b key) of
        (Some av, Some bv) \<Rightarrow> if av \<noteq> bv then False else match_fields_loop a b ks (Suc compared)
      | _ \<Rightarrow> match_fields_loop a b ks compared)"

definition match_fields :: "event \<Rightarrow> event \<Rightarrow> string list \<Rightarrow> bool" where
  "match_fields a b ks = match_fields_loop a b ks 0"

text \<open>\<^verbatim>\<open>max\<close> and \<^verbatim>\<open>min\<close> by line: the first of the best.\<close>

definition last_event :: "event list \<Rightarrow> event option" where
  "last_event es =
     (case es of [] \<Rightarrow> None | e # es' \<Rightarrow> Some (foldl (\<lambda>b x. if ev_line_no b < ev_line_no x then x else b) e es'))"

definition first_event_of :: "event list \<Rightarrow> event option" where
  "first_event_of es =
     (case es of [] \<Rightarrow> None | e # es' \<Rightarrow> Some (foldl (\<lambda>b x. if ev_line_no x < ev_line_no b then x else b) e es'))"

definition candidates_before :: "event list \<Rightarrow> event \<Rightarrow> string \<Rightarrow> nat \<Rightarrow> event list" where
  "candidates_before events target tag max_lines =
     filter (\<lambda>e. ev_tag e = tag \<and> ev_line_no e < ev_line_no target \<and> ev_line_no target - ev_line_no e \<le> max_lines \<and>
               same_scope e target) events"

definition nearest_before :: "event list \<Rightarrow> event \<Rightarrow> string \<Rightarrow> event option" where
  "nearest_before events target tag =
     (let candidates = candidates_before events target tag 40;
          exact = filter (\<lambda>e. match_fields e target [''target_id'', ''remote_base'', ''handle_sig'']) candidates
      in if exact \<noteq> [] then last_event exact else last_event candidates)"

definition candidates_after :: "event list \<Rightarrow> event \<Rightarrow> string \<Rightarrow> nat \<Rightarrow> event list" where
  "candidates_after events target tag max_lines =
     filter (\<lambda>e. ev_tag e = tag \<and> ev_line_no target < ev_line_no e \<and> ev_line_no e - ev_line_no target \<le> max_lines \<and>
               same_scope e target) events"

definition nearest_after :: "event list \<Rightarrow> event \<Rightarrow> string \<Rightarrow> event option" where
  "nearest_after events target tag =
     (let candidates = candidates_after events target tag 40;
          exact = filter (\<lambda>e. match_fields e target [''target_id'']) candidates
      in if exact \<noteq> [] then first_event_of exact else first_event_of candidates)"

definition export_kind :: "event \<Rightarrow> event \<Rightarrow> string option" where
  "export_kind fail e =
     (let sig_match = (field fail ''handle_sig'' \<noteq> None \<and> field e ''handle_sig'' = field fail ''handle_sig'');
          base_match = (field fail ''remote_base'' \<noteq> None \<and> field e ''base'' = field fail ''remote_base'');
          suffix = (if ev_pod fail \<noteq> unknown_pod \<and> ev_pod e \<noteq> unknown_pod \<and> ev_pod fail \<noteq> ev_pod e then ''/other-pod'' else [])
      in if ev_tag e \<noteq> ''EXPORT'' then None
         else if sig_match \<and> base_match then Some (''handle+base'' @ suffix)
         else if sig_match then Some (''handle-only'' @ suffix)
         else if base_match then Some (''base-only'' @ suffix)
         else None)"

definition line_distance :: "event \<Rightarrow> event \<Rightarrow> nat" where
  "line_distance a b = (ev_line_no a - ev_line_no b) + (ev_line_no b - ev_line_no a)"

definition export_rank :: "event \<Rightarrow> event \<times> string \<Rightarrow> nat \<times> nat \<times> nat" where
  "export_rank fail item =
     (if snd item = ''handle+base'' then 0 else 1, if ev_pod (fst item) = ev_pod fail then 0 else 1,
      line_distance (fst item) fail)"

definition matching_exports :: "event list \<Rightarrow> event \<Rightarrow> (event \<times> string) list" where
  "matching_exports events fail =
     sort_key (export_rank fail)
       (concat (map (\<lambda>e. case export_kind fail e of None \<Rightarrow> [] | Some kind \<Rightarrow> [(e, kind)]) events))"

definition matching_unregisters :: "event list \<Rightarrow> event \<Rightarrow> event option \<Rightarrow> event list" where
  "matching_unregisters events fail export =
     (case export of
        None \<Rightarrow> []
      | Some x \<Rightarrow>
          (case field x ''base'' of
             None \<Rightarrow> []
           | Some base \<Rightarrow>
               filter (\<lambda>e. \<not> (ev_tag e \<noteq> ''UNREGISTER'' \<or> ev_line_no fail \<le> ev_line_no e) \<and>
                         \<not> (ev_pod e \<noteq> ev_pod x \<or> ev_container e \<noteq> ev_container x) \<and> field e ''base'' = Some base) events))"

section \<open>Hypotheses\<close>

text \<open>The message of a finding with the values it shows.\<close>

datatype detail =
    Ctx_bad "string option" "int option" "int option" "int option"
  | Ctx_present "string option" "int option" "int option" "int option"
  | Ctx_unknown
  | Device_differs int int
  | Device_same int int
  | Pointer_query_failed "int option"
  | No_abort
  | Owner_query_failed "int option"
  | Owner_differs string string
  | Owner_same string
  | Owner_unknown string
  | No_owner_field
  | Export_found string nat
  | Export_partial string string nat
  | No_export nat
  | Unregistered string nat
  | Not_unregistered
  | No_exporter
  | Ctx_changed "string option" "int option" "string option" "int option"
  | Ctx_unchanged "string option" "int option"
  | No_begin

record nv_finding =
  fi_name :: string
  fi_level :: string
  fi_detail :: detail

definition finding :: "string \<Rightarrow> string \<Rightarrow> detail \<Rightarrow> nv_finding" where
  "finding name level d = \<lparr>fi_name = name, fi_level = level, fi_detail = d\<rparr>"

definition nonzero :: "int option \<Rightarrow> bool" where
  "nonzero n \<longleftrightarrow> n \<noteq> None \<and> n \<noteq> Some 0"

definition context_finding :: "event \<Rightarrow> nv_finding" where
  "context_finding fail =
     (let ctx = field fail ''ctx''; ctx_rc = int_field (Some fail) ''ctx_rc'';
          ctx_dev = int_field (Some fail) ''ctx_device''; dev_rc = int_field (Some fail) ''dev_rc'';
          name = ''Importer current CUDA context''
      in if is_null_ctx ctx \<or> nonzero ctx_rc \<or> nonzero dev_rc
         then finding name ''HIGH'' (Ctx_bad ctx ctx_rc ctx_dev dev_rc)
         else if ctx \<noteq> None \<and> ctx_dev \<noteq> None then finding name ''NOT_SEEN'' (Ctx_present ctx ctx_dev ctx_rc dev_rc)
         else finding name ''UNKNOWN'' Ctx_unknown)"

definition device_finding :: "event \<Rightarrow> event option \<Rightarrow> nv_finding" where
  "device_finding fail abort =
     (let ctx_dev = int_field (Some fail) ''ctx_device''; src_dev = int_field abort ''source_device'';
          ptr_rc = int_field abort ''ptr_rc''; name = ''Worker ctx_device vs source_device''
      in case (abort, ptr_rc = Some 0, src_dev, ctx_dev) of
           (Some _, True, Some s, Some c) \<Rightarrow>
             if s \<noteq> c then finding name ''HIGH'' (Device_differs c s) else finding name ''NOT_SEEN'' (Device_same c s)
         | _ \<Rightarrow> if abort \<noteq> None \<and> nonzero ptr_rc then finding name ''UNKNOWN'' (Pointer_query_failed ptr_rc)
                else finding name ''UNKNOWN'' No_abort)"

definition owner_finding :: "event \<Rightarrow> event option \<Rightarrow> nv_finding" where
  "owner_finding fail abort =
     (let ctx = field fail ''ctx''; rc = int_field abort ''source_ptr_ctx_rc'';
          name = ''Current ctx vs source pointer owning ctx''
      in case Option.bind abort (\<lambda>a. field a ''source_ptr_ctx'') of
           None \<Rightarrow> finding name ''UNKNOWN'' No_owner_field
         | Some owner \<Rightarrow>
             if nonzero rc then finding name ''UNKNOWN'' (Owner_query_failed rc)
             else (case ctx of
                     None \<Rightarrow> finding name ''UNKNOWN'' (Owner_unknown owner)
                   | Some c \<Rightarrow> if owner \<noteq> c then finding name ''HIGH'' (Owner_differs c owner)
                                else finding name ''NOT_SEEN'' (Owner_same c)))"

definition export_finding :: "event list \<Rightarrow> (event \<times> string) list \<Rightarrow> nv_finding" where
  "export_finding events exports =
     (let name = ''Remote IPC export/metadata match'' in
      case exports of
        (best, kind) # _ \<Rightarrow>
          if kind = ''handle+base'' then finding name ''NOT_SEEN'' (Export_found (ev_container best) (ev_line_no best))
          else finding name ''MEDIUM'' (Export_partial kind (ev_container best) (ev_line_no best))
      | [] \<Rightarrow>
          (let total_exports = length (filter (\<lambda>e. ev_tag e = ''EXPORT'') events)
           in finding name (if total_exports \<noteq> 0 then ''MEDIUM'' else ''UNKNOWN'') (No_export total_exports)))"

definition best_export :: "(event \<times> string) list \<Rightarrow> event option" where
  "best_export exports = (case exports of [] \<Rightarrow> None | (e, _) # _ \<Rightarrow> Some e)"

definition lifecycle_finding :: "event list \<Rightarrow> event \<Rightarrow> (event \<times> string) list \<Rightarrow> nv_finding" where
  "lifecycle_finding events fail exports =
     (let unregisters = matching_unregisters events fail (best_export exports);
          name = ''Exporter allocation lifecycle''
      in if unregisters \<noteq> []
         then finding name ''HIGH'' (Unregistered (ev_container (last unregisters)) (ev_line_no (last unregisters)))
         else if best_export exports \<noteq> None then finding name ''NOT_SEEN'' Not_unregistered
         else finding name ''UNKNOWN'' No_exporter)"

definition boundary_finding :: "event \<Rightarrow> event option \<Rightarrow> nv_finding" where
  "boundary_finding fail begin_event =
     (let ctx = field fail ''ctx''; ctx_dev = int_field (Some fail) ''ctx_device'';
          name = ''Context changed across IPC open boundary''
      in case begin_event of
           None \<Rightarrow> finding name ''UNKNOWN'' No_begin
         | Some b \<Rightarrow>
             (let begin_ctx = field b ''ctx''; begin_dev = int_field begin_event ''ctx_device''
              in if begin_ctx \<noteq> ctx \<or> begin_dev \<noteq> ctx_dev
                 then finding name ''HIGH'' (Ctx_changed begin_ctx begin_dev ctx ctx_dev)
                 else finding name ''NOT_SEEN'' (Ctx_unchanged ctx ctx_dev)))"

definition classify_fail ::
  "event list \<Rightarrow> event \<Rightarrow> event option \<Rightarrow> event option \<Rightarrow> (event \<times> string) list \<Rightarrow> nv_finding list" where
  "classify_fail events fail begin_event abort exports =
     [context_finding fail, device_finding fail abort, owner_finding fail abort, export_finding events exports,
      lifecycle_finding events fail exports, boundary_finding fail begin_event]"

section \<open>Threads and devices\<close>

record open_group =
  og_ok_ctx :: "string list"
  og_fail_ctx :: "string list"
  og_ok_threads :: "string list"
  og_fail_threads :: "string list"

definition empty_group :: open_group where
  "empty_group = \<lparr>og_ok_ctx = [], og_fail_ctx = [], og_ok_threads = [], og_fail_threads = []\<rparr>"

definition is_open :: "event \<Rightarrow> bool" where
  "is_open e \<longleftrightarrow> ev_tag e \<in> set [''IPC_OPEN_OK'', ''IPC_OPEN_FAIL'']"

definition open_key :: "event \<Rightarrow> string \<times> string \<times> string" where
  "open_key e = (ev_pod e, ev_container e, field_or e ''pid'')"

definition add_open :: "event \<Rightarrow> open_group \<Rightarrow> open_group" where
  "add_open e g =
     (let sig = ''ctx='' @ field_or e ''ctx'' @ ''/dev='' @ field_or e ''ctx_device''; tid = field_or e ''tid''
      in if ev_tag e = ''IPC_OPEN_OK''
         then g\<lparr>og_ok_ctx := List.insert sig (og_ok_ctx g), og_ok_threads := List.insert tid (og_ok_threads g)\<rparr>
         else g\<lparr>og_fail_ctx := List.insert sig (og_fail_ctx g), og_fail_threads := List.insert tid (og_fail_threads g)\<rparr>)"

type_synonym open_groups = "((string \<times> string \<times> string) \<times> open_group) list"

definition add_open_event :: "event \<Rightarrow> open_groups \<Rightarrow> open_groups" where
  "add_open_event e grouped =
     AList.update (open_key e)
       (add_open e (case map_of grouped (open_key e) of None \<Rightarrow> empty_group | Some g \<Rightarrow> g)) grouped"

text \<open>A note: the process and the sorted contexts and threads of its successful and failed imports.\<close>

type_synonym thread_note = "(string \<times> string \<times> string) \<times> open_group"

definition sorted_group :: "open_group \<Rightarrow> open_group" where
  "sorted_group g =
     \<lparr>og_ok_ctx = sort (og_ok_ctx g), og_fail_ctx = sort (og_fail_ctx g), og_ok_threads = sort (og_ok_threads g),
      og_fail_threads = sort (og_fail_threads g)\<rparr>"

definition thread_context_summary :: "event list \<Rightarrow> thread_note list" where
  "thread_context_summary events =
     map (\<lambda>(k, g). (k, sorted_group g))
       (filter (\<lambda>(_, g). og_ok_ctx g \<noteq> [] \<and> og_fail_ctx g \<noteq> [])
          (sort_key fst (fold add_open_event (filter is_open events) [])))"

definition format_scope :: "event \<Rightarrow> string" where
  "format_scope e =
     (if ev_pod e = unknown_pod \<and> ev_container e = unknown_container then ''unknown''
      else ev_pod e @ ''/'' @ ev_container e)"

definition logical_to_uuid :: "gpu_maps \<Rightarrow> event option \<Rightarrow> int option \<Rightarrow> string option" where
  "logical_to_uuid maps e logical_device =
     (case (e, logical_device) of
        (Some ev, Some d) \<Rightarrow>
          (let mapping = (case map_of maps (ev_pod ev, ev_container ev) of None \<Rightarrow> [] | Some m \<Rightarrow> m)
           in case map_of mapping ''reserved-cvd'' of
                None \<Rightarrow> None
              | Some cvd \<Rightarrow>
                  if cvd = [] then None
                  else (let uuids = split_on CHR '','' cvd
                        in if d < 0 \<or> int (length uuids) \<le> d then None else Some (uuids ! nat d)))
      | _ \<Rightarrow> None)"

section \<open>The report\<close>

datatype out_line =
    Title string
  | Sizes nat nat
  | Profile_head
  | No_events
  | Profile "string \<times> string" "(string \<times> int) list"
  | Decode_failures nat
  | Gpu_head
  | No_gpu_logs
  | Gpu_map "string \<times> string" string string string
  | Pair_head
  | Pair string string "int option" string string "int option" string
  | Fail_head
  | No_fail nat
  | Failure_head nat string nat
  | Failure_raw "string list"
  | Finding_line nv_finding
  | Match_line string string nat "string list"
  | Omitted int
  | Clue_head
  | Mixed_head
  | Mixed thread_note
  | Mixed_advice
  | Not_mixed
  | Copy_fails nat
  | Range_misses nat
  | Lifecycle nat nat
  | Evidence_head
  | Evidence nat string
  | Meaning_head
  | Meaning string
  | Tip

definition tagged :: "string \<Rightarrow> event list \<Rightarrow> event list" where
  "tagged tag events = filter (\<lambda>e. ev_tag e = tag) events"

definition or_mark :: "string option \<Rightarrow> string" where
  "or_mark s = (case s of None \<Rightarrow> ''?'' | Some t \<Rightarrow> if t = [] then ''?'' else t)"

definition opt_text :: "string option \<Rightarrow> string" where
  "opt_text s = (case s of None \<Rightarrow> ''None'' | Some t \<Rightarrow> t)"

definition dict_or :: "(string \<times> string) list \<Rightarrow> string \<Rightarrow> string" where
  "dict_or d k = (case map_of d k of None \<Rightarrow> ''?'' | Some v \<Rightarrow> v)"

text \<open>The pairs of devices of the imports, each shown once.\<close>

record open_pair =
  pr_event :: event
  pr_dev :: "int option"
  pr_uuid :: "string option"
  pr_peer :: "event option"
  pr_peer_dev :: "int option"
  pr_peer_uuid :: "string option"

definition pair_of :: "gpu_maps \<Rightarrow> event list \<Rightarrow> event \<Rightarrow> open_pair" where
  "pair_of maps events e =
     (let src_dev = int_field (Some e) ''ctx_device''; peer = best_export (matching_exports events e);
          peer_dev = int_field peer ''device''
      in \<lparr>pr_event = e, pr_dev = src_dev, pr_uuid = logical_to_uuid maps (Some e) src_dev, pr_peer = peer,
          pr_peer_dev = peer_dev, pr_peer_uuid = logical_to_uuid maps peer peer_dev\<rparr>)"

definition pair_key :: "open_pair \<Rightarrow> string list" where
  "pair_key p =
     [ev_tag (pr_event p), ev_container (pr_event p), opt_text (map_option show_int (pr_dev p)),
      opt_text (map_option show_int (pr_peer_dev p)), opt_text (pr_uuid p) @ ''->'' @ opt_text (pr_peer_uuid p)]"

definition pair_line :: "open_pair \<Rightarrow> out_line" where
  "pair_line p =
     Pair (ev_tag (pr_event p)) (ev_container (pr_event p)) (pr_dev p) (or_mark (pr_uuid p))
       (case pr_peer p of None \<Rightarrow> ''peer?'' | Some x \<Rightarrow> ev_container x) (pr_peer_dev p) (or_mark (pr_peer_uuid p))"

fun pair_lines :: "open_pair list \<Rightarrow> string list list \<Rightarrow> out_line list" where
  "pair_lines [] shown = []"
| "pair_lines (p # ps) shown =
     (if pair_key p \<in> set shown then pair_lines ps shown else pair_line p # pair_lines ps (pair_key p # shown))"

definition print_gpu_mapping :: "gpu_maps \<Rightarrow> event list \<Rightarrow> out_line list" where
  "print_gpu_mapping maps events =
     Gpu_head #
     (if maps = [] then [No_gpu_logs]
      else map (\<lambda>(scope, m). Gpu_map scope (dict_or m ''reserved-cvd'') (dict_or m ''selected-indices'')
                  (dict_or m ''selected-uuids'')) (sort_key fst maps) @
           (let opens = filter is_open events
            in if opens = [] then [] else Pair_head # pair_lines (map (pair_of maps events) opens) []))"

type_synonym tag_counts = "((string \<times> string) \<times> (string \<times> int) list) list"

definition count_event :: "event \<Rightarrow> tag_counts \<Rightarrow> tag_counts" where
  "count_event e by_scope =
     (let scope = (ev_pod e, ev_container e)
      in AList.update scope (dict_incr (ev_tag e) (dget by_scope scope [])) by_scope)"

definition useful_counts :: "(string \<times> int) list \<Rightarrow> (string \<times> int) list" where
  "useful_counts counts =
     concat (map (\<lambda>tag. if dget counts tag 0 \<noteq> 0 then [(tag, dget counts tag 0)] else []) TAGS)"

definition print_counts :: "event list \<Rightarrow> (nat \<times> string) list \<Rightarrow> out_line list" where
  "print_counts events decode_failures =
     Profile_head #
     (if events = [] then [No_events]
      else map (\<lambda>(scope, counts). Profile scope (useful_counts counts)) (sort_key fst (fold count_event events [])) @
           (if decode_failures \<noteq> [] then [Decode_failures (length decode_failures)] else []))"

definition match_lines :: "gpu_maps \<Rightarrow> (event \<times> string) list \<Rightarrow> out_line list" where
  "match_lines maps exports =
     (case exports of
        [] \<Rightarrow> []
      | (peer, kind) # _ \<Rightarrow>
          [Match_line kind (format_scope peer) (ev_line_no peer)
             [field_or peer ''device'', or_mark (logical_to_uuid maps (Some peer) (int_field (Some peer) ''device'')),
              field_or peer ''ctx_device'', field_or peer ''base'', field_or peer ''handle_sig'']])"

definition failure_lines :: "event list \<Rightarrow> gpu_maps \<Rightarrow> nat \<times> event \<Rightarrow> out_line list" where
  "failure_lines events maps = (\<lambda>(idx, fail).
     let begin_event = nearest_before events fail ''IPC_OPEN_BEGIN'';
         abort = nearest_after events fail ''TRANSFER_ABORT'';
         exports = matching_exports events fail;
         fail_src_uuid = logical_to_uuid maps (Some fail) (int_field (Some fail) ''ctx_device'')
     in [Failure_head idx (format_scope fail) (ev_line_no fail),
         Failure_raw
           [field_or fail ''err_code'', field_or fail ''err_string'', field_or fail ''ctx'', field_or fail ''ctx_device'',
            or_mark fail_src_uuid, (case abort of None \<Rightarrow> ''?'' | Some a \<Rightarrow> field_or a ''source_ptr_ctx''),
            field_or fail ''target_id'', field_or fail ''remote_base'', field_or fail ''handle_sig'']] @
        map Finding_line (classify_fail events fail begin_event abort exports) @ match_lines maps exports)"

definition print_failures :: "event list \<Rightarrow> gpu_maps \<Rightarrow> int \<Rightarrow> out_line list" where
  "print_failures events maps max_failures =
     Fail_head #
     (let fails = tagged ''IPC_OPEN_FAIL'' events in
      if fails = [] then [No_fail (length (tagged ''IPC_OPEN_OK'' events))]
      else concat (map (failure_lines events maps) (enumerate 1 (take (nat max_failures) fails))) @
           (if max_failures < int (length fails) then [Omitted (int (length fails) - max_failures)] else []))"

definition print_global_findings :: "event list \<Rightarrow> out_line list" where
  "print_global_findings events =
     Clue_head #
     (let thread_notes = thread_context_summary events
      in if thread_notes \<noteq> [] then Mixed_head # map Mixed thread_notes @ [Mixed_advice] else [Not_mixed]) @
     [Copy_fails (length (tagged ''COPY_FAIL'' events)), Range_misses (length (tagged ''RANGE_MISS'' events)),
      Lifecycle (length (tagged ''UNREGISTER'' events)) (length (tagged ''DTOR'' events))]"

text \<open>The evidence: a line is printed at most once; the state is the numbers printed.\<close>

fun emit_all :: "(nat \<times> string) list \<Rightarrow> nat set \<Rightarrow> out_line list" where
  "emit_all [] printed = []"
| "emit_all ((n, raw) # ls) printed =
     (if n \<in> printed then emit_all ls printed else Evidence n raw # emit_all ls (insert n printed))"

definition numbered :: "event \<Rightarrow> nat \<times> string" where
  "numbered e = (ev_line_no e, ev_raw e)"

definition add_install :: "event \<Rightarrow> ((string \<times> string) \<times> event) list \<Rightarrow> ((string \<times> string) \<times> event) list" where
  "add_install e d = (if ev_tag e = ''INSTALL'' then setdefault (ev_pod e, ev_container e) e d else d)"

definition failure_evidence :: "event list \<Rightarrow> event \<Rightarrow> event list" where
  "failure_evidence events fail =
     (let opt = (\<lambda>e. case e of None \<Rightarrow> [] | Some x \<Rightarrow> [x])
      in opt (nearest_before events fail ''IPC_OPEN_BEGIN'') @ [fail] @
         opt (nearest_after events fail ''TRANSFER_ABORT'') @ opt (best_export (matching_exports events fail)))"

definition late_stage :: "event \<Rightarrow> bool" where
  "late_stage e \<longleftrightarrow> ev_tag e \<in> set [''COPY_FAIL'', ''RANGE_MISS'', ''UNREGISTER'', ''DTOR'']"

definition last_four :: "'a list \<Rightarrow> 'a list" where
  "last_four xs = drop (length xs - 4) xs"

definition print_evidence :: "parsed_log \<Rightarrow> int \<Rightarrow> out_line list" where
  "print_evidence lg max_failures =
     Evidence_head #
     (let events = lg_events lg in
      emit_all
        (map numbered (map snd (fold add_install events [])) @
         map numbered (concat (map (failure_evidence events) (take (nat max_failures) (tagged ''IPC_OPEN_FAIL'' events)))) @
         map numbered (filter late_stage events) @
         take 2 (lg_decode_failures lg) @ last_four (lg_guardian_lines lg)) {})"

definition print_explanation :: "out_line list" where
  "print_explanation = Meaning_head # map Meaning TAGS"

text \<open>The file, and the end of the program: exit code and lines, or the error shown.\<close>

datatype log_file = Missing | Unreadable string | Contents string

datatype nv_exit = Reported int "out_line list" | Not_found string | Cannot_read string string

record nv_args =
  na_logfile :: string
  na_max_failures :: int
  na_explain :: bool

definition nv_main :: "nv_args \<Rightarrow> log_file \<Rightarrow> nv_exit" where
  "nv_main args file =
     (case file of
        Missing \<Rightarrow> Not_found (na_logfile args)
      | Unreadable e \<Rightarrow> Cannot_read (na_logfile args) e
      | Contents s \<Rightarrow>
          (let lines = splitlines s; lg = parse_log lines; events = lg_events lg; k = max 1 (na_max_failures args)
           in Reported (if events = [] then 1 else 0)
                ([Title (na_logfile args), Sizes (length lines) (length events)] @
                 print_counts events (lg_decode_failures lg) @ print_gpu_mapping (lg_gpu_maps lg) events @
                 print_failures events (lg_gpu_maps lg) k @ print_global_findings events @ print_evidence lg k @
                 (if na_explain args then print_explanation else []) @ (if events = [] then [Tip] else []))))"

end
