(* ===== verification/Nvlink_Properties.thy ===== *)
theory Nvlink_Properties
  imports Nvlink_Report
begin

text \<open>
  What the report of the log analyzer is worth: the evidence quotes the log, the nearest event is the
  nearest, the counts are those of the events, and one case in which the lifecycle hypothesis is
  reported without ground.
\<close>

section \<open>Correlated events\<close>

lemma later_fold:
  "(\<forall>x \<in> set es. ev_line_no x \<le> ev_line_no (foldl (\<lambda>b x. if ev_line_no b < ev_line_no x then x else b) e es)) \<and>
   ev_line_no e \<le> ev_line_no (foldl (\<lambda>b x. if ev_line_no b < ev_line_no x then x else b) e es) \<and>
   foldl (\<lambda>b x. if ev_line_no b < ev_line_no x then x else b) e es \<in> set (e # es)"
proof (induction es arbitrary: e)
  case (Cons x es)
  from Cons.IH [of "if ev_line_no e < ev_line_no x then x else e"] show ?case by (auto split: if_splits)
qed simp

lemma earlier_fold: "foldl (\<lambda>b x. if ev_line_no x < ev_line_no b then x else b) e es \<in> set (e # es)"
proof (induction es arbitrary: e)
  case (Cons x es)
  from Cons.IH [of "if ev_line_no x < ev_line_no e then x else e"] show ?case by (auto split: if_splits)
qed simp

lemma last_event_None [simp]: "last_event es = None \<longleftrightarrow> es = []"
  by (simp add: last_event_def split: list.split)

lemma last_event_Some:
  assumes "last_event es = Some e"
  shows "e \<in> set es \<and> (\<forall>x \<in> set es. ev_line_no x \<le> ev_line_no e)"
proof (cases es)
  case (Cons x xs)
  then show ?thesis using assms later_fold [of xs x] by (simp add: last_event_def)
qed (use assms in \<open>simp add: last_event_def\<close>)

lemma first_event_Some: "first_event_of es = Some e \<Longrightarrow> e \<in> set es"
  using earlier_fold by (auto simp: first_event_of_def split: list.splits)

text \<open>The identity that the search before a failure prefers.\<close>

definition same_import :: "event \<Rightarrow> event \<Rightarrow> bool" where
  "same_import e target = match_fields e target [''target_id'', ''remote_base'', ''handle_sig'']"

text \<open>The nearest event before is the nearest. It has the tag, lies at most 40 lines before the target
  in the same scope, and no such event that agrees with the target on the fields of an import is
  nearer; if none agrees, no such event at all is nearer. Nothing is found only if there is nothing.\<close>

theorem nearest_before_is_nearest:
  "case nearest_before events target tag of
     None \<Rightarrow> candidates_before events target tag 40 = []
   | Some e \<Rightarrow>
       e \<in> set events \<and> ev_tag e = tag \<and> ev_line_no e < ev_line_no target \<and> ev_line_no target \<le> ev_line_no e + 40 \<and>
       same_scope e target \<and>
       list_all (\<lambda>c. if same_import c target then same_import e target \<and> ev_line_no c \<le> ev_line_no e
                     else same_import e target \<or> ev_line_no c \<le> ev_line_no e)
         (candidates_before events target tag 40)"
proof -
  let ?cs = "candidates_before events target tag 40"
  let ?exact = "filter (\<lambda>e. same_import e target) ?cs"
  have nb: "nearest_before events target tag = (if ?exact \<noteq> [] then last_event ?exact else last_event ?cs)"
    by (simp add: nearest_before_def same_import_def Let_def)
  show ?thesis
  proof (cases "nearest_before events target tag")
    case None
    then show ?thesis using nb by (auto split: if_splits)
  next
    case (Some e)
    then have "e \<in> set ?cs \<and> list_all (\<lambda>c. if same_import c target then same_import e target \<and> ev_line_no c \<le> ev_line_no e
                     else same_import e target \<or> ev_line_no c \<le> ev_line_no e) ?cs"
      using nb last_event_Some [of ?exact e] last_event_Some [of ?cs e]
      by (auto simp: list_all_iff filter_empty_conv split: if_splits)
    then show ?thesis unfolding Some by (auto simp: candidates_before_def)
  qed
qed

lemma nearest_in_events:
  "nearest_before events f tag = Some e \<Longrightarrow> e \<in> set events"
  "nearest_after events f tag = Some e \<Longrightarrow> e \<in> set events"
  by (auto simp: nearest_before_def nearest_after_def Let_def candidates_before_def candidates_after_def
      dest!: last_event_Some first_event_Some split: if_splits)

lemma best_export_in_events: "best_export (matching_exports events f) = Some e \<Longrightarrow> e \<in> set events"
proof -
  assume "best_export (matching_exports events f) = Some e"
  then obtain k where "(e, k) \<in> set (matching_exports events f)"
    by (cases "matching_exports events f") (auto simp: best_export_def)
  then show ?thesis by (auto simp: matching_exports_def split: option.splits)
qed

lemma failure_evidence_in_events: "f \<in> set events \<Longrightarrow> set (failure_evidence events f) \<subseteq> set events"
  using nearest_in_events best_export_in_events
  by (auto simp: failure_evidence_def Let_def split: option.splits)

lemma new_entry: "x \<in> set (AList.update k v d) \<Longrightarrow> x \<in> set d \<or> snd x = v"
  by (induction d) (auto split: if_splits)

lemma installs_in_events: "set (map snd (fold add_install events d)) \<subseteq> set events \<union> set (map snd d)"
proof (induction events arbitrary: d)
  case (Cons e events)
  have "set (map snd (add_install e d)) \<subseteq> insert e (set (map snd d))"
    by (auto simp: add_install_def setdefault_def update_Some_unfold dest: new_entry)
  with Cons [of "add_install e d"] show ?case by auto
qed simp

section \<open>Evidence\<close>

definition evidence_of :: "out_line list \<Rightarrow> (nat \<times> string) list" where
  "evidence_of out = concat (map (\<lambda>l. case l of Evidence n raw \<Rightarrow> [(n, raw)] | _ \<Rightarrow> []) out)"

lemma evidence_of_simps [simp]:
  "evidence_of [] = []" "evidence_of (xs @ ys) = evidence_of xs @ evidence_of ys"
  "evidence_of (l # ls) = (case l of Evidence n raw \<Rightarrow> [(n, raw)] | _ \<Rightarrow> []) @ evidence_of ls"
  by (simp_all add: evidence_of_def)

lemma evidence_of_none: "(\<And>l. l \<in> set ls \<Longrightarrow> (case l of Evidence n raw \<Rightarrow> [(n, raw)] | _ \<Rightarrow> []) = []) \<Longrightarrow> evidence_of ls = []"
  by (induction ls) auto

lemma pair_lines_no_evidence: "evidence_of (pair_lines ps shown) = []"
  by (induction ps arbitrary: shown) (auto simp: pair_line_def)

lemma no_evidence_elsewhere:
  "evidence_of (print_counts events df) = []" "evidence_of (print_gpu_mapping maps events) = []"
  "evidence_of (print_failures events maps k) = []" "evidence_of (print_global_findings events) = []"
  "evidence_of print_explanation = []"
  by (auto intro!: evidence_of_none simp: print_counts_def print_gpu_mapping_def print_failures_def failure_lines_def
      match_lines_def print_global_findings_def print_explanation_def pair_lines_no_evidence Let_def
      split: list.splits if_splits prod.splits)

lemma emit_all_spec:
  "distinct (map fst (evidence_of (emit_all ls printed))) \<and>
   set (evidence_of (emit_all ls printed)) \<subseteq> set ls \<and>
   fst ` set (evidence_of (emit_all ls printed)) = fst ` set ls - printed"
proof (induction ls arbitrary: printed)
  case (Cons l ls)
  obtain n raw where l: "l = (n, raw)" by (cases l)
  show ?case using Cons.IH [of printed] Cons.IH [of "insert n printed"] by (auto simp: l)
qed simp

lemma from_line_unique: "from_line lines n r \<Longrightarrow> from_line lines n r' \<Longrightarrow> r = r'"
  by (simp add: from_line_def)

text \<open>C31: the evidence block quotes the log. Of a readable log, the block contains no line twice, every line
  in it is the line of the log with the number shown, and the line of each failure analysed in
  detail is there.\<close>

theorem evidence_quotes_the_log:
  assumes "nv_main args (Contents s) = Reported code out"
  shows "distinct (map fst (evidence_of out)) \<and>
    list_all (\<lambda>(n, raw). from_line (splitlines s) n raw) (evidence_of out) \<and>
    list_all (\<lambda>f. numbered f \<in> set (evidence_of out))
      (take (nat (max 1 (na_max_failures args))) (tagged ''IPC_OPEN_FAIL'' (lg_events (parse_log (splitlines s)))))"
proof -
  define lg where "lg = parse_log (splitlines s)"
  define shown where "shown = take (nat (max 1 (na_max_failures args))) (tagged ''IPC_OPEN_FAIL'' (lg_events lg))"
  define ls where "ls = map numbered (map snd (fold add_install (lg_events lg) [])) @
     map numbered (concat (map (failure_evidence (lg_events lg)) shown)) @
     map numbered (filter late_stage (lg_events lg)) @ take 2 (lg_decode_failures lg) @ last_four (lg_guardian_lines lg)"
  have out: "evidence_of out = evidence_of (emit_all ls {})"
    using assms unfolding nv_main_def Let_def
    by (auto simp: no_evidence_elsewhere print_evidence_def ls_def shown_def lg_def Let_def)
  have ok: "log_lines_ok (splitlines s) lg" unfolding lg_def by (rule parse_log_ok)
  have shown_events: "set shown \<subseteq> set (lg_events lg)"
    by (auto simp: shown_def tagged_def dest!: in_set_takeD)
  have "set ls \<subseteq> numbered ` set (lg_events lg) \<union> set (lg_decode_failures lg) \<union> set (lg_guardian_lines lg)"
    using installs_in_events [of "lg_events lg" "[]"] failure_evidence_in_events [of _ "lg_events lg"] shown_events
    by (fastforce simp: ls_def last_four_def dest: in_set_takeD in_set_dropD)
  then have lines: "\<forall>(n, raw) \<in> set ls. from_line (splitlines s) n raw"
    using ok by (fastforce simp: log_lines_ok_def numbered_def)
  have "numbered f \<in> set (evidence_of out)" if "f \<in> set shown" for f
  proof -
    have f: "numbered f \<in> set ls" using that by (auto simp: ls_def failure_evidence_def Let_def)
    then have "ev_line_no f \<in> fst ` set (evidence_of out)"
      using emit_all_spec [of ls "{}"] unfolding out by (force simp: numbered_def)
    then obtain raw where r: "(ev_line_no f, raw) \<in> set (evidence_of out)" by auto
    with emit_all_spec [of ls "{}"] have "(ev_line_no f, raw) \<in> set ls" unfolding out by auto
    then have "from_line (splitlines s) (ev_line_no f) raw" using lines by blast
    moreover have "from_line (splitlines s) (ev_line_no f) (ev_raw f)" using lines f by (auto simp: numbered_def)
    ultimately have "raw = ev_raw f" by (rule from_line_unique)
    with r show ?thesis by (simp add: numbered_def)
  qed
  with lines emit_all_spec [of ls "{}"] show ?thesis
    unfolding out shown_def lg_def list_all_iff by blast
qed

section \<open>Counts\<close>

definition in_scope :: "string \<times> string \<Rightarrow> string \<Rightarrow> event \<Rightarrow> bool" where
  "in_scope scope tag e \<longleftrightarrow> (ev_pod e, ev_container e) = scope \<and> ev_tag e = tag"

lemma count_event_get:
  "dget (dget (count_event e d) scope []) tag 0 = dget (dget d scope []) tag 0 + (if in_scope scope tag e then 1 else 0)"
  by (auto simp: count_event_def in_scope_def Let_def)

lemma count_events:
  "dget (dget (fold count_event events d) scope []) tag 0 =
     dget (dget d scope []) tag 0 + int (length (filter (in_scope scope tag) events))"
  by (induction events arbitrary: d) (simp_all add: count_event_get)

lemma count_keys: "distinct (map fst d) \<Longrightarrow> distinct (map fst (fold count_event events d))"
  by (induction events arbitrary: d) (simp_all add: count_event_def Let_def distinct_update)

lemma shown_counts:
  "map_of (concat (map (\<lambda>t. if f t \<noteq> (0 :: int) then [(t, f t)] else []) ts)) tag =
     (if tag \<in> set ts \<and> f tag \<noteq> 0 then Some (f tag) else None)"
proof (induction ts)
  case (Cons t ts)
  then show ?case by (cases "f t = 0") (simp_all add: map_add_def)
qed simp

text \<open>The profile counts the events. In the line of a pod and container each tag shown stands with the
  number of its events there, and a known tag is left out only if it has none there.\<close>

theorem profile_counts_events:
  assumes "Profile scope counts \<in> set (print_counts events decode_failures)" "tag \<in> set TAGS"
  shows "map_of counts tag =
    (let n = length (filter (in_scope scope tag) events) in if n = 0 then None else Some (int n))"
proof -
  obtain cs where cs: "(scope, cs) \<in> set (fold count_event events [])" "counts = useful_counts cs"
    using assms(1) by (auto simp: print_counts_def split: if_splits)
  have "dget (fold count_event events []) scope [] = cs"
    using cs(1) count_keys [of "[]" events] by (simp add: dget_def map_of_is_SomeI)
  with count_events [of events "[]" scope tag] have n: "dget cs tag 0 = int (length (filter (in_scope scope tag) events))"
    by (simp add: dget_def)
  show ?thesis unfolding cs(2) useful_counts_def shown_counts n using assms(2) by (simp add: Let_def)
qed

section \<open>Findings\<close>

text \<open>Every failure is judged once under each hypothesis.\<close>

lemma finding_name [simp]: "fi_name (finding name level d) = name"
  by (simp add: finding_def)

lemma finding_names:
  "fi_name (context_finding fail) = ''Importer current CUDA context''"
  "fi_name (device_finding fail abort) = ''Worker ctx_device vs source_device''"
  "fi_name (owner_finding fail abort) = ''Current ctx vs source pointer owning ctx''"
  "fi_name (export_finding events exports) = ''Remote IPC export/metadata match''"
  "fi_name (lifecycle_finding events fail exports) = ''Exporter allocation lifecycle''"
  "fi_name (boundary_finding fail b) = ''Context changed across IPC open boundary''"
  unfolding context_finding_def device_finding_def owner_finding_def export_finding_def lifecycle_finding_def
    boundary_finding_def Let_def
  by (simp_all only: if_distrib [of fi_name] finding_name if_cancel split: option.split list.split prod.split bool.split) simp_all

lemma one_finding_per_hypothesis:
  "map fi_name (classify_fail events fail b abort exports) =
     [''Importer current CUDA context'', ''Worker ctx_device vs source_device'',
      ''Current ctx vs source pointer owning ctx'', ''Remote IPC export/metadata match'',
      ''Exporter allocation lifecycle'', ''Context changed across IPC open boundary'']"
  unfolding classify_fail_def by (simp only: list.map finding_names)

section \<open>Samples\<close>

definition nv_event :: "nat \<Rightarrow> string \<Rightarrow> (string \<times> string) list \<Rightarrow> event" where
  "nv_event n tag fs =
     \<lparr>ev_line_no = n, ev_raw = tag, ev_msg = tag, ev_pod = ''p'', ev_container = ''c'', ev_tag = tag, ev_fields = fs\<rparr>"

definition reexport_log :: "event list" where
  "reexport_log =
     [nv_event 1 ''UNREGISTER'' [(''base'', ''0x10'')],
      nv_event 2 ''EXPORT'' [(''base'', ''0x10''), (''handle_sig'', ''h2'')],
      nv_event 3 ''IPC_OPEN_FAIL'' [(''remote_base'', ''0x10''), (''handle_sig'', ''h2'')]]"

text \<open>An allocation exported again is called stale. The lifecycle hypothesis looks for any earlier
  release of the address and does not ask whether it came after the export: where an address is
  released, exported anew and then fails to open, the finding is of level HIGH and names the release of
  the earlier allocation, although the export that matches by handle and address was never released.\<close>

theorem reexport_is_called_stale:
  "matching_exports reexport_log (reexport_log ! 2) = [(reexport_log ! 1, ''handle+base'')] \<and>
   lifecycle_finding reexport_log (reexport_log ! 2) (matching_exports reexport_log (reexport_log ! 2)) =
     finding ''Exporter allocation lifecycle'' ''HIGH'' (Unregistered ''c'' 1)"
  by code_simp

definition tiny_log :: string where
  "tiny_log = ''[NVDBG][IPC_OPEN_FAIL] a=1'' @ [LF] @ ''x'' @ [LF]"

definition tiny_args :: nv_args where
  "tiny_args = \<lparr>na_logfile = ''log'', na_max_failures = 5, na_explain = False\<rparr>"

theorem evidence_quotes_the_log_witness:
  "\<exists>code out. nv_main tiny_args (Contents tiny_log) = Reported code out \<and> distinct (map fst (evidence_of out))"
proof -
  obtain code out where "nv_main tiny_args (Contents tiny_log) = Reported code out"
    by (simp add: nv_main_def Let_def)
  with evidence_quotes_the_log [OF this] show ?thesis by blast
qed

theorem profile_counts_events_witness:
  "map_of [(''EXPORT'', 1), (''IPC_OPEN_FAIL'', 1), (''UNREGISTER'', 1)] ''EXPORT'' =
     (let n = length (filter (in_scope (''p'', ''c'') ''EXPORT'') reexport_log) in if n = 0 then None else Some (int n))"
proof (rule profile_counts_events)
  show "Profile (''p'', ''c'') [(''EXPORT'', 1), (''IPC_OPEN_FAIL'', 1), (''UNREGISTER'', 1)]
    \<in> set (print_counts reexport_log [])" by code_simp
  show "''EXPORT'' \<in> set TAGS" by (simp add: TAGS_def)
qed

end
