(* ===== verification/Mooncake_Verify.thy ===== *)
theory Mooncake_Verify
  imports Nvlink_Log Router_Config "HOL-Library.Sublist"
begin

text \<open>
  The check of an image in \<^verbatim>\<open>src/docker/mooncake/scripts/verify-install.py\<close>: the source lock, the CUDA version
  of torch, the installed distribution, its run-time dependencies, the engine's markers and its
  linkage. What the script asks of the installation (torch, package metadata, module search, files,
  \<^verbatim>\<open>ldd\<close>) is a parameter.
\<close>

section \<open>Failures\<close>

text \<open>Each \<^verbatim>\<open>RuntimeError\<close> of the script with the values it shows, and the exceptions of what it calls.\<close>

datatype verify_error =
    No_lock
  | No_version
  | No_torch
  | No_cuda_version
  | Bad_cuda_version string
  | Unsupported_cuda int
  | Not_one_distribution "(string \<times> string) list"
  | Wrong_distribution string string string
  | Wrong_version string string
  | Missing_dependencies "string list"
  | No_package
  | Not_one_engine "string list"
  | Missing_tokens "string list"
  | Unresolved_libraries "string list"
  | No_cudart
  | Wrong_cudart int "int list"
  | Other_failure py_error

type_synonym 'a verify = "verify_error + 'a"

definition bindV :: "'a verify \<Rightarrow> ('a \<Rightarrow> 'b verify) \<Rightarrow> 'b verify" where
  "bindV m f = (case m of Inl e \<Rightarrow> Inl e | Inr x \<Rightarrow> f x)"

lemma bindV_simps [simp]: "bindV (Inl e) f = Inl e" "bindV (Inr x) f = f x"
  by (simp_all add: bindV_def)

lemma bindV_Inr: "bindV m f = Inr y \<longleftrightarrow> (\<exists>x. m = Inr x \<and> f x = Inr y)"
  by (cases m) auto

section \<open>The installation\<close>

text \<open>\<open>torch\<close> is absent, or has no CUDA version, or has one. A directory search can fail.\<close>

record installation =
  in_lock :: "string result option"
  in_torch :: "string option option"
  in_version :: "string \<Rightarrow> string option"
  in_find_spec :: "string \<Rightarrow> bool result"
  in_package_dir :: "string option"
  in_engines :: "string \<Rightarrow> string list"
  in_bytes :: "string \<Rightarrow> string result"
  in_ldd :: "string \<Rightarrow> string result"
  in_load_engine :: "unit result"

definition PACKAGE_NAMES :: "string list" where
  "PACKAGE_NAMES = [''mooncake-transfer-engine'', ''mooncake-transfer-engine-cuda13'']"

definition EXPECTED_TOKENS :: "string list" where
  "EXPECTED_TOKENS = [''nvlink_intra'', ''nvlink'']"

definition ALLOWED_BUILD_TIME_MISSING_LIBRARIES :: "string list" where
  "ALLOWED_BUILD_TIME_MISSING_LIBRARIES = [''libcuda.so.1'', ''libnvidia-ml.so.1'']"

text \<open>\<^verbatim>\<open>split()\<close>: the words between blanks.\<close>

fun words_from :: "string \<Rightarrow> string \<Rightarrow> string list" where
  "words_from cur [] = (if cur = [] then [] else [rev cur])"
| "words_from cur (c # s) =
     (if re_space c then (if cur = [] then words_from [] s else rev cur # words_from [] s) else words_from (c # cur) s)"

definition words :: "string \<Rightarrow> string list" where
  "words s = words_from [] s"

definition strip_char :: "char \<Rightarrow> string \<Rightarrow> string" where
  "strip_char q s = rev (dropWhile (\<lambda>c. c = q) (rev (dropWhile (\<lambda>c. c = q) s)))"

text \<open>A line of the lock; a line is stripped, which also drops its end.\<close>

definition read_env_line :: "string \<Rightarrow> (string \<times> string) list \<Rightarrow> (string \<times> string) list" where
  "read_env_line raw_line values =
     (let line = re_strip raw_line in
      if line = [] \<or> starts_with line ''#'' \<or> CHR ''='' \<notin> set line then values
      else AList.update (re_strip (takeWhile (\<lambda>c. c \<noteq> CHR ''='') line))
             (strip_char (CHR 0x27) (strip_char (CHR 0x22) (re_strip (drop 1 (dropWhile (\<lambda>c. c \<noteq> CHR ''='') line)))))
             values)"

definition read_shell_env :: "string \<Rightarrow> (string \<times> string) list" where
  "read_shell_env content = fold read_env_line (splitlines content) []"

definition cuda_contract :: "installation \<Rightarrow> (string \<times> int \<times> string) verify" where
  "cuda_contract ins =
     (case in_torch ins of
        None \<Rightarrow> Inl No_torch
      | Some cuda \<Rightarrow>
          (case cuda of
             None \<Rightarrow> Inl No_cuda_version
           | Some cuda_version \<Rightarrow>
               if cuda_version = [] then Inl No_cuda_version
               else (case py_int (takeWhile (\<lambda>c. c \<noteq> CHR ''.'') cuda_version) of
                       None \<Rightarrow> Inl (Bad_cuda_version cuda_version)
                     | Some cuda_major \<Rightarrow>
                         if cuda_major = 12 then Inr (cuda_version, cuda_major, ''mooncake-transfer-engine'')
                         else if cuda_major = 13 then Inr (cuda_version, cuda_major, ''mooncake-transfer-engine-cuda13'')
                         else Inl (Unsupported_cuda cuda_major))))"

definition found_distributions :: "installation \<Rightarrow> (string \<times> string) list" where
  "found_distributions ins =
     concat (map (\<lambda>p. case in_version ins p of None \<Rightarrow> [] | Some v \<Rightarrow> [(p, v)]) PACKAGE_NAMES)"

definition installed_distribution :: "installation \<Rightarrow> (string \<times> string) verify" where
  "installed_distribution ins =
     (case found_distributions ins of [d] \<Rightarrow> Inr d | ms \<Rightarrow> Inl (Not_one_distribution ms))"

definition engine_path :: "installation \<Rightarrow> string verify" where
  "engine_path ins =
     (case in_package_dir ins of
        None \<Rightarrow> Inl No_package
      | Some dir \<Rightarrow> (case sort (in_engines ins dir) of [p] \<Rightarrow> Inr p | ps \<Rightarrow> Inl (Not_one_engine ps)))"

fun missing_modules :: "installation \<Rightarrow> string list \<Rightarrow> string list verify" where
  "missing_modules ins [] = Inr []"
| "missing_modules ins (m # ms) =
     (case in_find_spec ins m of
        Inl e \<Rightarrow> Inl (Other_failure e)
      | Inr found \<Rightarrow> bindV (missing_modules ins ms) (\<lambda>rest. Inr (if found then rest else m # rest)))"

definition runtime_deps :: "(string \<times> string) list \<Rightarrow> string list" where
  "runtime_deps lock = words (case map_of lock ''MOONCAKE_RUNTIME_DEPS'' of None \<Rightarrow> [] | Some s \<Rightarrow> s)"

definition verify_runtime_dependencies :: "installation \<Rightarrow> (string \<times> string) list \<Rightarrow> unit verify" where
  "verify_runtime_dependencies ins lock =
     bindV (missing_modules ins (runtime_deps lock))
       (\<lambda>missing. if missing \<noteq> [] then Inl (Missing_dependencies missing) else Inr ())"

definition unresolved :: "string \<Rightarrow> string list" where
  "unresolved stdout =
     map (\<lambda>line. hd (words (re_strip line))) (filter (\<lambda>line. contains line ''=> not found'') (splitlines stdout))"

definition CUDART_RE :: "pat list" where
  "CUDART_RE = [p_lit ''libcudart.so.'', p_some digit_class]"

definition cudart_majors :: "string \<Rightarrow> int list" where
  "cudart_majors stdout = map (\<lambda>m. digits_value (re_group m 1)) (finditer CUDART_RE stdout)"

definition sorted_set :: "'a :: linorder list \<Rightarrow> 'a list" where
  "sorted_set xs = sort (remdups xs)"

definition verify_linkage :: "installation \<Rightarrow> string \<Rightarrow> int \<Rightarrow> (string list \<times> string) verify" where
  "verify_linkage ins path cuda_major =
     (case in_ldd ins path of
        Inl e \<Rightarrow> Inl (Other_failure e)
      | Inr stdout \<Rightarrow>
          (let missing = unresolved stdout;
               unexpected = sorted_set (filter (\<lambda>l. l \<notin> set ALLOWED_BUILD_TIME_MISSING_LIBRARIES) missing);
               cudart = cudart_majors stdout
           in if unexpected \<noteq> [] then Inl (Unresolved_libraries unexpected)
              else if cudart = [] then Inl No_cudart
              else if sorted_set cudart \<noteq> [cuda_major] then Inl (Wrong_cudart cuda_major (sorted_set cudart))
              else Inr (sorted_set missing, ''libcudart.so.'' @ show_int cuda_major)))"

definition missing_tokens :: "string \<Rightarrow> string list" where
  "missing_tokens payload = filter (\<lambda>t. \<not> contains payload t) EXPECTED_TOKENS"

text \<open>What is printed.\<close>

record verified =
  vf_distribution :: string
  vf_version :: string
  vf_torch_cuda :: string
  vf_linked_cudart :: string
  vf_engine :: string
  vf_transports :: string
  vf_missing_libraries :: string
  vf_extension_loaded :: bool

definition verify_main :: "installation \<Rightarrow> bool \<Rightarrow> verified verify" where
  "verify_main ins load_extension =
     (case in_lock ins of
        None \<Rightarrow> Inl No_lock
      | Some (Inl e) \<Rightarrow> Inl (Other_failure e)
      | Some (Inr content) \<Rightarrow>
          (let lock = read_shell_env content in
           case map_of lock ''MOONCAKE_VERSION'' of
             None \<Rightarrow> Inl No_version
           | Some expected_version \<Rightarrow>
               if expected_version = [] then Inl No_version
               else bindV (cuda_contract ins) (\<lambda>(cuda_version, cuda_major, expected_package).
                    bindV (installed_distribution ins) (\<lambda>(package_name, version).
                    if package_name \<noteq> expected_package
                    then Inl (Wrong_distribution expected_package cuda_version package_name)
                    else if version \<noteq> expected_version then Inl (Wrong_version expected_version version)
                    else bindV (verify_runtime_dependencies ins lock) (\<lambda>_.
                         bindV (engine_path ins) (\<lambda>path.
                         bindV (case in_bytes ins path of Inl e \<Rightarrow> Inl (Other_failure e) | Inr b \<Rightarrow> Inr b) (\<lambda>payload.
                         let missing = missing_tokens payload in
                         if missing \<noteq> [] then Inl (Missing_tokens missing)
                         else bindV (verify_linkage ins path cuda_major) (\<lambda>(missing_libraries, cudart).
                              bindV (if load_extension
                                     then (case in_load_engine ins of Inl e \<Rightarrow> Inl (Other_failure e) | Inr _ \<Rightarrow> Inr ())
                                     else Inr ()) (\<lambda>_.
                              Inr \<lparr>vf_distribution = package_name, vf_version = version, vf_torch_cuda = cuda_version,
                                   vf_linked_cudart = cudart, vf_engine = path, vf_transports = ''nvlink,nvlink_intra'',
                                   vf_missing_libraries =
                                     (if missing_libraries = [] then ''none'' else join '','' missing_libraries),
                                   vf_extension_loaded = load_extension\<rparr>)))))))))"

section \<open>What a verified installation is\<close>

lemma missing_modules_found:
  "missing_modules ins ms = Inr [] \<longleftrightarrow> list_all (\<lambda>m. in_find_spec ins m = Inr True) ms"
proof (induction ms)
  case (Cons m ms)
  then show ?case by (auto simp: bindV_Inr split: sum.splits)
qed simp

lemma sorted_set_single: "sorted_set xs = [x] \<longleftrightarrow> set xs = {x}"
proof
  assume "sorted_set xs = [x]"
  then show "set xs = {x}" by (metis empty_set list.simps(15) set_remdups set_sort sorted_set_def)
next
  assume x: "set xs = {x}"
  then have "set (sorted_set xs) = {x}" "distinct (sorted_set xs)" by (simp_all add: sorted_set_def)
  then show "sorted_set xs = [x]" by (cases "sorted_set xs" rule: list.exhaust; cases "tl (sorted_set xs)") auto
qed

lemma sorted_set_Nil: "sorted_set xs = [] \<longleftrightarrow> xs = []"
  by (simp add: sorted_set_def)

text \<open>The package that belongs to a CUDA version.\<close>

definition package_for :: "int \<Rightarrow> string" where
  "package_for major = (if major = 12 then ''mooncake-transfer-engine'' else ''mooncake-transfer-engine-cuda13'')"

lemma cuda_contract_Inr:
  "cuda_contract ins = Inr (v, major, package) \<Longrightarrow>
     in_torch ins = Some (Some v) \<and> major \<in> {12, 13} \<and> package = package_for major"
  by (auto simp: cuda_contract_def package_for_def split: option.splits if_splits)

lemma installed_Inr: "installed_distribution ins = Inr d \<longleftrightarrow> found_distributions ins = [d]"
  by (auto simp: installed_distribution_def split: list.splits)

lemma linkage_Inr:
  assumes "verify_linkage ins path major = Inr r"
  shows "\<exists>stdout. in_ldd ins path = Inr stdout \<and> set (cudart_majors stdout) = {major} \<and>
    set (unresolved stdout) \<subseteq> set ALLOWED_BUILD_TIME_MISSING_LIBRARIES"
  using assms
  by (auto simp: verify_linkage_def Let_def sorted_set_single sorted_set_Nil filter_empty_conv split: sum.splits if_splits)


text \<open>The second marker is a part of the first, so looking for it decides nothing: an engine without the plain
  transport is reported to have it.\<close>

lemma starts_with_append: "starts_with s (a @ b) \<Longrightarrow> starts_with s a"
  by (induction s a rule: starts_with.induct) auto

lemma contains_append: "contains s (a @ b) \<Longrightarrow> contains s a"
proof (induction s)
  case (Cons c s)
  then show ?case using starts_with_append [of "c # s" a b] by auto
qed simp

lemma nvlink_marker_is_vacuous:
  assumes "contains payload ''nvlink_intra''"
  shows "missing_tokens payload = []"
proof -
  define a where "a = ''nvlink''"
  define b where "b = ''_intra''"
  have ab: "''nvlink_intra'' = a @ b" by (simp add: a_def b_def)
  have "contains payload a" if "contains payload (a @ b)" for payload
    using that by (rule contains_append)
  with assms show ?thesis unfolding missing_tokens_def EXPECTED_TOKENS_def ab a_def [symmetric] by simp
qed

section \<open>Samples\<close>

definition sample_image :: installation where
  "sample_image =
     \<lparr>in_lock = Some (Inr (''MOONCAKE_VERSION=1.0'' @ [LF] @ ''MOONCAKE_RUNTIME_DEPS=os'')), in_torch = Some (Some ''12.8''),
      in_version = (\<lambda>p. if p = ''mooncake-transfer-engine'' then Some ''1.0'' else None), in_find_spec = (\<lambda>_. Inr True),
      in_package_dir = Some ''/p'', in_engines = (\<lambda>_. [''e.so'']), in_bytes = (\<lambda>_. Inr ''nvlink_intra''),
      in_ldd = (\<lambda>_. Inr ''libcudart.so.12 => /l''), in_load_engine = Inr ()\<rparr>"

definition sample_verified :: verified where
  "sample_verified =
     \<lparr>vf_distribution = ''mooncake-transfer-engine'', vf_version = ''1.0'', vf_torch_cuda = ''12.8'',
      vf_linked_cudart = ''libcudart.so.12'', vf_engine = ''e.so'', vf_transports = ''nvlink,nvlink_intra'',
      vf_missing_libraries = ''none'', vf_extension_loaded = False\<rparr>"


end
