(* ===== verification/Gateway_Pickers.thy ===== *)
theory Gateway_Pickers
  imports Hash_Trie "HOL-Library.Signed_Division" "HOL-Library.List_Lexorder" "HOL-Library.Char_ord"
begin

text \<open>
  The pickers of the gateway extension, in Go: \<^verbatim>\<open>src/src/gateway_inference_extension/roundrobin_picker.go\<close>,
  \<^verbatim>\<open>prefix_aware_picker.go\<close> and \<^verbatim>\<open>kv_aware_picker.go\<close>. A call runs alone: the atomic counter and the lock of
  the trie make that so for the first two, the third has no lock for its table. A string is its
  bytes; \<^verbatim>\<open>int\<close> has 64 bits. The HTTP exchange, the decoder of its answers, the hash and the random
  choice are parameters.
\<close>

section \<open>Pods\<close>

record gateway_pod =
  gp_name :: string
  gp_url :: string
  gp_ip :: string

text \<open>The result of a pick: no target, a target, or the panic of an index out of range.\<close>

datatype pick = No_target | Target gateway_pod | Panic

section \<open>Round robin\<close>

text \<open>\<^verbatim>\<open>int(i) % n\<close>: the counter is read as a signed number, and the remainder has the sign of the dividend.\<close>

definition round_robin_index :: "64 word \<Rightarrow> nat \<Rightarrow> int" where
  "round_robin_index i n = sint i smod int n"

definition round_robin_select :: "64 word \<Rightarrow> gateway_pod list \<Rightarrow> pick" where
  "round_robin_select i pods =
     (let index = round_robin_index i (length pods)
      in if index < 0 \<or> int (length pods) \<le> index then Panic else Target (pods ! nat index))"

text \<open>The counter and the slice, which is sorted in place, after the call.\<close>

definition RoundRobinPicker_Pick :: "64 word \<Rightarrow> gateway_pod list \<Rightarrow> 64 word \<times> gateway_pod list \<times> pick" where
  "RoundRobinPicker_Pick currentIndex scoredPods =
     (if scoredPods = [] then (currentIndex, scoredPods, No_target)
      else let sorted_pods = sort_key gp_name scoredPods; next_index = currentIndex + 1
           in (next_index, sorted_pods, round_robin_select (next_index - 1) sorted_pods))"

section \<open>Prefix match\<close>

definition chunkSize :: nat where
  "chunkSize = 128"

fun text_parts :: "json list \<Rightarrow> string list" where
  "text_parts [] = []"
| "text_parts (JObj mp # ps) =
     (if jget mp ''type'' JNull = JStr ''text''
      then (case jget mp ''text'' JNull of JStr txt \<Rightarrow> txt # text_parts ps | _ \<Rightarrow> text_parts ps)
      else text_parts ps)"
| "text_parts (_ # ps) = text_parts ps"

fun message_parts :: "json list \<Rightarrow> string list" where
  "message_parts [] = []"
| "message_parts (JObj mm # ms) =
     (case jget mm ''content'' JNull of
        JStr c \<Rightarrow> c # message_parts ms
      | JList c \<Rightarrow> text_parts c @ message_parts ms
      | _ \<Rightarrow> message_parts ms)"
| "message_parts (_ # ms) = message_parts ms"

definition request_text :: "jobj \<Rightarrow> string" where
  "request_text body =
     (let p = (case map_of body ''messages'' of Some (JList arr) \<Rightarrow> join [CHR 0x0A] (message_parts arr) | _ \<Rightarrow> [])
      in if p = [] then (case jget body ''prompt'' JNull of JStr s \<Rightarrow> s | _ \<Rightarrow> []) else p)"

definition chunkAndHash :: "(string \<Rightarrow> 64 word) \<Rightarrow> string \<Rightarrow> 64 word list" where
  "chunkAndHash sum64 s = map sum64 (text_chunks chunkSize s)"

definition newHashTrie :: trie where
  "newHashTrie = empty_node"

definition hashTrie_insert :: "(string \<Rightarrow> 64 word) \<Rightarrow> string \<Rightarrow> string \<Rightarrow> trie \<Rightarrow> trie" where
  "hashTrie_insert sum64 key endpoint t = insert_walk (chunkAndHash sum64 key) endpoint t"

fun prefix_walk :: "64 word list \<Rightarrow> trie \<Rightarrow> string set \<Rightarrow> string set \<Rightarrow> string set" where
  "prefix_walk [] node available matched = matched"
| "prefix_walk (h # hs) node available matched =
     (case node_children node h of
        None \<Rightarrow> matched
      | Some child \<Rightarrow>
          (let cand = node_endpoints child \<inter> available
           in if cand = {} then matched else prefix_walk hs child available cand))"

definition longestPrefixMatch :: "(string \<Rightarrow> 64 word) \<Rightarrow> string \<Rightarrow> string set \<Rightarrow> trie \<Rightarrow> string set" where
  "longestPrefixMatch sum64 key available t =
     prefix_walk (chunkAndHash sum64 key) t available (node_endpoints t \<inter> available)"

text \<open>\<open>draw\<close> is the random choice from a set.\<close>

definition PrefixMatchPicker_Pick ::
  "(string \<Rightarrow> 64 word) \<Rightarrow> (string set \<Rightarrow> string) \<Rightarrow> gateway_pod list \<Rightarrow> jobj \<Rightarrow> trie \<Rightarrow> trie \<times> pick" where
  "PrefixMatchPicker_Pick sum64 draw scoredPods body t =
     (if scoredPods = [] then (t, No_target)
      else let prompt = request_text body;
               available = gp_url ` set scoredPods;
               matched = longestPrefixMatch sum64 prompt available t;
               candidates = (if matched = {} then available else matched);
               selected = draw candidates
           in (hashTrie_insert sum64 prompt selected t,
               case filter (\<lambda>p. gp_url p = selected) scoredPods of
                 p # _ \<Rightarrow> Target p
               | [] \<Rightarrow> Target (scoredPods ! 0)))"

section \<open>KV cache\<close>

text \<open>The exchange with the controller: the status and body of an answer, if there is one; the decoders of the
  two answers.\<close>

record kv_controller =
  kc_post :: "string \<Rightarrow> string \<times> string \<Rightarrow> (int \<times> string) option"
  kc_get :: "string \<Rightarrow> (int \<times> string) option"
  kc_decode_lookup :: "string \<Rightarrow> (string \<times> int) option"
  kc_decode_query :: "string \<Rightarrow> string option"

record kv_picker =
  kp_currentIndex :: "64 word"
  kp_controllerAddr :: string
  kp_threshold :: int
  kp_instToPod :: "(string \<times> gateway_pod) list"

definition NewKvAwarePicker :: "string \<Rightarrow> int \<Rightarrow> kv_picker" where
  "NewKvAwarePicker addr threshold =
     \<lparr>kp_currentIndex = 0, kp_controllerAddr = addr, kp_threshold = threshold, kp_instToPod = []\<rparr>"

text \<open>The errors of both calls are only tested for, so they are \<open>None\<close>.\<close>

definition lookupInstance :: "kv_controller \<Rightarrow> string \<Rightarrow> string \<Rightarrow> string \<Rightarrow> (string \<times> int) option" where
  "lookupInstance kc addr model prompt =
     (case kc_post kc (''http://'' @ addr @ ''/lookup'') (model, prompt) of
        None \<Rightarrow> None
      | Some (status, body) \<Rightarrow> if status \<noteq> 200 then None else kc_decode_lookup kc body)"

definition queryInstance :: "kv_controller \<Rightarrow> string \<Rightarrow> string \<Rightarrow> string option" where
  "queryInstance kc addr ip =
     (case kc_get kc (''http://'' @ addr @ ''/query?ip='' @ ip) of
        None \<Rightarrow> None
      | Some (status, body) \<Rightarrow> if status \<noteq> 200 then None else kc_decode_query kc body)"

text \<open>\<^verbatim>\<open>len(strings.Fields(s))\<close> of an ASCII text; the first argument tells whether a field has begun.\<close>

definition go_space :: "char \<Rightarrow> bool" where
  "go_space c \<longleftrightarrow> (of_char c :: nat) \<in> {9, 10, 11, 12, 13, 32}"

fun field_count :: "bool \<Rightarrow> string \<Rightarrow> nat" where
  "field_count inside [] = 0"
| "field_count inside (c # s) =
     (if go_space c then field_count False s else (if inside then 0 else 1) + field_count True s)"

definition learn_instance ::
  "kv_controller \<Rightarrow> string \<Rightarrow> gateway_pod \<Rightarrow> (string \<times> gateway_pod) list \<Rightarrow> (string \<times> gateway_pod) list" where
  "learn_instance kc addr pod insts =
     (case queryInstance kc addr (gp_ip pod) of
        None \<Rightarrow> insts
      | Some iid \<Rightarrow> if iid = [] then insts else AList.update iid pod insts)"

definition cached_target ::
  "kv_controller \<Rightarrow> string \<Rightarrow> string \<Rightarrow> gateway_pod list \<Rightarrow> kv_picker \<Rightarrow> kv_picker \<times> gateway_pod option" where
  "cached_target kc model prompt scoredPods p =
     (case lookupInstance kc (kp_controllerAddr p) model prompt of
        None \<Rightarrow> (p, None)
      | Some (inst, tokens) \<Rightarrow>
          if inst = [] \<or> tokens < int (field_count False prompt) - kp_threshold p then (p, None)
          else let insts = (if map_of (kp_instToPod p) inst = None
                            then fold (learn_instance kc (kp_controllerAddr p)) scoredPods (kp_instToPod p)
                            else kp_instToPod p)
               in (p\<lparr>kp_instToPod := insts\<rparr>, map_of insts inst))"

definition KvAwarePicker_Pick ::
  "kv_controller \<Rightarrow> string \<Rightarrow> string \<Rightarrow> gateway_pod list \<Rightarrow> kv_picker \<Rightarrow> kv_picker \<times> gateway_pod list \<times> pick" where
  "KvAwarePicker_Pick kc model prompt scoredPods p =
     (if scoredPods = [] then (p, scoredPods, No_target)
      else (case cached_target kc model prompt scoredPods p of
              (p1, Some target) \<Rightarrow> (p1, scoredPods, Target target)
            | (p1, None) \<Rightarrow>
                (let sorted_pods = sort_key gp_name scoredPods; next_index = kp_currentIndex p1 + 1
                 in (p1\<lparr>kp_currentIndex := next_index\<rparr>, sorted_pods, round_robin_select (next_index - 1) sorted_pods))))"

section \<open>Round robin in range\<close>

lemma unat_below: "unat (i :: 64 word) < 2 ^ 64"
  using unsigned_less [of i, where ?'a = nat] by simp

lemma int_bounds: "n < 2 ^ 63 \<Longrightarrow> int n < 2 ^ 63" "2 ^ 63 \<le> n \<Longrightarrow> 2 ^ 63 \<le> int n" "n < 2 ^ 64 \<Longrightarrow> int n < 2 ^ 64"
  by simp_all

lemma sint_nat: "sint (i :: 64 word) = signed_take_bit 63 (int (unat i))"
proof -
  have "LENGTH(64) - Suc 0 = 63" "int (unat i) = uint i" by simp_all
  then show ?thesis by (simp only: sint_uint)
qed

lemma sint_small:
  fixes i :: "64 word"
  assumes "unat i < 2 ^ 63"
  shows "sint i = int (unat i)"
proof -
  define u where "u = int (unat i)"
  have r: "0 \<le> u" "u < 2 ^ 63" unfolding u_def by (rule of_nat_0_le_iff, rule int_bounds(1) [OF assms])
  then have "signed_take_bit 63 u = u" by (intro signed_take_bit_int_eq_self) simp_all
  then show ?thesis unfolding u_def sint_nat .
qed

lemma sint_large:
  fixes i :: "64 word"
  assumes "2 ^ 63 \<le> unat i"
  shows "sint i = int (unat i) - 2 ^ 64"
proof -
  define u where "u = int (unat i)"
  have r: "2 ^ 63 \<le> u" "u < 2 ^ 64" unfolding u_def by (rule int_bounds(2) [OF assms], rule int_bounds(3) [OF unat_below])
  have "signed_take_bit 63 u = signed_take_bit 63 (u - 2 ^ 64)"
    unfolding signed_take_bit_eq_iff_take_bit_eq take_bit_eq_mod by simp
  also have "\<dots> = u - 2 ^ 64" using r by (intro signed_take_bit_int_eq_self) simp_all
  finally show ?thesis unfolding u_def sint_nat .
qed

lemma smod_nonneg: "0 \<le> a \<Longrightarrow> 0 < n \<Longrightarrow> a smod n = a mod (n :: int)"
  by (cases "a = 0") (simp_all add: signed_modulo_int_def)

lemma smod_neg: "a < 0 \<Longrightarrow> 0 < n \<Longrightarrow> a smod n = - ((- a) mod (n :: int))"
  by (simp add: signed_modulo_int_def)

text \<open>C22: the round-robin index is in range for the first half of the counter only. Below \<open>2 ^ 63\<close> the pick is the
  pod at the counter modulo the number of candidates, sorted by name. From there on the counter
  read as a signed number is negative, and so is the remainder: the pick panics unless the number of
  candidates divides what is left to the wrap-around.\<close>

theorem round_robin_index_overflow:
  assumes "pods \<noteq> []"
  shows "snd (snd (RoundRobinPicker_Pick i pods)) =
    (if unat i < 2 ^ 63 then Target (sort_key gp_name pods ! (unat i mod length pods))
     else if length pods dvd 2 ^ 64 - unat i then Target (sort_key gp_name pods ! 0)
     else Panic)"
proof -
  let ?n = "int (length pods)"
  have n: "0 < ?n" using assms by simp
  have pick: "snd (snd (RoundRobinPicker_Pick i pods)) = round_robin_select i (sort_key gp_name pods)"
    using assms by (simp add: RoundRobinPicker_Pick_def Let_def)
  show ?thesis
  proof (cases "unat i < 2 ^ 63")
    case True
    have "round_robin_index i (length pods) = int (unat i mod length pods)"
      unfolding round_robin_index_def sint_small [OF True] by (simp add: smod_nonneg [OF _ n] zmod_int)
    moreover have "unat i mod length pods < length pods" using assms by simp
    ultimately show ?thesis using True by (simp add: pick round_robin_select_def)
  next
    case False
    then have large: "2 ^ 63 \<le> unat i" by simp
    note lt = unat_below [of i]
    have d: "- sint i = int (2 ^ 64 - unat i)" using lt by (simp add: sint_large [OF large] of_nat_diff)
    have "sint i < 0" unfolding sint_large [OF large] using int_bounds(3) [OF lt] by linarith
    then have idx: "round_robin_index i (length pods) = - int ((2 ^ 64 - unat i) mod length pods)"
      unfolding round_robin_index_def using d n by (simp only: smod_neg zmod_int)
    show ?thesis
    proof (cases "length pods dvd 2 ^ 64 - unat i")
      case True
      then show ?thesis using False idx assms by (simp add: pick round_robin_select_def dvd_eq_mod_eq_0)
    next
      case False
      then have "0 < (2 ^ 64 - unat i) mod length pods" by (simp add: dvd_eq_mod_eq_0)
      then show ?thesis using False \<open>\<not> unat i < 2 ^ 63\<close> idx by (simp add: pick round_robin_select_def)
    qed
  qed
qed

section \<open>The prefix picker\<close>

text \<open>The law of the random choice.\<close>

definition draws_member :: "(string set \<Rightarrow> string) \<Rightarrow> bool" where
  "draws_member draw \<longleftrightarrow> (\<forall>S. finite S \<longrightarrow> S \<noteq> {} \<longrightarrow> draw S \<in> S)"

lemma prefix_walk_available: "matched \<subseteq> available \<Longrightarrow> prefix_walk hs t available matched \<subseteq> available"
  by (induction hs t available matched rule: prefix_walk.induct) (auto simp: Let_def split: option.splits)

lemma matched_available: "longestPrefixMatch sum64 key available t \<subseteq> available"
  by (simp add: longestPrefixMatch_def prefix_walk_available)

text \<open>A pick is one of the candidates, the one chosen: the last line of the function is never reached.\<close>

lemma prefix_pick_chosen:
  assumes "draws_member draw" "scoredPods \<noteq> []"
  shows "\<exists>p e. PrefixMatchPicker_Pick sum64 draw scoredPods body t =
      (hashTrie_insert sum64 (request_text body) e t, Target p) \<and> p \<in> set scoredPods \<and> gp_url p = e \<and>
      (let matched = longestPrefixMatch sum64 (request_text body) (gp_url ` set scoredPods) t
       in e \<in> (if matched = {} then gp_url ` set scoredPods else matched))"
proof -
  define avail where "avail = gp_url ` set scoredPods"
  define matched where "matched = longestPrefixMatch sum64 (request_text body) avail t"
  define cand where "cand = (if matched = {} then avail else matched)"
  have sub: "cand \<subseteq> avail" using matched_available by (simp add: cand_def matched_def)
  have "finite avail" "avail \<noteq> {}" using assms(2) by (simp_all add: avail_def)
  then have "finite cand" "cand \<noteq> {}" using finite_subset [OF sub] by (simp_all add: cand_def)
  then have e: "draw cand \<in> cand" using assms(1) unfolding draws_member_def by blast
  then have "filter (\<lambda>p. gp_url p = draw cand) scoredPods \<noteq> []"
    using sub unfolding avail_def filter_empty_conv by (metis imageE subsetD)
  then obtain p ps where p: "filter (\<lambda>p. gp_url p = draw cand) scoredPods = p # ps"
    unfolding neq_Nil_conv by (elim exE)
  then have "p \<in> set (filter (\<lambda>p. gp_url p = draw cand) scoredPods)" by simp
  then have mem: "p \<in> set scoredPods" "gp_url p = draw cand" by simp_all
  have "PrefixMatchPicker_Pick sum64 draw scoredPods body t =
      (hashTrie_insert sum64 (request_text body) (draw cand) t, Target p)"
    unfolding PrefixMatchPicker_Pick_def Let_def avail_def [symmetric] matched_def [symmetric] cand_def [symmetric]
    using p assms(2) by simp
  then show ?thesis
    unfolding Let_def avail_def [symmetric] matched_def [symmetric] cand_def [symmetric] using mem e by blast
qed

text \<open>All nodes of the trie know at most one endpoint, the root exactly this one.\<close>

definition only_endpoint :: "string \<Rightarrow> trie \<Rightarrow> bool" where
  "only_endpoint e t \<longleftrightarrow> node_endpoints t = {e} \<and> (\<forall>p. at_path t p \<subseteq> {e})"

lemma only_endpoint_insert:
  assumes "\<forall>p. at_path t p \<subseteq> {e}"
  shows "only_endpoint e (hashTrie_insert sum64 key e t)"
proof -
  have "node_endpoints (hashTrie_insert sum64 key e t) = insert e (node_endpoints t)"
    using at_insert [of "chunkAndHash sum64 key" e t "[]"] by (simp add: hashTrie_insert_def)
  then show ?thesis
    using assms assms [rule_format, of "[]"] by (auto simp: only_endpoint_def hashTrie_insert_def at_insert split: if_splits)
qed

lemma prefix_walk_only:
  "\<forall>p. at_path t p \<subseteq> {e} \<Longrightarrow> prefix_walk hs t available {e} = {e}"
proof (induction hs arbitrary: t)
  case (Cons h hs)
  show ?case
  proof (cases "node_children t h")
    case (Some child)
    have child: "at_path child p \<subseteq> {e}" for p using Cons.prems [rule_format, of "h # p"] Some by simp
    define cand where "cand = node_endpoints child \<inter> available"
    have "cand = {} \<or> cand = {e}" using child [of "[]"] unfolding cand_def by auto
    moreover have "prefix_walk hs child available {e} = {e}" using Cons.IH child by blast
    ultimately show ?thesis unfolding prefix_walk.simps Some Let_def option.case cand_def [symmetric] by (elim disjE) simp_all
  qed simp
qed simp

text \<open>A sequence of picks.\<close>

fun prefix_picks ::
  "(string \<Rightarrow> 64 word) \<Rightarrow> (string set \<Rightarrow> string) \<Rightarrow> (gateway_pod list \<times> jobj) list \<Rightarrow> trie \<Rightarrow> pick list" where
  "prefix_picks sum64 draw [] t = []"
| "prefix_picks sum64 draw ((pods, body) # reqs) t =
     (case PrefixMatchPicker_Pick sum64 draw pods body t of (t', r) \<Rightarrow> r # prefix_picks sum64 draw reqs t')"

definition picked_url :: "pick \<Rightarrow> string option" where
  "picked_url r = (case r of Target p \<Rightarrow> Some (gp_url p) | _ \<Rightarrow> None)"

lemma only_endpoint_picks:
  assumes "draws_member draw" "only_endpoint e t" "list_all (\<lambda>(pods, _). e \<in> gp_url ` set pods) reqs"
  shows "list_all (\<lambda>r. picked_url r = Some e) (prefix_picks sum64 draw reqs t)"
  using assms(2,3)
proof (induction reqs arbitrary: t)
  case (Cons req reqs)
  obtain pods body where req: "req = (pods, body)" by (cases req)
  with Cons.prems have e: "e \<in> gp_url ` set pods" "pods \<noteq> []" by auto
  have "node_endpoints t \<inter> gp_url ` set pods = {e}" using Cons.prems(1) e(1) by (auto simp: only_endpoint_def)
  then have m: "longestPrefixMatch sum64 (request_text body) (gp_url ` set pods) t = {e}"
    unfolding longestPrefixMatch_def using Cons.prems(1) prefix_walk_only by (simp add: only_endpoint_def)
  obtain p where p: "PrefixMatchPicker_Pick sum64 draw pods body t =
      (hashTrie_insert sum64 (request_text body) e t, Target p)" "gp_url p = e"
    using prefix_pick_chosen [OF assms(1) e(2), of sum64 body t] unfolding m by auto
  have "only_endpoint e (hashTrie_insert sum64 (request_text body) e t)"
    using Cons.prems(1) by (intro only_endpoint_insert) (simp add: only_endpoint_def)
  with Cons p show ?case by (simp add: req picked_url_def)
qed simp

text \<open>The prefix picker never spreads the load. A fresh picker that has sent its first request to an endpoint
  sends every later request there, whatever its prompt and whichever other candidates there are,
  as long as the endpoint is a candidate: an insertion also marks the root, and a prompt that matches
  no chunk is matched with the endpoints of the root.\<close>

theorem prefix_picker_never_spreads:
  assumes "draws_member draw" "pods \<noteq> []"
    and "prefix_picks sum64 draw ((pods, body) # reqs) newHashTrie = r # rs" "picked_url r = Some e"
    and "list_all (\<lambda>(ps, _). e \<in> gp_url ` set ps) reqs"
  shows "list_all (\<lambda>r. picked_url r = Some e) rs"
proof -
  obtain p where p: "PrefixMatchPicker_Pick sum64 draw pods body newHashTrie =
      (hashTrie_insert sum64 (request_text body) (gp_url p) newHashTrie, Target p)"
    using prefix_pick_chosen [OF assms(1,2), of sum64 body newHashTrie] by auto
  then have e: "gp_url p = e" and rs: "rs = prefix_picks sum64 draw reqs (hashTrie_insert sum64 (request_text body) e newHashTrie)"
    using assms(3,4) by (auto simp: picked_url_def)
  have "only_endpoint e (hashTrie_insert sum64 (request_text body) e newHashTrie)"
    by (rule only_endpoint_insert) (simp add: newHashTrie_def)
  then show ?thesis unfolding rs by (rule only_endpoint_picks [OF assms(1) _ assms(5)])
qed

section \<open>The KV picker\<close>

text \<open>Without a cached target it is the round-robin picker.\<close>

lemma kv_fallback_is_round_robin:
  assumes "cached_target kc model prompt pods p = (p1, None)"
  shows "snd (KvAwarePicker_Pick kc model prompt pods p) = snd (RoundRobinPicker_Pick (kp_currentIndex p1) pods)"
  using assms by (simp add: KvAwarePicker_Pick_def RoundRobinPicker_Pick_def Let_def)

text \<open>A cached target is not checked against the candidates: a pod that is gone is picked again.\<close>

lemma kv_picks_cached_pod:
  assumes "pods \<noteq> []" "lookupInstance kc (kp_controllerAddr p) model prompt = Some (inst, tokens)" "inst \<noteq> []"
    and "int (field_count False prompt) - kp_threshold p \<le> tokens" "map_of (kp_instToPod p) inst = Some gone"
  shows "snd (snd (KvAwarePicker_Pick kc model prompt pods p)) = Target gone"
  using assms by (simp add: KvAwarePicker_Pick_def cached_target_def Let_def)

section \<open>Samples\<close>

definition pod_a :: gateway_pod where
  "pod_a = \<lparr>gp_name = ''n/a'', gp_url = ''u1'', gp_ip = ''1''\<rparr>"

definition pod_b :: gateway_pod where
  "pod_b = \<lparr>gp_name = ''n/b'', gp_url = ''u2'', gp_ip = ''2''\<rparr>"

definition pod_c :: gateway_pod where
  "pod_c = \<lparr>gp_name = ''n/c'', gp_url = ''u3'', gp_ip = ''3''\<rparr>"

theorem round_robin_index_overflow_witness:
  "snd (snd (RoundRobinPicker_Pick (2 ^ 63) [pod_c, pod_a, pod_b])) = Panic \<and>
   snd (snd (RoundRobinPicker_Pick 4 [pod_c, pod_a, pod_b])) = Target pod_b"
proof -
  define ps where "ps = [pod_c, pod_a, pod_b]"
  have u: "unat (2 ^ 63 :: 64 word) = 2 ^ 63" "unat (4 :: 64 word) = 4" by simp_all
  have l: "length ps = 3" "ps \<noteq> []" by (simp_all add: ps_def)
  have s: "sort_key gp_name ps ! 1 = pod_b" unfolding ps_def by code_simp
  have d: "\<not> (3 :: nat) dvd 2 ^ 64 - 2 ^ 63" by simp
  show ?thesis
    using round_robin_index_overflow [OF l(2), of "2 ^ 63"] round_robin_index_overflow [OF l(2), of 4]
    unfolding u l(1) ps_def [symmetric] using d s by simp
qed

lemma Min_draws: "draws_member Min"
  by (simp add: draws_member_def)

theorem prefix_picker_never_spreads_witness:
  "list_all (\<lambda>r. picked_url r = Some ''u1'')
     (prefix_picks (\<lambda>_. 0) Min [([pod_b, pod_a, pod_c], [(''prompt'', JStr ''y'')])]
        (hashTrie_insert (\<lambda>_. 0) ''x'' ''u1'' newHashTrie))"
proof -
  have first: "prefix_picks (\<lambda>_. 0) Min
      (([pod_a, pod_b], [(''prompt'', JStr ''x'')]) # [([pod_b, pod_a, pod_c], [(''prompt'', JStr ''y'')])]) newHashTrie =
    Target pod_a # prefix_picks (\<lambda>_. 0) Min [([pod_b, pod_a, pod_c], [(''prompt'', JStr ''y'')])]
        (hashTrie_insert (\<lambda>_. 0) ''x'' ''u1'' newHashTrie)"
    by (simp add: PrefixMatchPicker_Pick_def longestPrefixMatch_def chunkAndHash_def text_chunks.simps chunkSize_def
        newHashTrie_def empty_node_def request_text_def jget_def pod_a_def pod_b_def Let_def)
  show ?thesis
    by (rule prefix_picker_never_spreads [OF Min_draws _ first])
      (simp_all add: picked_url_def pod_a_def pod_b_def pod_c_def)
qed

end
