(* ===== verification/Operator_Prelude.thy ===== *)
theory Operator_Prelude
  imports Router_Prelude "HOL-Library.Multiset"
begin

text \<open>
  Shared vocabulary of the Kubernetes operator, \<^verbatim>\<open>src/operator\<close> (Go): errors and panics, programs that call the cluster,
  the cluster objects with the fields the controllers read or write, and the pattern "get the object, create it if
  it is not found" that three of the controllers repeat.

  The cluster is not part of the program. A program keeps the list of the calls it has made, newest first, and
  the answer to a call is a function of the calls before it: any behaviour of the cluster, also one that changes
  between two reads, is such a function. Go's \<^verbatim>\<open>int32\<close> fields are only compared and printed, so they are integers.
\<close>

named_theorems io_simps \<open>rewriting of programs that call the cluster\<close>
named_theorems io_intros \<open>which calls a program makes\<close>

section \<open>Errors\<close>

text \<open>What the code asks of an error of the API server: is it NotFound, is it Conflict. \<open>Wrapped\<close> is \<^verbatim>\<open>fmt.Errorf\<close> with \<^verbatim>\<open>%w\<close>.\<close>

datatype kube_error = Not_found | Conflict | Refused string

datatype go_error = Kube kube_error | Errorf string | Wrapped string go_error | Panicked string

section \<open>Programs\<close>

type_synonym ('c, 'a) io = "'c list \<Rightarrow> 'c list \<times> (go_error + 'a)"

definition returnI :: "'a \<Rightarrow> ('c, 'a) io" where
  "returnI x h = (h, Inr x)"

definition throwI :: "go_error \<Rightarrow> ('c, 'a) io" where
  "throwI e h = (h, Inl e)"

definition liftI :: "go_error + 'a \<Rightarrow> ('c, 'a) io" where
  "liftI r h = (h, r)"

definition bindI :: "('c, 'a) io \<Rightarrow> ('a \<Rightarrow> ('c, 'b) io) \<Rightarrow> ('c, 'b) io" where
  "bindI m k h = (case m h of (h', Inl e) \<Rightarrow> (h', Inl e) | (h', Inr x) \<Rightarrow> k x h')"

text \<open>A call \<open>c\<close> whose answer is read off the calls before it.\<close>

definition ask :: "'c \<Rightarrow> ('c list \<Rightarrow> 'r) \<Rightarrow> ('c, 'r) io" where
  "ask c answer h = (c # h, Inr (answer h))"

text \<open>Reading the clock, or anything else that is no call.\<close>

definition look :: "('c list \<Rightarrow> 'r) \<Rightarrow> ('c, 'r) io" where
  "look f h = (h, Inr (f h))"

text \<open>\<^verbatim>\<open>if err != nil { return fmt.Errorf("msg: %w", err) }\<close>.\<close>

definition wrapI :: "string \<Rightarrow> ('c, 'a) io \<Rightarrow> ('c, 'a) io" where
  "wrapI msg m h =
     (case m h of
        (h', Inl (Panicked p)) \<Rightarrow> (h', Inl (Panicked p))
      | (h', Inl e) \<Rightarrow> (h', Inl (Wrapped msg e))
      | (h', Inr x) \<Rightarrow> (h', Inr x))"

fun forI :: "('a \<Rightarrow> 's \<Rightarrow> ('c, 's) io) \<Rightarrow> 'a list \<Rightarrow> 's \<Rightarrow> ('c, 's) io" where
  "forI f [] s = returnI s"
| "forI f (x # xs) s = bindI (f x s) (forI f xs)"

text \<open>The calls of a program all satisfy \<open>P\<close>, whatever the cluster answers.\<close>

definition makes_only :: "('c \<Rightarrow> bool) \<Rightarrow> ('c, 'a) io \<Rightarrow> bool" where
  "makes_only P m \<longleftrightarrow> (\<forall>h. \<exists>cs. fst (m h) = cs @ h \<and> list_all P cs)"

section \<open>Cluster objects\<close>

type_synonym nn = "string \<times> string"

text \<open>\<^verbatim>\<open>api/v1alpha1/common.go\<close>.\<close>

record resource_spec =
  rs_CPU :: string
  rs_Memory :: string
  rs_GPU :: string

record image_spec =
  im_Registry :: string
  im_Name :: string
  im_PullPolicy :: string
  im_PullSecretName :: string

text \<open>Quantities are of the type \<open>'q\<close>. A Go map that is \<^verbatim>\<open>nil\<close> is \<open>None\<close>, which \<^verbatim>\<open>reflect.DeepEqual\<close> tells from an empty one.\<close>

type_synonym 'q resource_list = "(string \<times> 'q) list option"

record 'q resource_requirements =
  rr_Requests :: "'q resource_list"
  rr_Limits :: "'q resource_list"

record env_var =
  ev_Name :: string
  ev_Value :: string
  ev_SecretKeyRef :: "(string \<times> string) option"

record probe =
  pr_Path :: string
  pr_Port :: int
  pr_Scheme :: string
  pr_InitialDelaySeconds :: int
  pr_PeriodSeconds :: int
  pr_TimeoutSeconds :: int
  pr_SuccessThreshold :: int
  pr_FailureThreshold :: int

record 'q deployed_container =
  co_Name :: string
  co_Image :: string
  co_ImagePullPolicy :: string
  co_Command :: "string list"
  co_Args :: "string list"
  co_Env :: "env_var list"
  co_Ports :: "(string \<times> int) list"
  co_Resources :: "'q resource_requirements"
  co_VolumeMounts :: "(string \<times> string) list"
  co_ReadinessProbe :: "probe option"
  co_StartupProbe :: "probe option"
  co_LivenessProbe :: "probe option"

record object_meta =
  om_Name :: string
  om_Namespace :: string
  om_Labels :: "(string \<times> string) list"
  om_Owner :: "string list"

record 'q deployment =
  dp_meta :: object_meta
  dp_Replicas :: "int option"
  dp_Strategy :: string
  dp_MatchLabels :: "(string \<times> string) list"
  dp_TemplateLabels :: "(string \<times> string) list"
  dp_ServiceAccountName :: string
  dp_ImagePullSecrets :: "string list"
  dp_Volumes :: "(string \<times> string) list"
  dp_Containers :: "'q deployed_container list"
  dp_NodeSelectorTerms :: "json list option"
  dp_AvailableReplicas :: int
  dp_UnavailableReplicas :: int
  dp_UpdatedReplicas :: int

record service =
  sv_meta :: object_meta
  sv_Type :: string
  sv_Selector :: "(string \<times> string) list"
  sv_Ports :: "(string \<times> int \<times> int \<times> string) list"

record 'q pvc =
  pv_meta :: object_meta
  pv_AccessModes :: "string list"
  pv_Requests :: "(string \<times> 'q) list"
  pv_StorageClassName :: "string option"

record role =
  ro_meta :: object_meta
  ro_Rules :: "(string list \<times> string list \<times> string list) list"

record role_binding =
  rb_meta :: object_meta
  rb_Subjects :: "(string \<times> string \<times> string) list"
  rb_RoleRef :: "string \<times> string \<times> string"

definition nn_of :: "object_meta \<Rightarrow> nn" where
  "nn_of m = (om_Namespace m, om_Name m)"

section \<open>The cluster of a workload controller\<close>

text \<open>\<open>'cr\<close> is the custom resource of the controller.\<close>

datatype ('q, 'cr) wcall =
    Get_CR nn
  | Update_Status 'cr
  | Get_Service nn
  | Create_Service service
  | Update_Service service
  | Get_Deployment nn
  | Create_Deployment "'q deployment"
  | Update_Deployment "'q deployment"
  | Get_PVC nn
  | Create_PVC "'q pvc"
  | Update_PVC "'q pvc"
  | Get_ServiceAccount nn
  | Create_ServiceAccount object_meta
  | Get_Role nn
  | Create_Role role
  | Get_RoleBinding nn
  | Create_RoleBinding role_binding

text \<open>The API server, and of the libraries: \<^verbatim>\<open>resource.MustParse\<close> (\<open>None\<close> is its panic), \<^verbatim>\<open>Quantity.String\<close> and \<^verbatim>\<open>Quantity{}\<close>, the owner references that
  \<^verbatim>\<open>SetControllerReference\<close> gives an object, \<^verbatim>\<open>retry.RetryOnConflict\<close> with \<^verbatim>\<open>retry.DefaultRetry\<close>, and the clock.\<close>

record ('q, 'cr) wenv =
  we_get_cr :: "('q, 'cr) wcall list \<Rightarrow> nn \<Rightarrow> kube_error + 'cr"
  we_update_status :: "('q, 'cr) wcall list \<Rightarrow> 'cr \<Rightarrow> kube_error option"
  we_get_service :: "('q, 'cr) wcall list \<Rightarrow> nn \<Rightarrow> kube_error + service"
  we_create_service :: "('q, 'cr) wcall list \<Rightarrow> service \<Rightarrow> kube_error option"
  we_update_service :: "('q, 'cr) wcall list \<Rightarrow> service \<Rightarrow> kube_error option"
  we_get_deployment :: "('q, 'cr) wcall list \<Rightarrow> nn \<Rightarrow> kube_error + 'q deployment"
  we_create_deployment :: "('q, 'cr) wcall list \<Rightarrow> 'q deployment \<Rightarrow> kube_error option"
  we_update_deployment :: "('q, 'cr) wcall list \<Rightarrow> 'q deployment \<Rightarrow> kube_error option"
  we_get_pvc :: "('q, 'cr) wcall list \<Rightarrow> nn \<Rightarrow> kube_error + 'q pvc"
  we_create_pvc :: "('q, 'cr) wcall list \<Rightarrow> 'q pvc \<Rightarrow> kube_error option"
  we_update_pvc :: "('q, 'cr) wcall list \<Rightarrow> 'q pvc \<Rightarrow> kube_error option"
  we_get_service_account :: "('q, 'cr) wcall list \<Rightarrow> nn \<Rightarrow> kube_error + object_meta"
  we_create_service_account :: "('q, 'cr) wcall list \<Rightarrow> object_meta \<Rightarrow> kube_error option"
  we_get_role :: "('q, 'cr) wcall list \<Rightarrow> nn \<Rightarrow> kube_error + role"
  we_create_role :: "('q, 'cr) wcall list \<Rightarrow> role \<Rightarrow> kube_error option"
  we_get_role_binding :: "('q, 'cr) wcall list \<Rightarrow> nn \<Rightarrow> kube_error + role_binding"
  we_create_role_binding :: "('q, 'cr) wcall list \<Rightarrow> role_binding \<Rightarrow> kube_error option"
  we_must_parse :: "string \<Rightarrow> 'q option"
  we_quantity_string :: "'q \<Rightarrow> string"
  we_zero_quantity :: 'q
  we_owner :: "'cr \<Rightarrow> string list"
  we_retry :: "(('q, 'cr) wcall list \<Rightarrow> ('q, 'cr) wcall list \<times> go_error option) \<Rightarrow>
               ('q, 'cr) wcall list \<Rightarrow> ('q, 'cr) wcall list \<times> go_error option"
  we_now :: "('q, 'cr) wcall list \<Rightarrow> string"

section \<open>What the workload controllers share\<close>

text \<open>\<^verbatim>\<open>ctrl.Result\<close>: nothing more to do, \<^verbatim>\<open>Requeue: true\<close>, or \<^verbatim>\<open>RequeueAfter\<close> in seconds.\<close>

datatype ctrl_result = Done | Requeue | Requeue_after nat

text \<open>\<^verbatim>\<open>if err := r.Create(ctx, obj); err != nil { return ctrl.Result{}, err }; return ctrl.Result{Requeue: true}, nil\<close>, and
  the same for \<^verbatim>\<open>r.Update\<close>.\<close>

definition write_and_requeue :: "'c \<Rightarrow> ('c list \<Rightarrow> kube_error option) \<Rightarrow> ('c, ctrl_result) io" where
  "write_and_requeue c answer =
     bindI (ask c answer) (\<lambda>r. case r of None \<Rightarrow> returnI Requeue | Some e \<Rightarrow> throwI (Kube e))"

text \<open>Get an object; if it is not found, build and create it and ask for another pass; any other error ends the
  pass; otherwise go on with what was found.\<close>

definition ensure ::
  "'c \<Rightarrow> ('c list \<Rightarrow> kube_error + 'a) \<Rightarrow> go_error + 'a \<Rightarrow> ('a \<Rightarrow> 'c) \<Rightarrow> ('c list \<Rightarrow> 'a \<Rightarrow> kube_error option) \<Rightarrow>
   ('a \<Rightarrow> ('c, ctrl_result) io) \<Rightarrow> ('c, ctrl_result) io" where
  "ensure get_call get_obj built create_call create k =
     bindI (ask get_call get_obj) (\<lambda>r. case r of
        Inr found \<Rightarrow> k found
      | Inl Not_found \<Rightarrow> bindI (liftI built) (\<lambda>obj. write_and_requeue (create_call obj) (\<lambda>h. create h obj))
      | Inl e \<Rightarrow> throwI (Kube e))"

text \<open>The first step of every pass: a resource that is gone needs nothing.\<close>

definition fetch_cr :: "('q, 'cr) wenv \<Rightarrow> nn \<Rightarrow> ('cr \<Rightarrow> (('q, 'cr) wcall, ctrl_result) io) \<Rightarrow> (('q, 'cr) wcall, ctrl_result) io" where
  "fetch_cr env req k =
     bindI (ask (Get_CR req) (\<lambda>h. we_get_cr env h req)) (\<lambda>r. case r of
        Inr cr \<Rightarrow> k cr
      | Inl Not_found \<Rightarrow> returnI Done
      | Inl e \<Rightarrow> throwI (Kube e))"

definition must_parse :: "('q, 'cr) wenv \<Rightarrow> string \<Rightarrow> go_error + 'q" where
  "must_parse env s = (case we_must_parse env s of None \<Rightarrow> Inl (Panicked ''cannot parse quantity'') | Some q \<Rightarrow> Inr q)"

text \<open>The entries with a text that is not empty, parsed.\<close>

fun resource_entries :: "('q, 'cr) wenv \<Rightarrow> (string \<times> string) list \<Rightarrow> go_error + (string \<times> 'q) list" where
  "resource_entries env [] = Inr []"
| "resource_entries env ((k, s) # es) =
     (if s = [] then resource_entries env es
      else case must_parse env s of
             Inl e \<Rightarrow> Inl e
           | Inr q \<Rightarrow> (case resource_entries env es of Inl e \<Rightarrow> Inl e | Inr qs \<Rightarrow> Inr ((k, q) # qs)))"

text \<open>Requests and limits are the same.\<close>

definition build_resources :: "('q, 'cr) wenv \<Rightarrow> (string \<times> string) list \<Rightarrow> go_error + 'q resource_requirements" where
  "build_resources env es =
     (case resource_entries env es of
        Inl e \<Rightarrow> Inl e
      | Inr qs \<Rightarrow> Inr \<lparr>rr_Requests = Some qs, rr_Limits = Some qs\<rparr>)"

definition image_of :: "image_spec \<Rightarrow> string" where
  "image_of im = im_Registry im @ ''/'' @ im_Name im"

definition pull_policy_of :: "image_spec \<Rightarrow> string" where
  "pull_policy_of im = (if im_PullPolicy im = [] then ''IfNotPresent'' else im_PullPolicy im)"

definition pull_secrets_of :: "image_spec \<Rightarrow> string list" where
  "pull_secrets_of im = (if im_PullSecretName im = [] then [] else [im_PullSecretName im])"

text \<open>\<^verbatim>\<open>labels := map[string]string{"app": name}; for k, v := range more { labels[k] = v }\<close>.\<close>

definition labels_of :: "string \<Rightarrow> (string \<times> string) list \<Rightarrow> (string \<times> string) list" where
  "labels_of n extra = dict_union [(''app'', n)] extra"

text \<open>\<^verbatim>\<open>reflect.DeepEqual\<close> on resource lists and on requirements.\<close>

definition resource_list_eq :: "'q resource_list \<Rightarrow> 'q resource_list \<Rightarrow> bool" where
  "resource_list_eq a b =
     (case (a, b) of
        (None, None) \<Rightarrow> True
      | (Some xs, Some ys) \<Rightarrow> list_all (\<lambda>k. map_of xs k = map_of ys k) (map fst xs @ map fst ys)
      | _ \<Rightarrow> False)"

definition requirements_eq :: "'q resource_requirements \<Rightarrow> 'q resource_requirements \<Rightarrow> bool" where
  "requirements_eq a b \<longleftrightarrow>
     resource_list_eq (rr_Requests a) (rr_Requests b) \<and> resource_list_eq (rr_Limits a) (rr_Limits b)"

text \<open>The status text, which all three controllers compute alike from the deployment; \<^verbatim>\<open>*dep.Spec.Replicas\<close> panics on \<^verbatim>\<open>nil\<close>.\<close>

definition deployment_phase :: "'q deployment \<Rightarrow> go_error + string" where
  "deployment_phase dep =
     (case dp_Replicas dep of
        None \<Rightarrow> Inl (Panicked ''nil pointer dereference'')
      | Some n \<Rightarrow> Inr
          (if dp_AvailableReplicas dep = n \<and> dp_UnavailableReplicas dep = 0 then ''Ready''
           else if 0 < dp_UpdatedReplicas dep \<and> dp_AvailableReplicas dep \<noteq> n \<and> 0 < dp_UnavailableReplicas dep then ''Updating''
           else if 0 < dp_UnavailableReplicas dep then ''NotReady''
           else ''Unknown''))"

text \<open>One attempt of \<^verbatim>\<open>updateStatus\<close>: read the resource again, set its status and write it; and the attempts.\<close>

definition status_attempt ::
  "('q, 'cr) wenv \<Rightarrow> nn \<Rightarrow> 'q deployment \<Rightarrow> (string \<Rightarrow> string \<Rightarrow> 'cr \<Rightarrow> 'cr) \<Rightarrow>
   ('q, 'cr) wcall list \<Rightarrow> ('q, 'cr) wcall list \<times> go_error option" where
  "status_attempt env nn dep set_status h =
     (let h1 = Get_CR nn # h
      in case we_get_cr env h nn of
           Inl e \<Rightarrow> (h1, Some (Kube e))
         | Inr latest \<Rightarrow>
             (case deployment_phase dep of
                Inl e \<Rightarrow> (h1, Some e)
              | Inr phase \<Rightarrow>
                  (let new = set_status phase (we_now env h1) latest
                   in (Update_Status new # h1, map_option Kube (we_update_status env h1 new)))))"

definition update_status ::
  "('q, 'cr) wenv \<Rightarrow> nn \<Rightarrow> 'q deployment \<Rightarrow> (string \<Rightarrow> string \<Rightarrow> 'cr \<Rightarrow> 'cr) \<Rightarrow> (('q, 'cr) wcall, ctrl_result) io" where
  "update_status env nn dep set_status h =
     (case we_retry env (status_attempt env nn dep set_status) h of
        (h', None) \<Rightarrow> (h', Inr Done)
      | (h', Some e) \<Rightarrow> (h', Inl e))"

text \<open>The last part of a pass, when the deployment exists.\<close>

definition settle_deployment ::
  "('q, 'cr) wenv \<Rightarrow> go_error + bool \<Rightarrow> go_error + 'q deployment \<Rightarrow> (('q, 'cr) wcall, ctrl_result) io \<Rightarrow>
   (('q, 'cr) wcall, ctrl_result) io" where
  "settle_deployment env needs built finish =
     bindI (liftI needs) (\<lambda>b.
       if b then bindI (liftI built) (\<lambda>d. write_and_requeue (Update_Deployment d) (\<lambda>h. we_update_deployment env h d))
       else finish)"

section \<open>Lemmas on programs\<close>

lemma bindI_returnI [simp, io_simps]: "bindI (returnI x) k = k x"
  by (simp add: fun_eq_iff bindI_def returnI_def)

lemma bindI_throwI [simp, io_simps]: "bindI (throwI e) k = throwI e"
  by (simp add: fun_eq_iff bindI_def throwI_def)

lemma bindI_returnI_right [simp, io_simps]: "bindI m returnI = m"
  by (simp add: fun_eq_iff bindI_def returnI_def split: prod.splits sum.splits)

lemma bindI_assoc [io_simps]: "bindI (bindI m k) l = bindI m (\<lambda>x. bindI (k x) l)"
  by (simp add: fun_eq_iff bindI_def split: prod.splits sum.splits)

lemma liftI_Inr [simp, io_simps]: "liftI (Inr x) = returnI x"
  by (simp add: fun_eq_iff liftI_def returnI_def)

lemma liftI_Inl [simp, io_simps]: "liftI (Inl e) = throwI e"
  by (simp add: fun_eq_iff liftI_def throwI_def)

lemma bindI_ask [simp, io_simps]: "bindI (ask c f) k h = k (f h) (c # h)"
  by (simp add: bindI_def ask_def)

lemma bindI_look [simp, io_simps]: "bindI (look f) k h = k (f h) h"
  by (simp add: bindI_def look_def)

lemma bindI_Inr [io_simps]: "m h = (h', Inr x) \<Longrightarrow> bindI m k h = k x h'"
  by (simp add: bindI_def)

lemma bindI_Inl [io_simps]: "m h = (h', Inl e) \<Longrightarrow> bindI m k h = (h', Inl e)"
  by (simp add: bindI_def)

lemma returnI_apply [simp]: "returnI x h = (h, Inr x)"
  by (simp add: returnI_def)

lemma throwI_apply [simp]: "throwI e h = (h, Inl e)"
  by (simp add: throwI_def)

lemma bindI_okE:
  assumes "bindI m k h = (h', Inr y)"
  obtains h1 x where "m h = (h1, Inr x)" "k x h1 = (h', Inr y)"
  using assms by (auto simp: bindI_def split: prod.splits sum.splits)

lemma wrapI_ok [simp]: "wrapI msg m h = (h', Inr x) \<longleftrightarrow> m h = (h', Inr x)"
  by (auto simp: wrapI_def split: prod.splits sum.splits go_error.splits)

lemma fst_wrapI [simp]: "fst (wrapI msg m h) = fst (m h)"
  by (auto simp: wrapI_def split: prod.splits sum.splits go_error.splits)

subsection \<open>Which calls a program makes\<close>

lemma makes_only_returnI [io_intros]: "makes_only P (returnI x)"
  by (simp add: makes_only_def)

lemma makes_only_throwI [io_intros]: "makes_only P (throwI e)"
  by (simp add: makes_only_def)

lemma makes_only_liftI [io_intros]: "makes_only P (liftI r)"
  by (simp add: makes_only_def liftI_def)

lemma makes_only_ask [io_intros]: "P c \<Longrightarrow> makes_only P (ask c f)"
  by (auto simp: makes_only_def ask_def intro: exI [of _ "[c]"])

lemma makes_only_look [io_intros]: "makes_only P (look f)"
  by (simp add: makes_only_def look_def)

lemma makes_only_wrapI [io_intros]: "makes_only P m \<Longrightarrow> makes_only P (wrapI msg m)"
  by (simp add: makes_only_def)

lemma makes_only_bindI [io_intros]:
  assumes "makes_only P m" "\<And>x. makes_only P (k x)"
  shows "makes_only P (bindI m k)"
  unfolding makes_only_def
proof
  fix h
  obtain h1 r where m: "m h = (h1, r)"
    by fastforce
  then obtain cs where cs: "h1 = cs @ h" "list_all P cs"
    using assms(1) by (auto simp: makes_only_def dest: spec [of _ h])
  show "\<exists>cs. fst (bindI m k h) = cs @ h \<and> list_all P cs"
  proof (cases r)
    case (Inl e)
    then show ?thesis
      using m cs by (auto simp: bindI_def)
  next
    case (Inr x)
    obtain ds where "fst (k x h1) = ds @ h1" "list_all P ds"
      using assms(2) [of x] by (auto simp: makes_only_def)
    then have "fst (bindI m k h) = (ds @ cs) @ h \<and> list_all P (ds @ cs)"
      using m cs Inr by (simp add: bindI_def)
    then show ?thesis
      by blast
  qed
qed

lemma makes_only_forI [io_intros]: "(\<And>x s. makes_only P (f x s)) \<Longrightarrow> makes_only P (forI f xs s)"
  by (induction xs arbitrary: s) (auto intro: io_intros)

lemma makes_only_if [io_intros]:
  "(b \<Longrightarrow> makes_only P m) \<Longrightarrow> (\<not> b \<Longrightarrow> makes_only P n) \<Longrightarrow> makes_only P (if b then m else n)"
  by simp

lemma makes_only_sum [io_intros]:
  "(\<And>e. r = Inl e \<Longrightarrow> makes_only P (f e)) \<Longrightarrow> (\<And>x. r = Inr x \<Longrightarrow> makes_only P (g x)) \<Longrightarrow>
   makes_only P (case r of Inl e \<Rightarrow> f e | Inr x \<Rightarrow> g x)"
  by (simp split: sum.splits)

lemma makes_only_option [io_intros]:
  "(r = None \<Longrightarrow> makes_only P m) \<Longrightarrow> (\<And>x. r = Some x \<Longrightarrow> makes_only P (g x)) \<Longrightarrow>
   makes_only P (case r of None \<Rightarrow> m | Some x \<Rightarrow> g x)"
  by (simp split: option.splits)

lemma makes_only_kube [io_intros]:
  "makes_only P m \<Longrightarrow> makes_only P n \<Longrightarrow> (\<And>s. makes_only P (g s)) \<Longrightarrow>
   makes_only P (case e of Not_found \<Rightarrow> m | Conflict \<Rightarrow> n | Refused s \<Rightarrow> g s)"
  by (simp split: kube_error.splits)

lemma makes_only_weaken: "makes_only P m \<Longrightarrow> (\<And>c. P c \<Longrightarrow> Q c) \<Longrightarrow> makes_only Q m"
  unfolding makes_only_def by (meson list.pred_mono_strong)

lemma makes_onlyD:
  assumes "makes_only P m" "m h = (h', r)"
  obtains cs where "h' = cs @ h" "list_all P cs"
  using assms unfolding makes_only_def by (metis fst_conv)

text \<open>The same with a condition on the value returned.\<close>

definition yields :: "('c \<Rightarrow> bool) \<Rightarrow> ('a \<Rightarrow> bool) \<Rightarrow> ('c, 'a) io \<Rightarrow> bool" where
  "yields P Q m \<longleftrightarrow> makes_only P m \<and> (\<forall>h h' x. m h = (h', Inr x) \<longrightarrow> Q x)"

lemma yields_only: "makes_only P m \<Longrightarrow> yields P (\<lambda>_. True) m"
  by (simp add: yields_def)

lemma yields_makes_only: "yields P Q m \<Longrightarrow> makes_only P m"
  by (simp add: yields_def)

lemma yields_returnI: "Q x \<Longrightarrow> yields P Q (returnI x)"
  by (simp add: yields_def makes_only_returnI)

lemma yields_throwI: "yields P Q (throwI e)"
  by (simp add: yields_def makes_only_throwI)

lemma yields_wrapI: "yields P Q m \<Longrightarrow> yields P Q (wrapI msg m)"
  by (simp add: yields_def makes_only_wrapI)

lemma yields_bindI:
  assumes "yields P Q m" "\<And>x. Q x \<Longrightarrow> yields P R (k x)"
  shows "yields P R (bindI m k)"
proof -
  have "\<exists>cs. fst (bindI m k h) = cs @ h \<and> list_all P cs" for h
  proof -
    obtain h1 r where m: "m h = (h1, r)"
      by fastforce
    then obtain cs where cs: "h1 = cs @ h" "list_all P cs"
      using assms(1) makes_onlyD unfolding yields_def by metis
    show ?thesis
    proof (cases r)
      case (Inl e)
      then show ?thesis
        using m cs by (auto simp: bindI_def)
    next
      case (Inr x)
      then have "Q x"
        using m assms(1) by (auto simp: yields_def)
      then obtain ds where "fst (k x h1) = ds @ h1" "list_all P ds"
        using assms(2) [of x] unfolding yields_def makes_only_def by blast
      then have "fst (bindI m k h) = (ds @ cs) @ h \<and> list_all P (ds @ cs)"
        using m cs Inr by (simp add: bindI_def)
      then show ?thesis
        by blast
    qed
  qed
  moreover have "R y" if "bindI m k h = (h', Inr y)" for h h' y
    using that assms by (auto simp: yields_def elim!: bindI_okE)
  ultimately show ?thesis
    by (auto simp: yields_def makes_only_def)
qed

lemma yields_ask: "P c \<Longrightarrow> (\<And>h. Q (f h)) \<Longrightarrow> yields P Q (ask c f)"
  by (auto simp: yields_def makes_only_ask ask_def)

subsection \<open>The shared steps\<close>

lemma write_and_requeue_apply:
  "write_and_requeue c answer h = (c # h, case answer h of None \<Rightarrow> Inr Requeue | Some e \<Rightarrow> Inl (Kube e))"
  by (simp add: write_and_requeue_def split: option.splits)

lemma ensure_found: "get_obj h = Inr found \<Longrightarrow> ensure gc get_obj built cc create k h = k found (gc # h)"
  by (simp add: ensure_def)

lemma ensure_missing:
  "get_obj h = Inl Not_found \<Longrightarrow> built = Inr obj \<Longrightarrow>
   ensure gc get_obj built cc create k h = write_and_requeue (cc obj) (\<lambda>h. create h obj) (gc # h)"
  by (simp add: ensure_def)

lemma fetch_cr_found: "we_get_cr env h req = Inr cr \<Longrightarrow> fetch_cr env req k h = k cr (Get_CR req # h)"
  by (simp add: fetch_cr_def)

text \<open>The retry helper is documented to try again only after a conflict.\<close>

definition retries_conflicts_only :: "('q, 'cr) wenv \<Rightarrow> bool" where
  "retries_conflicts_only env \<longleftrightarrow>
     (\<forall>f h. snd (f h) \<noteq> Some (Kube Conflict) \<longrightarrow> we_retry env f h = f h)"

lemma update_status_once:
  assumes "retries_conflicts_only env" "we_get_cr env h nn = Inr latest" "deployment_phase dep = Inr phase"
    "\<And>h cr. we_update_status env h cr = None"
  shows "update_status env nn dep set_status h =
    (Update_Status (set_status phase (we_now env (Get_CR nn # h)) latest) # Get_CR nn # h, Inr Done)"
proof -
  have "status_attempt env nn dep set_status h =
      (Update_Status (set_status phase (we_now env (Get_CR nn # h)) latest) # Get_CR nn # h, None)"
    using assms(2-) by (simp add: status_attempt_def Let_def)
  then show ?thesis
    using assms(1) by (simp add: update_status_def retries_conflicts_only_def)
qed

lemma resource_list_eq_iff: "resource_list_eq (Some xs) (Some ys) \<longleftrightarrow> map_of xs = map_of ys"
proof
  assume eq: "resource_list_eq (Some xs) (Some ys)"
  show "map_of xs = map_of ys"
  proof
    fix k
    show "map_of xs k = map_of ys k"
    proof (cases "k \<in> fst ` set xs \<union> fst ` set ys")
      case True
      then show ?thesis
        using eq by (auto simp: resource_list_eq_def list_all_iff)
    next
      case False
      then show ?thesis
        by (metis UnI1 UnI2 map_of_eq_None_iff)
    qed
  qed
qed (simp add: resource_list_eq_def list_all_iff)

lemma resource_list_eq_refl [simp]: "resource_list_eq a a"
  by (cases a) (simp_all add: resource_list_eq_def list_all_iff)

lemma requirements_eq_refl [simp]: "requirements_eq a a"
  by (simp add: requirements_eq_def)

lemma resource_entries_keys:
  "resource_entries env es = Inr qs \<Longrightarrow> map fst qs = map fst (filter (\<lambda>(k, s). s \<noteq> []) es)"
  by (induction es arbitrary: qs) (auto split: if_splits sum.splits)

subsection \<open>Which calls the shared steps make\<close>

text \<open>The retry helper is documented to do nothing but run the attempt.\<close>

definition retry_runs_attempts :: "('q, 'cr) wenv \<Rightarrow> bool" where
  "retry_runs_attempts env \<longleftrightarrow>
     (\<forall>P f. (\<forall>h. \<exists>cs. fst (f h) = cs @ h \<and> list_all P cs) \<longrightarrow> (\<forall>h. \<exists>cs. fst (we_retry env f h) = cs @ h \<and> list_all P cs))"

lemma makes_only_ask_bind:
  assumes "P c" "\<And>h. makes_only P (k (f h))"
  shows "makes_only P (bindI (ask c f) k)"
  unfolding makes_only_def
proof
  fix h
  obtain cs where "fst (k (f h) (c # h)) = cs @ c # h" "list_all P cs"
    using assms(2) [of h] by (auto simp: makes_only_def)
  then have "fst (bindI (ask c f) k h) = (cs @ [c]) @ h \<and> list_all P (cs @ [c])"
    using assms(1) by simp
  then show "\<exists>cs. fst (bindI (ask c f) k h) = cs @ h \<and> list_all P cs"
    by blast
qed

lemma makes_only_write: "P c \<Longrightarrow> makes_only P (write_and_requeue c answer)"
  unfolding write_and_requeue_def by (intro io_intros)

lemma makes_only_ensure:
  assumes "P gc" "\<And>h obj. get_obj h = Inl Not_found \<Longrightarrow> built = Inr obj \<Longrightarrow> P (cc obj)"
    "\<And>h x. get_obj h = Inr x \<Longrightarrow> makes_only P (k x)"
  shows "makes_only P (ensure gc get_obj built cc create k)"
  unfolding ensure_def
proof (rule makes_only_ask_bind [of P, OF assms(1)])
  fix h
  consider x where "get_obj h = Inr x" | "get_obj h = Inl Not_found" | e where "get_obj h = Inl e" "e \<noteq> Not_found"
    by (cases "get_obj h") auto
  then show "makes_only P (case get_obj h of
      Inl Not_found \<Rightarrow> bindI (liftI built) (\<lambda>obj. write_and_requeue (cc obj) (\<lambda>h. create h obj))
    | Inl e \<Rightarrow> throwI (Kube e) | Inr x \<Rightarrow> k x)"
  proof cases
    case 2
    then show ?thesis
      by (cases built) (auto intro: io_intros makes_only_write assms(2))
  next
    case 3
    then show ?thesis
      by (cases e) (auto intro: io_intros)
  qed (simp add: assms(3))
qed

lemma makes_only_fetch_cr:
  assumes "P (Get_CR req)" "\<And>h cr. we_get_cr env h req = Inr cr \<Longrightarrow> makes_only P (k cr)"
  shows "makes_only P (fetch_cr env req k)"
  unfolding fetch_cr_def
  by (rule makes_only_ask_bind, rule assms(1), rule makes_only_sum) (auto intro: io_intros assms(2))

lemma makes_only_settle:
  assumes "\<And>d. built = Inr d \<Longrightarrow> P (Update_Deployment d)" "makes_only P finish"
  shows "makes_only P (settle_deployment env needs built finish)"
  unfolding settle_deployment_def
  by (cases built; cases needs) (auto intro!: makes_only_write assms simp: makes_only_throwI)

lemma makes_only_update_status:
  assumes "retry_runs_attempts env" "P (Get_CR nn)" "\<And>cr. P (Update_Status cr)"
  shows "makes_only P (update_status env nn dep set_status)"
proof -
  have "\<exists>cs. fst (status_attempt env nn dep set_status h) = cs @ h \<and> list_all P cs" for h
    using assms(2,3) by (auto simp: status_attempt_def Let_def split: sum.splits)
  then have "\<exists>cs. fst (we_retry env (status_attempt env nn dep set_status) h) = cs @ h \<and> list_all P cs" for h
    using assms(1) by (simp add: retry_runs_attempts_def)
  moreover have "fst (update_status env nn dep set_status h) = fst (we_retry env (status_attempt env nn dep set_status) h)" for h
    by (simp add: update_status_def split: prod.splits option.splits)
  ultimately show ?thesis
    by (simp add: makes_only_def)
qed

lemmas pass_intros = makes_only_fetch_cr makes_only_ensure makes_only_settle makes_only_update_status

section \<open>A server that keeps what is written\<close>

text \<open>The last object a history of calls wrote under a name.\<close>

primrec last_service :: "('q, 'cr) wcall list \<Rightarrow> nn \<Rightarrow> service option" where
  "last_service [] nn = None"
| "last_service (c # h) nn =
     (case c of
        Create_Service s \<Rightarrow> if nn_of (sv_meta s) = nn then Some s else last_service h nn
      | Update_Service s \<Rightarrow> if nn_of (sv_meta s) = nn then Some s else last_service h nn
      | _ \<Rightarrow> last_service h nn)"

primrec last_deployment :: "('q, 'cr) wcall list \<Rightarrow> nn \<Rightarrow> 'q deployment option" where
  "last_deployment [] nn = None"
| "last_deployment (c # h) nn =
     (case c of
        Create_Deployment d \<Rightarrow> if nn_of (dp_meta d) = nn then Some d else last_deployment h nn
      | Update_Deployment d \<Rightarrow> if nn_of (dp_meta d) = nn then Some d else last_deployment h nn
      | _ \<Rightarrow> last_deployment h nn)"

text \<open>An object is read back with the fields it was written with, except that an empty resource map, which the JSON text of an
  object leaves out, is \<^verbatim>\<open>nil\<close>. Fields the server fills in, and the status, are free.\<close>

definition drop_empty :: "'q resource_requirements \<Rightarrow> 'q resource_requirements" where
  "drop_empty r =
     \<lparr>rr_Requests = (if rr_Requests r = Some [] then None else rr_Requests r),
      rr_Limits = (if rr_Limits r = Some [] then None else rr_Limits r)\<rparr>"

definition container_kept :: "'q deployed_container \<Rightarrow> 'q deployed_container \<Rightarrow> bool" where
  "container_kept c c' \<longleftrightarrow>
     co_Image c' = co_Image c \<and> co_Args c' = co_Args c \<and> co_Env c' = co_Env c \<and> co_Ports c' = co_Ports c \<and>
     co_Resources c' = drop_empty (co_Resources c)"

definition served_as :: "'q deployment \<Rightarrow> 'q deployment \<Rightarrow> bool" where
  "served_as d d' \<longleftrightarrow>
     dp_Replicas d' = dp_Replicas d \<and> list_all2 container_kept (dp_Containers d) (dp_Containers d')"

text \<open>The API server: reads give what was last written (\<open>view\<close> is what it makes of a deployment, which may depend on the time),
  nothing is refused, and the resource does not change.\<close>

definition keeps_writes ::
  "('q, 'cr) wenv \<Rightarrow> (('q, 'cr) wcall list \<Rightarrow> 'q deployment \<Rightarrow> 'q deployment) \<Rightarrow> nn \<Rightarrow> 'cr \<Rightarrow> bool" where
  "keeps_writes env view nn cr \<longleftrightarrow>
     (\<forall>h. we_get_cr env h nn = Inr cr) \<and> (\<forall>h x. we_update_status env h x = None) \<and>
     (\<forall>h. we_get_service env h nn = (case last_service h nn of None \<Rightarrow> Inl Not_found | Some s \<Rightarrow> Inr s)) \<and>
     (\<forall>h. we_get_deployment env h nn = (case last_deployment h nn of None \<Rightarrow> Inl Not_found | Some d \<Rightarrow> Inr (view h d))) \<and>
     (\<forall>h s. we_create_service env h s = None) \<and> (\<forall>h s. we_update_service env h s = None) \<and>
     (\<forall>h d. we_create_deployment env h d = None) \<and> (\<forall>h d. we_update_deployment env h d = None) \<and>
     (\<forall>h d. served_as d (view h d)) \<and> retries_conflicts_only env"

text \<open>\<open>n + 1\<close> passes one after the other; the result is that of the last.\<close>

primrec repeat_pass :: "('c, 'a) io \<Rightarrow> nat \<Rightarrow> ('c, 'a) io" where
  "repeat_pass m 0 h = m h"
| "repeat_pass m (Suc n) h = repeat_pass m n (fst (m h))"

lemma drop_empty_same: "rr_Requests r \<noteq> Some [] \<Longrightarrow> rr_Limits r \<noteq> Some [] \<Longrightarrow> drop_empty r = r"
  by (simp add: drop_empty_def)

lemma build_resources_drop_empty:
  assumes "build_resources env es = Inr r"
  shows "requirements_eq r (drop_empty r) \<longleftrightarrow> (\<exists>(k, s) \<in> set es. s \<noteq> [])"
proof -
  obtain qs where qs: "resource_entries env es = Inr qs" "r = \<lparr>rr_Requests = Some qs, rr_Limits = Some qs\<rparr>"
    using assms by (auto simp: build_resources_def split: sum.splits)
  have "qs = [] \<longleftrightarrow> filter (\<lambda>(k, s). s \<noteq> []) es = []"
    using resource_entries_keys [OF qs(1)] by (metis map_is_Nil_conv)
  then have "qs \<noteq> [] \<longleftrightarrow> (\<exists>(k, s) \<in> set es. s \<noteq> [])"
    by (auto simp: filter_empty_conv)
  moreover have "requirements_eq r (drop_empty r) \<longleftrightarrow> qs \<noteq> []"
    using qs(2) by (cases "qs = []") (auto simp: requirements_eq_def drop_empty_def resource_list_eq_def list_all_iff)
  ultimately show ?thesis
    by simp
qed

text \<open>A pass that asks for another one, in every history from some point on, is never the last.\<close>

lemma repeat_pass_result:
  assumes "\<And>h. I h \<Longrightarrow> I (fst (m h)) \<and> snd (m h) = r" "I h"
  shows "snd (repeat_pass m n h) = r"
  using assms(2) by (induction n arbitrary: h) (auto simp: assms(1))

lemma repeat_pass_Suc_eq: "2 \<le> n \<Longrightarrow> repeat_pass m n h = repeat_pass m (n - 2) (fst (m (fst (m h))))"
  by (cases n; cases "n - 1") auto

lemma keeps_writesD:
  assumes "keeps_writes env view nn cr"
  shows "we_get_cr env h nn = Inr cr" "we_update_status env h x = None"
    "last_service h nn = None \<Longrightarrow> we_get_service env h nn = Inl Not_found"
    "last_service h nn = Some s \<Longrightarrow> we_get_service env h nn = Inr s"
    "last_deployment h nn = None \<Longrightarrow> we_get_deployment env h nn = Inl Not_found"
    "last_deployment h nn = Some d \<Longrightarrow> we_get_deployment env h nn = Inr (view h d)"
    "we_create_service env h s = None" "we_update_service env h s = None"
    "we_create_deployment env h d = None" "we_update_deployment env h d = None"
    "served_as d (view h d)" "retries_conflicts_only env"
  using assms by (auto simp: keeps_writes_def)

text \<open>Calls that leave service and deployment as they are, or write this deployment again.\<close>

fun leaves_alone :: "'q deployment \<Rightarrow> ('q, 'cr) wcall \<Rightarrow> bool" where
  "leaves_alone d (Create_Service s) = False"
| "leaves_alone d (Update_Service s) = False"
| "leaves_alone d (Create_Deployment x) = (x = d)"
| "leaves_alone d (Update_Deployment x) = (x = d)"
| "leaves_alone d _ = True"

lemma leaves_alone_service: "list_all (leaves_alone d) cs \<Longrightarrow> last_service (cs @ h) nn = last_service h nn"
  by (induction cs) (auto split: wcall.splits elim: leaves_alone.elims)

lemma leaves_alone_deployment:
  "list_all (leaves_alone d) cs \<Longrightarrow> nn_of (dp_meta d) = nn \<Longrightarrow> last_deployment h nn = Some d \<Longrightarrow>
   last_deployment (cs @ h) nn = Some d"
  by (induction cs) (auto split: wcall.splits elim: leaves_alone.elims)

text \<open>A controller that creates its service, then its deployment, and then gives the same result in every pass that finds both:
  from the third pass on it gives that result.\<close>

lemma two_objects_settle:
  fixes m :: "(('q, 'cr) wcall, ctrl_result) io"
  assumes service: "\<And>h. last_service h nn = None \<Longrightarrow> m h = (Create_Service s # Get_Service nn # Get_CR nn # h, Inr Requeue)"
    and deployment: "\<And>h. last_service h nn = Some s \<Longrightarrow> last_deployment h nn = None \<Longrightarrow>
      m h = (Create_Deployment d # Get_Deployment nn # Get_Service nn # Get_CR nn # h, Inr Requeue)"
    and both: "\<And>h. last_service h nn = Some s \<Longrightarrow> last_deployment h nn = Some d \<Longrightarrow>
      \<exists>cs. m h = (cs @ h, r) \<and> list_all (leaves_alone d) cs"
    and names: "nn_of (sv_meta s) = nn" "nn_of (dp_meta d) = nn"
    and fresh: "last_service h nn = None" "last_deployment h nn = None" and "2 \<le> n"
  shows "snd (repeat_pass m n h) = r"
proof -
  define I where "I h \<longleftrightarrow> last_service h nn = Some s \<and> last_deployment h nn = Some d"
    for h :: "('q, 'cr) wcall list"
  have "I (fst (m h)) \<and> snd (m h) = r" if "I h" for h
    using both [of h] that names(2) by (auto simp: I_def leaves_alone_service leaves_alone_deployment)
  moreover have "I (fst (m (fst (m h))))"
    using fresh names by (simp add: I_def service deployment)
  ultimately show ?thesis
    using repeat_pass_result [of I m] \<open>2 \<le> n\<close> by (simp add: repeat_pass_Suc_eq)
qed

section \<open>A server to evaluate with\<close>

text \<open>It keeps what is written, parses every quantity to its text and names the owner \<open>owner\<close>.\<close>

definition sample_view :: "'q deployment \<Rightarrow> 'q deployment" where
  "sample_view d = d\<lparr>dp_Containers := map (\<lambda>c. c\<lparr>co_Resources := drop_empty (co_Resources c)\<rparr>) (dp_Containers d)\<rparr>"

definition store_env :: "'cr \<Rightarrow> (string, 'cr) wenv" where
  "store_env cr =
     \<lparr>we_get_cr = \<lambda>h nn. Inr cr, we_update_status = \<lambda>h x. None,
      we_get_service = \<lambda>h nn. case last_service h nn of None \<Rightarrow> Inl Not_found | Some s \<Rightarrow> Inr s,
      we_create_service = \<lambda>h s. None, we_update_service = \<lambda>h s. None,
      we_get_deployment = \<lambda>h nn. case last_deployment h nn of None \<Rightarrow> Inl Not_found | Some d \<Rightarrow> Inr (sample_view d),
      we_create_deployment = \<lambda>h d. None, we_update_deployment = \<lambda>h d. None,
      we_get_pvc = \<lambda>h nn. Inl Not_found, we_create_pvc = \<lambda>h p. None, we_update_pvc = \<lambda>h p. None,
      we_get_service_account = \<lambda>h nn. Inl Not_found, we_create_service_account = \<lambda>h m. None,
      we_get_role = \<lambda>h nn. Inl Not_found, we_create_role = \<lambda>h r. None,
      we_get_role_binding = \<lambda>h nn. Inl Not_found, we_create_role_binding = \<lambda>h r. None,
      we_must_parse = Some, we_quantity_string = id, we_zero_quantity = ''0'', we_owner = \<lambda>cr. [''owner''],
      we_retry = \<lambda>f h. f h, we_now = \<lambda>h. ''now''\<rparr>"

lemma store_env_keeps_writes: "keeps_writes (store_env cr) (\<lambda>h. sample_view) nn cr"
  by (simp add: keeps_writes_def store_env_def retries_conflicts_only_def served_as_def sample_view_def container_kept_def
      list.rel_map list_all2_same)

lemma store_env_retry: "retry_runs_attempts (store_env cr)"
  by (simp add: retry_runs_attempts_def store_env_def)

end
