(* ===== verification/Cache_Controller.thy ===== *)
theory Cache_Controller
  imports Operator_Prelude
begin

text \<open>
  The controller of the cache server, \<^verbatim>\<open>src/operator/internal/controller/cacheserver_controller.go\<close>: the objects it builds, when it
  updates the deployment, and a pass of \<^verbatim>\<open>Reconcile\<close>. From a cluster without its objects it comes to rest after three
  passes, unless the resource names neither CPU nor memory; a changed port is never rolled out.
\<close>

section \<open>The resource\<close>

record cache_server =
  cs_Name :: string
  cs_Namespace :: string
  cs_Image :: image_spec
  cs_Port :: int
  cs_Resources :: resource_spec
  cs_Replicas :: int
  cs_DeploymentStrategy :: string
  cs_LastUpdated :: string
  cs_Status :: string

type_synonym 'q cache_env = "('q, cache_server) wenv"

definition cs_nn :: "cache_server \<Rightarrow> nn" where
  "cs_nn cs = (cs_Namespace cs, cs_Name cs)"

section \<open>The objects\<close>

definition cs_meta :: "'q cache_env \<Rightarrow> cache_server \<Rightarrow> object_meta" where
  "cs_meta env cs = \<lparr>om_Name = cs_Name cs, om_Namespace = cs_Namespace cs, om_Labels = [], om_Owner = we_owner env cs\<rparr>"

definition deploymentForCacheServer :: "'q cache_env \<Rightarrow> cache_server \<Rightarrow> go_error + 'q deployment" where
  "deploymentForCacheServer env cs =
     (let labels = [(''app'', cs_Name cs)]
      in case build_resources env [(''cpu'', rs_CPU (cs_Resources cs)), (''memory'', rs_Memory (cs_Resources cs))] of
           Inl e \<Rightarrow> Inl e
         | Inr resources \<Rightarrow> Inr
             \<lparr>dp_meta = cs_meta env cs, dp_Replicas = Some (cs_Replicas cs), dp_Strategy = [],
              dp_MatchLabels = labels, dp_TemplateLabels = labels, dp_ServiceAccountName = [], dp_ImagePullSecrets = [],
              dp_Volumes = [],
              dp_Containers =
                [\<lparr>co_Name = ''cache-server'', co_Image = image_of (cs_Image cs),
                  co_ImagePullPolicy = pull_policy_of (cs_Image cs),
                  co_Command = [''lmcache_experimental_server'', ''0.0.0.0'', show_int (cs_Port cs)],
                  co_Args = [], co_Env = [], co_Ports = [(''http'', cs_Port cs)], co_Resources = resources,
                  co_VolumeMounts = [], co_ReadinessProbe = None, co_StartupProbe = None, co_LivenessProbe = None\<rparr>],
              dp_NodeSelectorTerms = None,
              dp_AvailableReplicas = 0, dp_UnavailableReplicas = 0, dp_UpdatedReplicas = 0\<rparr>)"

definition serviceForCacheServer :: "'q cache_env \<Rightarrow> cache_server \<Rightarrow> service" where
  "serviceForCacheServer env cs =
     \<lparr>sv_meta = cs_meta env cs, sv_Type = ''ClusterIP'', sv_Selector = [(''app'', cs_Name cs)],
      sv_Ports = [(''http'', 80, cs_Port cs, ''TCP'')]\<rparr>"

section \<open>A pass\<close>

text \<open>The image is compared only if the deployment has a container; the resources are read from the first container either way.\<close>

definition cache_deploymentNeedsUpdate :: "'q cache_env \<Rightarrow> 'q deployment \<Rightarrow> cache_server \<Rightarrow> go_error + bool" where
  "cache_deploymentNeedsUpdate env dep cs =
     (case dp_Replicas dep of
        None \<Rightarrow> Inl (Panicked ''nil pointer dereference'')
      | Some n \<Rightarrow>
          if n \<noteq> cs_Replicas cs then Inr True
          else case deploymentForCacheServer env cs of
                 Inl e \<Rightarrow> Inl e
               | Inr expected \<Rightarrow>
                   (case dp_Containers dep of
                      [] \<Rightarrow> Inl (Panicked ''index out of range'')
                    | c # _ \<Rightarrow> Inr (co_Image (dp_Containers expected ! 0) \<noteq> co_Image c \<or>
                                   \<not> requirements_eq (co_Resources (dp_Containers expected ! 0)) (co_Resources c))))"

definition cache_updateStatus ::
  "'q cache_env \<Rightarrow> cache_server \<Rightarrow> 'q deployment \<Rightarrow> (('q, cache_server) wcall, ctrl_result) io" where
  "cache_updateStatus env cs dep =
     update_status env (cs_nn cs) dep (\<lambda>phase now latest. latest\<lparr>cs_LastUpdated := now, cs_Status := phase\<rparr>)"

definition cache_Reconcile :: "'q cache_env \<Rightarrow> nn \<Rightarrow> (('q, cache_server) wcall, ctrl_result) io" where
  "cache_Reconcile env req =
     fetch_cr env req (\<lambda>cs.
       ensure (Get_Service (cs_nn cs)) (\<lambda>h. we_get_service env h (cs_nn cs))
         (Inr (serviceForCacheServer env cs)) Create_Service (we_create_service env) (\<lambda>foundService.
       ensure (Get_Deployment (cs_nn cs)) (\<lambda>h. we_get_deployment env h (cs_nn cs))
         (deploymentForCacheServer env cs) Create_Deployment (we_create_deployment env) (\<lambda>found.
       settle_deployment env (cache_deploymentNeedsUpdate env found cs) (deploymentForCacheServer env cs)
         (cache_updateStatus env cs found))))"

section \<open>Properties\<close>

abbreviation (input) cs_entries :: "cache_server \<Rightarrow> (string \<times> string) list" where
  "cs_entries cs \<equiv> [(''cpu'', rs_CPU (cs_Resources cs)), (''memory'', rs_Memory (cs_Resources cs))]"

lemma deploymentForCacheServer_shape:
  assumes "deploymentForCacheServer env cs = Inr d"
  shows "\<exists>c. dp_Containers d = [c] \<and> dp_Replicas d = Some (cs_Replicas cs) \<and> nn_of (dp_meta d) = cs_nn cs \<and>
    co_Image c = image_of (cs_Image cs) \<and> build_resources env (cs_entries cs) = Inr (co_Resources c)"
proof (cases "build_resources env (cs_entries cs)")
  case (Inr r)
  then show ?thesis
    using assms by (auto simp: deploymentForCacheServer_def Let_def cs_meta_def nn_of_def cs_nn_def)
qed (use assms in \<open>simp add: deploymentForCacheServer_def Let_def\<close>)

text \<open>Its own deployment, read back, is up to date exactly if CPU or memory is named.\<close>

lemma cache_needs_update_own:
  assumes "deploymentForCacheServer env cs = Inr d" "served_as d d'"
  shows "cache_deploymentNeedsUpdate env d' cs = Inr (rs_CPU (cs_Resources cs) = [] \<and> rs_Memory (cs_Resources cs) = [])"
proof -
  obtain c where c: "dp_Containers d = [c]" "dp_Replicas d = Some (cs_Replicas cs)" "co_Image c = image_of (cs_Image cs)"
    "build_resources env (cs_entries cs) = Inr (co_Resources c)"
    using deploymentForCacheServer_shape [OF assms(1)] by (elim exE conjE)
  then obtain c' where "dp_Containers d' = [c']" "container_kept c c'" "dp_Replicas d' = Some (cs_Replicas cs)"
    using assms(2) by (auto simp: served_as_def list_all2_Cons1)
  then show ?thesis
    using c assms(1) build_resources_drop_empty [OF c(4)]
    by (auto simp: cache_deploymentNeedsUpdate_def container_kept_def)
qed

lemmas cache_pass_defs = cache_Reconcile_def fetch_cr_def ensure_def settle_deployment_def write_and_requeue_def

lemma cache_pass_service:
  assumes "keeps_writes env view (cs_nn cs) cs" "last_service h (cs_nn cs) = None"
  shows "cache_Reconcile env (cs_nn cs) h =
    (Create_Service (serviceForCacheServer env cs) # Get_Service (cs_nn cs) # Get_CR (cs_nn cs) # h, Inr Requeue)"
  using assms by (simp add: cache_pass_defs keeps_writesD)

lemma cache_pass_deployment:
  assumes "keeps_writes env view (cs_nn cs) cs" "last_service h (cs_nn cs) = Some s" "last_deployment h (cs_nn cs) = None"
    "deploymentForCacheServer env cs = Inr d"
  shows "cache_Reconcile env (cs_nn cs) h =
    (Create_Deployment d # Get_Deployment (cs_nn cs) # Get_Service (cs_nn cs) # Get_CR (cs_nn cs) # h, Inr Requeue)"
  using assms by (simp add: cache_pass_defs keeps_writesD)

lemma serviceForCacheServer_nn: "nn_of (sv_meta (serviceForCacheServer env cs)) = cs_nn cs"
  by (simp add: serviceForCacheServer_def cs_meta_def nn_of_def cs_nn_def)

text \<open>With both objects there, the pass updates the deployment or writes the status.\<close>

lemma cache_pass_settle:
  assumes "keeps_writes env view (cs_nn cs) cs" "last_service h (cs_nn cs) = Some s" "last_deployment h (cs_nn cs) = Some d"
    "cache_deploymentNeedsUpdate env (view (Get_Service (cs_nn cs) # Get_CR (cs_nn cs) # h) d) cs = Inr b"
    "deploymentForCacheServer env cs = Inr d'"
  shows "\<exists>cs'. cache_Reconcile env (cs_nn cs) h =
    ((if b then [Update_Deployment d'] else [Update_Status cs', Get_CR (cs_nn cs)]) @
     Get_Deployment (cs_nn cs) # Get_Service (cs_nn cs) # Get_CR (cs_nn cs) # h, Inr (if b then Requeue else Done))"
proof (cases b)
  case True
  then show ?thesis
    using assms by (simp add: cache_pass_defs keeps_writesD)
next
  case False
  let ?h = "Get_Service (cs_nn cs) # Get_CR (cs_nn cs) # h"
  have "dp_Replicas (view ?h d) \<noteq> None"
    using assms(4) by (cases "dp_Replicas (view ?h d)") (simp_all add: cache_deploymentNeedsUpdate_def)
  then obtain phase where "deployment_phase (view ?h d) = Inr phase"
    by (auto simp: deployment_phase_def)
  then show ?thesis
    using False assms
    by (simp add: cache_pass_defs keeps_writesD cache_updateStatus_def
        update_status_once [OF keeps_writesD(12,1) _ keeps_writesD(2), OF assms(1,1) _ assms(1)])
qed


text \<open>A changed port reaches neither the deployment nor the service: the pass only writes the status.\<close>

theorem cache_port_change_not_rolled_out:
  assumes keeps: "keeps_writes env view (cs_nn cs) (cs\<lparr>cs_Port := p\<rparr>)"
    and stored: "last_service h (cs_nn cs) = Some s" "last_deployment h (cs_nn cs) = Some d"
    and built: "deploymentForCacheServer env cs = Inr d"
    and "rs_CPU (cs_Resources cs) \<noteq> [] \<or> rs_Memory (cs_Resources cs) \<noteq> []"
  shows "\<exists>cs'. cache_Reconcile env (cs_nn cs) h =
    (Update_Status cs' # Get_CR (cs_nn cs) # Get_Deployment (cs_nn cs) # Get_Service (cs_nn cs) # Get_CR (cs_nn cs) # h, Inr Done)"
proof -
  let ?new = "cs\<lparr>cs_Port := p\<rparr>"
  have nn [simp]: "cs_nn ?new = cs_nn cs"
    by (simp add: cs_nn_def)
  obtain d' where d': "deploymentForCacheServer env ?new = Inr d'"
    using built by (auto simp: deploymentForCacheServer_def Let_def split: sum.splits)
  have "cache_deploymentNeedsUpdate env dep ?new = cache_deploymentNeedsUpdate env dep cs" for dep
    by (simp add: cache_deploymentNeedsUpdate_def deploymentForCacheServer_def Let_def split: option.splits sum.splits list.splits)
  then have "cache_deploymentNeedsUpdate env (view h d) ?new = Inr False" for h
    using cache_needs_update_own [OF built keeps_writesD(11) [OF keeps]] assms(5) by auto
  then show ?thesis
    using cache_pass_settle [of env view ?new h s d False d'] keeps stored d' by simp
qed

section \<open>The sample resource\<close>

text \<open>\<^verbatim>\<open>config/samples/production-stack_v1alpha1_cacheserver.yaml\<close>.\<close>

definition sample_cache_server :: cache_server where
  "sample_cache_server =
     \<lparr>cs_Name = ''cacheserver-sample'', cs_Namespace = ''default'',
      cs_Image = \<lparr>im_Registry = ''docker.io'', im_Name = ''lmcache/vllm-openai:2025-04-18'', im_PullPolicy = ''IfNotPresent'',
                 im_PullSecretName = []\<rparr>,
      cs_Port = 8000, cs_Resources = \<lparr>rs_CPU = ''2'', rs_Memory = ''16Gi'', rs_GPU = []\<rparr>, cs_Replicas = 1,
      cs_DeploymentStrategy = ''Recreate'', cs_LastUpdated = [], cs_Status = []\<rparr>"

lemma sample_cache_server_builds:
  "deploymentForCacheServer (store_env cr) (sample_cache_server\<lparr>cs_Resources := r\<rparr>) =
   Inr (projr (deploymentForCacheServer (store_env cr) (sample_cache_server\<lparr>cs_Resources := r\<rparr>)))"
  by (simp add: deploymentForCacheServer_def Let_def build_resources_def must_parse_def store_env_def)


definition sample_port_history :: "(string, cache_server) wcall list" where
  "sample_port_history =
     (let env = store_env sample_cache_server
      in [Create_Deployment (projr (deploymentForCacheServer env sample_cache_server)),
          Create_Service (serviceForCacheServer env sample_cache_server)])"

theorem cache_port_change_not_rolled_out_witness:
  "\<exists>cs'. cache_Reconcile (store_env (sample_cache_server\<lparr>cs_Port := 9000\<rparr>)) (''default'', ''cacheserver-sample'') sample_port_history =
    (Update_Status cs' # Get_CR (''default'', ''cacheserver-sample'') # Get_Deployment (''default'', ''cacheserver-sample'') #
     Get_Service (''default'', ''cacheserver-sample'') # Get_CR (''default'', ''cacheserver-sample'') # sample_port_history, Inr Done)"
proof -
  let ?env = "store_env (sample_cache_server\<lparr>cs_Port := 9000\<rparr>)"
  have nn: "cs_nn sample_cache_server = (''default'', ''cacheserver-sample'')"
    by (simp add: cs_nn_def sample_cache_server_def)
  have built: "deploymentForCacheServer ?env sample_cache_server =
      Inr (projr (deploymentForCacheServer ?env sample_cache_server))"
    using sample_cache_server_builds [of _ "cs_Resources sample_cache_server"] by simp
  have same: "deploymentForCacheServer (store_env sample_cache_server) sample_cache_server =
      deploymentForCacheServer ?env sample_cache_server"
    by (simp add: deploymentForCacheServer_def cs_meta_def build_resources_def must_parse_def store_env_def
        sample_cache_server_def)
  have dep: "last_deployment sample_port_history (cs_nn sample_cache_server) =
      Some (projr (deploymentForCacheServer ?env sample_cache_server))"
    using deploymentForCacheServer_shape [OF built] by (auto simp: sample_port_history_def Let_def same)
  have svc: "last_service sample_port_history (cs_nn sample_cache_server) =
      Some (serviceForCacheServer (store_env sample_cache_server) sample_cache_server)"
    using deploymentForCacheServer_shape [OF built]
    by (auto simp: sample_port_history_def Let_def same serviceForCacheServer_def cs_meta_def nn_of_def cs_nn_def)
  have "rs_CPU (cs_Resources sample_cache_server) \<noteq> [] \<or> rs_Memory (cs_Resources sample_cache_server) \<noteq> []"
    by (simp add: sample_cache_server_def)
  from cache_port_change_not_rolled_out [OF store_env_keeps_writes svc dep built this] show ?thesis
    by (simp only: nn)
qed

end
