(* ===== verification/Router_Controller.thy ===== *)
theory Router_Controller
  imports Operator_Prelude
begin

text \<open>
  The controller of the router, \<^verbatim>\<open>src/operator/internal/controller/vllmrouter_controller.go\<close>: the six objects it builds, when it updates
  the deployment, and a pass of \<^verbatim>\<open>Reconcile\<close>. A changed option of the router is never rolled
  out; a second router of a namespace is not bound to the role; static discovery without backends ends in a panic.
\<close>

section \<open>The resource\<close>

record vllm_router =
  vr_Name :: string
  vr_Namespace :: string
  vr_Labels :: "(string \<times> string) list"
  vr_EnableRouter :: bool
  vr_Replicas :: int
  vr_ServiceDiscovery :: string
  vr_K8sLabelSelector :: string
  vr_StaticBackends :: string
  vr_StaticModels :: string
  vr_RoutingLogic :: string
  vr_SessionKey :: string
  vr_EngineScrapeInterval :: int
  vr_RequestStatsWindow :: int
  vr_ExtraArgs :: "string list"
  vr_NodeSelectorTerms :: "json list option"
  vr_ServiceAccountName :: string
  vr_Port :: int
  vr_Image :: image_spec
  vr_Resources :: resource_spec
  vr_Env :: "(string \<times> string) list"
  vr_VLLMApiKeySecret :: string
  vr_VLLMApiKeyName :: string
  vr_Status :: string
  vr_LastUpdated :: string
  vr_ActiveRuntimes :: int

type_synonym 'q vllm_router_env = "('q, vllm_router) wenv"

definition vr_nn :: "vllm_router \<Rightarrow> nn" where
  "vr_nn router = (vr_Namespace router, vr_Name router)"

section \<open>The objects\<close>

definition router_meta :: "'q vllm_router_env \<Rightarrow> vllm_router \<Rightarrow> string \<Rightarrow> (string \<times> string) list \<Rightarrow> object_meta" where
  "router_meta env router name labels =
     \<lparr>om_Name = name, om_Namespace = vr_Namespace router, om_Labels = labels, om_Owner = we_owner env router\<rparr>"

definition plain_env :: "(string \<times> string) list \<Rightarrow> env_var list" where
  "plain_env es = map (\<lambda>(n, v). \<lparr>ev_Name = n, ev_Value = v, ev_SecretKeyRef = None\<rparr>) es"

definition router_container_env :: "vllm_router \<Rightarrow> env_var list" where
  "router_container_env router =
     plain_env (vr_Env router) @
     (if vr_VLLMApiKeySecret router \<noteq> [] \<and> vr_VLLMApiKeyName router \<noteq> []
      then [\<lparr>ev_Name = ''VLLM_API_KEY'', ev_Value = [],
             ev_SecretKeyRef = Some (vr_VLLMApiKeySecret router, vr_VLLMApiKeyName router)\<rparr>] else [])"

text \<open>The options that depend on the discovery; the \<^verbatim>\<open>panic\<close> of the static one.\<close>

definition router_discovery_args :: "vllm_router \<Rightarrow> go_error + string list" where
  "router_discovery_args router =
     (if vr_ServiceDiscovery router = ''k8s''
      then Inr [''--k8s-namespace'', vr_Namespace router, ''--k8s-label-selector'', vr_K8sLabelSelector router]
      else if vr_ServiceDiscovery router = ''static''
      then (if vr_StaticBackends router = [] \<or> vr_StaticModels router = []
            then Inl (Panicked ''static service discovery requires both staticBackends and staticModels'')
            else Inr [''--static-backends'', vr_StaticBackends router, ''--static-models'', vr_StaticModels router])
      else Inr [])"

definition router_args :: "vllm_router \<Rightarrow> go_error + string list" where
  "router_args router =
     (case router_discovery_args router of
        Inl e \<Rightarrow> Inl e
      | Inr ds \<Rightarrow> Inr
          ([''--host'', ''0.0.0.0'', ''--port'', show_int (vr_Port router),
            ''--service-discovery'', vr_ServiceDiscovery router] @ ds @
           (if vr_RoutingLogic router \<noteq> [] then [''--routing-logic'', vr_RoutingLogic router] else []) @
           (if vr_SessionKey router \<noteq> [] then [''--session-key'', vr_SessionKey router] else []) @
           (if vr_EngineScrapeInterval router \<noteq> 0
            then [''--engine-stats-interval'', show_int (vr_EngineScrapeInterval router)] else []) @
           (if vr_RequestStatsWindow router \<noteq> 0
            then [''--request-stats-window'', show_int (vr_RequestStatsWindow router)] else []) @
           vr_ExtraArgs router))"

definition router_liveness_probe :: "vllm_router \<Rightarrow> probe" where
  "router_liveness_probe router =
     \<lparr>pr_Path = ''/health'', pr_Port = vr_Port router, pr_Scheme = [], pr_InitialDelaySeconds = 30, pr_PeriodSeconds = 5,
      pr_TimeoutSeconds = 0, pr_SuccessThreshold = 0, pr_FailureThreshold = 3\<rparr>"

abbreviation (input) vr_entries :: "vllm_router \<Rightarrow> (string \<times> string) list" where
  "vr_entries router \<equiv> [(''cpu'', rs_CPU (vr_Resources router)), (''memory'', rs_Memory (vr_Resources router))]"

definition deploymentForVLLMRouter :: "'q vllm_router_env \<Rightarrow> vllm_router \<Rightarrow> go_error + 'q deployment" where
  "deploymentForVLLMRouter env router =
     (let labels = labels_of (vr_Name router) (vr_Labels router)
      in case build_resources env (vr_entries router) of
           Inl e \<Rightarrow> Inl e
         | Inr resources \<Rightarrow>
             (case router_args router of
                Inl e \<Rightarrow> Inl e
              | Inr args \<Rightarrow> Inr
                  \<lparr>dp_meta = router_meta env router (vr_Name router) [], dp_Replicas = Some (vr_Replicas router),
                   dp_Strategy = [], dp_MatchLabels = labels, dp_TemplateLabels = labels,
                   dp_ServiceAccountName = vr_ServiceAccountName router,
                   dp_ImagePullSecrets = pull_secrets_of (vr_Image router), dp_Volumes = [],
                   dp_Containers =
                     [\<lparr>co_Name = ''router'', co_Image = image_of (vr_Image router),
                       co_ImagePullPolicy = pull_policy_of (vr_Image router), co_Command = [], co_Args = args,
                       co_Env = router_container_env router, co_Ports = [(''http'', vr_Port router)], co_Resources = resources,
                       co_VolumeMounts = [], co_ReadinessProbe = None, co_StartupProbe = None,
                       co_LivenessProbe = Some (router_liveness_probe router)\<rparr>],
                   dp_NodeSelectorTerms = vr_NodeSelectorTerms router,
                   dp_AvailableReplicas = 0, dp_UnavailableReplicas = 0, dp_UpdatedReplicas = 0\<rparr>))"

definition serviceForVLLMRouter :: "'q vllm_router_env \<Rightarrow> vllm_router \<Rightarrow> service" where
  "serviceForVLLMRouter env router =
     \<lparr>sv_meta = router_meta env router (vr_Name router) [], sv_Type = ''ClusterIP'',
      sv_Selector = labels_of (vr_Name router) (vr_Labels router), sv_Ports = [(''http'', 80, vr_Port router, ''TCP'')]\<rparr>"

definition managed_labels :: "(string \<times> string) list" where
  "managed_labels = [(''app.kubernetes.io/name'', ''production-stack''), (''app.kubernetes.io/managed-by'', ''kustomize'')]"

definition serviceAccountForVLLMRouter :: "'q vllm_router_env \<Rightarrow> vllm_router \<Rightarrow> object_meta" where
  "serviceAccountForVLLMRouter env router = router_meta env router (vr_ServiceAccountName router) managed_labels"

definition roleForVLLMRouter :: "'q vllm_router_env \<Rightarrow> vllm_router \<Rightarrow> role" where
  "roleForVLLMRouter env router =
     \<lparr>ro_meta = router_meta env router ''pod-viewer-role'' managed_labels,
      ro_Rules = [([[]], [''pods''], [''get'', ''list'', ''watch''])]\<rparr>"

definition roleBindingForVLLMRouter :: "'q vllm_router_env \<Rightarrow> vllm_router \<Rightarrow> role_binding" where
  "roleBindingForVLLMRouter env router =
     \<lparr>rb_meta = router_meta env router ''pod-viewer-binding'' managed_labels,
      rb_Subjects = [(''ServiceAccount'', vr_ServiceAccountName router, vr_Namespace router)],
      rb_RoleRef = (''Role'', ''pod-viewer-role'', ''rbac.authorization.k8s.io'')\<rparr>"

section \<open>A pass\<close>

definition router_deploymentNeedsUpdate :: "'q vllm_router_env \<Rightarrow> 'q deployment \<Rightarrow> vllm_router \<Rightarrow> go_error + bool" where
  "router_deploymentNeedsUpdate env dep router =
     (case dp_Replicas dep of
        None \<Rightarrow> Inl (Panicked ''nil pointer dereference'')
      | Some n \<Rightarrow>
          if n \<noteq> vr_Replicas router then Inr True
          else case deploymentForVLLMRouter env router of
                 Inl e \<Rightarrow> Inl e
               | Inr expected \<Rightarrow>
                   (case dp_Containers dep of
                      [] \<Rightarrow> Inl (Panicked ''index out of range'')
                    | c # _ \<Rightarrow> Inr (co_Image (dp_Containers expected ! 0) \<noteq> co_Image c \<or>
                                   \<not> requirements_eq (co_Resources (dp_Containers expected ! 0)) (co_Resources c))))"

definition router_updateStatus ::
  "'q vllm_router_env \<Rightarrow> vllm_router \<Rightarrow> 'q deployment \<Rightarrow> (('q, vllm_router) wcall, ctrl_result) io" where
  "router_updateStatus env router dep =
     update_status env (vr_nn router) dep (\<lambda>phase now latest. latest\<lparr>vr_LastUpdated := now, vr_Status := phase\<rparr>)"

definition router_Reconcile :: "'q vllm_router_env \<Rightarrow> nn \<Rightarrow> (('q, vllm_router) wcall, ctrl_result) io" where
  "router_Reconcile env req =
     fetch_cr env req (\<lambda>router. let ns = vr_Namespace router in
       ensure (Get_ServiceAccount (ns, vr_ServiceAccountName router))
         (\<lambda>h. we_get_service_account env h (ns, vr_ServiceAccountName router))
         (Inr (serviceAccountForVLLMRouter env router)) Create_ServiceAccount (we_create_service_account env) (\<lambda>sa.
       ensure (Get_Role (ns, ''pod-viewer-role'')) (\<lambda>h. we_get_role env h (ns, ''pod-viewer-role''))
         (Inr (roleForVLLMRouter env router)) Create_Role (we_create_role env) (\<lambda>role.
       ensure (Get_RoleBinding (ns, ''pod-viewer-binding'')) (\<lambda>h. we_get_role_binding env h (ns, ''pod-viewer-binding''))
         (Inr (roleBindingForVLLMRouter env router)) Create_RoleBinding (we_create_role_binding env) (\<lambda>roleBinding.
       ensure (Get_Service (vr_nn router)) (\<lambda>h. we_get_service env h (vr_nn router))
         (Inr (serviceForVLLMRouter env router)) Create_Service (we_create_service env) (\<lambda>foundService.
       ensure (Get_Deployment (vr_nn router)) (\<lambda>h. we_get_deployment env h (vr_nn router))
         (deploymentForVLLMRouter env router) Create_Deployment (we_create_deployment env) (\<lambda>found.
       settle_deployment env (router_deploymentNeedsUpdate env found router) (deploymentForVLLMRouter env router)
         (router_updateStatus env router found)))))))"

section \<open>Properties\<close>

lemmas router_pass_defs = router_Reconcile_def fetch_cr_def ensure_def settle_deployment_def write_and_requeue_def

lemma deploymentForVLLMRouter_shape:
  assumes "deploymentForVLLMRouter env router = Inr d"
  shows "\<exists>c. dp_Containers d = [c] \<and> dp_Replicas d = Some (vr_Replicas router) \<and> nn_of (dp_meta d) = vr_nn router \<and>
    co_Image c = image_of (vr_Image router) \<and> build_resources env (vr_entries router) = Inr (co_Resources c) \<and>
    router_args router = Inr (co_Args c)"
proof (cases "build_resources env (vr_entries router)")
  case (Inr r)
  then show ?thesis
    using assms
    by (cases "router_args router") (auto simp: deploymentForVLLMRouter_def Let_def router_meta_def nn_of_def vr_nn_def)
qed (use assms in \<open>simp add: deploymentForVLLMRouter_def Let_def\<close>)

text \<open>The deployment of a router, read back, is up to date for every router that asks for the same replicas, image and
  resources, however its other options differ.\<close>

lemma router_up_to_date:
  assumes d: "deploymentForVLLMRouter env router = Inr d" "served_as d d'"
    and d2: "deploymentForVLLMRouter env router2 = Inr d2"
    and same: "vr_Replicas router2 = vr_Replicas router" "image_of (vr_Image router2) = image_of (vr_Image router)"
      "vr_Resources router2 = vr_Resources router"
    and named: "rs_CPU (vr_Resources router) \<noteq> [] \<or> rs_Memory (vr_Resources router) \<noteq> []"
  shows "router_deploymentNeedsUpdate env d' router2 = Inr False"
proof -
  obtain c where c: "dp_Containers d = [c]" "dp_Replicas d = Some (vr_Replicas router)" "co_Image c = image_of (vr_Image router)"
    "build_resources env (vr_entries router) = Inr (co_Resources c)"
    using deploymentForVLLMRouter_shape [OF d(1)] by (elim exE conjE)
  obtain c2 where c2: "dp_Containers d2 = [c2]" "co_Image c2 = image_of (vr_Image router2)"
    "build_resources env (vr_entries router2) = Inr (co_Resources c2)"
    using deploymentForVLLMRouter_shape [OF d2] by (elim exE conjE)
  obtain c' where "dp_Containers d' = [c']" "container_kept c c'" "dp_Replicas d' = Some (vr_Replicas router)"
    using d(2) c(1,2) by (auto simp: served_as_def list_all2_Cons1)
  moreover have "co_Resources c2 = co_Resources c"
    using c(4) c2(3) same(3) by simp
  ultimately show ?thesis
    using c c2 d2 same named build_resources_drop_empty [OF c(4)]
    by (auto simp: router_deploymentNeedsUpdate_def container_kept_def)
qed

text \<open>The objects before the deployment are there.\<close>

definition router_prepared :: "'q vllm_router_env \<Rightarrow> vllm_router \<Rightarrow> bool" where
  "router_prepared env router \<longleftrightarrow>
     (\<forall>h. \<exists>m. we_get_service_account env h (vr_Namespace router, vr_ServiceAccountName router) = Inr m) \<and>
     (\<forall>h. \<exists>r. we_get_role env h (vr_Namespace router, ''pod-viewer-role'') = Inr r) \<and>
     (\<forall>h. \<exists>b. we_get_role_binding env h (vr_Namespace router, ''pod-viewer-binding'') = Inr b) \<and>
     (\<forall>h. \<exists>s. we_get_service env h (vr_nn router) = Inr s)"

definition router_reads :: "vllm_router \<Rightarrow> ('q, vllm_router) wcall list" where
  "router_reads router =
     [Get_Deployment (vr_nn router), Get_Service (vr_nn router), Get_RoleBinding (vr_Namespace router, ''pod-viewer-binding''),
      Get_Role (vr_Namespace router, ''pod-viewer-role''),
      Get_ServiceAccount (vr_Namespace router, vr_ServiceAccountName router), Get_CR (vr_nn router)]"

lemma router_pass_prepared:
  assumes "router_prepared env router" "we_get_cr env h (vr_nn router) = Inr router"
  shows "router_Reconcile env (vr_nn router) h =
    ensure (Get_Deployment (vr_nn router)) (\<lambda>h. we_get_deployment env h (vr_nn router))
      (deploymentForVLLMRouter env router) Create_Deployment (we_create_deployment env) (\<lambda>found.
    settle_deployment env (router_deploymentNeedsUpdate env found router) (deploymentForVLLMRouter env router)
      (router_updateStatus env router found)) (tl (router_reads router) @ h)"
proof -
  let ?ns = "vr_Namespace router"
  let ?h1 = "Get_CR (vr_nn router) # h"
  let ?h2 = "Get_ServiceAccount (?ns, vr_ServiceAccountName router) # ?h1"
  let ?h3 = "Get_Role (?ns, ''pod-viewer-role'') # ?h2"
  let ?h4 = "Get_RoleBinding (?ns, ''pod-viewer-binding'') # ?h3"
  obtain m r b s where found: "we_get_service_account env ?h1 (?ns, vr_ServiceAccountName router) = Inr m"
    "we_get_role env ?h2 (?ns, ''pod-viewer-role'') = Inr r"
    "we_get_role_binding env ?h3 (?ns, ''pod-viewer-binding'') = Inr b"
    "we_get_service env ?h4 (vr_nn router) = Inr s"
    using assms(1) unfolding router_prepared_def by metis
  show ?thesis
    unfolding router_Reconcile_def fetch_cr_found [OF assms(2)] Let_def
    by (simp add: ensure_found found router_reads_def)
qed


text \<open>A pass of a router whose namespace has a role binding already, whatever its subjects, makes none of its own.\<close>

theorem second_router_is_not_bound:
  assumes "\<And>h. we_get_role_binding env h (ns, ''pod-viewer-binding'') = Inr rb"
    and "\<And>h router. we_get_cr env h req = Inr router \<Longrightarrow> vr_Namespace router = ns"
    and "retry_runs_attempts env"
  shows "\<exists>cs. fst (router_Reconcile env req h) = cs @ h \<and> (\<forall>b. Create_RoleBinding b \<notin> set cs)"
proof -
  have bound: "\<forall>h'. we_get_role_binding env h' (vr_Namespace router, ''pod-viewer-binding'') \<noteq> Inl Not_found"
    if "we_get_cr env h req = Inr router" for h router
    using assms(1) assms(2) [OF that] by simp
  have "makes_only (\<lambda>c. \<forall>b. c \<noteq> Create_RoleBinding b) (router_Reconcile env req)"
    unfolding router_Reconcile_def router_updateStatus_def Let_def
    by (intro pass_intros) (auto simp: assms(3) dest!: bound)
  then obtain cs where "fst (router_Reconcile env req h) = cs @ h" "list_all (\<lambda>c. \<forall>b. c \<noteq> Create_RoleBinding b) cs"
    unfolding makes_only_def by blast
  then show ?thesis
    by (auto simp: list_all_iff)
qed

text \<open>Static discovery without backends or models panics whenever the deployment is to be created.\<close>

theorem static_router_without_backends_panics:
  assumes "vr_ServiceDiscovery router = ''static''" "vr_StaticBackends router = [] \<or> vr_StaticModels router = []"
    and "build_resources env (vr_entries router) = Inr r"
    and "router_prepared env router" "we_get_cr env h (vr_nn router) = Inr router"
    and "\<And>h. we_get_deployment env h (vr_nn router) = Inl Not_found"
  shows "snd (router_Reconcile env (vr_nn router) h) =
    Inl (Panicked ''static service discovery requires both staticBackends and staticModels'')"
proof -
  have "deploymentForVLLMRouter env router = Inl (Panicked ''static service discovery requires both staticBackends and staticModels'')"
    using assms(1-3) by (auto simp: deploymentForVLLMRouter_def router_args_def router_discovery_args_def)
  then show ?thesis
    by (simp add: router_pass_prepared [OF assms(4,5)] ensure_def assms(6))
qed

section \<open>The sample resource\<close>

text \<open>\<^verbatim>\<open>config/samples/production-stack_v1alpha1_vllmrouter.yaml\<close>.\<close>

definition sample_router :: vllm_router where
  "sample_router =
     \<lparr>vr_Name = ''vllmrouter-sample'', vr_Namespace = ''default'',
      vr_Labels = [(''app.kubernetes.io/name'', ''production-stack''), (''app.kubernetes.io/managed-by'', ''kustomize'')],
      vr_EnableRouter = True, vr_Replicas = 1, vr_ServiceDiscovery = ''k8s'', vr_K8sLabelSelector = ''app=vllmruntime-sample'',
      vr_StaticBackends = [], vr_StaticModels = [], vr_RoutingLogic = ''roundrobin'', vr_SessionKey = [],
      vr_EngineScrapeInterval = 30, vr_RequestStatsWindow = 60, vr_ExtraArgs = [],
      vr_NodeSelectorTerms = None, vr_ServiceAccountName = ''vllmrouter-sa'', vr_Port = 80,
      vr_Image = \<lparr>im_Registry = ''docker.io'', im_Name = ''lmcache/lmstack-router'', im_PullPolicy = ''IfNotPresent'',
                 im_PullSecretName = []\<rparr>,
      vr_Resources = \<lparr>rs_CPU = ''2'', rs_Memory = ''8Gi'', rs_GPU = []\<rparr>,
      vr_Env = [(''LOG_LEVEL'', ''info''), (''METRICS_ENABLED'', ''true'')], vr_VLLMApiKeySecret = [], vr_VLLMApiKeyName = [],
      vr_Status = [], vr_LastUpdated = [], vr_ActiveRuntimes = 0\<rparr>"

text \<open>A namespace where all objects exist but, maybe, the deployment; the role binding is that of another router.\<close>

definition prepared_env :: "vllm_router \<Rightarrow> string deployment option \<Rightarrow> string vllm_router_env" where
  "prepared_env router found =
     (let env = store_env router; other = sample_router\<lparr>vr_Name := ''other'', vr_ServiceAccountName := ''other-sa''\<rparr>
      in env\<lparr>we_get_service_account := \<lambda>h nn. Inr (serviceAccountForVLLMRouter env router),
             we_get_role := \<lambda>h nn. Inr (roleForVLLMRouter env router),
             we_get_role_binding := \<lambda>h nn. Inr (roleBindingForVLLMRouter env other),
             we_get_service := \<lambda>h nn. Inr (serviceForVLLMRouter env router),
             we_get_deployment := \<lambda>h nn. case found of None \<Rightarrow> Inl Not_found | Some d \<Rightarrow> Inr d\<rparr>)"

lemma prepared_env_simps [simp]:
  "we_get_cr (prepared_env r found) h nn = Inr r" "we_update_status (prepared_env r found) h x = None"
  "retries_conflicts_only (prepared_env r found)" "retry_runs_attempts (prepared_env r found)"
  "router_prepared (prepared_env r found) r" "we_must_parse (prepared_env r found) = Some"
  "we_owner (prepared_env r found) r' = [''owner'']"
  "we_get_deployment (prepared_env r found) h nn = (case found of None \<Rightarrow> Inl Not_found | Some d \<Rightarrow> Inr d)"
  by (simp_all add: prepared_env_def store_env_def Let_def retries_conflicts_only_def retry_runs_attempts_def router_prepared_def)

lemma prepared_env_binding:
  "\<exists>rb. \<forall>h nn. we_get_role_binding (prepared_env r found) h nn = Inr rb"
  by (simp add: prepared_env_def Let_def)

lemma sample_router_resources:
  "build_resources (prepared_env r found) [(''cpu'', ''2''), (''memory'', ''8Gi'')] =
   Inr \<lparr>rr_Requests = Some [(''cpu'', ''2''), (''memory'', ''8Gi'')], rr_Limits = Some [(''cpu'', ''2''), (''memory'', ''8Gi'')]\<rparr>"
  by (simp add: build_resources_def must_parse_def)

theorem static_router_without_backends_panics_witness:
  "snd (router_Reconcile (prepared_env (sample_router\<lparr>vr_ServiceDiscovery := ''static''\<rparr>) None)
      (''default'', ''vllmrouter-sample'') []) =
    Inl (Panicked ''static service discovery requires both staticBackends and staticModels'')"
proof -
  define r where "r = sample_router\<lparr>vr_ServiceDiscovery := ''static''\<rparr>"
  have r: "vr_ServiceDiscovery r = ''static''" "vr_StaticBackends r = []" "vr_nn r = (''default'', ''vllmrouter-sample'')"
    "vr_Resources r = \<lparr>rs_CPU = ''2'', rs_Memory = ''8Gi'', rs_GPU = []\<rparr>"
    by (simp_all add: r_def vr_nn_def sample_router_def)
  show ?thesis
    using static_router_without_backends_panics [of r "prepared_env r None" _ "[]"] r sample_router_resources
    unfolding r_def [symmetric] by simp
qed

theorem second_router_is_not_bound_witness:
  "\<exists>cs. fst (router_Reconcile (prepared_env sample_router None) (''default'', ''vllmrouter-sample'') []) = cs \<and>
     (\<forall>b. Create_RoleBinding b \<notin> set cs)"
proof -
  obtain rb where rb: "\<And>h nn. we_get_role_binding (prepared_env sample_router None) h nn = Inr rb"
    using prepared_env_binding by blast
  have "vr_Namespace sample_router = ''default''"
    by (simp add: sample_router_def)
  then show ?thesis
    using second_router_is_not_bound [of "prepared_env sample_router None" "''default''" rb "(''default'', ''vllmrouter-sample'')" "[]"] rb
    by simp
qed


end
