(* ===== verification/Operator_Router.thy ===== *)
theory Operator_Router
  imports Router_Controller Router_Config
begin

text \<open>
  The arguments the operator gives the router it deploys, read by the parser of the router. \<^verbatim>\<open>argparse\<close> reads a list of words
  as options with their full names, each but a flag followed by a value; a word that starts with a dash is a value
  only if it is a negative number. Abbreviated names and \<^verbatim>\<open>--name=value\<close> are left out: the operator writes neither.
\<close>

section \<open>Reading the words\<close>

definition is_value :: "string \<Rightarrow> bool" where
  "is_value v \<longleftrightarrow> v = [] \<or> hd v \<noteq> CHR ''-'' \<or> tl v \<noteq> [] \<and> list_all digit_class (tl v)"

definition read_value :: "(string \<Rightarrow> rat option) \<Rightarrow> arg_spec \<Rightarrow> string \<Rightarrow> json result" where
  "read_value py_float spec v =
     (if \<not> is_value v then Inl (OtherException ''SystemExit'')
      else bindE (convert_default py_float (as_kind spec) (JStr v)) (\<lambda>j.
             if accepted spec j then Inr j else Inl (OtherException ''SystemExit'')))"

text \<open>Of a repeated option the last value counts.\<close>

definition add_given :: "string \<Rightarrow> json \<Rightarrow> jobj \<Rightarrow> jobj" where
  "add_given name j given = (if name \<in> fst ` set given then given else (name, j) # given)"

fun read_words :: "(string \<Rightarrow> rat option) \<Rightarrow> string list \<Rightarrow> jobj result" where
  "read_words py_float [] = Inr []"
| "read_words py_float (name # rest) =
     (case find (\<lambda>spec. as_name spec = name) arg_table of
        None \<Rightarrow> Inl (OtherException ''SystemExit'')
      | Some spec \<Rightarrow>
          if as_kind spec = ArgFlag then bindE (read_words py_float rest) (\<lambda>given. Inr (add_given name (JBool True) given))
          else (case rest of
                  [] \<Rightarrow> Inl (OtherException ''SystemExit'')
                | v # rest' \<Rightarrow>
                    bindE (read_value py_float spec v) (\<lambda>j.
                    bindE (read_words py_float rest') (\<lambda>given. Inr (add_given name j given)))))"

definition router_start :: "(json \<Rightarrow> string) \<Rightarrow> (string \<Rightarrow> rat option) \<Rightarrow> config_files \<Rightarrow> string list \<Rightarrow> jobj result" where
  "router_start py_str py_float files words = bindE (read_words py_float words) (parse_args py_str py_float files)"

section \<open>Numbers\<close>

lemma of_char_digit: "n < 10 \<Longrightarrow> of_char (digit_char n) = 48 + n"
  by (simp add: of_char_of)

lemma digit_char_class: "n < 10 \<Longrightarrow> digit_class (digit_char n)"
  by (simp add: digit_class_def of_char_digit del: digit_char.simps)

lemma show_nat_digits: "list_all digit_class (show_nat n)" "show_nat n \<noteq> []"
  by (induction n rule: show_nat.induct; subst show_nat.simps; simp add: digit_char_class del: digit_char.simps)+

lemma digits_value_snoc: "digits_value (ds @ [c]) = 10 * digits_value ds + (int (of_char c) - 48)"
  by (simp add: digits_value_def)

lemma digits_value_show: "digits_value (show_nat n) = int n"
proof (induction n rule: show_nat.induct)
  case (1 n)
  show ?case
  proof (cases "n < 10")
    case True
    then show ?thesis
      by (subst show_nat.simps) (simp add: digits_value_def of_char_digit del: digit_char.simps)
  next
    case False
    moreover have "10 * int (n div 10) + int (n mod 10) = int n"
      by presburger
    ultimately show ?thesis
      using 1 by (subst show_nat.simps) (simp add: digits_value_snoc of_char_digit del: digit_char.simps)
  qed
qed

lemma digit_not_space: "digit_class c \<Longrightarrow> \<not> is_space c \<and> c \<noteq> CHR ''_'' \<and> c \<noteq> CHR ''-'' \<and> c \<noteq> CHR ''+''"
  by (auto simp: digit_class_def is_space_def)

lemma dropWhile_hd: "s \<noteq> [] \<Longrightarrow> \<not> P (hd s) \<Longrightarrow> dropWhile P s = s"
  by (cases s) simp_all

lemma strip_solid: "s \<noteq> [] \<Longrightarrow> \<not> is_space (hd s) \<Longrightarrow> \<not> is_space (last s) \<Longrightarrow> strip s = s"
  by (simp add: strip_def dropWhile_hd hd_rev)

lemma show_nat_ends: "digit_class (hd (show_nat n))" "digit_class (last (show_nat n))"
  using show_nat_digits [of n] by (simp_all add: list_all_iff)

lemma show_nat_first: "hd (show_nat n) \<noteq> CHR ''-''" "\<not> starts_with (show_nat n) ''-''" "\<not> starts_with (show_nat n) ''+''"
  using digit_not_space [OF show_nat_ends(1), of n] show_nat_digits(2) [of n] by (cases "show_nat n"; simp)+

lemma py_int_show: "py_int (show_int i) = Some i"
proof -
  have "\<not> is_space (hd (show_nat n))" "\<not> is_space (last (show_nat n))" for n
    using digit_not_space show_nat_ends by blast+
  moreover have "\<not> is_space CHR ''-''"
    by code_simp
  ultimately have solid: "strip (show_int i) = show_int i"
    by (intro strip_solid) (simp_all add: show_int_def show_nat_digits)
  have "CHR ''_'' \<notin> set (show_nat n)" for n
    using show_nat_digits(1) [of n] digit_not_space by (auto simp: list_all_iff)
  then have split: "split_on CHR ''_'' (show_nat n) = [show_nat n]" for n
    by (rule split_on_no_sep)
  show ?thesis
    unfolding py_int_def solid
    by (simp add: show_int_def split show_nat_first show_nat_digits digits_value_show)
qed

lemma is_value_show: "is_value (show_int i)"
  by (simp add: is_value_def show_int_def show_nat_digits show_nat_first)

section \<open>The parsed options\<close>

lemma read_option:
  assumes "find (\<lambda>spec. as_name spec = name) arg_table = Some spec" "as_kind spec \<noteq> ArgFlag" "read_value py_float spec v = Inr j"
  shows "read_words py_float (name # v # rest) = bindE (read_words py_float rest) (\<lambda>given. Inr (add_given name j given))"
  using assms by simp

lemma read_str:
  assumes "find (\<lambda>spec. as_name spec = name) arg_table = Some (opt_spec name ArgStr d)" "is_value v"
  shows "read_words py_float (name # v # rest) = bindE (read_words py_float rest) (\<lambda>given. Inr (add_given name (JStr v) given))"
  by (rule read_option [OF assms(1)]) (simp_all add: opt_spec_def read_value_def convert_default_def accepted_def assms(2))

lemma read_int:
  assumes "find (\<lambda>spec. as_name spec = name) arg_table = Some (opt_spec name ArgInt d)"
  shows "read_words py_float (name # show_int i # rest) = bindE (read_words py_float rest) (\<lambda>given. Inr (add_given name (JInt i) given))"
  by (rule read_option [OF assms(1)])
    (simp_all add: opt_spec_def read_value_def convert_default_def accepted_def is_value_show py_int_show)

lemma read_choice:
  assumes "find (\<lambda>spec. as_name spec = name) arg_table = Some (choice_spec name d cs)" "v \<in> set cs" "is_value v"
  shows "read_words py_float (name # v # rest) = bindE (read_words py_float rest) (\<lambda>given. Inr (add_given name (JStr v) given))"
  by (rule read_option [OF assms(1)])
    (use assms(2,3) in \<open>simp_all add: choice_spec_def read_value_def convert_default_def accepted_def\<close>)

lemma find_options:
  "find (\<lambda>spec. as_name spec = ''--host'') arg_table = Some (opt_spec ''--host'' ArgStr (JStr ''0.0.0.0''))"
  "find (\<lambda>spec. as_name spec = ''--port'') arg_table = Some (opt_spec ''--port'' ArgInt (JInt 8001))"
  "find (\<lambda>spec. as_name spec = ''--service-discovery'') arg_table = Some (choice_spec ''--service-discovery'' JNull [''static'', ''k8s''])"
  "find (\<lambda>spec. as_name spec = ''--k8s-namespace'') arg_table = Some (opt_spec ''--k8s-namespace'' ArgStr (JStr ''default''))"
  "find (\<lambda>spec. as_name spec = ''--k8s-label-selector'') arg_table = Some (opt_spec ''--k8s-label-selector'' ArgStr (JStr []))"
  "find (\<lambda>spec. as_name spec = ''--static-backends'') arg_table = Some (opt_spec ''--static-backends'' ArgStr JNull)"
  "find (\<lambda>spec. as_name spec = ''--static-models'') arg_table = Some (opt_spec ''--static-models'' ArgStr JNull)"
  "find (\<lambda>spec. as_name spec = ''--routing-logic'') arg_table = Some (choice_spec ''--routing-logic'' JNull
     [''roundrobin'', ''session'', ''kvaware'', ''prefixaware'', ''disaggregated_prefill''])"
  "find (\<lambda>spec. as_name spec = ''--session-key'') arg_table = Some (opt_spec ''--session-key'' ArgStr JNull)"
  "find (\<lambda>spec. as_name spec = ''--engine-stats-interval'') arg_table = Some (opt_spec ''--engine-stats-interval'' ArgInt (JInt 30))"
  "find (\<lambda>spec. as_name spec = ''--request-stats-window'') arg_table = Some (opt_spec ''--request-stats-window'' ArgInt (JInt 60))"
  by (simp_all add: arg_table_def discovery_options_def routing_options_def batch_options_def monitoring_options_def opt_spec_def
      choice_spec_def)

lemmas read_options =
  read_str [OF find_options(1)] read_int [OF find_options(2)] read_choice [OF find_options(3)] read_str [OF find_options(4)]
  read_str [OF find_options(5)] read_str [OF find_options(6)] read_str [OF find_options(7)] read_choice [OF find_options(8)]
  read_str [OF find_options(9)] read_int [OF find_options(10)] read_int [OF find_options(11)]

text \<open>The schema of the resource admits these values; the texts do not look like options.\<close>

definition admitted :: "vllm_router \<Rightarrow> bool" where
  "admitted router \<longleftrightarrow>
     vr_ServiceDiscovery router \<in> {''k8s'', ''static''} \<and> vr_RoutingLogic router \<in> {''roundrobin'', ''session''} \<and>
     vr_ExtraArgs router = [] \<and>
     list_all is_value [vr_Namespace router, vr_K8sLabelSelector router, vr_StaticBackends router, vr_StaticModels router,
       vr_SessionKey router]"

definition router_given :: "vllm_router \<Rightarrow> jobj" where
  "router_given router =
     [(''--host'', JStr ''0.0.0.0''), (''--port'', JInt (vr_Port router)), (''--service-discovery'', JStr (vr_ServiceDiscovery router))] @
     (if vr_ServiceDiscovery router = ''k8s''
      then [(''--k8s-namespace'', JStr (vr_Namespace router)), (''--k8s-label-selector'', JStr (vr_K8sLabelSelector router))]
      else [(''--static-backends'', JStr (vr_StaticBackends router)), (''--static-models'', JStr (vr_StaticModels router))]) @
     [(''--routing-logic'', JStr (vr_RoutingLogic router))] @
     (if vr_SessionKey router \<noteq> [] then [(''--session-key'', JStr (vr_SessionKey router))] else []) @
     (if vr_EngineScrapeInterval router \<noteq> 0
      then [(''--engine-stats-interval'', JInt (vr_EngineScrapeInterval router))] else []) @
     (if vr_RequestStatsWindow router \<noteq> 0
      then [(''--request-stats-window'', JInt (vr_RequestStatsWindow router))] else [])"

lemma read_router_args:
  assumes "admitted router" "router_args router = Inr args"
  shows "read_words py_float args = Inr (router_given router)"
proof -
  have plain: "is_value ''0.0.0.0''" "is_value ''k8s''" "is_value ''static''" "is_value ''roundrobin''" "is_value ''session''"
    by (simp_all add: is_value_def)
  have tail: "read_words py_float ((if vr_SessionKey router \<noteq> [] then [''--session-key'', vr_SessionKey router] else []) @
      (if vr_EngineScrapeInterval router \<noteq> 0 then [''--engine-stats-interval'', show_int (vr_EngineScrapeInterval router)] else []) @
      (if vr_RequestStatsWindow router \<noteq> 0 then [''--request-stats-window'', show_int (vr_RequestStatsWindow router)] else [])) =
    Inr ((if vr_SessionKey router \<noteq> [] then [(''--session-key'', JStr (vr_SessionKey router))] else []) @
      (if vr_EngineScrapeInterval router \<noteq> 0 then [(''--engine-stats-interval'', JInt (vr_EngineScrapeInterval router))] else []) @
      (if vr_RequestStatsWindow router \<noteq> 0 then [(''--request-stats-window'', JInt (vr_RequestStatsWindow router))] else []))"
    using assms(1) by (simp add: admitted_def read_options add_given_def del: read_words.simps(2))
  show ?thesis
  proof (cases "vr_ServiceDiscovery router = ''k8s''")
    case True
    then show ?thesis
      using assms tail plain
      by (auto simp: router_args_def router_discovery_args_def router_given_def admitted_def read_options add_given_def
          simp del: read_words.simps(2))
  next
    case False
    then have static: "vr_ServiceDiscovery router = ''static''"
      using assms(1) by (simp add: admitted_def)
    then show ?thesis
      using assms tail plain
      by (auto simp: router_args_def router_discovery_args_def router_given_def admitted_def read_options add_given_def
          simp del: read_words.simps(2) split: if_splits)
  qed
qed

lemma parsed_attr:
  assumes "parser_parse_args py_float given [] = Inr ns" "spec \<in> set arg_table"
  shows "attr ns (dest (as_name spec)) = (case map_of given (as_name spec) of None \<Rightarrow> as_default spec | Some v \<Rightarrow> v)"
proof -
  have "case as_default spec of JStr _ \<Rightarrow> as_kind spec = ArgStr | _ \<Rightarrow> True"
    using arg_table_defaults assms(2) by (simp add: list_all_iff)
  moreover obtain w where "option_value py_float [] given spec = Inr (dest (as_name spec), w)"
    "map_of ns (dest (as_name spec)) = Some w"
    by (rule parser_attr [OF assms])
  ultimately show ?thesis
    by (auto simp: option_value_def jget_def convert_default_def bindE_eq_Inr split: json.splits option.splits)
qed

lemma parser_total: "command_line_ok given \<Longrightarrow> \<exists>ns. parser_parse_args py_float given [] = Inr ns"
proof -
  have "\<exists>y. option_value py_float [] given spec = Inr y" if "spec \<in> set arg_table" for spec
  proof -
    have "case as_default spec of JStr _ \<Rightarrow> as_kind spec = ArgStr | _ \<Rightarrow> True"
      using arg_table_defaults that by (simp add: list_all_iff)
    then show ?thesis
      by (auto simp: option_value_def convert_default_def jget_def split: option.splits json.splits)
  qed
  then have "\<exists>ns. mapE (option_value py_float [] given) specs = Inr ns" if "set specs \<subseteq> set arg_table" for specs
    using that by (induction specs) (simp, fastforce)
  then show "command_line_ok given \<Longrightarrow> \<exists>ns. parser_parse_args py_float given [] = Inr ns"
    by (fastforce simp: parser_parse_args_def)
qed

section \<open>Whether the router starts\<close>

lemma given_ok: "admitted router \<Longrightarrow> command_line_ok (router_given router)"
  by (auto simp: command_line_ok_def router_given_def admitted_def accepted_def arg_table_def discovery_options_def
      routing_options_def monitoring_options_def opt_spec_def choice_spec_def)

lemma map_of_optional:
  "map_of ((if c then [(k, v)] else []) @ xs) n = (if n = k \<and> c then Some v else map_of xs n)"
  "map_of (if c then [(k, v)] else []) n = (if n = k \<and> c then Some v else None)"
  by simp_all

lemma map_of_either:
  "map_of ((if c then [(k, v), (k', v')] else [(l, w), (l', w')]) @ xs) n =
     (if n = k \<and> c then Some v else if n = k' \<and> c then Some v'
      else if n = l \<and> \<not> c then Some w else if n = l' \<and> \<not> c then Some w' else map_of xs n)"
  by simp

lemma map_of_given:
  "map_of (router_given router) n =
     (if n = ''--host'' then Some (JStr ''0.0.0.0'')
      else if n = ''--port'' then Some (JInt (vr_Port router))
      else if n = ''--service-discovery'' then Some (JStr (vr_ServiceDiscovery router))
      else if n = ''--k8s-namespace'' \<and> vr_ServiceDiscovery router = ''k8s'' then Some (JStr (vr_Namespace router))
      else if n = ''--k8s-label-selector'' \<and> vr_ServiceDiscovery router = ''k8s'' then Some (JStr (vr_K8sLabelSelector router))
      else if n = ''--static-backends'' \<and> vr_ServiceDiscovery router \<noteq> ''k8s'' then Some (JStr (vr_StaticBackends router))
      else if n = ''--static-models'' \<and> vr_ServiceDiscovery router \<noteq> ''k8s'' then Some (JStr (vr_StaticModels router))
      else if n = ''--routing-logic'' then Some (JStr (vr_RoutingLogic router))
      else if n = ''--session-key'' \<and> vr_SessionKey router \<noteq> [] then Some (JStr (vr_SessionKey router))
      else if n = ''--engine-stats-interval'' \<and> vr_EngineScrapeInterval router \<noteq> 0 then Some (JInt (vr_EngineScrapeInterval router))
      else if n = ''--request-stats-window'' \<and> vr_RequestStatsWindow router \<noteq> 0 then Some (JInt (vr_RequestStatsWindow router))
      else None)"
  unfolding router_given_def
  by (simp only: append_Cons append_Nil map_of.simps fun_upd_apply fst_conv snd_conv map_of_optional map_of_either)

lemma table:
  "\<lparr>as_name = ''--port'', as_kind = ArgInt, as_default = JInt 8001, as_choices = []\<rparr> \<in> set arg_table"
  "\<lparr>as_name = ''--service-discovery'', as_kind = ArgStr, as_default = JNull, as_choices = [''static'', ''k8s'']\<rparr> \<in> set arg_table"
  "\<lparr>as_name = ''--routing-logic'', as_kind = ArgStr, as_default = JNull,
     as_choices = [''roundrobin'', ''session'', ''kvaware'', ''prefixaware'', ''disaggregated_prefill'']\<rparr> \<in> set arg_table"
  "\<lparr>as_name = ''--session-key'', as_kind = ArgStr, as_default = JNull, as_choices = []\<rparr> \<in> set arg_table"
  "\<lparr>as_name = ''--engine-stats-interval'', as_kind = ArgInt, as_default = JInt 30, as_choices = []\<rparr> \<in> set arg_table"
  "\<lparr>as_name = ''--request-stats-window'', as_kind = ArgInt, as_default = JInt 60, as_choices = []\<rparr> \<in> set arg_table"
  "\<lparr>as_name = ''--k8s-namespace'', as_kind = ArgStr, as_default = JStr ''default'', as_choices = []\<rparr> \<in> set arg_table"
  "\<lparr>as_name = ''--k8s-label-selector'', as_kind = ArgStr, as_default = JStr [], as_choices = []\<rparr> \<in> set arg_table"
  "\<lparr>as_name = ''--static-backends'', as_kind = ArgStr, as_default = JNull, as_choices = []\<rparr> \<in> set arg_table"
  "\<lparr>as_name = ''--static-models'', as_kind = ArgStr, as_default = JNull, as_choices = []\<rparr> \<in> set arg_table"
  "\<lparr>as_name = ''--k8s-port'', as_kind = ArgInt, as_default = JInt 8000, as_choices = []\<rparr> \<in> set arg_table"
  "\<lparr>as_name = ''--static-backend-health-checks'', as_kind = ArgFlag, as_default = JBool False, as_choices = []\<rparr> \<in> set arg_table"
  "\<lparr>as_name = ''--log-stats'', as_kind = ArgFlag, as_default = JBool False, as_choices = []\<rparr> \<in> set arg_table"
  "\<lparr>as_name = ''--sentry-traces-sample-rate'', as_kind = ArgFloat, as_default = JFloat (1 / 10), as_choices = []\<rparr> \<in> set arg_table"
  "\<lparr>as_name = ''--sentry-profile-session-sample-rate'', as_kind = ArgFloat, as_default = JFloat 1, as_choices = []\<rparr> \<in> set arg_table"
  "\<lparr>as_name = ''--dynamic-config-yaml'', as_kind = ArgStr, as_default = JNull, as_choices = []\<rparr> \<in> set arg_table"
  "\<lparr>as_name = ''--dynamic-config-json'', as_kind = ArgStr, as_default = JNull, as_choices = []\<rparr> \<in> set arg_table"
  by (simp_all add: arg_table_def discovery_options_def routing_options_def monitoring_options_def config_file_options_def
      trailing_options_def opt_spec_def choice_spec_def)

text \<open>The attributes that the validation and the file loader read.\<close>

lemma router_attrs:
  assumes "parser_parse_args py_float (router_given router) [] = Inr ns"
  shows "attr ns ''port'' = JInt (vr_Port router) \<and>
    attr ns ''service_discovery'' = JStr (vr_ServiceDiscovery router) \<and>
    attr ns ''routing_logic'' = JStr (vr_RoutingLogic router) \<and>
    attr ns ''session_key'' = (if vr_SessionKey router = [] then JNull else JStr (vr_SessionKey router)) \<and>
    attr ns ''engine_stats_interval'' = JInt (if vr_EngineScrapeInterval router = 0 then 30 else vr_EngineScrapeInterval router) \<and>
    attr ns ''request_stats_window'' = JInt (if vr_RequestStatsWindow router = 0 then 60 else vr_RequestStatsWindow router) \<and>
    (vr_ServiceDiscovery router = ''k8s'' \<longrightarrow> attr ns ''k8s_namespace'' = JStr (vr_Namespace router) \<and>
       attr ns ''k8s_label_selector'' = JStr (vr_K8sLabelSelector router)) \<and>
    (vr_ServiceDiscovery router \<noteq> ''k8s'' \<longrightarrow> attr ns ''static_backends'' = JStr (vr_StaticBackends router) \<and>
       attr ns ''static_models'' = JStr (vr_StaticModels router)) \<and>
    attr ns ''k8s_port'' = JInt 8000 \<and> attr ns ''static_backend_health_checks'' = JBool False \<and> attr ns ''log_stats'' = JBool False \<and>
    attr ns ''sentry_traces_sample_rate'' = JFloat (1 / 10) \<and> attr ns ''sentry_profile_session_sample_rate'' = JFloat 1 \<and>
    attr ns ''dynamic_config_yaml'' = JNull \<and> attr ns ''dynamic_config_json'' = JNull"
proof -
  have at: "attr ns (dest n) = (case map_of (router_given router) n of None \<Rightarrow> d | Some v \<Rightarrow> v)"
    if "\<lparr>as_name = n, as_kind = k, as_default = d, as_choices = cs\<rparr> \<in> set arg_table" for n k d cs
    using parsed_attr [OF assms that] by (simp split: option.splits)
  show ?thesis
    using at [OF table(1)] at [OF table(2)] at [OF table(3)] at [OF table(4)] at [OF table(5)] at [OF table(6)] at [OF table(7)]
      at [OF table(8)] at [OF table(9)] at [OF table(10)] at [OF table(11)] at [OF table(12)] at [OF table(13)] at [OF table(14)]
      at [OF table(15)] at [OF table(16)] at [OF table(17)]
    by (simp add: dest_def map_of_given)
qed




end
