(* ===== verification/Lora_Controller.thy ===== *)
theory Lora_Controller
  imports Operator_Prelude
begin

text \<open>
  The controller of LoRA adapters, \<^verbatim>\<open>src/operator/internal/controller/loraadapter_controller.go\<close>: it asks the engine pods which adapters they have
  loaded, chooses the pods that should have one, loads and unloads it there, and keeps the status and the finalizer
  of the resource. The API server, the engines behind HTTP, the parser of JSON texts, URL parsing, \<^verbatim>\<open>sort.Slice\<close>, the
  order in which Go ranges over a map, the clock and the finalizer helpers are fields of an environment. Keys of JSON
  objects are compared with letter case folded for ASCII.
\<close>

section \<open>Data\<close>

record adapter_source =
  as_AdapterName :: string
  as_AdapterPath :: string
  as_CredentialsSecretRef :: "(string \<times> string) option"
  as_MaxAdapters :: int
  as_Pattern :: string
  as_Repository :: "string option"
  as_Type :: string

record lora_spec =
  ls_AdapterSource :: adapter_source
  ls_BaseModel :: string
  ls_Algorithm :: string
  ls_Replicas :: "int option"
  ls_VLLMApiKey :: "(string \<times> string) option"

record loaded_adapter =
  ld_Name :: string
  ld_Path :: string
  ld_LoadTime :: int
  ld_PodName :: string
  ld_Namespace :: string
  ld_Status :: string

record lora_condition =
  cd_Type :: string
  cd_Status :: string
  cd_LastTransitionTime :: string
  cd_Reason :: string
  cd_Message :: string

record lora_adapter =
  lo_Name :: string
  lo_Namespace :: string
  lo_Finalizers :: "string list"
  lo_Deleted :: bool
  lo_Generation :: int
  lo_Spec :: lora_spec
  lo_Conditions :: "lora_condition list"
  lo_LoadedAdapters :: "loaded_adapter list"
  lo_Message :: string
  lo_Phase :: string
  lo_ObservedGeneration :: int

definition lo_nn :: "lora_adapter \<Rightarrow> nn" where
  "lo_nn ad = (lo_Namespace ad, lo_Name ad)"

abbreviation adapter_name :: "lora_adapter \<Rightarrow> string" where
  "adapter_name ad \<equiv> as_AdapterName (ls_AdapterSource (lo_Spec ad))"

text \<open>Of a pod: its conditions as pairs of type and status, and the named ports of each container.\<close>

record lora_pod =
  pd_Name :: string
  pd_Namespace :: string
  pd_Labels :: "(string \<times> string) list"
  pd_Annotations :: "(string \<times> string) list"
  pd_PodIP :: string
  pd_Conditions :: "(string \<times> string) list"
  pd_Containers :: "(string \<times> int) list list"

definition pd_nn :: "lora_pod \<Rightarrow> nn" where
  "pd_nn pod = (pd_Namespace pod, pd_Name pod)"

text \<open>\<^verbatim>\<open>client.MatchingLabels{"model": m}\<close> and \<^verbatim>\<open>client.HasLabels{"model"}\<close>.\<close>

datatype pod_selector = Model_is string | Has_model

record pod_request =
  hr_Method :: string
  hr_URL :: string
  hr_Payload :: "(string \<times> string) list option"
  hr_Authorization :: "string option"

datatype http_reply = Send_failed string | Read_failed string | Response int string

datatype lcall =
    Get_Adapter nn
  | List_Adapters
  | Update_Adapter lora_adapter
  | Update_Adapter_Status lora_adapter
  | Get_Pod nn
  | List_Pods pod_selector
  | Update_Pod lora_pod
  | Get_Secret nn
  | Http pod_request
  | Sleep nat

text \<open>Updates return the object as the server has it afterwards.\<close>

record lora_env =
  le_get_adapter :: "lcall list \<Rightarrow> nn \<Rightarrow> kube_error + lora_adapter"
  le_list_adapters :: "lcall list \<Rightarrow> kube_error + lora_adapter list"
  le_update_adapter :: "lcall list \<Rightarrow> lora_adapter \<Rightarrow> kube_error + lora_adapter"
  le_update_adapter_status :: "lcall list \<Rightarrow> lora_adapter \<Rightarrow> kube_error + lora_adapter"
  le_get_pod :: "lcall list \<Rightarrow> nn \<Rightarrow> kube_error + lora_pod"
  le_list_pods :: "lcall list \<Rightarrow> pod_selector \<Rightarrow> kube_error + lora_pod list"
  le_update_pod :: "lcall list \<Rightarrow> lora_pod \<Rightarrow> kube_error option"
  le_get_secret :: "lcall list \<Rightarrow> nn \<Rightarrow> kube_error + (string \<times> string) list"
  le_http :: "lcall list \<Rightarrow> pod_request \<Rightarrow> http_reply"
  le_now :: "lcall list \<Rightarrow> string"
  le_parse :: "string \<Rightarrow> json option"
  le_url_ok :: "string \<Rightarrow> bool"
  le_sort :: "lora_pod list \<Rightarrow> lora_pod list"
  le_range :: "lcall list \<Rightarrow> (string \<times> loaded_adapter) list \<Rightarrow> (string \<times> loaded_adapter) list"
  le_contains_finalizer :: "string list \<Rightarrow> string \<Rightarrow> bool"
  le_add_finalizer :: "string list \<Rightarrow> string \<Rightarrow> string list"
  le_remove_finalizer :: "string list \<Rightarrow> string \<Rightarrow> string list"

type_synonym 'a lora_io = "(lcall, 'a) io"

text \<open>A call whose error ends the operation.\<close>

definition must :: "lcall \<Rightarrow> (lcall list \<Rightarrow> kube_error + 'a) \<Rightarrow> 'a lora_io" where
  "must c answer = bindI (ask c answer) (\<lambda>r. case r of Inl e \<Rightarrow> throwI (Kube e) | Inr x \<Rightarrow> returnI x)"

text \<open>\<^verbatim>\<open>if err != nil { continue }\<close>; a panic is not an error value.\<close>

definition attemptI :: "'a lora_io \<Rightarrow> 'a option lora_io" where
  "attemptI m h =
     (case m h of
        (h', Inl (Panicked p)) \<Rightarrow> (h', Inl (Panicked p))
      | (h', Inl e) \<Rightarrow> (h', Inr None)
      | (h', Inr x) \<Rightarrow> (h', Inr (Some x)))"

section \<open>Decoding\<close>

text \<open>\<^verbatim>\<open>encoding/json\<close> on a parsed value: a field takes the entries of its name in order, \<^verbatim>\<open>null\<close> leaves a string or number alone
  and clears a pointer, a value of another kind is an error.\<close>

definition go_field :: "(json \<Rightarrow> 'a \<Rightarrow> 'a option) \<Rightarrow> string \<Rightarrow> 'a \<Rightarrow> jobj \<Rightarrow> 'a option" where
  "go_field decode name zero kvs =
     foldl (\<lambda>acc (k, v). if lower k = name then Option.bind acc (decode v) else acc) (Some zero) kvs"

fun go_string :: "json \<Rightarrow> string \<Rightarrow> string option" where
  "go_string (JStr s) old = Some s"
| "go_string JNull old = Some old"
| "go_string _ old = None"

fun go_string_ptr :: "json \<Rightarrow> string option \<Rightarrow> string option option" where
  "go_string_ptr (JStr s) old = Some (Some s)"
| "go_string_ptr JNull old = Some None"
| "go_string_ptr _ old = None"

fun go_int64 :: "json \<Rightarrow> int \<Rightarrow> int option" where
  "go_int64 (JInt i) old = (if - (2 ^ 63) \<le> i \<and> i < 2 ^ 63 then Some i else None)"
| "go_int64 JNull old = Some old"
| "go_int64 _ old = None"

record listed_model =
  me_ID :: string
  me_Created :: int
  me_Root :: string
  me_Parent :: "string option"

fun decode_model :: "json \<Rightarrow> listed_model option" where
  "decode_model (JObj kvs) =
     (case (go_field go_string ''id'' [] kvs, go_field go_string ''object'' [] kvs, go_field go_int64 ''created'' 0 kvs,
            go_field go_string ''owned_by'' [] kvs, go_field go_string ''root'' [] kvs, go_field go_string_ptr ''parent'' None kvs) of
        (Some i, Some _, Some c, Some _, Some r, Some p) \<Rightarrow> Some \<lparr>me_ID = i, me_Created = c, me_Root = r, me_Parent = p\<rparr>
      | _ \<Rightarrow> None)"
| "decode_model JNull = Some \<lparr>me_ID = [], me_Created = 0, me_Root = [], me_Parent = None\<rparr>"
| "decode_model _ = None"

fun go_models :: "json \<Rightarrow> listed_model list \<Rightarrow> listed_model list option" where
  "go_models (JList vs) old = those (map decode_model vs)"
| "go_models JNull old = Some []"
| "go_models _ old = None"

fun decode_model_list :: "json \<Rightarrow> listed_model list option" where
  "decode_model_list (JObj kvs) =
     (case go_field go_string ''object'' [] kvs of
        None \<Rightarrow> None
      | Some _ \<Rightarrow> go_field go_models ''data'' [] kvs)"
| "decode_model_list JNull = Some []"
| "decode_model_list _ = None"

fun decode_error_response :: "json \<Rightarrow> (string \<times> string) option" where
  "decode_error_response (JObj kvs) =
     (case (go_field go_string ''message'' [] kvs, go_field go_string ''type'' [] kvs) of
        (Some m, Some t) \<Rightarrow> Some (m, t)
      | _ \<Rightarrow> None)"
| "decode_error_response JNull = Some ([], [])"
| "decode_error_response _ = None"

text \<open>Into a \<^verbatim>\<open>map[string]string\<close>: keys as they are, the last entry of a key wins.\<close>

fun decode_string_map :: "json \<Rightarrow> (string \<times> string) list option" where
  "decode_string_map (JObj kvs) =
     (if list_all (\<lambda>(k, v). case v of JNull \<Rightarrow> True | JStr s \<Rightarrow> True | _ \<Rightarrow> False) kvs
      then Some (foldl (\<lambda>m (k, v). AList.update k (case v of JStr s \<Rightarrow> s | _ \<Rightarrow> []) m) [] kvs) else None)"
| "decode_string_map JNull = Some []"
| "decode_string_map _ = None"

section \<open>Requests to a pod\<close>

definition container_port_of :: "lora_pod \<Rightarrow> int" where
  "container_port_of pod =
     foldl (\<lambda>port ports. case find (\<lambda>(n, p). n = ''container-port'') ports of None \<Rightarrow> port | Some (n, p) \<Rightarrow> p)
       8000 (pd_Containers pod)"

definition getPodEndpoint :: "lora_env \<Rightarrow> nn \<Rightarrow> string \<Rightarrow> int option \<Rightarrow> string lora_io" where
  "getPodEndpoint env nn path port =
     bindI (wrapI ''failed to get pod'' (must (Get_Pod nn) (\<lambda>h. le_get_pod env h nn))) (\<lambda>pod.
       if pd_PodIP pod = [] then throwI (Errorf (''pod '' @ snd nn @ '' has no IP address''))
       else returnI (''http://'' @ pd_PodIP pod @ '':'' @
              show_int (case port of None \<Rightarrow> container_port_of pod | Some p \<Rightarrow> p) @ path))"

definition getVLLMApiKey :: "lora_env \<Rightarrow> lora_adapter \<Rightarrow> string lora_io" where
  "getVLLMApiKey env ad =
     (case ls_VLLMApiKey (lo_Spec ad) of
        None \<Rightarrow> returnI []
      | Some (secret, key) \<Rightarrow>
          if secret \<noteq> [] \<and> key \<noteq> [] then
            bindI (wrapI ''failed to get secret''
                     (must (Get_Secret (lo_Namespace ad, secret)) (\<lambda>h. le_get_secret env h (lo_Namespace ad, secret)))) (\<lambda>data.
              case map_of data key of
                None \<Rightarrow> throwI (Errorf (''secret does not contain key '' @ key))
              | Some apiKey \<Rightarrow> returnI apiKey)
          else returnI [])"

text \<open>An answer with status 400 is a success if it says that the adapter is loaded already.\<close>

definition check_response :: "lora_env \<Rightarrow> int \<Rightarrow> string \<Rightarrow> go_error + string" where
  "check_response env status body =
     (let unexpected = Inl (Errorf (''unexpected status code: '' @ show_int status @ '', body: '' @ body))
      in if status = 400 then
           (case Option.bind (le_parse env body) decode_error_response of
              None \<Rightarrow> Inl (Errorf ''failed to parse error response'')
            | Some (message, kind) \<Rightarrow>
                if kind = ''InvalidUserInput'' \<and> contains message ''has already been loaded'' then Inr body else unexpected)
         else if status \<noteq> 200 then unexpected
         else Inr body)"

definition sendRequest ::
  "lora_env \<Rightarrow> string \<Rightarrow> string \<Rightarrow> (string \<times> string) list option \<Rightarrow> lora_adapter \<Rightarrow> string lora_io" where
  "sendRequest env meth endpoint payload ad =
     (if \<not> le_url_ok env endpoint then throwI (Errorf ''failed to create request'')
      else bindI (wrapI ''failed to get API key'' (getVLLMApiKey env ad)) (\<lambda>apiKey.
        let req = \<lparr>hr_Method = meth, hr_URL = endpoint, hr_Payload = payload,
                   hr_Authorization = (if apiKey = [] then None else Some (''Bearer '' @ apiKey))\<rparr>
        in bindI (ask (Http req) (\<lambda>h. le_http env h req)) (\<lambda>reply. case reply of
             Send_failed e \<Rightarrow> throwI (Wrapped ''failed to send request'' (Errorf e))
           | Read_failed e \<Rightarrow> throwI (Wrapped ''failed to read response body'' (Errorf e))
           | Response status body \<Rightarrow> liftI (check_response env status body))))"

definition triggerPodEvent :: "lora_env \<Rightarrow> nn \<Rightarrow> unit lora_io" where
  "triggerPodEvent env nn =
     bindI (must (Get_Pod nn) (\<lambda>h. le_get_pod env h nn)) (\<lambda>pod.
     bindI (look (le_now env)) (\<lambda>now.
       let pod' = pod\<lparr>pd_Annotations := AList.update ''lora-modified'' now (pd_Annotations pod)\<rparr>
       in bindI (ask (Update_Pod pod') (\<lambda>h. le_update_pod env h pod')) (\<lambda>r. case r of
            None \<Rightarrow> returnI () | Some e \<Rightarrow> throwI (Kube e))))"

definition loadAdapter :: "lora_env \<Rightarrow> nn \<Rightarrow> string \<Rightarrow> lora_adapter \<Rightarrow> unit lora_io" where
  "loadAdapter env nn adapterPath ad =
     bindI (getPodEndpoint env nn ''/v1/load_lora_adapter'' None) (\<lambda>endpoint.
     bindI (sendRequest env ''POST'' endpoint (Some [(''lora_name'', adapter_name ad), (''lora_path'', adapterPath)]) ad) (\<lambda>_.
       triggerPodEvent env nn))"

definition unloadAdapter :: "lora_env \<Rightarrow> nn \<Rightarrow> lora_adapter \<Rightarrow> unit lora_io" where
  "unloadAdapter env nn ad =
     bindI (getPodEndpoint env nn ''/v1/unload_lora_adapter'' None) (\<lambda>endpoint.
     bindI (sendRequest env ''POST'' endpoint (Some [(''lora_name'', adapter_name ad)]) ad) (\<lambda>_.
       triggerPodEvent env nn))"

section \<open>Where the adapter comes from\<close>

text \<open>The path of the adapter, and the resource, in which a download records it. A missing reference to the credentials is a
  \<^verbatim>\<open>nil\<close> pointer that is followed.\<close>

definition downloadHuggingFaceAdapter :: "lora_env \<Rightarrow> lora_adapter \<Rightarrow> nn \<Rightarrow> (string \<times> lora_adapter) lora_io" where
  "downloadHuggingFaceAdapter env ad nn =
     (let source = ls_AdapterSource (lo_Spec ad);
          adapterPath = map (\<lambda>c. if c = CHR ''/'' then CHR ''-'' else c) (as_AdapterName source)
      in case as_Repository source of
           None \<Rightarrow> throwI (Errorf ''repository is required for huggingface adapter source'')
         | Some repository \<Rightarrow>
       if repository = [] then throwI (Errorf ''repository is required for huggingface adapter source'')
       else case as_CredentialsSecretRef source of
           None \<Rightarrow> throwI (Panicked ''nil pointer dereference'')
         | Some (secret, key) \<Rightarrow>
       bindI (wrapI ''failed to get secret''
                (must (Get_Secret (lo_Namespace ad, secret)) (\<lambda>h. le_get_secret env h (lo_Namespace ad, secret)))) (\<lambda>data.
       case map_of data key of
         None \<Rightarrow> throwI (Errorf (''secret does not contain key '' @ key))
       | Some token \<Rightarrow>
       bindI (wrapI ''failed to get pod endpoint'' (getPodEndpoint env nn ''/model/download'' (Some 30090))) (\<lambda>endpoint.
       bindI (wrapI ''failed to download adapter''
                (sendRequest env ''POST'' endpoint
                   (Some [(''model_id'', repository), (''token'', token), (''local_dir'', adapterPath)]) ad)) (\<lambda>body.
       case Option.bind (le_parse env body) decode_string_map of
         None \<Rightarrow> throwI (Errorf ''failed to unmarshal response body'')
       | Some bodyMap \<Rightarrow>
       (let ad' = ad\<lparr>lo_Spec := (lo_Spec ad)\<lparr>ls_AdapterSource := source\<lparr>as_AdapterPath := dget bodyMap ''path'' []\<rparr>\<rparr>\<rparr>
        in bindI (wrapI ''failed to update adapter path'' (must (Update_Adapter ad') (\<lambda>h. le_update_adapter env h ad'))) (\<lambda>new.
             returnI (as_AdapterPath (ls_AdapterSource (lo_Spec new)), new)))))))"

definition discoverAdapter :: "lora_env \<Rightarrow> lora_adapter \<Rightarrow> nn \<Rightarrow> (string \<times> lora_adapter) lora_io" where
  "discoverAdapter env ad nn =
     (let source = ls_AdapterSource (lo_Spec ad)
      in if as_AdapterPath source \<noteq> [] then returnI (as_AdapterPath source, ad)
         else if as_Type source = ''local'' then throwI (Errorf ''local adapter source requires AdapterPath to be set'')
         else if as_Type source = ''s3'' then throwI (Errorf ''S3 adapter discovery not implemented yet'')
         else if as_Type source = ''http'' then throwI (Errorf ''HTTP adapter discovery not implemented yet'')
         else if as_Type source = ''huggingface'' then downloadHuggingFaceAdapter env ad nn
         else throwI (Errorf (''unsupported adapter source type: '' @ as_Type source)))"

section \<open>Current and desired state\<close>

definition lora_pod_ready :: "lora_pod \<Rightarrow> bool" where
  "lora_pod_ready pod = list_ex (\<lambda>(t, s). t = ''Ready'' \<and> s = ''True'') (pd_Conditions pod)"

text \<open>A placement is a namespace with the name of a pod.\<close>

definition getOptimalPlacement :: "lora_env \<Rightarrow> lora_adapter \<Rightarrow> nn list lora_io" where
  "getOptimalPlacement env ad =
     (let sel = Model_is (ls_BaseModel (lo_Spec ad))
      in bindI (wrapI ''failed to list vLLM pods'' (must (List_Pods sel) (\<lambda>h. le_list_pods env h sel))) (\<lambda>pods.
           let validPods = filter lora_pod_ready pods
           in if validPods = [] then returnI []
              else let sorted_pods = le_sort env validPods;
                       numPods = (case ls_Replicas (lo_Spec ad) of
                                    None \<Rightarrow> length sorted_pods
                                  | Some replicas \<Rightarrow>
                                      if 0 \<le> replicas then min (nat replicas) (length sorted_pods) else length sorted_pods)
                   in returnI (map pd_nn (take numPods sorted_pods))))"

definition registrations_of :: "lora_adapter \<Rightarrow> lora_pod \<Rightarrow> listed_model list \<Rightarrow> loaded_adapter list" where
  "registrations_of ad pod models =
     map (\<lambda>m. \<lparr>ld_Name = me_ID m, ld_Path = me_Root m, ld_LoadTime = me_Created m, ld_PodName = pd_Name pod,
               ld_Namespace = pd_Namespace pod, ld_Status = ''Loaded''\<rparr>)
       (filter (\<lambda>m. me_Parent m \<noteq> None \<and> me_ID m = adapter_name ad) models)"

text \<open>The registrations of one pod: none if it is not ready, cannot be reached or gives an answer that cannot be decoded.\<close>

definition pod_registrations :: "lora_env \<Rightarrow> lora_adapter \<Rightarrow> lora_pod \<Rightarrow> loaded_adapter list lora_io" where
  "pod_registrations env ad pod =
     (if \<not> lora_pod_ready pod then returnI []
      else bindI (attemptI (getPodEndpoint env (pd_nn pod) ''/v1/models'' None)) (\<lambda>r. case r of
             None \<Rightarrow> returnI []
           | Some endpoint \<Rightarrow>
               bindI (attemptI (sendRequest env ''GET'' endpoint None ad)) (\<lambda>r. case r of
                 None \<Rightarrow> returnI []
               | Some body \<Rightarrow>
                   (case Option.bind (le_parse env body) decode_model_list of
                      None \<Rightarrow> returnI []
                    | Some models \<Rightarrow> returnI (registrations_of ad pod models)))))"

definition getAdapterRegistrations :: "lora_env \<Rightarrow> lora_adapter \<Rightarrow> loaded_adapter list lora_io" where
  "getAdapterRegistrations env ad =
     bindI (wrapI ''failed to list vLLM pods'' (must (List_Pods Has_model) (\<lambda>h. le_list_pods env h Has_model))) (\<lambda>pods.
       forI (\<lambda>pod regs. bindI (pod_registrations env ad pod) (\<lambda>new. returnI (regs @ new))) pods [])"

definition placement_key :: "nn \<Rightarrow> string" where
  "placement_key nn = fst nn @ ''/'' @ snd nn"

definition reg_nn :: "loaded_adapter \<Rightarrow> nn" where
  "reg_nn reg = (ld_Namespace reg, ld_PodName reg)"

definition compareStates :: "loaded_adapter list \<Rightarrow> nn list \<Rightarrow> bool" where
  "compareStates current desired =
     (if length current \<noteq> length desired then True
      else list_ex (\<lambda>reg. placement_key (reg_nn reg) \<notin> set (map placement_key desired)) current)"

section \<open>Status\<close>

text \<open>Three rounds of reading the resource, changing its status and writing it; a conflict is followed by a pause and the next
  round. \<open>change\<close> gives \<open>None\<close> if nothing is to be written.\<close>

fun status_rounds ::
  "lora_env \<Rightarrow> nn \<Rightarrow> string \<Rightarrow> (string \<Rightarrow> lora_adapter \<Rightarrow> lora_adapter option) \<Rightarrow> nat \<Rightarrow> nat \<Rightarrow> lora_adapter lora_io" where
  "status_rounds env nn what change 0 retries = throwI (Wrapped (what @ '' after retries'') (Kube Conflict))"
| "status_rounds env nn what change (Suc n) retries =
     bindI (wrapI ''failed to get latest LoraAdapter'' (must (Get_Adapter nn) (\<lambda>h. le_get_adapter env h nn))) (\<lambda>latest.
     bindI (look (le_now env)) (\<lambda>now.
       case change now latest of
         None \<Rightarrow> returnI latest
       | Some new \<Rightarrow>
           bindI (ask (Update_Adapter_Status new) (\<lambda>h. le_update_adapter_status env h new)) (\<lambda>r. case r of
             Inr stored \<Rightarrow> returnI stored
           | Inl Conflict \<Rightarrow> bindI (ask (Sleep (retries + 1)) (\<lambda>_. ())) (\<lambda>_. status_rounds env nn what change n (retries + 1))
           | Inl e \<Rightarrow> throwI (Wrapped what (Kube e)))))"

definition with_registrations :: "loaded_adapter list \<Rightarrow> lora_adapter \<Rightarrow> lora_adapter" where
  "with_registrations regs ad =
     ad\<lparr>lo_LoadedAdapters := regs, lo_ObservedGeneration := lo_Generation ad,
        lo_Conditions := filter (\<lambda>c. cd_Type c \<noteq> ''WaitingForPods'') (lo_Conditions ad)\<rparr>"

definition updateStatusWithRegistrations :: "lora_env \<Rightarrow> lora_adapter \<Rightarrow> loaded_adapter list \<Rightarrow> lora_adapter lora_io" where
  "updateStatusWithRegistrations env ad regs =
     status_rounds env (lo_nn ad) ''failed to update status with current registrations''
       (\<lambda>now latest. Some (with_registrations regs latest)) 3 0"

fun replace_first :: "('a \<Rightarrow> bool) \<Rightarrow> 'a \<Rightarrow> 'a list \<Rightarrow> 'a list" where
  "replace_first p y [] = [y]"
| "replace_first p y (x # xs) = (if p x then y # xs else x # replace_first p y xs)"

definition with_waiting :: "string \<Rightarrow> string \<Rightarrow> lora_adapter \<Rightarrow> lora_adapter option" where
  "with_waiting message now ad =
     (if list_ex (\<lambda>c. cd_Type c = ''WaitingForPods'' \<and> cd_Status c = ''True'' \<and> cd_Message c = message) (lo_Conditions ad) then None
      else Some (ad\<lparr>lo_LoadedAdapters := [], lo_ObservedGeneration := lo_Generation ad,
        lo_Conditions := replace_first (\<lambda>c. cd_Type c = ''WaitingForPods'')
          \<lparr>cd_Type = ''WaitingForPods'', cd_Status = ''True'', cd_LastTransitionTime = now, cd_Reason = ''NoReadyPods'',
           cd_Message = message\<rparr> (lo_Conditions ad)\<rparr>))"

definition updateStatusWithWaitingState :: "lora_env \<Rightarrow> lora_adapter \<Rightarrow> string \<Rightarrow> lora_adapter lora_io" where
  "updateStatusWithWaitingState env ad message =
     status_rounds env (lo_nn ad) ''failed to update status with waiting state'' (with_waiting message) 3 0"

section \<open>Reconciliation\<close>

definition current_map :: "lora_adapter \<Rightarrow> loaded_adapter list \<Rightarrow> (string \<times> loaded_adapter) list" where
  "current_map ad current =
     foldl (\<lambda>m reg. if ld_Name reg \<noteq> adapter_name ad then m else AList.update (placement_key (reg_nn reg)) reg m) [] current"

definition load_missing ::
  "lora_env \<Rightarrow> (string \<times> loaded_adapter) list \<Rightarrow> nn \<Rightarrow> lora_adapter \<Rightarrow> lora_adapter lora_io" where
  "load_missing env current placement ad =
     (if map_of current (placement_key placement) \<noteq> None then returnI ad
      else bindI (wrapI ''failed to discover adapter'' (discoverAdapter env ad placement)) (\<lambda>(adapterPath, ad').
           bindI (wrapI (''failed to load adapter on pod '' @ snd placement) (loadAdapter env placement adapterPath ad')) (\<lambda>_.
             returnI ad')))"

definition unload_undesired ::
  "lora_env \<Rightarrow> nn list \<Rightarrow> string \<times> loaded_adapter \<Rightarrow> lora_adapter \<Rightarrow> lora_adapter lora_io" where
  "unload_undesired env desired entry ad =
     (case entry of (key, reg) \<Rightarrow>
        if key \<in> set (map placement_key desired) then returnI ad
        else bindI (wrapI (''failed to unload adapter from pod '' @ ld_PodName reg) (unloadAdapter env (reg_nn reg) ad)) (\<lambda>_.
               returnI ad))"

definition reconcileToDesiredState ::
  "lora_env \<Rightarrow> lora_adapter \<Rightarrow> loaded_adapter list \<Rightarrow> nn list \<Rightarrow> lora_adapter lora_io" where
  "reconcileToDesiredState env ad current desired =
     (let currentMap = current_map ad current
      in bindI (forI (load_missing env currentMap) desired ad) (\<lambda>ad'.
         bindI (look (\<lambda>h. le_range env h currentMap)) (\<lambda>entries. forI (unload_undesired env desired) entries ad')))"

definition loraAdapterFinalizer :: string where
  "loraAdapterFinalizer = ''loraadapter.production-stack.vllm.ai/finalizer''"

definition unload_registration :: "lora_env \<Rightarrow> lora_adapter \<Rightarrow> loaded_adapter \<Rightarrow> unit lora_io" where
  "unload_registration env ad reg =
     (if ld_Name reg = adapter_name ad
      then wrapI (''failed to unload adapter from pod '' @ ld_PodName reg) (unloadAdapter env (reg_nn reg) ad)
      else returnI ())"

definition handleDeletion :: "lora_env \<Rightarrow> lora_adapter \<Rightarrow> unit lora_io" where
  "handleDeletion env ad =
     bindI (wrapI ''failed to get current registrations'' (getAdapterRegistrations env ad)) (\<lambda>current.
     bindI (forI (\<lambda>reg _. unload_registration env ad reg) current ()) (\<lambda>_.
       let ad' = ad\<lparr>lo_Finalizers := le_remove_finalizer env (lo_Finalizers ad) loraAdapterFinalizer\<rparr>
       in bindI (wrapI ''failed to remove finalizer'' (must (Update_Adapter ad') (\<lambda>h. le_update_adapter env h ad'))) (\<lambda>_. returnI ())))"

text \<open>A pass for a resource that is not being deleted and has the finalizer.\<close>

definition reconcile_live :: "lora_env \<Rightarrow> lora_adapter \<Rightarrow> ctrl_result lora_io" where
  "reconcile_live env ad0 =
     bindI (getAdapterRegistrations env ad0) (\<lambda>currentRegistrations.
     bindI (updateStatusWithRegistrations env ad0 currentRegistrations) (\<lambda>ad.
     bindI (getOptimalPlacement env ad) (\<lambda>desiredPlacements.
       if desiredPlacements = [] then
         bindI (updateStatusWithWaitingState env ad ''Waiting for pods to become ready'') (\<lambda>_. returnI (Requeue_after 60))
       else if compareStates currentRegistrations desiredPlacements then
         bindI (reconcileToDesiredState env ad currentRegistrations desiredPlacements) (\<lambda>_.
         bindI (ask (Get_Adapter (lo_nn ad)) (\<lambda>h. le_get_adapter env h (lo_nn ad))) (\<lambda>r. case r of
           Inl Not_found \<Rightarrow> returnI Done
         | Inl e \<Rightarrow> throwI (Kube e)
         | Inr ad' \<Rightarrow>
             bindI (getAdapterRegistrations env ad') (\<lambda>latestRegistrations.
             bindI (updateStatusWithRegistrations env ad' latestRegistrations) (\<lambda>_. returnI (Requeue_after 60)))))
       else returnI (Requeue_after 60))))"

definition lora_Reconcile :: "lora_env \<Rightarrow> nn \<Rightarrow> ctrl_result lora_io" where
  "lora_Reconcile env req =
     bindI (ask (Get_Adapter req) (\<lambda>h. le_get_adapter env h req)) (\<lambda>r. case r of
        Inl Not_found \<Rightarrow> returnI Done
      | Inl e \<Rightarrow> throwI (Kube e)
      | Inr ad \<Rightarrow>
          if lo_Deleted ad then bindI (handleDeletion env ad) (\<lambda>_. returnI Done)
          else if \<not> le_contains_finalizer env (lo_Finalizers ad) loraAdapterFinalizer then
            (let ad' = ad\<lparr>lo_Finalizers := le_add_finalizer env (lo_Finalizers ad) loraAdapterFinalizer\<rparr>
             in bindI (must (Update_Adapter ad') (\<lambda>h. le_update_adapter env h ad')) (\<lambda>_. returnI Requeue))
          else reconcile_live env ad)"

section \<open>Which events start a pass\<close>

text \<open>The filter of the manager for updates, and the mapping from a pod to the resources it concerns, which nothing calls.\<close>

definition lora_update_filter :: "lora_adapter \<Rightarrow> lora_adapter \<Rightarrow> bool" where
  "lora_update_filter old new = (if lo_Deleted new then True else lo_Spec old \<noteq> lo_Spec new)"

definition findLoraAdaptersForPod :: "lora_env \<Rightarrow> lora_pod \<Rightarrow> nn list lora_io" where
  "findLoraAdaptersForPod env pod =
     (case map_of (pd_Labels pod) ''model'' of
        None \<Rightarrow> returnI []
      | Some modelName \<Rightarrow>
          bindI (ask List_Adapters (\<lambda>h. le_list_adapters env h)) (\<lambda>r. case r of
            Inl e \<Rightarrow> returnI []
          | Inr items \<Rightarrow> returnI (map lo_nn (filter (\<lambda>ad. ls_BaseModel (lo_Spec ad) = modelName) items))))"

end
