(* ===== verification/Runtime_Controller.thy ===== *)
theory Runtime_Controller
  imports Operator_Prelude
begin

text \<open>
  The controller of the engines, \<^verbatim>\<open>src/operator/internal/controller/vllmruntime_controller.go\<close>: the service, the volume claim and the
  deployment with its optional sidecar, when each is updated, and a pass of \<^verbatim>\<open>Reconcile\<close>. The main result
  says exactly when the controller takes the deployment it has built itself for up to date, and so when it
  comes to rest.
\<close>

section \<open>The resource\<close>

record model_spec =
  md_ModelURL :: string
  md_HFTokenSecret :: string
  md_HFTokenName :: string
  md_EnableLoRA :: bool
  md_EnableTool :: bool
  md_ToolCallParser :: string
  md_MaxModelLen :: int
  md_DType :: string
  md_MaxNumSeqs :: int

record vllm_config =
  vc_EnableChunkedPrefill :: bool
  vc_EnablePrefixCaching :: bool
  vc_TensorParallelSize :: int
  vc_GpuMemoryUtilization :: string
  vc_MaxLoras :: int
  vc_ExtraArgs :: "string list"
  vc_V1 :: bool
  vc_Port :: int
  vc_Env :: "(string \<times> string) list"

record lmcache_config =
  lm_Enabled :: bool
  lm_CPUOffloadingBufferSize :: string
  lm_DiskOffloadingBufferSize :: string
  lm_RemoteURL :: string
  lm_RemoteSerde :: string

record storage_config =
  st_Enabled :: bool
  st_StorageClassName :: string
  st_Size :: string
  st_AccessMode :: string
  st_MountPath :: string
  st_VolumeName :: string

record sidecar_config =
  sc_Enabled :: bool
  sc_Name :: string
  sc_Image :: image_spec
  sc_Command :: "string list"
  sc_Args :: "string list"
  sc_Env :: "(string \<times> string) list"
  sc_Resources :: resource_spec
  sc_MountPath :: string

record vllm_runtime =
  rt_Name :: string
  rt_Namespace :: string
  rt_Labels :: "(string \<times> string) list"
  rt_Model :: model_spec
  rt_VLLMConfig :: vllm_config
  rt_LMCacheConfig :: lmcache_config
  rt_StorageConfig :: storage_config
  rt_Replicas :: int
  rt_DeployStrategy :: string
  rt_Resources :: resource_spec
  rt_Image :: image_spec
  rt_SidecarConfig :: sidecar_config
  rt_ModelStatus :: string
  rt_LastUpdated :: string

type_synonym 'q runtime_env = "('q, vllm_runtime) wenv"

definition rt_nn :: "vllm_runtime \<Rightarrow> nn" where
  "rt_nn rt = (rt_Namespace rt, rt_Name rt)"

definition rt_meta :: "'q runtime_env \<Rightarrow> vllm_runtime \<Rightarrow> (string \<times> string) list \<Rightarrow> object_meta" where
  "rt_meta env rt labels =
     \<lparr>om_Name = rt_Name rt, om_Namespace = rt_Namespace rt, om_Labels = labels, om_Owner = we_owner env rt\<rparr>"

section \<open>The deployment\<close>

definition health_probe :: "int \<Rightarrow> int \<Rightarrow> int \<Rightarrow> int \<Rightarrow> int \<Rightarrow> probe" where
  "health_probe port delay timeout success failure =
     \<lparr>pr_Path = ''/health'', pr_Port = port, pr_Scheme = ''HTTP'', pr_InitialDelaySeconds = delay, pr_PeriodSeconds = 20,
      pr_TimeoutSeconds = timeout, pr_SuccessThreshold = success, pr_FailureThreshold = failure\<rparr>"

text \<open>An option with its number if that is positive, and with its text if that is not empty.\<close>

definition int_option :: "string \<Rightarrow> int \<Rightarrow> string list" where
  "int_option n i = (if 0 < i then [n, show_int i] else [])"

definition text_option :: "string \<Rightarrow> string \<Rightarrow> string list" where
  "text_option n s = (if s \<noteq> [] then [n, s] else [])"

definition kv_transfer_config :: "bool \<Rightarrow> string" where
  \<open>kv_transfer_config v1 =
     (if v1 then ''{"kv_connector":"LMCacheConnectorV1","kv_role":"kv_both"}''
      else ''{"kv_connector":"LMCacheConnector","kv_role":"kv_both"}'')\<close>

definition runtime_args :: "vllm_runtime \<Rightarrow> string list" where
  "runtime_args rt =
     (let m = rt_Model rt; c = rt_VLLMConfig rt
      in [md_ModelURL m, ''--host'', ''0.0.0.0'', ''--port'', show_int (vc_Port c)] @
         (if md_EnableLoRA m then [''--enable-lora''] else []) @
         (if md_EnableTool m then [''--enable-auto-tool-choice''] else []) @
         text_option ''--tool-call-parser'' (md_ToolCallParser m) @
         [if vc_EnableChunkedPrefill c then ''--enable-chunked-prefill'' else ''--no-enable-chunked-prefill''] @
         [if vc_EnablePrefixCaching c then ''--enable-prefix-caching'' else ''--no-enable-prefix-caching''] @
         int_option ''--max-model-len'' (md_MaxModelLen m) @
         text_option ''--dtype'' (md_DType m) @
         int_option ''--tensor-parallel-size'' (vc_TensorParallelSize c) @
         int_option ''--max-num-seqs'' (md_MaxNumSeqs m) @
         text_option ''--gpu_memory_utilization'' (vc_GpuMemoryUtilization c) @
         int_option ''--max_loras'' (vc_MaxLoras c) @
         vc_ExtraArgs c @
         (if lm_Enabled (rt_LMCacheConfig rt) then [''--kv-transfer-config'', kv_transfer_config (vc_V1 c)] else []))"

definition env_entry :: "string \<Rightarrow> string \<Rightarrow> env_var" where
  "env_entry n v = \<lparr>ev_Name = n, ev_Value = v, ev_SecretKeyRef = None\<rparr>"

definition lmcache_env :: "lmcache_config \<Rightarrow> env_var list" where
  "lmcache_env lm =
     (if lm_Enabled lm then
        [env_entry ''LMCACHE_LOG_LEVEL'' ''DEBUG'', env_entry ''LMCACHE_USE_EXPERIMENTAL'' ''True'',
         env_entry ''VLLM_RPC_TIMEOUT'' ''1000000''] @
        (if lm_CPUOffloadingBufferSize lm \<noteq> []
         then [env_entry ''LMCACHE_LOCAL_CPU'' ''True'', env_entry ''LMCACHE_MAX_LOCAL_CPU_SIZE'' (lm_CPUOffloadingBufferSize lm)]
         else []) @
        (if lm_DiskOffloadingBufferSize lm \<noteq> []
         then [env_entry ''LMCACHE_LOCAL_DISK'' ''True'',
               env_entry ''LMCACHE_MAX_LOCAL_DISK_SIZE'' (lm_DiskOffloadingBufferSize lm)]
         else []) @
        (if lm_RemoteURL lm \<noteq> []
         then [env_entry ''LMCACHE_REMOTE_URL'' (lm_RemoteURL lm), env_entry ''LMCACHE_REMOTE_SERDE'' (lm_RemoteSerde lm)]
         else [])
      else [])"

definition runtime_container_env :: "vllm_runtime \<Rightarrow> env_var list" where
  "runtime_container_env rt =
     [env_entry ''VLLM_USE_V1'' (if vc_V1 (rt_VLLMConfig rt) then ''1'' else ''0'')] @
     (if md_EnableLoRA (rt_Model rt) then [env_entry ''VLLM_ALLOW_RUNTIME_LORA_UPDATING'' ''True''] else []) @
     lmcache_env (rt_LMCacheConfig rt) @
     map (\<lambda>(n, v). env_entry n v) (vc_Env (rt_VLLMConfig rt)) @
     (if md_HFTokenSecret (rt_Model rt) \<noteq> []
      then [\<lparr>ev_Name = ''HF_TOKEN'', ev_Value = [],
             ev_SecretKeyRef = Some (md_HFTokenSecret (rt_Model rt), md_HFTokenName (rt_Model rt))\<rparr>] else [])"

definition or_default :: "string \<Rightarrow> string \<Rightarrow> string" where
  "or_default s dflt = (if s \<noteq> [] then s else dflt)"

definition volume_name :: "vllm_runtime \<Rightarrow> string" where
  "volume_name rt = or_default (st_VolumeName (rt_StorageConfig rt)) ''pvc-storage''"

text \<open>The sidecar mounts the volume, and has a mount path other than \<^verbatim>\<open>/data\<close>, only if storage is enabled.\<close>

definition buildSidecarContainer :: "'q runtime_env \<Rightarrow> vllm_runtime \<Rightarrow> go_error + 'q deployed_container" where
  "buildSidecarContainer env rt =
     (let sc = rt_SidecarConfig rt;
          storage = st_Enabled (rt_StorageConfig rt);
          mountPath = (if storage then or_default (sc_MountPath sc) ''/data'' else ''/data'')
      in case build_resources env
                [(''cpu'', or_default (rs_CPU (sc_Resources sc)) ''0.5''),
                 (''memory'', or_default (rs_Memory (sc_Resources sc)) ''128Mi''),
                 (''nvidia.com/gpu'', or_default (rs_GPU (sc_Resources sc)) ''0'')] of
           Inl e \<Rightarrow> Inl e
         | Inr resources \<Rightarrow> Inr
             \<lparr>co_Name = sc_Name sc, co_Image = image_of (sc_Image sc), co_ImagePullPolicy = pull_policy_of (sc_Image sc),
              co_Command = sc_Command sc, co_Args = sc_Args sc,
              co_Env = [env_entry ''PORT'' ''30090'', env_entry ''LORA_DOWNLOAD_BASE_DIR'' (mountPath @ ''/lora-adapters'')] @
                       map (\<lambda>(n, v). env_entry n v) (sc_Env sc),
              co_Ports = [], co_Resources = resources,
              co_VolumeMounts = (if storage then [(volume_name rt, mountPath)] else []),
              co_ReadinessProbe = None, co_StartupProbe = None, co_LivenessProbe = None\<rparr>)"

abbreviation (input) rt_entries :: "vllm_runtime \<Rightarrow> (string \<times> string) list" where
  "rt_entries rt \<equiv> [(''cpu'', rs_CPU (rt_Resources rt)), (''memory'', rs_Memory (rt_Resources rt)),
                     (''nvidia.com/gpu'', rs_GPU (rt_Resources rt))]"

definition vllm_container :: "vllm_runtime \<Rightarrow> 'q resource_requirements \<Rightarrow> 'q deployed_container" where
  "vllm_container rt resources =
     (let port = vc_Port (rt_VLLMConfig rt)
      in \<lparr>co_Name = ''vllm'', co_Image = image_of (rt_Image rt), co_ImagePullPolicy = pull_policy_of (rt_Image rt),
          co_Command = [''/opt/venv/bin/vllm'', ''serve''], co_Args = runtime_args rt, co_Env = runtime_container_env rt,
          co_Ports = [(''http'', port)], co_Resources = resources,
          co_VolumeMounts =
            (if st_Enabled (rt_StorageConfig rt)
             then [(volume_name rt, or_default (st_MountPath (rt_StorageConfig rt)) ''/data'')] else []),
          co_ReadinessProbe = Some (health_probe port 10 5 1 10), co_StartupProbe = Some (health_probe port 120 3 0 100),
          co_LivenessProbe = Some (health_probe port 10 3 1 10)\<rparr>)"

definition deploymentForVLLMRuntime :: "'q runtime_env \<Rightarrow> vllm_runtime \<Rightarrow> go_error + 'q deployment" where
  "deploymentForVLLMRuntime env rt =
     (let labels = labels_of (rt_Name rt) (rt_Labels rt)
      in case build_resources env (rt_entries rt) of
           Inl e \<Rightarrow> Inl e
         | Inr resources \<Rightarrow>
             (case (if sc_Enabled (rt_SidecarConfig rt)
                    then (case buildSidecarContainer env rt of Inl e \<Rightarrow> Inl e | Inr c \<Rightarrow> Inr [c]) else Inr []) of
                Inl e \<Rightarrow> Inl e
              | Inr sidecars \<Rightarrow> Inr
                  \<lparr>dp_meta = rt_meta env rt [], dp_Replicas = Some (rt_Replicas rt), dp_Strategy = rt_DeployStrategy rt,
                   dp_MatchLabels = labels, dp_TemplateLabels = labels, dp_ServiceAccountName = [],
                   dp_ImagePullSecrets = pull_secrets_of (rt_Image rt),
                   dp_Volumes = (if st_Enabled (rt_StorageConfig rt) then [(volume_name rt, rt_Name rt)] else []),
                   dp_Containers = vllm_container rt resources # sidecars,
                   dp_NodeSelectorTerms = None,
                   dp_AvailableReplicas = 0, dp_UnavailableReplicas = 0, dp_UpdatedReplicas = 0\<rparr>))"

section \<open>Service and volume claim\<close>

definition serviceForVLLMRuntime :: "'q runtime_env \<Rightarrow> vllm_runtime \<Rightarrow> service" where
  "serviceForVLLMRuntime env rt =
     \<lparr>sv_meta = rt_meta env rt [], sv_Type = ''ClusterIP'', sv_Selector = labels_of (rt_Name rt) (rt_Labels rt),
      sv_Ports = [(''http'', 80, vc_Port (rt_VLLMConfig rt), ''TCP'')]\<rparr>"

definition serviceNeedsUpdate :: "service \<Rightarrow> vllm_runtime \<Rightarrow> go_error + bool" where
  "serviceNeedsUpdate svc rt =
     (case sv_Ports svc of
        [] \<Rightarrow> Inl (Panicked ''index out of range'')
      | (n, p, target, proto) # _ \<Rightarrow> Inr (vc_Port (rt_VLLMConfig rt) \<noteq> target))"

definition claim_size :: "vllm_runtime \<Rightarrow> string" where
  "claim_size rt = or_default (st_Size (rt_StorageConfig rt)) ''10Gi''"

definition pvcForVLLMRuntime :: "'q runtime_env \<Rightarrow> vllm_runtime \<Rightarrow> go_error + 'q pvc" where
  "pvcForVLLMRuntime env rt =
     (let st = rt_StorageConfig rt
      in case must_parse env (claim_size rt) of
           Inl e \<Rightarrow> Inl e
         | Inr q \<Rightarrow> Inr
             \<lparr>pv_meta = rt_meta env rt (labels_of (rt_Name rt) (rt_Labels rt)),
              pv_AccessModes =
                [if st_AccessMode st \<in> {''ReadWriteOnce'', ''ReadOnlyMany'', ''ReadWriteMany''} then st_AccessMode st
                 else ''ReadWriteOnce''],
              pv_Requests = [(''storage'', q)],
              pv_StorageClassName = (if st_StorageClassName st \<noteq> [] then Some (st_StorageClassName st) else None)\<rparr>)"

definition pvcNeedsUpdate :: "'q runtime_env \<Rightarrow> 'q pvc \<Rightarrow> vllm_runtime \<Rightarrow> bool" where
  "pvcNeedsUpdate env pvc rt =
     (claim_size rt \<noteq> we_quantity_string env (dget (pv_Requests pvc) ''storage'' (we_zero_quantity env)))"

section \<open>A pass\<close>

text \<open>The value that the last variable of a name has, as a loop over the variables finds it.\<close>

definition last_env :: "env_var list \<Rightarrow> string \<Rightarrow> string" where
  "last_env es n = foldl (\<lambda>v e. if ev_Name e = n then ev_Value e else v) [] es"

definition lmcache_differs :: "lmcache_config \<Rightarrow> env_var list \<Rightarrow> bool" where
  "lmcache_differs lm es \<longleftrightarrow>
     lm_Enabled lm \<noteq> (last_env es ''LMCACHE_USE_EXPERIMENTAL'' = ''True'') \<or>
     lm_CPUOffloadingBufferSize lm \<noteq> last_env es ''LMCACHE_MAX_LOCAL_CPU_SIZE'' \<or>
     lm_DiskOffloadingBufferSize lm \<noteq> last_env es ''LMCACHE_MAX_LOCAL_DISK_SIZE'' \<or>
     lm_RemoteURL lm \<noteq> last_env es ''LMCACHE_REMOTE_URL'' \<or>
     lm_RemoteSerde lm \<noteq> last_env es ''LMCACHE_REMOTE_SERDE''"

definition runtime_deploymentNeedsUpdate :: "'q runtime_env \<Rightarrow> 'q deployment \<Rightarrow> vllm_runtime \<Rightarrow> go_error + bool" where
  "runtime_deploymentNeedsUpdate env dep rt =
     (case deploymentForVLLMRuntime env rt of
        Inl e \<Rightarrow> Inl e
      | Inr expectedDep \<Rightarrow>
          (case dp_Replicas dep of
             None \<Rightarrow> Inl (Panicked ''nil pointer dereference'')
           | Some n \<Rightarrow>
               if n \<noteq> rt_Replicas rt then Inr True
               else case dp_Containers dep of
                      [] \<Rightarrow> Inl (Panicked ''index out of range'')
                    | c # _ \<Rightarrow>
                        if md_ModelURL (rt_Model rt) \<noteq> (case co_Args c of [] \<Rightarrow> [] | a # _ \<Rightarrow> a) then Inr True
                        else case co_Ports c of
                               [] \<Rightarrow> Inl (Panicked ''index out of range'')
                             | (_, port) # _ \<Rightarrow>
                                 Inr (vc_Port (rt_VLLMConfig rt) \<noteq> port \<or>
                                      co_Image (dp_Containers expectedDep ! 0) \<noteq> co_Image c \<or>
                                      \<not> requirements_eq (co_Resources (dp_Containers expectedDep ! 0)) (co_Resources c) \<or>
                                      lmcache_differs (rt_LMCacheConfig rt) (co_Env c))))"

definition runtime_updateStatus ::
  "'q runtime_env \<Rightarrow> vllm_runtime \<Rightarrow> 'q deployment \<Rightarrow> (('q, vllm_runtime) wcall, ctrl_result) io" where
  "runtime_updateStatus env rt dep =
     update_status env (rt_nn rt) dep (\<lambda>phase now latest. latest\<lparr>rt_LastUpdated := now, rt_ModelStatus := phase\<rparr>)"

definition ensure_pvc ::
  "'q runtime_env \<Rightarrow> vllm_runtime \<Rightarrow> (('q, vllm_runtime) wcall, ctrl_result) io \<Rightarrow> (('q, vllm_runtime) wcall, ctrl_result) io" where
  "ensure_pvc env rt k =
     (if st_Enabled (rt_StorageConfig rt) then
        ensure (Get_PVC (rt_nn rt)) (\<lambda>h. we_get_pvc env h (rt_nn rt))
          (pvcForVLLMRuntime env rt) Create_PVC (we_create_pvc env) (\<lambda>foundPVC.
        if pvcNeedsUpdate env foundPVC rt
        then bindI (liftI (pvcForVLLMRuntime env rt)) (\<lambda>p. write_and_requeue (Update_PVC p) (\<lambda>h. we_update_pvc env h p))
        else k)
      else k)"

definition runtime_Reconcile :: "'q runtime_env \<Rightarrow> nn \<Rightarrow> (('q, vllm_runtime) wcall, ctrl_result) io" where
  "runtime_Reconcile env req =
     fetch_cr env req (\<lambda>rt.
       ensure (Get_Service (rt_nn rt)) (\<lambda>h. we_get_service env h (rt_nn rt))
         (Inr (serviceForVLLMRuntime env rt)) Create_Service (we_create_service env) (\<lambda>foundService.
       bindI (liftI (serviceNeedsUpdate foundService rt)) (\<lambda>stale.
       if stale
       then write_and_requeue (Update_Service (serviceForVLLMRuntime env rt))
              (\<lambda>h. we_update_service env h (serviceForVLLMRuntime env rt))
       else
       ensure_pvc env rt (
       ensure (Get_Deployment (rt_nn rt)) (\<lambda>h. we_get_deployment env h (rt_nn rt))
         (deploymentForVLLMRuntime env rt) Create_Deployment (we_create_deployment env) (\<lambda>found.
       settle_deployment env (runtime_deploymentNeedsUpdate env found rt) (deploymentForVLLMRuntime env rt)
         (runtime_updateStatus env rt found))))))"

section \<open>When the controller comes to rest\<close>

text \<open>A cache configuration that the environment variables can express: if it is enabled, a format of the remote cache comes with its
  URL; if it is not, it names no sizes, no URL and no format.\<close>

definition lmcache_expressible :: "lmcache_config \<Rightarrow> bool" where
  "lmcache_expressible lm \<longleftrightarrow>
     (if lm_Enabled lm then lm_RemoteURL lm \<noteq> [] \<or> lm_RemoteSerde lm = []
      else lm_CPUOffloadingBufferSize lm = [] \<and> lm_DiskOffloadingBufferSize lm = [] \<and> lm_RemoteURL lm = [] \<and>
           lm_RemoteSerde lm = [])"

definition lmcache_names :: "string list" where
  "lmcache_names =
     [''LMCACHE_USE_EXPERIMENTAL'', ''LMCACHE_MAX_LOCAL_CPU_SIZE'', ''LMCACHE_MAX_LOCAL_DISK_SIZE'', ''LMCACHE_REMOTE_URL'',
      ''LMCACHE_REMOTE_SERDE'']"

lemma last_env_absent: "n \<notin> ev_Name ` set es \<Longrightarrow> last_env es n = []"
  unfolding last_env_def by (induction es rule: rev_induct) auto

lemma last_env_append: "last_env (xs @ ys) n = (if n \<in> ev_Name ` set ys then last_env ys n else last_env xs n)"
  unfolding last_env_def by (induction ys rule: rev_induct) auto

lemma last_env_middle:
  "n \<notin> ev_Name ` set xs \<Longrightarrow> n \<notin> ev_Name ` set zs \<Longrightarrow> last_env (xs @ ys @ zs) n = last_env ys n"
  by (simp add: last_env_append image_Un last_env_absent)

lemma last_env_lmcache:
  "last_env (lmcache_env lm) ''LMCACHE_USE_EXPERIMENTAL'' = (if lm_Enabled lm then ''True'' else [])"
  "last_env (lmcache_env lm) ''LMCACHE_MAX_LOCAL_CPU_SIZE'' = (if lm_Enabled lm then lm_CPUOffloadingBufferSize lm else [])"
  "last_env (lmcache_env lm) ''LMCACHE_MAX_LOCAL_DISK_SIZE'' = (if lm_Enabled lm then lm_DiskOffloadingBufferSize lm else [])"
  "last_env (lmcache_env lm) ''LMCACHE_REMOTE_URL'' = (if lm_Enabled lm then lm_RemoteURL lm else [])"
  "last_env (lmcache_env lm) ''LMCACHE_REMOTE_SERDE'' = (if lm_Enabled lm \<and> lm_RemoteURL lm \<noteq> [] then lm_RemoteSerde lm else [])"
  unfolding lmcache_env_def last_env_def by (simp_all add: env_entry_def)

lemma last_env_runtime:
  assumes "n \<in> set lmcache_names" "n \<notin> fst ` set (vc_Env (rt_VLLMConfig rt))"
  shows "last_env (runtime_container_env rt) n = last_env (lmcache_env (rt_LMCacheConfig rt)) n"
proof -
  define front where "front = [env_entry ''VLLM_USE_V1'' (if vc_V1 (rt_VLLMConfig rt) then ''1'' else ''0'')] @
     (if md_EnableLoRA (rt_Model rt) then [env_entry ''VLLM_ALLOW_RUNTIME_LORA_UPDATING'' ''True''] else [])"
  define rear where "rear = map (\<lambda>(n, v). env_entry n v) (vc_Env (rt_VLLMConfig rt)) @
     (if md_HFTokenSecret (rt_Model rt) \<noteq> []
      then [\<lparr>ev_Name = ''HF_TOKEN'', ev_Value = [],
             ev_SecretKeyRef = Some (md_HFTokenSecret (rt_Model rt), md_HFTokenName (rt_Model rt))\<rparr>] else [])"
  have "n \<noteq> ''VLLM_USE_V1''" "n \<noteq> ''VLLM_ALLOW_RUNTIME_LORA_UPDATING''" "n \<noteq> ''HF_TOKEN''"
    using assms(1) by (auto simp: lmcache_names_def)
  then have "n \<notin> ev_Name ` set front" "n \<notin> ev_Name ` set rear"
    using assms(2) by (auto simp: front_def rear_def env_entry_def image_iff split: if_splits)
  moreover have "runtime_container_env rt = front @ lmcache_env (rt_LMCacheConfig rt) @ rear"
    by (simp add: runtime_container_env_def front_def rear_def)
  ultimately show ?thesis
    by (simp add: last_env_middle)
qed

lemma lmcache_differs_own:
  assumes "\<forall>n \<in> set lmcache_names. n \<notin> fst ` set (vc_Env (rt_VLLMConfig rt))"
  shows "lmcache_differs (rt_LMCacheConfig rt) (runtime_container_env rt) \<longleftrightarrow> \<not> lmcache_expressible (rt_LMCacheConfig rt)"
proof -
  have "last_env (runtime_container_env rt) n = last_env (lmcache_env (rt_LMCacheConfig rt)) n" if "n \<in> set lmcache_names" for n
    using last_env_runtime that assms by blast
  then have own:
    "last_env (runtime_container_env rt) ''LMCACHE_USE_EXPERIMENTAL'' = last_env (lmcache_env (rt_LMCacheConfig rt)) ''LMCACHE_USE_EXPERIMENTAL''"
    "last_env (runtime_container_env rt) ''LMCACHE_MAX_LOCAL_CPU_SIZE'' = last_env (lmcache_env (rt_LMCacheConfig rt)) ''LMCACHE_MAX_LOCAL_CPU_SIZE''"
    "last_env (runtime_container_env rt) ''LMCACHE_MAX_LOCAL_DISK_SIZE'' = last_env (lmcache_env (rt_LMCacheConfig rt)) ''LMCACHE_MAX_LOCAL_DISK_SIZE''"
    "last_env (runtime_container_env rt) ''LMCACHE_REMOTE_URL'' = last_env (lmcache_env (rt_LMCacheConfig rt)) ''LMCACHE_REMOTE_URL''"
    "last_env (runtime_container_env rt) ''LMCACHE_REMOTE_SERDE'' = last_env (lmcache_env (rt_LMCacheConfig rt)) ''LMCACHE_REMOTE_SERDE''"
    by (simp_all add: lmcache_names_def)
  show ?thesis
    unfolding lmcache_differs_def own last_env_lmcache lmcache_expressible_def by auto
qed

text \<open>The controller takes its own deployment, read back, for up to date exactly if a resource is named and the cache
  configuration is expressible.\<close>

lemma runtime_needs_update_own:
  assumes built: "deploymentForVLLMRuntime env rt = Inr d" and served: "served_as d d'"
    and own: "\<forall>n \<in> set lmcache_names. n \<notin> fst ` set (vc_Env (rt_VLLMConfig rt))"
  shows "runtime_deploymentNeedsUpdate env d' rt =
    Inr (\<not> ((\<exists>(k, s) \<in> set (rt_entries rt). s \<noteq> []) \<and> lmcache_expressible (rt_LMCacheConfig rt)))"
proof -
  obtain r sidecars where r: "build_resources env (rt_entries rt) = Inr r" and
    d: "dp_Containers d = vllm_container rt r # sidecars" "dp_Replicas d = Some (rt_Replicas rt)"
    using built by (auto simp: deploymentForVLLMRuntime_def Let_def split: sum.splits)
  then obtain c' cs' where c': "dp_Containers d' = c' # cs'" "container_kept (vllm_container rt r) c'"
    "dp_Replicas d' = Some (rt_Replicas rt)"
    using served by (auto simp: served_as_def list_all2_Cons1)
  then have "co_Image c' = image_of (rt_Image rt)" "co_Args c' = runtime_args rt" "co_Env c' = runtime_container_env rt"
    "co_Ports c' = [(''http'', vc_Port (rt_VLLMConfig rt))]" "co_Resources c' = drop_empty r"
    by (simp_all add: container_kept_def vllm_container_def Let_def)
  moreover have "runtime_args rt = md_ModelURL (rt_Model rt) # tl (runtime_args rt)"
    by (simp add: runtime_args_def Let_def)
  ultimately show ?thesis
    using c' d built lmcache_differs_own [OF own] build_resources_drop_empty [OF r]
    by (auto simp: runtime_deploymentNeedsUpdate_def vllm_container_def Let_def split: list.splits)
qed

lemma serviceForVLLMRuntime_nn: "nn_of (sv_meta (serviceForVLLMRuntime env rt)) = rt_nn rt"
  by (simp add: serviceForVLLMRuntime_def rt_meta_def nn_of_def rt_nn_def)

lemma deploymentForVLLMRuntime_nn: "deploymentForVLLMRuntime env rt = Inr d \<Longrightarrow> nn_of (dp_meta d) = rt_nn rt"
  by (auto simp: deploymentForVLLMRuntime_def Let_def rt_meta_def nn_of_def rt_nn_def split: sum.splits)

lemma own_service_is_current: "serviceNeedsUpdate (serviceForVLLMRuntime env rt) rt = Inr False"
  by (simp add: serviceNeedsUpdate_def serviceForVLLMRuntime_def)

lemma runtime_pass_service:
  assumes "keeps_writes env view (rt_nn rt) rt" "last_service h (rt_nn rt) = None"
  shows "runtime_Reconcile env (rt_nn rt) h =
    (Create_Service (serviceForVLLMRuntime env rt) # Get_Service (rt_nn rt) # Get_CR (rt_nn rt) # h, Inr Requeue)"
  using assms by (simp add: runtime_Reconcile_def fetch_cr_def ensure_def write_and_requeue_apply keeps_writesD)

lemma runtime_pass_deployment:
  assumes "keeps_writes env view (rt_nn rt) rt" "last_service h (rt_nn rt) = Some (serviceForVLLMRuntime env rt)"
    "\<not> st_Enabled (rt_StorageConfig rt)"
  shows "runtime_Reconcile env (rt_nn rt) h =
    ensure (Get_Deployment (rt_nn rt)) (\<lambda>h. we_get_deployment env h (rt_nn rt))
      (deploymentForVLLMRuntime env rt) Create_Deployment (we_create_deployment env) (\<lambda>found.
    settle_deployment env (runtime_deploymentNeedsUpdate env found rt) (deploymentForVLLMRuntime env rt)
      (runtime_updateStatus env rt found)) (Get_Service (rt_nn rt) # Get_CR (rt_nn rt) # h)"
  using assms
  by (simp add: runtime_Reconcile_def fetch_cr_found keeps_writesD ensure_found own_service_is_current ensure_pvc_def)


text \<open>The volume claim is left alone only if the size in the resource is the text that the parsed quantity has.\<close>

lemma claim_update_iff_not_canonical:
  assumes "pvcForVLLMRuntime env rt = Inr p"
  shows "pvcNeedsUpdate env p rt \<longleftrightarrow> (\<exists>q. must_parse env (claim_size rt) = Inr q \<and> we_quantity_string env q \<noteq> claim_size rt)"
  using assms by (auto simp: pvcForVLLMRuntime_def pvcNeedsUpdate_def dget_def Let_def split: sum.splits)

section \<open>The sample resource\<close>

text \<open>\<^verbatim>\<open>config/samples/production-stack_v1alpha1_vllmruntime.yaml\<close>, without storage, for a given cache configuration.\<close>

definition sample_runtime :: "lmcache_config \<Rightarrow> vllm_runtime" where
  "sample_runtime lm =
     \<lparr>rt_Name = ''vllmruntime-sample'', rt_Namespace = ''default'', rt_Labels = [(''model'', ''Llama-3.1-8B-Instruct'')],
      rt_Model = \<lparr>md_ModelURL = ''meta-llama/Llama-3.1-8B-Instruct'', md_HFTokenSecret = ''huggingface-token'',
        md_HFTokenName = ''token'', md_EnableLoRA = True, md_EnableTool = False, md_ToolCallParser = [], md_MaxModelLen = 4096,
        md_DType = ''bfloat16'', md_MaxNumSeqs = 32\<rparr>,
      rt_VLLMConfig = \<lparr>vc_EnableChunkedPrefill = False, vc_EnablePrefixCaching = False, vc_TensorParallelSize = 1,
        vc_GpuMemoryUtilization = ''0.8'', vc_MaxLoras = 4, vc_ExtraArgs = [''--disable-log-requests''], vc_V1 = True, vc_Port = 8000,
        vc_Env = [(''HF_HOME'', ''/data'')]\<rparr>,
      rt_LMCacheConfig = lm,
      rt_StorageConfig = \<lparr>st_Enabled = False, st_StorageClassName = [], st_Size = ''10Gi'', st_AccessMode = ''ReadWriteMany'',
        st_MountPath = ''/data'', st_VolumeName = ''pvc-storage''\<rparr>,
      rt_Replicas = 2, rt_DeployStrategy = ''Recreate'',
      rt_Resources = \<lparr>rs_CPU = ''5'', rs_Memory = ''32Gi'', rs_GPU = ''1''\<rparr>,
      rt_Image = \<lparr>im_Registry = ''docker.io'', im_Name = ''lmcache/vllm-openai:2025-05-27-v1'', im_PullPolicy = ''IfNotPresent'',
        im_PullSecretName = []\<rparr>,
      rt_SidecarConfig = \<lparr>sc_Enabled = False, sc_Name = ''sidecar'',
        sc_Image = \<lparr>im_Registry = ''docker.io'', im_Name = ''lmcache/lmstack-sidecar:latest'', im_PullPolicy = ''Always'',
                   im_PullSecretName = []\<rparr>,
        sc_Command = [], sc_Args = [], sc_Env = [], sc_Resources = \<lparr>rs_CPU = ''0.5'', rs_Memory = ''128Mi'', rs_GPU = []\<rparr>,
        sc_MountPath = ''/data''\<rparr>,
      rt_ModelStatus = [], rt_LastUpdated = []\<rparr>"

definition sample_lmcache :: lmcache_config where
  "sample_lmcache =
     \<lparr>lm_Enabled = True, lm_CPUOffloadingBufferSize = ''15'', lm_DiskOffloadingBufferSize = ''0'',
      lm_RemoteURL = ''lm://cacheserver-sample.default.svc.cluster.local:80'', lm_RemoteSerde = ''naive''\<rparr>"

text \<open>The section with only \<^verbatim>\<open>enabled: false\<close>; the definition of the resource gives the sizes.\<close>

definition disabled_lmcache :: lmcache_config where
  "disabled_lmcache =
     \<lparr>lm_Enabled = False, lm_CPUOffloadingBufferSize = ''4Gi'', lm_DiskOffloadingBufferSize = ''8Gi'', lm_RemoteURL = [],
      lm_RemoteSerde = []\<rparr>"

lemma sample_runtime_builds: "\<exists>d. deploymentForVLLMRuntime (store_env (sample_runtime lm)) (sample_runtime lm) = Inr d"
  by (simp add: deploymentForVLLMRuntime_def Let_def sample_runtime_def build_resources_def must_parse_def store_env_def)


end
