(* ===== verification/Lora_Properties.thy ===== *)
theory Lora_Properties
  imports Lora_Controller Runtime_Controller
begin

text \<open>
  What the LoRA controller does: the placement it chooses and when it sees a difference; and where it fails: with zero
  replicas, without the right to update pods, on engines with another port, and without credentials for a download.
\<close>

section \<open>A sample cluster\<close>

text \<open>Pods with their addresses, one adapter resource, and engines that answer as told; used to instantiate the theorems.\<close>

definition engine_pod :: "string \<Rightarrow> string \<Rightarrow> bool \<Rightarrow> lora_pod" where
  "engine_pod name ip ready =
     \<lparr>pd_Name = name, pd_Namespace = ''ns'', pd_Labels = [(''model'', ''base'')], pd_Annotations = [], pd_PodIP = ip,
      pd_Conditions = [(''Ready'', if ready then ''True'' else ''False'')], pd_Containers = [[(''http'', 8000)]]\<rparr>"

definition sample_adapter :: "int \<Rightarrow> bool \<Rightarrow> lora_adapter" where
  "sample_adapter replicas deleted =
     \<lparr>lo_Name = ''sql'', lo_Namespace = ''ns'', lo_Finalizers = [loraAdapterFinalizer], lo_Deleted = deleted, lo_Generation = 1,
      lo_Spec =
        \<lparr>ls_AdapterSource =
           \<lparr>as_AdapterName = ''sql'', as_AdapterPath = ''/adapters/sql'', as_CredentialsSecretRef = None, as_MaxAdapters = 0,
            as_Pattern = [], as_Repository = None, as_Type = ''local''\<rparr>,
         ls_BaseModel = ''base'', ls_Algorithm = ''default'', ls_Replicas = Some replicas, ls_VLLMApiKey = None\<rparr>,
      lo_Conditions = [], lo_LoadedAdapters = [], lo_Message = [], lo_Phase = [], lo_ObservedGeneration = 0\<rparr>"

definition lora_sample_env ::
  "lora_pod list \<Rightarrow> lora_adapter \<Rightarrow> kube_error option \<Rightarrow> (lcall list \<Rightarrow> pod_request \<Rightarrow> http_reply) \<Rightarrow> lora_env" where
  "lora_sample_env pods ad refusal http =
     \<lparr>le_get_adapter = (\<lambda>h nn. if nn = lo_nn ad then Inr ad else Inl Not_found),
      le_list_adapters = (\<lambda>h. Inr [ad]),
      le_update_adapter = (\<lambda>h x. Inr x),
      le_update_adapter_status = (\<lambda>h x. Inr x),
      le_get_pod = (\<lambda>h nn. case find (\<lambda>p. pd_nn p = nn) pods of None \<Rightarrow> Inl Not_found | Some p \<Rightarrow> Inr p),
      le_list_pods = (\<lambda>h s. Inr (filter (\<lambda>p. case s of Model_is m \<Rightarrow> map_of (pd_Labels p) ''model'' = Some m
                                            | Has_model \<Rightarrow> map_of (pd_Labels p) ''model'' \<noteq> None) pods)),
      le_update_pod = (\<lambda>h p. refusal),
      le_get_secret = (\<lambda>h nn. Inl Not_found),
      le_http = http,
      le_now = (\<lambda>h. ''now''),
      le_parse = (\<lambda>s. Some (JObj [(''data'', JList (map (\<lambda>c. JObj [(''id'', JStr ''sql''), (''parent'', JStr ''base'')]) s))])),
      le_url_ok = (\<lambda>url. True),
      le_sort = sort_key pd_Name,
      le_range = (\<lambda>h m. m),
      le_contains_finalizer = (\<lambda>fs f. f \<in> set fs),
      le_add_finalizer = (\<lambda>fs f. fs @ [f]),
      le_remove_finalizer = (\<lambda>fs f. removeAll f fs)\<rparr>"

section \<open>The placement\<close>

text \<open>\<^verbatim>\<open>sort.Slice\<close> by name: a sorted rearrangement, pods of equal names in any order. Ranging over a map visits each entry once.\<close>

definition sorts_by_name :: "lora_env \<Rightarrow> bool" where
  "sorts_by_name env \<longleftrightarrow> (\<forall>ps. mset (le_sort env ps) = mset ps \<and> sorted (map pd_Name (le_sort env ps)))"

definition ranges_over_maps :: "lora_env \<Rightarrow> bool" where
  "ranges_over_maps env \<longleftrightarrow> (\<forall>h m. mset (le_range env h m) = mset m)"

definition wanted :: "int option \<Rightarrow> nat \<Rightarrow> nat" where
  "wanted replicas n = (case replicas of None \<Rightarrow> n | Some r \<Rightarrow> if 0 \<le> r then min (nat r) n else n)"

lemma must_apply: "must c answer h = (c # h, case answer h of Inl e \<Rightarrow> Inl (Kube e) | Inr x \<Rightarrow> Inr x)"
  by (simp add: must_def split: sum.splits)

lemma bind_must: "answer h = Inr x \<Longrightarrow> bindI (must c answer) k h = k x (c # h)"
  by (simp add: bindI_def must_apply)

lemma bind_wrap_must: "answer h = Inr x \<Longrightarrow> bindI (wrapI msg (must c answer)) k h = k x (c # h)"
  by (simp add: bindI_def wrapI_def must_apply)

lemma getOptimalPlacement_pods:
  assumes "le_list_pods env h (Model_is (ls_BaseModel (lo_Spec ad))) = Inr pods"
  shows "getOptimalPlacement env ad h =
    (List_Pods (Model_is (ls_BaseModel (lo_Spec ad))) # h,
     Inr (if filter lora_pod_ready pods = [] then []
          else map pd_nn (take (wanted (ls_Replicas (lo_Spec ad)) (length (le_sort env (filter lora_pod_ready pods))))
                            (le_sort env (filter lora_pod_ready pods)))))"
  by (simp add: getOptimalPlacement_def Let_def bind_wrap_must assms wanted_def split: option.splits)

lemma sorted_take_drop:
  assumes "sorted (map f xs)" "x \<in> set (take n xs)" "y \<in> set (drop n xs)"
  shows "f x \<le> f y"
  using assms(1) assms(2,3) sorted_append [of "map f (take n xs)" "map f (drop n xs)"]
  by (auto simp flip: map_append)


lemma lora_sample_env_sorts: "sorts_by_name (lora_sample_env pods ad refusal http)" "ranges_over_maps (lora_sample_env pods ad refusal http)"
  by (simp_all add: sorts_by_name_def ranges_over_maps_def lora_sample_env_def)


section \<open>Comparing the states\<close>

lemma placement_key_inj:
  assumes "CHR ''/'' \<notin> set (fst a)" "CHR ''/'' \<notin> set (fst b)" "placement_key a = placement_key b"
  shows "a = b"
proof -
  have "takeWhile (\<lambda>c. c \<noteq> CHR ''/'') (placement_key a) = fst a" "takeWhile (\<lambda>c. c \<noteq> CHR ''/'') (placement_key b) = fst b"
    using assms(1,2) by (simp_all add: placement_key_def takeWhile_append2 takeWhile_tail) (metis+)
  then have "fst a = fst b"
    using assms(3) by simp
  then show ?thesis
    using assms(3) by (simp add: placement_key_def prod_eq_iff)
qed

text \<open>With at most one registration per pod, a difference is seen exactly if the pods that have the adapter are not those
  that should have it.\<close>

theorem compare_states_exact:
  assumes "distinct (map reg_nn current)" "distinct desired"
    and "\<forall>nn \<in> set (map reg_nn current) \<union> set desired. CHR ''/'' \<notin> set (fst nn)"
  shows "compareStates current desired \<longleftrightarrow> set (map reg_nn current) \<noteq> set desired"
proof -
  have mem: "placement_key (reg_nn reg) \<in> placement_key ` set desired \<longleftrightarrow> reg_nn reg \<in> set desired" if "reg \<in> set current" for reg
  proof
    assume "placement_key (reg_nn reg) \<in> placement_key ` set desired"
    then obtain d where "d \<in> set desired" "placement_key (reg_nn reg) = placement_key d"
      by blast
    then show "reg_nn reg \<in> set desired"
      using placement_key_inj [of "reg_nn reg" d] assms(3) that by auto
  qed simp
  then have "compareStates current desired \<longleftrightarrow>
      length current \<noteq> length desired \<or> \<not> set (map reg_nn current) \<subseteq> set desired"
    by (auto simp: compareStates_def list_ex_iff)
  moreover have "length current = card (set (map reg_nn current))" "length desired = card (set desired)"
    using assms(1,2) distinct_card by fastforce+
  ultimately show ?thesis
    by (metis List.finite_set card_subset_eq order_refl)
qed

section \<open>Zero replicas\<close>

text \<open>Calls that ask an engine to load or unload something.\<close>

fun is_post :: "lcall \<Rightarrow> bool" where
  "is_post (Http r) = (hr_Method r = ''POST'')"
| "is_post _ = False"

abbreviation quiet :: "lcall \<Rightarrow> bool" where
  "quiet c \<equiv> \<not> is_post c"

lemma makes_only_must [io_intros]: "P c \<Longrightarrow> makes_only P (must c answer)"
  unfolding must_def by (intro io_intros)

lemma makes_only_attemptI [io_intros]: "makes_only P m \<Longrightarrow> makes_only P (attemptI m)"
proof -
  have "fst (attemptI m h) = fst (m h)" for h
    by (auto simp: attemptI_def split: prod.splits sum.splits go_error.splits)
  then show "makes_only P m \<Longrightarrow> makes_only P (attemptI m)"
    by (simp add: makes_only_def)
qed

lemma makes_only_prod [io_intros]: "(\<And>a b. x = (a, b) \<Longrightarrow> makes_only P (f a b)) \<Longrightarrow> makes_only P (case x of (a, b) \<Rightarrow> f a b)"
  by (cases x) simp

lemma makes_only_reply [io_intros]:
  "(\<And>e. makes_only P (f e)) \<Longrightarrow> (\<And>e. makes_only P (g e)) \<Longrightarrow> (\<And>s b. makes_only P (k s b)) \<Longrightarrow>
   makes_only P (case r of Send_failed e \<Rightarrow> f e | Read_failed e \<Rightarrow> g e | Response s b \<Rightarrow> k s b)"
  by (simp split: http_reply.splits)

lemma quiet_getPodEndpoint [io_intros]: "makes_only quiet (getPodEndpoint env nn path port)"
  unfolding getPodEndpoint_def by (intro io_intros) simp

lemma quiet_getVLLMApiKey [io_intros]: "makes_only quiet (getVLLMApiKey env ad)"
  unfolding getVLLMApiKey_def by (intro io_intros) simp

lemma quiet_sendRequest [io_intros]: "meth \<noteq> ''POST'' \<Longrightarrow> makes_only quiet (sendRequest env meth endpoint payload ad)"
  unfolding sendRequest_def Let_def by (intro io_intros) simp

lemma quiet_registrations [io_intros]: "makes_only quiet (getAdapterRegistrations env ad)"
  unfolding getAdapterRegistrations_def pod_registrations_def by (intro io_intros) simp_all

lemma quiet_getOptimalPlacement [io_intros]: "makes_only quiet (getOptimalPlacement env ad)"
  unfolding getOptimalPlacement_def Let_def by (intro io_intros) simp

text \<open>The stored resource, as a read or the answer to a status update gives it, keeps its name and has no replicas.\<close>

definition stays_at_zero :: "lora_env \<Rightarrow> nn \<Rightarrow> bool" where
  "stays_at_zero env req \<longleftrightarrow>
     (\<forall>h ad. le_get_adapter env h req = Inr ad \<longrightarrow> lo_nn ad = req \<and> \<not> lo_Deleted ad \<and> ls_Replicas (lo_Spec ad) = Some 0) \<and>
     (\<forall>h x ad. le_update_adapter_status env h x = Inr ad \<longrightarrow> lo_nn ad = lo_nn x \<and> lo_Spec ad = lo_Spec x)"

lemma status_rounds_zero:
  assumes "stays_at_zero env req" "\<And>now ad new. change now ad = Some new \<Longrightarrow> lo_nn new = lo_nn ad \<and> lo_Spec new = lo_Spec ad"
  shows "yields quiet (\<lambda>ad. lo_nn ad = req \<and> ls_Replicas (lo_Spec ad) = Some 0) (status_rounds env req what change n retries)"
    (is "yields quiet ?Q _")
proof (induction n arbitrary: retries)
  case (Suc n)
  have get: "yields quiet ?Q (wrapI msg (must (Get_Adapter req) (\<lambda>h. le_get_adapter env h req)))" for msg
    using assms(1) by (auto simp: yields_def must_apply stays_at_zero_def intro!: io_intros split: sum.splits)
  have pause: "yields quiet (\<lambda>_. True) (ask (Sleep k) (\<lambda>_. ()))" for k
    by (rule yields_ask) simp_all
  have put: "yields quiet ?Q (bindI (ask (Update_Adapter_Status new) (\<lambda>h. le_update_adapter_status env h new)) (\<lambda>r. case r of
       Inr stored \<Rightarrow> returnI stored
     | Inl Conflict \<Rightarrow> bindI (ask (Sleep (retries + 1)) (\<lambda>_. ())) (\<lambda>_. status_rounds env req what change n (retries + 1))
     | Inl e \<Rightarrow> throwI (Wrapped what (Kube e))))" if "?Q new" for new
  proof (rule yields_bindI [where Q = "\<lambda>r. \<forall>ad. r = Inr ad \<longrightarrow> ?Q ad"])
    show "yields quiet (\<lambda>r. \<forall>ad. r = Inr ad \<longrightarrow> ?Q ad) (ask (Update_Adapter_Status new) (\<lambda>h. le_update_adapter_status env h new))"
      using assms(1) that by (intro yields_ask) (auto simp: stays_at_zero_def)
  qed (auto intro: yields_returnI yields_throwI yields_bindI [OF pause] Suc.IH split: sum.splits kube_error.splits)
  have step: "yields quiet ?Q (case change now latest of None \<Rightarrow> returnI latest | Some new \<Rightarrow>
      bindI (ask (Update_Adapter_Status new) (\<lambda>h. le_update_adapter_status env h new)) (\<lambda>r. case r of
        Inr stored \<Rightarrow> returnI stored
      | Inl Conflict \<Rightarrow> bindI (ask (Sleep (retries + 1)) (\<lambda>_. ())) (\<lambda>_. status_rounds env req what change n (retries + 1))
      | Inl e \<Rightarrow> throwI (Wrapped what (Kube e))))" if "?Q latest" for now latest
  proof (cases "change now latest")
    case (Some new)
    then show ?thesis
      using put [of new] assms(2) [OF Some] that by simp
  qed (use that in \<open>simp add: yields_returnI\<close>)
  show ?case
    unfolding status_rounds.simps
    by (rule yields_bindI [OF get], rule yields_bindI [OF yields_only [OF makes_only_look]], rule step)
qed (simp add: yields_throwI)

text \<open>C34: A resource that is scaled to zero replicas is never unloaded anywhere: no pass sends a POST request, as unloading does.\<close>

theorem zero_replicas_never_unloads:
  assumes "stays_at_zero env req"
  shows "\<exists>cs. fst (lora_Reconcile env req h) = cs @ h \<and> list_all quiet cs"
proof -
  let ?Q = "\<lambda>ad. lo_nn ad = req \<and> ls_Replicas (lo_Spec ad) = Some 0"
  have status: "yields quiet ?Q (updateStatusWithRegistrations env ad regs)" if "lo_nn ad = req" for ad regs
    unfolding updateStatusWithRegistrations_def that
    by (rule status_rounds_zero [OF assms]) (auto simp: with_registrations_def lo_nn_def)
  have waiting: "makes_only quiet (updateStatusWithWaitingState env ad msg)" if "lo_nn ad = req" for ad msg
    unfolding updateStatusWithWaitingState_def that
    by (rule yields_makes_only, rule status_rounds_zero [OF assms]) (auto simp: with_waiting_def lo_nn_def split: if_splits)
  have placement: "yields quiet (\<lambda>ps. ps = []) (getOptimalPlacement env ad)" if "?Q ad" for ad
    unfolding yields_def getOptimalPlacement_def Let_def using that
    by (auto intro!: io_intros simp: must_apply elim!: bindI_okE split: sum.splits if_splits)
  have live: "makes_only quiet (reconcile_live env ad)" if "lo_nn ad = req" for ad
    unfolding reconcile_live_def
    by (rule yields_makes_only [where Q = "\<lambda>_. True"], rule yields_bindI [OF yields_only [OF quiet_registrations]],
        rule yields_bindI [OF status [OF that]], rule yields_bindI [OF placement])
      (auto intro!: yields_only io_intros waiting)
  have "makes_only quiet (lora_Reconcile env req)"
    unfolding lora_Reconcile_def
  proof (rule makes_only_ask_bind)
    fix h
    show "makes_only quiet (case le_get_adapter env h req of
        Inl Not_found \<Rightarrow> returnI Done | Inl e \<Rightarrow> throwI (Kube e)
      | Inr ad \<Rightarrow>
          if lo_Deleted ad then bindI (handleDeletion env ad) (\<lambda>_. returnI Done)
          else if \<not> le_contains_finalizer env (lo_Finalizers ad) loraAdapterFinalizer then
            (let ad' = ad\<lparr>lo_Finalizers := le_add_finalizer env (lo_Finalizers ad) loraAdapterFinalizer\<rparr>
             in bindI (must (Update_Adapter ad') (\<lambda>h. le_update_adapter env h ad')) (\<lambda>_. returnI Requeue))
          else reconcile_live env ad)"
      using assms live unfolding stays_at_zero_def
      by (cases "le_get_adapter env h req") (auto intro!: io_intros simp: Let_def)
  qed simp
  then show ?thesis
    by (auto simp: makes_only_def)
qed

theorem zero_replicas_never_unloads_witness:
  "\<exists>cs. fst (lora_Reconcile
      (lora_sample_env [engine_pod ''a'' ''10.0.0.1'' True] (sample_adapter 0 False) None (\<lambda>h r. Response 200 ''1''))
      (lo_nn (sample_adapter 0 False)) []) = cs @ [] \<and> list_all quiet cs"
proof -
  have "stays_at_zero (lora_sample_env [engine_pod ''a'' ''10.0.0.1'' True] (sample_adapter 0 False) None (\<lambda>h r. Response 200 ''1''))
      (lo_nn (sample_adapter 0 False))"
    by (auto simp: stays_at_zero_def lora_sample_env_def sample_adapter_def split: if_splits)
  then show ?thesis
    by (rule zero_replicas_never_unloads)
qed

section \<open>No right to update pods\<close>

text \<open>After a load or an unload the controller updates the pod, which the role of the operator does not allow
  (\<^verbatim>\<open>config/rbac/role.yaml\<close>); the error ends the pass.\<close>

lemma trigger_refused:
  assumes "\<And>h x. le_update_pod env h x \<noteq> None"
  shows "triggerPodEvent env nn h \<noteq> (h', Inr x)"
proof (cases "le_get_pod env h nn")
  case (Inr pod)
  define pod' where "pod' = pod\<lparr>pd_Annotations := AList.update ''lora-modified'' (le_now env (Get_Pod nn # h)) (pd_Annotations pod)\<rparr>"
  obtain e where "le_update_pod env (Get_Pod nn # h) pod' = Some e"
    using assms by blast
  then show ?thesis
    using Inr by (simp add: triggerPodEvent_def bind_must Let_def flip: pod'_def)
qed (simp add: triggerPodEvent_def bindI_def must_apply)

lemma load_refused:
  assumes "\<And>h x. le_update_pod env h x \<noteq> None"
  shows "loadAdapter env nn path ad h \<noteq> (h', Inr x)" "unloadAdapter env nn ad h \<noteq> (h', Inr x)"
  by (auto simp: loadAdapter_def unloadAdapter_def trigger_refused [OF assms] simp del: split_paired_All elim!: bindI_okE)

lemma load_missing_refused:
  assumes "\<And>h x. le_update_pod env h x \<noteq> None" "forI (load_missing env m) ps ad h = (h', Inr ad')"
  shows "\<forall>p \<in> set ps. map_of m (placement_key p) \<noteq> None"
  using assms(2)
  by (induction ps arbitrary: ad h)
    (fastforce simp: load_missing_def load_refused [OF assms(1)] elim!: bindI_okE split: if_splits)+

lemma unload_refused:
  assumes "\<And>h x. le_update_pod env h x \<noteq> None" "forI (unload_undesired env desired) es ad h = (h', Inr ad')"
  shows "\<forall>(k, r) \<in> set es. k \<in> set (map placement_key desired)"
  using assms(2)
  by (induction es arbitrary: ad h)
    (fastforce simp: unload_undesired_def load_refused [OF assms(1)] elim!: bindI_okE split: if_splits prod.splits)+

lemma key_inj_on: "\<forall>nn \<in> N. CHR ''/'' \<notin> set (fst nn) \<Longrightarrow> inj_on placement_key N"
  by (rule inj_onI, rule placement_key_inj) simp_all

lemma update_fresh: "k \<notin> fst ` set m \<Longrightarrow> AList.update k v m = m @ [(k, v)]"
  by (induction m) auto

lemma current_map_eq:
  assumes "distinct (map reg_nn current)" "\<forall>nn \<in> set (map reg_nn current). CHR ''/'' \<notin> set (fst nn)"
    "\<forall>reg \<in> set current. ld_Name reg = adapter_name ad"
  shows "current_map ad current = map (\<lambda>reg. (placement_key (reg_nn reg), reg)) current"
  using assms
proof (induction current rule: rev_induct)
  case (snoc reg current)
  have "inj_on placement_key (reg_nn ` set (current @ [reg]))"
    using snoc.prems(2) by (intro key_inj_on) simp
  then have "placement_key (reg_nn reg) \<notin> placement_key ` reg_nn ` set current"
    using snoc.prems(1) by (simp add: inj_on_insert)
  moreover have "current_map ad current = map (\<lambda>reg. (placement_key (reg_nn reg), reg)) current"
    using snoc by simp
  ultimately show ?case
    using snoc.prems(3) by (simp add: current_map_def update_fresh image_image)
qed (simp add: current_map_def)

text \<open>C35: where pods may not be updated, bringing pods that differ from the placement to it fails.\<close>

theorem refused_pod_updates_fail:
  assumes refused: "\<And>h x. le_update_pod env h x \<noteq> None" and order: "ranges_over_maps env"
    and distinct: "distinct (map reg_nn current)" "distinct desired"
    and names: "\<forall>nn \<in> set (map reg_nn current) \<union> set desired. CHR ''/'' \<notin> set (fst nn)"
      "\<forall>reg \<in> set current. ld_Name reg = adapter_name ad"
    and differ: "compareStates current desired"
  shows "\<exists>e. snd (reconcileToDesiredState env ad current desired h) = Inl e"
proof (rule ccontr)
  assume "\<not> ?thesis"
  then obtain h' ad' where ok: "reconcileToDesiredState env ad current desired h = (h', Inr ad')"
    by (metis old.sum.exhaust prod.collapse)
  let ?m = "current_map ad current"
  have m: "?m = map (\<lambda>reg. (placement_key (reg_nn reg), reg)) current"
    using current_map_eq distinct(1) names by simp
  obtain h1 ad1 where loads: "forI (load_missing env ?m) desired ad h = (h1, Inr ad1)"
    and unloads: "forI (unload_undesired env desired) (le_range env h1 ?m) ad1 h1 = (h', Inr ad')"
    using ok by (auto simp: reconcileToDesiredState_def Let_def look_def elim!: bindI_okE)
  have inj: "inj_on placement_key (set (map reg_nn current) \<union> set desired)"
    using names(1) by (rule key_inj_on)
  have "placement_key ` set desired \<subseteq> placement_key ` set (map reg_nn current)"
    using load_missing_refused [OF refused loads] unfolding m map_of_eq_None_iff by auto
  moreover have "set (le_range env h1 ?m) = set ?m"
    using order mset_eq_setD unfolding ranges_over_maps_def by blast
  then have "placement_key ` set (map reg_nn current) \<subseteq> placement_key ` set desired"
    using unload_refused [OF refused unloads] unfolding m by auto
  ultimately have "placement_key ` set (map reg_nn current) = placement_key ` set desired"
    by (rule subset_antisym [rotated])
  then have "set (map reg_nn current) = set desired"
    using inj_on_image_eq_iff [OF inj, of "set (map reg_nn current)" "set desired"] by simp
  then show False
    using differ compare_states_exact [OF distinct names(1)] by simp
qed

theorem refused_pod_updates_fail_witness:
  "\<exists>e. snd (reconcileToDesiredState
      (lora_sample_env [engine_pod ''a'' ''10.0.0.1'' True] (sample_adapter 1 False) (Some (Refused ''forbidden'')) (\<lambda>h r. Response 200 []))
      (sample_adapter 1 False) [] [(''ns'', ''a'')] []) = Inl e"
  by (rule refused_pod_updates_fail [OF _ lora_sample_env_sorts(2)]) (simp_all add: lora_sample_env_def compareStates_def)

section \<open>The port of the engines\<close>

text \<open>C37: the pods of a runtime, whose containers are those of its deployment, are asked on port 8000 whatever port the
  runtime has: the controller looks for a port of another name than the runtime gives its port.\<close>

theorem runtime_pods_are_asked_on_8000:
  assumes "deploymentForVLLMRuntime env rt = Inr d" "pd_Containers pod = map co_Ports (dp_Containers d)"
  shows "container_port_of pod = 8000"
proof -
  obtain c sidecars where "dp_Containers d = c # sidecars" "co_Ports c = [(''http'', vc_Port (rt_VLLMConfig rt))]"
    "\<forall>s \<in> set sidecars. co_Ports s = []"
    using assms(1)
    by (auto simp: deploymentForVLLMRuntime_def buildSidecarContainer_def vllm_container_def Let_def split: sum.splits if_splits)
  moreover have "foldl (\<lambda>port ports. case find (\<lambda>(n, p). n = ''container-port'') ports of None \<Rightarrow> port | Some (n, p) \<Rightarrow> p) k
      (map co_Ports sidecars) = k" if "\<forall>s \<in> set sidecars. co_Ports s = []" for k
    using that by (induction sidecars) auto
  ultimately show ?thesis
    using assms(2) by (simp add: container_port_of_def)
qed

definition runtime_on_9000 :: vllm_runtime where
  "runtime_on_9000 =
     (sample_runtime sample_lmcache)\<lparr>rt_VLLMConfig := (rt_VLLMConfig (sample_runtime sample_lmcache))\<lparr>vc_Port := 9000\<rparr>\<rparr>"

theorem runtime_pods_are_asked_on_8000_witness:
  "\<exists>d. deploymentForVLLMRuntime (store_env runtime_on_9000) runtime_on_9000 = Inr d \<and> vc_Port (rt_VLLMConfig runtime_on_9000) = 9000 \<and>
     container_port_of ((engine_pod ''a'' ''10.0.0.1'' True)\<lparr>pd_Containers := map co_Ports (dp_Containers d)\<rparr>) = 8000"
proof -
  have "\<exists>d. deploymentForVLLMRuntime (store_env runtime_on_9000) runtime_on_9000 = Inr d"
    by (simp add: deploymentForVLLMRuntime_def Let_def runtime_on_9000_def sample_runtime_def build_resources_def must_parse_def
        store_env_def)
  then obtain d where d: "deploymentForVLLMRuntime (store_env runtime_on_9000) runtime_on_9000 = Inr d"
    by blast
  have "container_port_of ((engine_pod ''a'' ''10.0.0.1'' True)\<lparr>pd_Containers := map co_Ports (dp_Containers d)\<rparr>) = 8000"
    by (rule runtime_pods_are_asked_on_8000 [OF d]) simp
  then show ?thesis
    using d by (simp add: runtime_on_9000_def)
qed

text \<open>A download without a reference to credentials, which the resource may leave out, panics.\<close>

lemma download_without_credentials_panics:
  assumes "as_Type (ls_AdapterSource (lo_Spec ad)) = ''huggingface''" "as_AdapterPath (ls_AdapterSource (lo_Spec ad)) = []"
    "as_Repository (ls_AdapterSource (lo_Spec ad)) = Some repository" "repository \<noteq> []"
    "as_CredentialsSecretRef (ls_AdapterSource (lo_Spec ad)) = None"
  shows "discoverAdapter env ad nn h = (h, Inl (Panicked ''nil pointer dereference''))"
  using assms by (simp add: discoverAdapter_def downloadHuggingFaceAdapter_def Let_def)

end
