(* ===== verification/Lora_Convergence.thy ===== *)
theory Lora_Convergence
  imports Lora_Properties
begin

text \<open>
  One pass of the LoRA controller on a cluster of working engines. Which engines have the adapter is read off the history of
  calls: an engine has it from the first request to load it to the next one to unload it. A pass makes the ready
  pods that have the adapter those of the placement, a further pass asks no engine to change anything, and a
  deletion unloads it from every ready pod before the finalizer is removed.
\<close>

section \<open>Working engines\<close>

definition pod_base :: "lora_pod \<Rightarrow> string" where
  "pod_base p = ''http://'' @ pd_PodIP p @ '':'' @ show_int (container_port_of p)"

definition names_adapter :: "string \<Rightarrow> pod_request \<Rightarrow> bool" where
  "names_adapter name r =
     (case hr_Payload r of None \<Rightarrow> False | Some payload \<Rightarrow> hr_Method r = ''POST'' \<and> map_of payload ''lora_name'' = Some name)"

fun loaded_at :: "string \<Rightarrow> (string \<Rightarrow> bool) \<Rightarrow> lcall list \<Rightarrow> string \<Rightarrow> bool" where
  "loaded_at name init [] base = init base"
| "loaded_at name init (Http r # h) base =
     (if names_adapter name r \<and> hr_URL r = base @ ''/v1/load_lora_adapter'' then True
      else if names_adapter name r \<and> hr_URL r = base @ ''/v1/unload_lora_adapter'' then False
      else loaded_at name init h base)"
| "loaded_at name init (_ # h) base = loaded_at name init h base"

text \<open>An engine lists the adapter, once and with a parent, exactly while it has it; it accepts a request to load it
  while it does not have it, and one to unload it while it does.\<close>

definition engine_works :: "lora_env \<Rightarrow> string \<Rightarrow> (string \<Rightarrow> bool) \<Rightarrow> lora_pod \<Rightarrow> bool" where
  "engine_works env name init p \<longleftrightarrow>
     (\<forall>h key. \<exists>body models.
        le_http env h \<lparr>hr_Method = ''GET'', hr_URL = pod_base p @ ''/v1/models'', hr_Payload = None, hr_Authorization = key\<rparr> =
          Response 200 body \<and>
        Option.bind (le_parse env body) decode_model_list = Some models \<and>
        length (filter (\<lambda>m. me_Parent m \<noteq> None \<and> me_ID m = name) models) = (if loaded_at name init h (pod_base p) then 1 else 0)) \<and>
     (\<forall>h key path. \<not> loaded_at name init h (pod_base p) \<longrightarrow> (\<exists>body.
        le_http env h \<lparr>hr_Method = ''POST'', hr_URL = pod_base p @ ''/v1/load_lora_adapter'',
          hr_Payload = Some [(''lora_name'', name), (''lora_path'', path)], hr_Authorization = key\<rparr> = Response 200 body)) \<and>
     (\<forall>h key. loaded_at name init h (pod_base p) \<longrightarrow> (\<exists>body.
        le_http env h \<lparr>hr_Method = ''POST'', hr_URL = pod_base p @ ''/v1/unload_lora_adapter'',
          hr_Payload = Some [(''lora_name'', name)], hr_Authorization = key\<rparr> = Response 200 body))"

definition key_available :: "lora_env \<Rightarrow> lora_adapter \<Rightarrow> bool" where
  "key_available env ad \<longleftrightarrow>
     (case ls_VLLMApiKey (lo_Spec ad) of
        None \<Rightarrow> True
      | Some (secret, key) \<Rightarrow> \<forall>h. \<exists>data v. le_get_secret env h (lo_Namespace ad, secret) = Inr data \<and> map_of data key = Some v)"

definition serves :: "string \<Rightarrow> lora_pod \<Rightarrow> bool" where
  "serves model p \<longleftrightarrow> map_of (pd_Labels p) ''model'' = Some model"

text \<open>The pods \<open>P\<close> with a model label stay, with distinct names and addresses, and may be updated.\<close>

definition cluster_works :: "lora_env \<Rightarrow> lora_pod list \<Rightarrow> (string \<Rightarrow> bool) \<Rightarrow> lora_adapter \<Rightarrow> bool" where
  "cluster_works env P init ad \<longleftrightarrow>
     (\<forall>h. le_list_pods env h Has_model = Inr P) \<and>
     (\<forall>h. le_list_pods env h (Model_is (ls_BaseModel (lo_Spec ad))) = Inr (filter (serves (ls_BaseModel (lo_Spec ad))) P)) \<and>
     (\<forall>h. \<forall>p \<in> set P. \<exists>p'. le_get_pod env h (pd_nn p) = Inr p' \<and> pd_PodIP p' = pd_PodIP p \<and> pd_Containers p' = pd_Containers p) \<and>
     (\<forall>h x. le_update_pod env h x = None) \<and>
     (\<forall>p \<in> set P. pd_PodIP p \<noteq> [] \<and> CHR ''/'' \<notin> set (pd_Namespace p) \<and> (\<forall>path. le_url_ok env (pod_base p @ path)) \<and>
        engine_works env (adapter_name ad) init p) \<and>
     distinct (map pd_nn P) \<and> distinct (map pod_base P) \<and> key_available env ad \<and> sorts_by_name env \<and> ranges_over_maps env"

text \<open>The resource keeps its name, specification and finalizers; status updates are accepted.\<close>

definition same_resource :: "lora_adapter \<Rightarrow> lora_adapter \<Rightarrow> bool" where
  "same_resource a b \<longleftrightarrow> lo_nn a = lo_nn b \<and> lo_Spec a = lo_Spec b \<and> lo_Deleted a = lo_Deleted b \<and> lo_Finalizers a = lo_Finalizers b"

definition resource_stays :: "lora_env \<Rightarrow> lora_adapter \<Rightarrow> bool" where
  "resource_stays env ad \<longleftrightarrow>
     (\<forall>h. \<exists>ad'. le_get_adapter env h (lo_nn ad) = Inr ad' \<and> same_resource ad ad') \<and>
     (\<forall>h x. same_resource ad x \<longrightarrow> (\<exists>x'. le_update_adapter_status env h x = Inr x' \<and> same_resource x x'))"

section \<open>Steps\<close>

lemma loaded_at_quiet: "list_all quiet cs \<Longrightarrow> loaded_at name init (cs @ h) base = loaded_at name init h base"
proof (induction cs)
  case (Cons c cs)
  then show ?case
    by (cases c) (auto simp: names_adapter_def split: option.splits)
qed simp

lemma load_unload_urls: "a @ ''/v1/load_lora_adapter'' \<noteq> b @ ''/v1/unload_lora_adapter''"
proof
  assume "a @ ''/v1/load_lora_adapter'' = b @ ''/v1/unload_lora_adapter''"
  then have "rev (a @ ''/v1/load_lora_adapter'') = rev (b @ ''/v1/unload_lora_adapter'')"
    by simp
  then show False
    by simp
qed

lemma same_resource_trans: "same_resource a b \<Longrightarrow> same_resource b c \<Longrightarrow> same_resource a c"
  by (simp add: same_resource_def)

lemma key_available_same: "same_resource a b \<Longrightarrow> key_available env a \<longleftrightarrow> key_available env b"
  by (simp add: key_available_def same_resource_def lo_nn_def split: option.splits)

lemma cluster_works_same: "cluster_works env P init a \<Longrightarrow> same_resource a b \<Longrightarrow> cluster_works env P init b"
  using key_available_same [of a b env] by (simp add: cluster_works_def same_resource_def)

lemma resource_stays_same: "resource_stays env a \<Longrightarrow> same_resource a b \<Longrightarrow> resource_stays env b"
  by (auto simp: resource_stays_def same_resource_def)

lemma endpoint_ok:
  assumes "cluster_works env P init ad" "p \<in> set P"
  shows "getPodEndpoint env (pd_nn p) path None h = (Get_Pod (pd_nn p) # h, Inr (pod_base p @ path))"
proof -
  obtain p' where "le_get_pod env h (pd_nn p) = Inr p'" "pd_PodIP p' = pd_PodIP p" "pd_Containers p' = pd_Containers p"
    using assms unfolding cluster_works_def by blast
  moreover have "pd_PodIP p \<noteq> []"
    using assms by (simp add: cluster_works_def)
  ultimately show ?thesis
    by (simp add: getPodEndpoint_def bind_wrap_must pod_base_def container_port_of_def)
qed

lemma api_key_ok:
  assumes "key_available env ad"
  shows "\<exists>ks key. getVLLMApiKey env ad h = (ks @ h, Inr key) \<and> list_all quiet ks"
proof (cases "ls_VLLMApiKey (lo_Spec ad)")
  case (Some sk)
  obtain secret key where sk: "sk = (secret, key)"
    by fastforce
  obtain data v where "le_get_secret env h (lo_Namespace ad, secret) = Inr data" "map_of data key = Some v"
    using assms Some sk unfolding key_available_def by fastforce
  then show ?thesis
    using Some sk by (cases "secret \<noteq> [] \<and> key \<noteq> []") (auto simp: getVLLMApiKey_def bind_wrap_must)
qed (simp add: getVLLMApiKey_def)

lemma send_ok:
  assumes "key_available env ad" "le_url_ok env url"
    and "\<And>ks key. list_all quiet ks \<Longrightarrow> \<exists>body.
      le_http env (ks @ h) \<lparr>hr_Method = meth, hr_URL = url, hr_Payload = payload, hr_Authorization = key\<rparr> = Response 200 body"
  shows "\<exists>ks key body. sendRequest env meth url payload ad h =
      (Http \<lparr>hr_Method = meth, hr_URL = url, hr_Payload = payload, hr_Authorization = key\<rparr> # ks @ h, Inr body) \<and> list_all quiet ks \<and>
      le_http env (ks @ h) \<lparr>hr_Method = meth, hr_URL = url, hr_Payload = payload, hr_Authorization = key\<rparr> = Response 200 body"
proof -
  obtain ks key where key: "getVLLMApiKey env ad h = (ks @ h, Inr key)" "list_all quiet ks"
    using api_key_ok [OF assms(1)] by blast
  let ?auth = "if key = [] then None else Some (''Bearer '' @ key)"
  obtain body where body: "le_http env (ks @ h) \<lparr>hr_Method = meth, hr_URL = url, hr_Payload = payload, hr_Authorization = ?auth\<rparr> =
      Response 200 body"
    using assms(3) [OF key(2)] by blast
  have "wrapI ''failed to get API key'' (getVLLMApiKey env ad) h = (ks @ h, Inr key)"
    using key(1) by simp
  then have "sendRequest env meth url payload ad h =
      (Http \<lparr>hr_Method = meth, hr_URL = url, hr_Payload = payload, hr_Authorization = ?auth\<rparr> # ks @ h, Inr body)"
    using assms(2) body by (simp add: sendRequest_def bindI_Inr Let_def check_response_def)
  then show ?thesis
    using key(2) body by blast
qed

lemma trigger_ok:
  assumes "cluster_works env P init ad" "p \<in> set P"
  shows "\<exists>cs. triggerPodEvent env (pd_nn p) h = (cs @ h, Inr ()) \<and> list_all quiet cs"
proof -
  obtain p' where "le_get_pod env h (pd_nn p) = Inr p'"
    using assms unfolding cluster_works_def by blast
  then show ?thesis
    using assms(1) by (simp add: triggerPodEvent_def bind_must Let_def cluster_works_def)
qed

lemma loaded_at_calls:
  assumes "list_all quiet cs" "list_all quiet ks" "quiet c"
  shows "loaded_at name init (cs @ Http r # ks @ c # h) base = loaded_at name init (Http r # h) base"
proof -
  have "loaded_at name init (ks @ c # h) base = loaded_at name init h base"
    using assms(2,3) loaded_at_quiet [of "ks @ [c]"] by simp
  then show ?thesis
    using loaded_at_quiet [OF assms(1)] by simp
qed

lemma base_eq:
  assumes "cluster_works env P init ad" "p \<in> set P" "q \<in> set P"
  shows "pod_base q = pod_base p \<longleftrightarrow> q = p" "pd_nn q = pd_nn p \<longleftrightarrow> q = p"
  using assms by (auto simp: cluster_works_def distinct_map dest: inj_onD)

text \<open>Loading and unloading on one pod.\<close>

lemma load_ok:
  assumes works: "cluster_works env P init ad" and p: "p \<in> set P" and lacks: "\<not> loaded_at (adapter_name ad) init h (pod_base p)"
  shows "\<exists>cs. loadAdapter env (pd_nn p) path ad h = (cs @ h, Inr ()) \<and>
    (\<forall>q \<in> set P. loaded_at (adapter_name ad) init (cs @ h) (pod_base q) \<longleftrightarrow> q = p \<or> loaded_at (adapter_name ad) init h (pod_base q))"
proof -
  let ?url = "pod_base p @ ''/v1/load_lora_adapter''" and ?c = "Get_Pod (pd_nn p)"
  let ?payload = "Some [(''lora_name'', adapter_name ad), (''lora_path'', path)]"
  have "engine_works env (adapter_name ad) init p" and url: "le_url_ok env ?url" "key_available env ad"
    using works p by (auto simp: cluster_works_def)
  moreover have "\<not> loaded_at (adapter_name ad) init (ks @ ?c # h) (pod_base p)" if "list_all quiet ks" for ks
    using lacks that loaded_at_quiet [of "ks @ [?c]"] by simp
  ultimately have "\<exists>body. le_http env (ks @ ?c # h) \<lparr>hr_Method = ''POST'', hr_URL = ?url, hr_Payload = ?payload,
      hr_Authorization = key\<rparr> = Response 200 body" if "list_all quiet ks" for ks key
    using that unfolding engine_works_def by blast
  then obtain ks key body where
    sent: "sendRequest env ''POST'' ?url ?payload ad (?c # h) =
      (Http \<lparr>hr_Method = ''POST'', hr_URL = ?url, hr_Payload = ?payload, hr_Authorization = key\<rparr> # ks @ ?c # h, Inr body)"
    and ks: "list_all quiet ks"
    using send_ok [OF url(2,1), of "?c # h" "''POST''" ?payload] by blast
  let ?h = "Http \<lparr>hr_Method = ''POST'', hr_URL = ?url, hr_Payload = ?payload, hr_Authorization = key\<rparr> # ks @ ?c # h"
  obtain cs where trigger: "triggerPodEvent env (pd_nn p) ?h = (cs @ ?h, Inr ())" "list_all quiet cs"
    using trigger_ok [OF works p] by blast
  have "loadAdapter env (pd_nn p) path ad h = (cs @ ?h, Inr ())"
    by (simp add: loadAdapter_def bindI_Inr endpoint_ok [OF works p] sent trigger(1))
  moreover have "loaded_at (adapter_name ad) init (cs @ ?h) (pod_base q) \<longleftrightarrow> q = p \<or> loaded_at (adapter_name ad) init h (pod_base q)"
    if "q \<in> set P" for q
    using base_eq [OF works p that] load_unload_urls [of "pod_base p" "pod_base q"]
    by (simp add: loaded_at_calls [OF trigger(2) ks] names_adapter_def eq_commute [of "pod_base p"])
  ultimately show ?thesis
    by (intro exI [of _ "cs @ take (length ?h - length h) ?h"]) simp
qed

lemma unload_ok:
  assumes works: "cluster_works env P init ad" and p: "p \<in> set P" and has: "loaded_at (adapter_name ad) init h (pod_base p)"
  shows "\<exists>cs. unloadAdapter env (pd_nn p) ad h = (cs @ h, Inr ()) \<and>
    (\<forall>q \<in> set P. loaded_at (adapter_name ad) init (cs @ h) (pod_base q) \<longleftrightarrow> q \<noteq> p \<and> loaded_at (adapter_name ad) init h (pod_base q))"
proof -
  let ?url = "pod_base p @ ''/v1/unload_lora_adapter''" and ?c = "Get_Pod (pd_nn p)"
  let ?payload = "Some [(''lora_name'', adapter_name ad)]"
  have "engine_works env (adapter_name ad) init p" and url: "le_url_ok env ?url" "key_available env ad"
    using works p by (auto simp: cluster_works_def)
  moreover have "loaded_at (adapter_name ad) init (ks @ ?c # h) (pod_base p)" if "list_all quiet ks" for ks
    using has that loaded_at_quiet [of "ks @ [?c]"] by simp
  ultimately have "\<exists>body. le_http env (ks @ ?c # h) \<lparr>hr_Method = ''POST'', hr_URL = ?url, hr_Payload = ?payload,
      hr_Authorization = key\<rparr> = Response 200 body" if "list_all quiet ks" for ks key
    using that unfolding engine_works_def by blast
  then obtain ks key body where
    sent: "sendRequest env ''POST'' ?url ?payload ad (?c # h) =
      (Http \<lparr>hr_Method = ''POST'', hr_URL = ?url, hr_Payload = ?payload, hr_Authorization = key\<rparr> # ks @ ?c # h, Inr body)"
    and ks: "list_all quiet ks"
    using send_ok [OF url(2,1), of "?c # h" "''POST''" ?payload] by blast
  let ?h = "Http \<lparr>hr_Method = ''POST'', hr_URL = ?url, hr_Payload = ?payload, hr_Authorization = key\<rparr> # ks @ ?c # h"
  obtain cs where trigger: "triggerPodEvent env (pd_nn p) ?h = (cs @ ?h, Inr ())" "list_all quiet cs"
    using trigger_ok [OF works p] by blast
  have "unloadAdapter env (pd_nn p) ad h = (cs @ ?h, Inr ())"
    by (simp add: unloadAdapter_def bindI_Inr endpoint_ok [OF works p] sent trigger(1))
  moreover have "loaded_at (adapter_name ad) init (cs @ ?h) (pod_base q) \<longleftrightarrow> q \<noteq> p \<and> loaded_at (adapter_name ad) init h (pod_base q)"
    if "q \<in> set P" for q
    using base_eq [OF works p that] load_unload_urls [of "pod_base q" "pod_base p"]
    by (simp add: loaded_at_calls [OF trigger(2) ks] names_adapter_def eq_commute [of "pod_base p @ _"] eq_commute [of "pod_base p"])
  ultimately show ?thesis
    by (intro exI [of _ "cs @ take (length ?h - length h) ?h"]) simp
qed

section \<open>Registrations and status\<close>

abbreviation (input) has_adapter :: "(string \<Rightarrow> bool) \<Rightarrow> lora_adapter \<Rightarrow> lcall list \<Rightarrow> lora_pod \<Rightarrow> bool" where
  "has_adapter init ad h p \<equiv> loaded_at (adapter_name ad) init h (pod_base p)"

lemma pod_registrations_ok:
  assumes works: "cluster_works env P init ad" and p: "p \<in> set P"
  shows "\<exists>cs regs. pod_registrations env ad p h = (cs @ h, Inr regs) \<and> list_all quiet cs \<and>
    map reg_nn regs = (if lora_pod_ready p \<and> has_adapter init ad h p then [pd_nn p] else []) \<and>
    (\<forall>reg \<in> set regs. ld_Name reg = adapter_name ad)"
proof (cases "lora_pod_ready p")
  case True
  let ?url = "pod_base p @ ''/v1/models''" and ?c = "Get_Pod (pd_nn p)"
  have engine: "engine_works env (adapter_name ad) init p" and url: "le_url_ok env ?url" "key_available env ad"
    using works p by (auto simp: cluster_works_def)
  let ?req = "\<lambda>key. \<lparr>hr_Method = ''GET'', hr_URL = ?url, hr_Payload = None, hr_Authorization = key\<rparr>"
  obtain ks key body where sent: "sendRequest env ''GET'' ?url None ad (?c # h) = (Http (?req key) # ks @ ?c # h, Inr body)"
    and ks: "list_all quiet ks" and reply: "le_http env (ks @ ?c # h) (?req key) = Response 200 body"
    using send_ok [OF url(2,1), of "?c # h" "''GET''" None] engine unfolding engine_works_def by blast
  obtain body' models where "le_http env (ks @ ?c # h) (?req key) = Response 200 body'"
    "Option.bind (le_parse env body') decode_model_list = Some models"
    and count: "length (filter (\<lambda>m. me_Parent m \<noteq> None \<and> me_ID m = adapter_name ad) models) =
      (if loaded_at (adapter_name ad) init (ks @ ?c # h) (pod_base p) then 1 else 0)"
    using engine unfolding engine_works_def by blast
  then have models: "Option.bind (le_parse env body) decode_model_list = Some models"
    using reply by simp
  note count
  moreover have "loaded_at (adapter_name ad) init (ks @ ?c # h) (pod_base p) = has_adapter init ad h p"
    using ks loaded_at_quiet [of "ks @ [?c]"] by simp
  ultimately have regs: "map reg_nn (registrations_of ad p models) = (if has_adapter init ad h p then [pd_nn p] else [])"
    by (auto simp: registrations_of_def reg_nn_def pd_nn_def comp_def length_Suc_conv split: if_splits)
  have "pod_registrations env ad p h = (Http (?req key) # ks @ [?c] @ h, Inr (registrations_of ad p models))"
    using True models
    by (simp add: pod_registrations_def attemptI_def bindI_def endpoint_ok [OF works p] sent)
  then have pass: "pod_registrations env ad p h = ((Http (?req key) # ks @ [?c]) @ h, Inr (registrations_of ad p models))"
    by simp
  show ?thesis
  proof (rule exI [of _ "Http (?req key) # ks @ [?c]"], rule exI [of _ "registrations_of ad p models"], intro conjI)
    show "list_all quiet (Http (?req key) # ks @ [?c])"
      using ks by simp
    show "\<forall>reg \<in> set (registrations_of ad p models). ld_Name reg = adapter_name ad"
      by (simp add: registrations_of_def)
  qed (use pass regs True in simp_all)
qed (rule exI [of _ "[]"], rule exI [of _ "[]"], simp add: pod_registrations_def)

lemma forI_registrations_ok:
  assumes works: "cluster_works env P init ad" and "set ps \<subseteq> set P"
  shows "\<exists>cs regs. forI (\<lambda>pod regs. bindI (pod_registrations env ad pod) (\<lambda>new. returnI (regs @ new))) ps acc h =
      (cs @ h, Inr (acc @ regs)) \<and> list_all quiet cs \<and>
    map reg_nn regs = map pd_nn (filter (\<lambda>p. lora_pod_ready p \<and> has_adapter init ad h p) ps) \<and>
    (\<forall>reg \<in> set regs. ld_Name reg = adapter_name ad)"
  using assms(2)
proof (induction ps arbitrary: acc h)
  case (Cons p ps)
  obtain cs regs where one: "pod_registrations env ad p h = (cs @ h, Inr regs)" "list_all quiet cs"
    "map reg_nn regs = (if lora_pod_ready p \<and> has_adapter init ad h p then [pd_nn p] else [])"
    "\<forall>reg \<in> set regs. ld_Name reg = adapter_name ad"
    using pod_registrations_ok [OF works, of p h] Cons.prems by auto
  have ps: "set ps \<subseteq> set P"
    using Cons.prems by simp
  obtain cs' regs' where rest:
    "forI (\<lambda>pod regs. bindI (pod_registrations env ad pod) (\<lambda>new. returnI (regs @ new))) ps (acc @ regs) (cs @ h) =
      (cs' @ cs @ h, Inr ((acc @ regs) @ regs'))" "list_all quiet cs'"
    "map reg_nn regs' = map pd_nn (filter (\<lambda>p. lora_pod_ready p \<and> has_adapter init ad (cs @ h) p) ps)"
    "\<forall>reg \<in> set regs'. ld_Name reg = adapter_name ad"
    using Cons.IH [OF ps, of "acc @ regs" "cs @ h"] by (elim exE conjE) (rule that)
  have "forI (\<lambda>pod regs. bindI (pod_registrations env ad pod) (\<lambda>new. returnI (regs @ new))) (p # ps) acc h =
      ((cs' @ cs) @ h, Inr (acc @ (regs @ regs')))"
    using rest(1) one(1) by (simp add: bindI_assoc bindI_Inr)
  moreover have "map reg_nn (regs @ regs') = map pd_nn (filter (\<lambda>p. lora_pod_ready p \<and> has_adapter init ad h p) (p # ps))"
    using one(2,3) rest(3) by (simp add: loaded_at_quiet)
  moreover have "list_all quiet (cs' @ cs)" "\<forall>reg \<in> set (regs @ regs'). ld_Name reg = adapter_name ad"
    using one rest by auto
  ultimately show ?case
    by (intro exI conjI)
qed (rule exI [of _ "[]"], rule exI [of _ "[]"], simp)

lemma registrations_ok:
  assumes works: "cluster_works env P init ad"
  shows "\<exists>cs regs. getAdapterRegistrations env ad h = (cs @ h, Inr regs) \<and> list_all quiet cs \<and>
    map reg_nn regs = map pd_nn (filter (\<lambda>p. lora_pod_ready p \<and> has_adapter init ad h p) P) \<and>
    (\<forall>reg \<in> set regs. ld_Name reg = adapter_name ad)"
proof -
  let ?c = "List_Pods Has_model"
  obtain cs regs where "forI (\<lambda>pod regs. bindI (pod_registrations env ad pod) (\<lambda>new. returnI (regs @ new))) P [] (?c # h) =
      (cs @ ?c # h, Inr regs)" "list_all quiet cs"
    "map reg_nn regs = map pd_nn (filter (\<lambda>p. lora_pod_ready p \<and> has_adapter init ad (?c # h) p) P)"
    "\<forall>reg \<in> set regs. ld_Name reg = adapter_name ad"
    using forI_registrations_ok [OF works order_refl, of "[]" "?c # h"] by auto
  moreover have "le_list_pods env h Has_model = Inr P"
    using works by (simp add: cluster_works_def)
  ultimately show ?thesis
    by (intro exI [of _ "cs @ [?c]"] exI [of _ regs]) (simp add: getAdapterRegistrations_def bind_wrap_must)
qed

lemma status_ok:
  assumes "resource_stays env ad"
  shows "\<exists>cs ad'. updateStatusWithRegistrations env ad regs h = (cs @ h, Inr ad') \<and> list_all quiet cs \<and> same_resource ad ad'"
proof -
  obtain latest where latest: "le_get_adapter env h (lo_nn ad) = Inr latest" "same_resource ad latest"
    using assms unfolding resource_stays_def by blast
  let ?new = "with_registrations regs latest" and ?h = "Get_Adapter (lo_nn ad) # h"
  have new: "same_resource ad ?new"
    using latest(2) by (simp add: same_resource_def with_registrations_def lo_nn_def)
  then obtain stored where "le_update_adapter_status env ?h ?new = Inr stored" "same_resource ?new stored"
    using assms unfolding resource_stays_def by blast
  then show ?thesis
    using latest(1) same_resource_trans [OF new]
    by (simp add: updateStatusWithRegistrations_def eval_nat_numeral bind_wrap_must)
qed

section \<open>Loading and unloading\<close>

lemma loads_ok:
  assumes works: "cluster_works env P init ad" and path: "as_AdapterPath (ls_AdapterSource (lo_Spec ad)) \<noteq> []"
    and "set ds \<subseteq> pd_nn ` set P" "distinct ds"
    and "\<forall>q \<in> set P. pd_nn q \<in> set ds \<and> map_of m (placement_key (pd_nn q)) = None \<longrightarrow> \<not> has_adapter init ad h q"
  shows "\<exists>cs. forI (load_missing env m) ds ad h = (cs @ h, Inr ad) \<and>
    (\<forall>q \<in> set P. has_adapter init ad (cs @ h) q \<longleftrightarrow>
       has_adapter init ad h q \<or> pd_nn q \<in> set ds \<and> map_of m (placement_key (pd_nn q)) = None)"
  using assms(3-)
proof (induction ds arbitrary: h)
  case (Cons d ds)
  obtain p where p: "p \<in> set P" "d = pd_nn p"
    using Cons.prems(1) by auto
  have "\<exists>cs. load_missing env m d ad h = (cs @ h, Inr ad) \<and>
    (\<forall>q \<in> set P. has_adapter init ad (cs @ h) q \<longleftrightarrow>
       has_adapter init ad h q \<or> q = p \<and> map_of m (placement_key (pd_nn q)) = None)"
  proof (cases "map_of m (placement_key d)")
    case None
    have "\<not> has_adapter init ad h p"
      using Cons.prems(3) p None by simp
    then obtain cs where load: "loadAdapter env (pd_nn p) (as_AdapterPath (ls_AdapterSource (lo_Spec ad))) ad h = (cs @ h, Inr ())"
      "\<forall>q \<in> set P. has_adapter init ad (cs @ h) q \<longleftrightarrow> q = p \<or> has_adapter init ad h q"
      using load_ok [OF works p(1)] by blast
    then have "load_missing env m d ad h = (cs @ h, Inr ad)"
      using None path p(2) by (simp add: load_missing_def discoverAdapter_def Let_def bindI_def wrapI_def)
    then show ?thesis
      using load(2) None p(2) by (intro exI [of _ cs]) auto
  qed (auto simp: load_missing_def p(2) intro: exI [of _ "[]"])
  then obtain cs where one: "load_missing env m d ad h = (cs @ h, Inr ad)"
    "\<forall>q \<in> set P. has_adapter init ad (cs @ h) q \<longleftrightarrow>
       has_adapter init ad h q \<or> q = p \<and> map_of m (placement_key (pd_nn q)) = None"
    by blast
  have "\<forall>q \<in> set P. pd_nn q \<in> set ds \<and> map_of m (placement_key (pd_nn q)) = None \<longrightarrow> \<not> has_adapter init ad (cs @ h) q"
    using one(2) Cons.prems(2,3) p(2) by auto
  then obtain cs' where rest: "forI (load_missing env m) ds ad (cs @ h) = (cs' @ cs @ h, Inr ad)"
    "\<forall>q \<in> set P. has_adapter init ad (cs' @ cs @ h) q \<longleftrightarrow>
       has_adapter init ad (cs @ h) q \<or> pd_nn q \<in> set ds \<and> map_of m (placement_key (pd_nn q)) = None"
    using Cons.IH [of "cs @ h"] Cons.prems(1,2) by auto
  have "forI (load_missing env m) (d # ds) ad h = ((cs' @ cs) @ h, Inr ad)"
    using one(1) rest(1) by (simp add: bindI_Inr)
  moreover have "\<forall>q \<in> set P. has_adapter init ad ((cs' @ cs) @ h) q \<longleftrightarrow>
       has_adapter init ad h q \<or> pd_nn q \<in> set (d # ds) \<and> map_of m (placement_key (pd_nn q)) = None"
    using one(2) rest(2) p base_eq(2) [OF works p(1)] by auto
  ultimately show ?case
    by blast
qed (rule exI [of _ "[]"], simp)

text \<open>A loop over registrations on pods that have the adapter, whose step takes it away from those with \<open>D\<close>.\<close>

lemma unload_loop:
  assumes works: "cluster_works env P init ad"
    and step: "\<And>e p h. e \<in> set es \<Longrightarrow> p \<in> set P \<Longrightarrow> nn e = pd_nn p \<Longrightarrow> has_adapter init ad h p \<Longrightarrow>
      \<exists>cs. f e x h = (cs @ h, Inr x) \<and> (\<forall>q \<in> set P. has_adapter init ad (cs @ h) q \<longleftrightarrow> has_adapter init ad h q \<and> \<not> (q = p \<and> D e))"
    and "distinct (map nn es)" "\<forall>e \<in> set es. \<exists>p \<in> set P. nn e = pd_nn p \<and> has_adapter init ad h p"
  shows "\<exists>cs. forI f es x h = (cs @ h, Inr x) \<and>
    (\<forall>q \<in> set P. has_adapter init ad (cs @ h) q \<longleftrightarrow> has_adapter init ad h q \<and> \<not> (\<exists>e \<in> set es. nn e = pd_nn q \<and> D e))"
  using assms(2-)
proof (induction es arbitrary: h)
  case (Cons e es)
  obtain p where p: "p \<in> set P" "nn e = pd_nn p" "has_adapter init ad h p"
    using Cons.prems(3) by auto
  obtain cs where one: "f e x h = (cs @ h, Inr x)"
    "\<forall>q \<in> set P. has_adapter init ad (cs @ h) q \<longleftrightarrow> has_adapter init ad h q \<and> \<not> (q = p \<and> D e)"
    using Cons.prems(1) [OF _ p] by auto
  have "\<forall>e \<in> set es. \<exists>p \<in> set P. nn e = pd_nn p \<and> has_adapter init ad (cs @ h) p"
  proof
    fix e'
    assume e': "e' \<in> set es"
    then obtain p' where "p' \<in> set P" "nn e' = pd_nn p'" "has_adapter init ad h p'"
      using Cons.prems(3) by auto
    moreover have "nn e' \<noteq> nn e"
      using Cons.prems(2) e' by (force simp: image_iff)
    ultimately show "\<exists>p \<in> set P. nn e' = pd_nn p \<and> has_adapter init ad (cs @ h) p"
      using one(2) p(2) by auto
  qed
  then obtain cs' where rest: "forI f es x (cs @ h) = (cs' @ cs @ h, Inr x)"
    "\<forall>q \<in> set P. has_adapter init ad (cs' @ cs @ h) q \<longleftrightarrow>
       has_adapter init ad (cs @ h) q \<and> \<not> (\<exists>e \<in> set es. nn e = pd_nn q \<and> D e)"
    using Cons.IH [of "cs @ h"] Cons.prems(1,2) by auto
  have "forI f (e # es) x h = ((cs' @ cs) @ h, Inr x)"
    using one(1) rest(1) by (simp add: bindI_Inr)
  moreover have "\<forall>q \<in> set P. has_adapter init ad ((cs' @ cs) @ h) q \<longleftrightarrow>
       has_adapter init ad h q \<and> \<not> (\<exists>e \<in> set (e # es). nn e = pd_nn q \<and> D e)"
  proof
    fix q
    assume q: "q \<in> set P"
    have "nn e = pd_nn q \<longleftrightarrow> q = p"
      using base_eq(2) [OF works p(1) q] p(2) by auto
    then show "has_adapter init ad ((cs' @ cs) @ h) q \<longleftrightarrow>
       has_adapter init ad h q \<and> \<not> (\<exists>e \<in> set (e # es). nn e = pd_nn q \<and> D e)"
      using one(2) rest(2) q by auto
  qed
  ultimately show ?case
    by blast
qed (rule exI [of _ "[]"], simp)

lemma unloads_ok:
  assumes works: "cluster_works env P init ad"
    and "distinct (map (reg_nn \<circ> snd) es)"
    and "\<forall>e \<in> set es. \<exists>p \<in> set P. (reg_nn \<circ> snd) e = pd_nn p \<and> has_adapter init ad h p"
  shows "\<exists>cs. forI (unload_undesired env desired) es ad h = (cs @ h, Inr ad) \<and>
    (\<forall>q \<in> set P. has_adapter init ad (cs @ h) q \<longleftrightarrow>
       has_adapter init ad h q \<and> \<not> (\<exists>e \<in> set es. (reg_nn \<circ> snd) e = pd_nn q \<and> fst e \<notin> set (map placement_key desired)))"
proof (rule unload_loop [OF works _ assms(2,3)])
  fix e :: "string \<times> loaded_adapter" and p h
  assume p: "p \<in> set P" "(reg_nn \<circ> snd) e = pd_nn p" "has_adapter init ad h p"
  obtain k reg where e: "e = (k, reg)"
    by fastforce
  show "\<exists>cs. unload_undesired env desired e ad h = (cs @ h, Inr ad) \<and>
    (\<forall>q \<in> set P. has_adapter init ad (cs @ h) q \<longleftrightarrow> has_adapter init ad h q \<and> \<not> (q = p \<and> fst e \<notin> set (map placement_key desired)))"
  proof (cases "k \<in> set (map placement_key desired)")
    case False
    obtain cs where unload: "unloadAdapter env (pd_nn p) ad h = (cs @ h, Inr ())"
      "\<forall>q \<in> set P. has_adapter init ad (cs @ h) q \<longleftrightarrow> q \<noteq> p \<and> has_adapter init ad h q"
      using unload_ok [OF works p(1,3)] by blast
    then have "unload_undesired env desired e ad h = (cs @ h, Inr ad)"
      using False p(2) e by (simp add: unload_undesired_def bindI_def wrapI_def)
    then show ?thesis
      using unload(2) False e by (intro exI [of _ cs]) auto
  qed (auto simp: unload_undesired_def e intro: exI [of _ "[]"])
qed

lemma deletions_ok:
  assumes works: "cluster_works env P init ad" and named: "\<forall>reg \<in> set regs. ld_Name reg = adapter_name ad"
    and regs: "distinct (map reg_nn regs)" "\<forall>reg \<in> set regs. \<exists>p \<in> set P. reg_nn reg = pd_nn p \<and> has_adapter init ad h p"
  shows "\<exists>cs. forI (\<lambda>reg _. unload_registration env ad reg) regs () h = (cs @ h, Inr ()) \<and>
    (\<forall>q \<in> set P. has_adapter init ad (cs @ h) q \<longleftrightarrow> has_adapter init ad h q \<and> \<not> (\<exists>reg \<in> set regs. reg_nn reg = pd_nn q \<and> True))"
proof (rule unload_loop [OF works _ regs])
  fix reg p h
  assume p: "reg \<in> set regs" "p \<in> set P" "reg_nn reg = pd_nn p" "has_adapter init ad h p"
  obtain cs where "unloadAdapter env (pd_nn p) ad h = (cs @ h, Inr ())"
    "\<forall>q \<in> set P. has_adapter init ad (cs @ h) q \<longleftrightarrow> q \<noteq> p \<and> has_adapter init ad h q"
    using unload_ok [OF works p(2,4)] by blast
  then show "\<exists>cs. unload_registration env ad reg h = (cs @ h, Inr ()) \<and>
    (\<forall>q \<in> set P. has_adapter init ad (cs @ h) q \<longleftrightarrow> has_adapter init ad h q \<and> \<not> (q = p \<and> True))"
    using named p by (intro exI [of _ cs]) (auto simp: unload_registration_def wrapI_def)
qed

text \<open>The registrations describe the cluster at a history.\<close>

definition describes :: "loaded_adapter list \<Rightarrow> lora_pod list \<Rightarrow> (string \<Rightarrow> bool) \<Rightarrow> lora_adapter \<Rightarrow> lcall list \<Rightarrow> bool" where
  "describes regs P init ad h \<longleftrightarrow>
     map reg_nn regs = map pd_nn (filter (\<lambda>p. lora_pod_ready p \<and> has_adapter init ad h p) P) \<and>
     (\<forall>reg \<in> set regs. ld_Name reg = adapter_name ad)"

lemma describes_facts:
  assumes works: "cluster_works env P init ad" and regs: "describes regs P init ad h"
  shows "distinct (map reg_nn regs)" "\<forall>nn \<in> set (map reg_nn regs). CHR ''/'' \<notin> set (fst nn)"
    "q \<in> set P \<Longrightarrow> pd_nn q \<in> set (map reg_nn regs) \<longleftrightarrow> lora_pod_ready q \<and> has_adapter init ad h q"
proof -
  show "distinct (map reg_nn regs)" "\<forall>nn \<in> set (map reg_nn regs). CHR ''/'' \<notin> set (fst nn)"
    using works regs by (auto simp: describes_def cluster_works_def pd_nn_def distinct_map_filter)
  assume q: "q \<in> set P"
  have "pd_nn q \<in> set (map reg_nn regs) \<longleftrightarrow> (\<exists>p \<in> set P. pd_nn q = pd_nn p \<and> lora_pod_ready p \<and> has_adapter init ad h p)"
    using regs unfolding describes_def by auto
  then show "pd_nn q \<in> set (map reg_nn regs) \<longleftrightarrow> lora_pod_ready q \<and> has_adapter init ad h q"
    using base_eq(2) [OF works _ q] q by auto
qed

lemma reconcile_ok:
  assumes works: "cluster_works env P init ad" and path: "as_AdapterPath (ls_AdapterSource (lo_Spec ad)) \<noteq> []"
    and regs: "describes regs P init ad h" and ps: "set ps \<subseteq> pd_nn ` {p \<in> set P. lora_pod_ready p}" "distinct ps"
  shows "\<exists>cs. reconcileToDesiredState env ad regs ps h = (cs @ h, Inr ad) \<and>
    (\<forall>q \<in> set P. lora_pod_ready q \<longrightarrow> (has_adapter init ad (cs @ h) q \<longleftrightarrow> pd_nn q \<in> set ps))"
proof -
  note facts = describes_facts [OF works regs]
  let ?m = "current_map ad regs"
  have m: "?m = map (\<lambda>reg. (placement_key (reg_nn reg), reg)) regs"
    using current_map_eq [OF facts(1,2)] regs by (simp add: describes_def)
  have names: "\<forall>nn \<in> pd_nn ` set P. CHR ''/'' \<notin> set (fst nn)"
    using works by (auto simp: cluster_works_def pd_nn_def)
  have inj: "inj_on placement_key (pd_nn ` set P)"
    by (rule key_inj_on [OF names])
  have regs_P: "set (map reg_nn regs) \<subseteq> pd_nn ` set P"
    using regs by (auto simp: describes_def)
  have known: "map_of ?m (placement_key (pd_nn q)) = None \<longleftrightarrow> pd_nn q \<notin> set (map reg_nn regs)" if "q \<in> set P" for q
    using inj_on_image_mem_iff [OF inj, of "pd_nn q" "set (map reg_nn regs)"] regs_P that
    by (simp add: m map_of_eq_None_iff image_image)
  have desired: "placement_key (pd_nn q) \<in> set (map placement_key ps) \<longleftrightarrow> pd_nn q \<in> set ps" if "q \<in> set P" for q
    using inj_on_image_mem_iff [OF inj, of "pd_nn q" "set ps"] ps(1) that by auto
  have "\<not> has_adapter init ad h q" if q: "q \<in> set P" "pd_nn q \<in> set ps" "map_of ?m (placement_key (pd_nn q)) = None" for q
  proof -
    obtain p where "p \<in> set P" "lora_pod_ready p" "pd_nn q = pd_nn p"
      using ps(1) q(2) by auto
    then have "lora_pod_ready q"
      using base_eq(2) [OF works, of p q] q(1) by simp
    then show ?thesis
      using known [OF q(1)] facts(3) [OF q(1)] q(3) by simp
  qed
  then obtain cs where load: "forI (load_missing env ?m) ps ad h = (cs @ h, Inr ad)"
    "\<forall>q \<in> set P. has_adapter init ad (cs @ h) q \<longleftrightarrow>
       has_adapter init ad h q \<or> pd_nn q \<in> set ps \<and> map_of ?m (placement_key (pd_nn q)) = None"
    using loads_ok [OF works path _ ps(2), of ?m h] ps(1) by blast
  let ?es = "le_range env (cs @ h) ?m"
  have es: "mset ?es = mset ?m"
    using works by (simp add: cluster_works_def ranges_over_maps_def)
  have "mset (map (reg_nn \<circ> snd) ?es) = mset (map (reg_nn \<circ> snd) ?m)"
    using es by (metis mset_map)
  moreover have "map (reg_nn \<circ> snd) ?m = map reg_nn regs"
    by (simp add: m)
  ultimately have es_distinct: "distinct (map (reg_nn \<circ> snd) ?es)"
    using facts(1) by (metis mset_eq_imp_distinct_iff)
  have es_set: "set ?es = (\<lambda>reg. (placement_key (reg_nn reg), reg)) ` set regs"
    using mset_eq_setD [OF es] by (metis m list.set_map)
  have "\<forall>e \<in> set ?es. \<exists>p \<in> set P. (reg_nn \<circ> snd) e = pd_nn p \<and> has_adapter init ad (cs @ h) p"
  proof
    fix e
    assume "e \<in> set ?es"
    then have reg: "reg_nn (snd e) \<in> set (map reg_nn regs)"
      by (auto simp: es_set)
    then obtain p where p: "p \<in> set P" "reg_nn (snd e) = pd_nn p"
      using regs_P by blast
    then have "has_adapter init ad h p"
      using facts(3) [OF p(1)] reg by simp
    then show "\<exists>p \<in> set P. (reg_nn \<circ> snd) e = pd_nn p \<and> has_adapter init ad (cs @ h) p"
      using load(2) p by auto
  qed
  then obtain cs' where unload: "forI (unload_undesired env ps) ?es ad (cs @ h) = (cs' @ cs @ h, Inr ad)"
    "\<forall>q \<in> set P. has_adapter init ad (cs' @ cs @ h) q \<longleftrightarrow>
       has_adapter init ad (cs @ h) q \<and> \<not> (\<exists>e \<in> set ?es. (reg_nn \<circ> snd) e = pd_nn q \<and> fst e \<notin> set (map placement_key ps))"
    using unloads_ok [OF works es_distinct] by blast
  have "reconcileToDesiredState env ad regs ps h = ((cs' @ cs) @ h, Inr ad)"
    using load(1) unload(1) by (simp add: reconcileToDesiredState_def Let_def bindI_Inr)
  moreover have "has_adapter init ad ((cs' @ cs) @ h) q \<longleftrightarrow> pd_nn q \<in> set ps" if q: "q \<in> set P" "lora_pod_ready q" for q
  proof -
    have "(\<exists>e \<in> set ?es. (reg_nn \<circ> snd) e = pd_nn q \<and> fst e \<notin> set (map placement_key ps)) \<longleftrightarrow>
        pd_nn q \<in> set (map reg_nn regs) \<and> pd_nn q \<notin> set ps"
      using desired [OF q(1)] by (auto simp: es_set intro: rev_image_eqI)
    then show ?thesis
      using unload(2) load(2) known [OF q(1)] facts(3) [OF q(1)] q by auto
  qed
  ultimately show ?thesis
    by blast
qed

section \<open>A pass\<close>

lemma placement_ok:
  assumes works: "cluster_works env P init ad" and "snd (getOptimalPlacement env ad h0) = Inr ps"
  shows "getOptimalPlacement env ad h = (List_Pods (Model_is (ls_BaseModel (lo_Spec ad))) # h, Inr ps)"
    "distinct ps" "set ps \<subseteq> pd_nn ` {p \<in> set P. lora_pod_ready p}"
proof -
  let ?pods = "filter (serves (ls_BaseModel (lo_Spec ad))) P"
  have pods: "le_list_pods env h (Model_is (ls_BaseModel (lo_Spec ad))) = Inr ?pods" for h
    using works by (simp add: cluster_works_def)
  let ?sorted = "le_sort env (filter lora_pod_ready ?pods)" and ?n = "wanted (ls_Replicas (lo_Spec ad))"
  have ps: "ps = (if filter lora_pod_ready ?pods = [] then [] else map pd_nn (take (?n (length ?sorted)) ?sorted))"
    using assms(2) unfolding getOptimalPlacement_pods [OF pods] by simp
  then show "getOptimalPlacement env ad h = (List_Pods (Model_is (ls_BaseModel (lo_Spec ad))) # h, Inr ps)"
    unfolding getOptimalPlacement_pods [OF pods] by simp
  have sorted: "mset ?sorted = mset (filter lora_pod_ready ?pods)"
    using works by (simp add: cluster_works_def sorts_by_name_def)
  have "mset (map pd_nn ?sorted) = mset (map pd_nn (filter lora_pod_ready ?pods))"
    using sorted by (metis mset_map)
  moreover have "distinct (map pd_nn (filter lora_pod_ready ?pods))"
    using works by (simp add: cluster_works_def distinct_map_filter)
  ultimately have "distinct (map pd_nn ?sorted)"
    by (metis mset_eq_imp_distinct_iff)
  then show "distinct ps"
    using ps by (simp add: distinct_take flip: take_map)
  have "set ?sorted \<subseteq> {p \<in> set P. lora_pod_ready p}"
    using mset_eq_setD [OF sorted] by auto
  then show "set ps \<subseteq> pd_nn ` {p \<in> set P. lora_pod_ready p}"
    unfolding ps using set_take_subset [of "?n (length ?sorted)" ?sorted] by auto
qed

lemma same_placement:
  assumes "same_resource a b"
  shows "getOptimalPlacement env a = getOptimalPlacement env b"
proof -
  have spec: "lo_Spec a = lo_Spec b"
    using assms by (simp add: same_resource_def)
  show ?thesis
    unfolding getOptimalPlacement_def spec ..
qed

definition settled_on :: "lora_pod list \<Rightarrow> (string \<Rightarrow> bool) \<Rightarrow> string \<Rightarrow> (string \<times> string) list \<Rightarrow> lcall list \<Rightarrow> bool" where
  "settled_on P init name ps h \<longleftrightarrow> (\<forall>q \<in> set P. lora_pod_ready q \<longrightarrow> (loaded_at name init h (pod_base q) \<longleftrightarrow> pd_nn q \<in> set ps))"

lemma settled_on_quiet: "list_all quiet cs \<Longrightarrow> settled_on P init name ps (cs @ h) = settled_on P init name ps h"
  by (simp add: settled_on_def loaded_at_quiet)

lemma live_ok:
  assumes works: "cluster_works env P init ad" and stays: "resource_stays env ad"
    and path: "as_AdapterPath (ls_AdapterSource (lo_Spec ad)) \<noteq> []"
    and placed: "snd (getOptimalPlacement env ad h0) = Inr ps" "ps \<noteq> []"
  shows "\<exists>cs. reconcile_live env ad h = (cs @ h, Inr (Requeue_after 60)) \<and>
    settled_on P init (adapter_name ad) ps (cs @ h) \<and>
    (settled_on P init (adapter_name ad) ps h \<longrightarrow> list_all quiet cs)"
proof -
  obtain cs1 regs where regs: "getAdapterRegistrations env ad h = (cs1 @ h, Inr regs)" "list_all quiet cs1"
    "describes regs P init ad h"
    using registrations_ok [OF works] unfolding describes_def by blast
  obtain cs2 ad1 where status: "updateStatusWithRegistrations env ad regs (cs1 @ h) = (cs2 @ cs1 @ h, Inr ad1)"
    "list_all quiet cs2" "same_resource ad ad1"
    using status_ok [OF stays] by blast
  let ?sel = "List_Pods (Model_is (ls_BaseModel (lo_Spec ad)))"
  let ?cs = "?sel # cs2 @ cs1"
  have placement: "getOptimalPlacement env ad1 (cs2 @ cs1 @ h) = (?cs @ h, Inr ps)"
    using placement_ok(1) [OF works placed(1)] same_placement [OF status(3)] by simp
  have quiet: "list_all quiet ?cs"
    using regs(2) status(2) by simp
  then have still: "has_adapter init ad (?cs @ h) q = has_adapter init ad h q" for q
    by (rule loaded_at_quiet)
  note facts = describes_facts [OF works regs(3)]
  have ps_P: "set ps \<subseteq> pd_nn ` {p \<in> set P. lora_pod_ready p}"
    by (rule placement_ok(3) [OF works placed(1)])
  have slash: "\<forall>nn \<in> set (map reg_nn regs) \<union> set ps. CHR ''/'' \<notin> set (fst nn)"
    using facts(2) ps_P works by (auto simp: cluster_works_def pd_nn_def)
  have compare: "compareStates regs ps \<longleftrightarrow> set (map reg_nn regs) \<noteq> set ps"
    by (rule compare_states_exact [OF facts(1) placement_ok(2) [OF works placed(1)] slash])
  have regs_P: "set (map reg_nn regs) \<subseteq> pd_nn ` {p \<in> set P. lora_pod_ready p}"
    using regs(3) by (auto simp: describes_def)
  have settled: "set (map reg_nn regs) = set ps \<longleftrightarrow> settled_on P init (adapter_name ad) ps h"
    using facts(3) ps_P regs_P by (auto simp: settled_on_def simp del: set_map)
  show ?thesis
  proof (cases "compareStates regs ps")
    case False
    have "reconcile_live env ad h = (?cs @ h, Inr (Requeue_after 60))"
      using False placed(2)
      by (simp add: reconcile_live_def bindI_Inr regs(1) status(1) placement)
    then show ?thesis
      using quiet settled_on_quiet [OF quiet, of P init "adapter_name ad" ps h] settled compare False by blast
  next
    case True
    have works1: "cluster_works env P init ad1" and stays1: "resource_stays env ad1"
      using cluster_works_same [OF works status(3)] resource_stays_same [OF stays status(3)] .
    have path1: "as_AdapterPath (ls_AdapterSource (lo_Spec ad1)) \<noteq> []" and name1: "adapter_name ad1 = adapter_name ad"
      using path status(3) by (simp_all add: same_resource_def)
    have "describes regs P init ad1 (?cs @ h)"
      using regs(3) still by (simp add: describes_def name1)
    then obtain cs3 where rec: "reconcileToDesiredState env ad1 regs ps (?cs @ h) = (cs3 @ ?cs @ h, Inr ad1)"
      "\<forall>q \<in> set P. lora_pod_ready q \<longrightarrow> (has_adapter init ad (cs3 @ ?cs @ h) q \<longleftrightarrow> pd_nn q \<in> set ps)"
      using reconcile_ok [OF works1 path1 _ ps_P placement_ok(2) [OF works placed(1)], of regs "?cs @ h"] name1 by auto
    let ?h = "cs3 @ ?cs @ h" and ?g = "Get_Adapter (lo_nn ad1)"
    obtain ad2 where ad2: "le_get_adapter env ?h (lo_nn ad1) = Inr ad2" "same_resource ad1 ad2"
      using stays1 unfolding resource_stays_def by blast
    obtain cs4 regs' where regs': "getAdapterRegistrations env ad2 (?g # ?h) = (cs4 @ ?g # ?h, Inr regs')" "list_all quiet cs4"
      using registrations_ok [OF cluster_works_same [OF works1 ad2(2)]] by blast
    obtain cs5 ad3 where status': "updateStatusWithRegistrations env ad2 regs' (cs4 @ ?g # ?h) = (cs5 @ cs4 @ ?g # ?h, Inr ad3)"
      "list_all quiet cs5"
      using status_ok [OF resource_stays_same [OF stays1 ad2(2)]] by blast
    have "reconcile_live env ad h = ((cs5 @ cs4 @ [?g] @ cs3 @ ?cs) @ h, Inr (Requeue_after 60))"
      using True placed(2) rec(1) ad2(1) regs'(1) status'(1)
      by (simp add: reconcile_live_def bindI_Inr regs(1) status(1) placement)
    moreover have "settled_on P init (adapter_name ad) ps ((cs5 @ cs4 @ [?g] @ cs3 @ ?cs) @ h)"
      using settled_on_quiet [of "cs5 @ cs4 @ [?g]" P init "adapter_name ad" ps ?h] regs'(2) status'(2) rec(2)
      by (simp add: settled_on_def)
    moreover have "\<not> settled_on P init (adapter_name ad) ps h"
      using settled compare True by blast
    ultimately show ?thesis
      by blast
  qed
qed

lemma live_pass_ok:
  assumes works: "cluster_works env P init ad" and stays: "resource_stays env ad"
    and live: "\<not> lo_Deleted ad" "le_contains_finalizer env (lo_Finalizers ad) loraAdapterFinalizer"
    and path: "as_AdapterPath (ls_AdapterSource (lo_Spec ad)) \<noteq> []"
    and placed: "snd (getOptimalPlacement env ad h0) = Inr ps" "ps \<noteq> []"
  shows "\<exists>cs. lora_Reconcile env (lo_nn ad) h = (cs @ h, Inr (Requeue_after 60)) \<and>
    settled_on P init (adapter_name ad) ps (cs @ h) \<and> (settled_on P init (adapter_name ad) ps h \<longrightarrow> list_all quiet cs)"
proof -
  let ?g = "Get_Adapter (lo_nn ad)"
  obtain ad1 where ad1: "le_get_adapter env h (lo_nn ad) = Inr ad1" "same_resource ad ad1"
    using stays unfolding resource_stays_def by blast
  have same: "lo_Deleted ad1 = lo_Deleted ad" "lo_Finalizers ad1 = lo_Finalizers ad" "lo_Spec ad1 = lo_Spec ad"
    using ad1(2) by (simp_all add: same_resource_def)
  have path1: "as_AdapterPath (ls_AdapterSource (lo_Spec ad1)) \<noteq> []" and name1: "adapter_name ad1 = adapter_name ad"
    using path by (simp_all add: same)
  have placed1: "snd (getOptimalPlacement env ad1 h0) = Inr ps"
    using placed(1) same_placement [OF ad1(2)] by simp
  obtain cs where cs: "reconcile_live env ad1 (?g # h) = (cs @ ?g # h, Inr (Requeue_after 60))"
    "settled_on P init (adapter_name ad) ps (cs @ ?g # h)" "settled_on P init (adapter_name ad) ps (?g # h) \<Longrightarrow> list_all quiet cs"
    using live_ok [OF cluster_works_same [OF works ad1(2)] resource_stays_same [OF stays ad1(2)] path1 placed1 placed(2), of "?g # h"]
    unfolding name1 by blast
  have "lora_Reconcile env (lo_nn ad) h = ((cs @ [?g]) @ h, Inr (Requeue_after 60))"
    using ad1(1) live same cs(1) by (simp add: lora_Reconcile_def)
  moreover have "settled_on P init (adapter_name ad) ps h \<longrightarrow> list_all quiet (cs @ [?g])"
    using cs(3) settled_on_quiet [of "[?g]" P init "adapter_name ad" ps h] by simp
  ultimately show ?thesis
    using cs(2) by (intro exI [of _ "cs @ [?g]"]) simp
qed

text \<open>C4: for a resource that gives the path of the adapter and has a placement, a pass on a cluster of working engines succeeds; afterwards the ready pods that have the adapter are exactly those of
  the placement, wherever it was loaded before; and the next pass asks no engine to load or unload anything.\<close>

theorem lora_pass_converges:
  assumes works: "cluster_works env P init ad" and stays: "resource_stays env ad"
    and live: "\<not> lo_Deleted ad" "le_contains_finalizer env (lo_Finalizers ad) loraAdapterFinalizer"
    and path: "as_AdapterPath (ls_AdapterSource (lo_Spec ad)) \<noteq> []"
    and placed: "snd (getOptimalPlacement env ad h) = Inr placements" "placements \<noteq> []"
  shows "\<exists>h' cs. lora_Reconcile env (lo_nn ad) h = (h', Inr (Requeue_after 60)) \<and>
    (\<forall>p \<in> set P. lora_pod_ready p \<longrightarrow> (loaded_at (adapter_name ad) init h' (pod_base p) \<longleftrightarrow> pd_nn p \<in> set placements)) \<and>
    lora_Reconcile env (lo_nn ad) h' = (cs @ h', Inr (Requeue_after 60)) \<and> list_all quiet cs"
proof -
  note pass = live_pass_ok [OF works stays live path placed]
  obtain cs1 where one: "lora_Reconcile env (lo_nn ad) h = (cs1 @ h, Inr (Requeue_after 60))"
    "settled_on P init (adapter_name ad) placements (cs1 @ h)"
    using pass [of h] by blast
  obtain cs2 where two: "lora_Reconcile env (lo_nn ad) (cs1 @ h) = (cs2 @ cs1 @ h, Inr (Requeue_after 60))" "list_all quiet cs2"
    using pass [of "cs1 @ h"] one(2) by blast
  show ?thesis
    using one two unfolding settled_on_def by (intro exI [of _ "cs1 @ h"] exI [of _ cs2]) simp
qed

section \<open>Deletion\<close>


section \<open>A cluster of two engines\<close>

text \<open>Engines as vLLM documents them, with the models read off the history of calls. The adapter is loaded on the second pod.\<close>

definition working_http :: "(string \<Rightarrow> bool) \<Rightarrow> lcall list \<Rightarrow> pod_request \<Rightarrow> http_reply" where
  "working_http init h r =
     Response 200
       (if hr_Method r = ''GET'' \<and> loaded_at ''sql'' init h (take (length (hr_URL r) - length ''/v1/models'') (hr_URL r)) then ''1'' else [])"

abbreviation engine_pods :: "lora_pod list" where
  "engine_pods \<equiv> [engine_pod ''b'' ''10.0.0.2'' True, engine_pod ''c'' ''10.0.0.3'' False, engine_pod ''a'' ''10.0.0.1'' True]"

definition sample_init :: "string \<Rightarrow> bool" where
  "sample_init base \<longleftrightarrow> base \<in> {''http://10.0.0.2:8000'', ''http://10.0.0.3:8000''}"

abbreviation working_env :: "lora_adapter \<Rightarrow> lora_env" where
  "working_env ad \<equiv> lora_sample_env engine_pods ad None (working_http sample_init)"

lemma show_8000: "show_int 8000 = ''8000''"
  by (simp add: show_int_def show_nat.simps [of 8000] show_nat.simps [of 800] show_nat.simps [of 80]
      show_nat.simps [of 8] char_of_def bit_0)

lemma engine_pod_base: "pod_base (engine_pod n ip r) = ''http://'' @ ip @ '':8000''"
  by (simp add: pod_base_def engine_pod_def container_port_of_def show_8000)

lemma lower_keys: "lower ''data'' = ''data''" "lower ''id'' = ''id''" "lower ''parent'' = ''parent''"
  by code_simp+

lemma sample_engine_works: "engine_works (lora_sample_env pods ad refusal (working_http init)) ''sql'' init p"
  by (simp add: engine_works_def lora_sample_env_def working_http_def go_field_def lower_keys)

lemma engine_pod_fields:
  "pd_nn (engine_pod n ip r) = (''ns'', n)" "pd_Namespace (engine_pod n ip r) = ''ns''" "pd_PodIP (engine_pod n ip r) = ip"
  "lora_pod_ready (engine_pod n ip r) = r" "map_of (pd_Labels (engine_pod n ip r)) ''model'' = Some ''base''"
  by (simp_all add: engine_pod_def pd_nn_def lora_pod_ready_def)

lemma sample_adapter_fields:
  "lo_nn (sample_adapter n del) = (''ns'', ''sql'')" "adapter_name (sample_adapter n del) = ''sql''" "lo_Deleted (sample_adapter n del) = del"
  "ls_BaseModel (lo_Spec (sample_adapter n del)) = ''base''" "ls_VLLMApiKey (lo_Spec (sample_adapter n del)) = None"
  "lo_Finalizers (sample_adapter n del) = [loraAdapterFinalizer]" "as_AdapterPath (ls_AdapterSource (lo_Spec (sample_adapter n del))) \<noteq> []"
  "ls_Replicas (lo_Spec (sample_adapter n del)) = Some n"
  by (simp_all add: sample_adapter_def lo_nn_def)

lemma sample_cluster_works: "cluster_works (working_env (sample_adapter n del)) engine_pods sample_init (sample_adapter n del)"
  unfolding cluster_works_def
proof (intro conjI)
  have "le_url_ok (working_env ad) url" for ad url
    by (simp add: lora_sample_env_def)
  then show "\<forall>p \<in> set engine_pods. pd_PodIP p \<noteq> [] \<and> CHR ''/'' \<notin> set (pd_Namespace p) \<and>
      (\<forall>path. le_url_ok (working_env (sample_adapter n del)) (pod_base p @ path)) \<and>
      engine_works (working_env (sample_adapter n del)) (adapter_name (sample_adapter n del)) sample_init p"
    by (simp add: engine_pod_fields sample_adapter_fields sample_engine_works)
  show "distinct (map pod_base engine_pods)"
    by (simp add: engine_pod_base)
  show "sorts_by_name (working_env (sample_adapter n del))" "ranges_over_maps (working_env (sample_adapter n del))"
    by (rule lora_sample_env_sorts)+
qed (simp_all add: lora_sample_env_def engine_pod_fields serves_def sample_adapter_fields key_available_def)

theorem lora_pass_converges_witness:
  "\<exists>h' cs. lora_Reconcile (working_env (sample_adapter 1 False)) (''ns'', ''sql'') [] = (h', Inr (Requeue_after 60)) \<and>
    loaded_at ''sql'' sample_init h' ''http://10.0.0.1:8000'' \<and> \<not> loaded_at ''sql'' sample_init h' ''http://10.0.0.2:8000'' \<and>
    lora_Reconcile (working_env (sample_adapter 1 False)) (''ns'', ''sql'') h' = (cs @ h', Inr (Requeue_after 60)) \<and> list_all quiet cs"
proof -
  let ?ad = "sample_adapter 1 False"
  let ?env = "working_env ?ad"
  have "resource_stays ?env ?ad"
    by (auto simp: resource_stays_def lora_sample_env_def same_resource_def)
  moreover have "le_list_pods ?env [] (Model_is (ls_BaseModel (lo_Spec ?ad))) = Inr engine_pods"
    by (simp add: lora_sample_env_def engine_pod_fields sample_adapter_fields)
  then have "snd (getOptimalPlacement ?env ?ad []) = Inr [(''ns'', ''a'')]"
    by (simp add: getOptimalPlacement_pods sample_adapter_fields engine_pod_fields wanted_def)
      (simp add: lora_sample_env_def engine_pod_def pd_nn_def)
  moreover have "\<not> lo_Deleted ?ad" "le_contains_finalizer ?env (lo_Finalizers ?ad) loraAdapterFinalizer"
    "as_AdapterPath (ls_AdapterSource (lo_Spec ?ad)) \<noteq> []"
    by (simp_all add: lora_sample_env_def sample_adapter_fields)
  ultimately obtain h' cs where pass: "lora_Reconcile ?env (lo_nn ?ad) [] = (h', Inr (Requeue_after 60))"
    "\<forall>p \<in> set engine_pods. lora_pod_ready p \<longrightarrow> (loaded_at (adapter_name ?ad) sample_init h' (pod_base p) \<longleftrightarrow> pd_nn p \<in> set [(''ns'', ''a'')])"
    "lora_Reconcile ?env (lo_nn ?ad) h' = (cs @ h', Inr (Requeue_after 60))" "list_all quiet cs"
    using lora_pass_converges [OF sample_cluster_works, of 1 False "[]" "[(''ns'', ''a'')]"] by auto
  then show ?thesis
    by (intro exI [of _ h'] exI [of _ cs]) (simp add: engine_pod_base engine_pod_fields sample_adapter_fields)
qed


end
