(* ===== verification/Spec2Isabelle.thy ===== *)
theory Spec2Isabelle
  imports Request_Properties Batch_Properties Main_Routes Jev_Decide Pii_Detection Nvlink_Properties Mooncake_Verify
    Gateway_Pickers Cache_Controller Operator_Router Lora_Convergence
begin

text \<open>
  \<^bold>\<open>A verification development of the vLLM production stack.\<close> The program is a router for vLLM engines
  (\<^verbatim>\<open>src/src/vllm_router\<close>, Python) with some programs around it: a Kubernetes operator that deploys engines, routers
  and cache servers and places LoRA adapters (Go), the pickers of a gateway extension (Go), a decision client with an audit log, a check of Docker images and an analyzer of debug logs. All file names
  below are under \<^verbatim>\<open>src/src/vllm_router\<close> unless they start with \<^verbatim>\<open>src/\<close>.

  \<^bold>\<open>How the parts interact.\<close> At start-up (\<^verbatim>\<open>app.py\<close>) the options are parsed, then service discovery, the statistics
  threads, the optional batch service, semantic cache and configuration watcher, and the routing logic are
  created as singletons. A request goes through the main routes to the request service, which asks discovery for the
  endpoints, filters those that serve the model, lets the routing logic choose one using the engine and request
  statistics, forwards the request, and reports its progress to the statistics. The watcher may replace
  discovery and routing logic at any time.

  \<^bold>\<open>Conventions\<close> (\<open>Router_Prelude\<close>). A dictionary is an association list in insertion order; a decoded JSON value is the
  datatype \<open>json\<close>; an exception is the left side of \<open>'a result\<close>; an object is a record that its
  methods return updated; a time is a rational number. Code that is not in the repository (Kubernetes,
  HTTP engines, tokenizer, hash ring, vector index, Presidio, JSON codecs and hashes where their text does not
  matter) is an argument; what a theorem needs of it is a named hypothesis, met by the instance in
  its witness. All definitions are total; loops over lists are structural, the others have a termination proof.
  There is no fuel.

  \<^bold>\<open>The router.\<close>
  \<^item> \<open>Regex_Match\<close>, \<open>Router_Utils\<close>: \<^verbatim>\<open>utils.py\<close>. Matching by derivatives decides the language of an expression.
  \<^item> \<open>Endpoints\<close>, \<open>Static_Discovery\<close>, \<open>K8s_Watch\<close>, \<open>Pod_Discovery\<close>, \<open>Service_Name_Discovery\<close>, \<open>Discovery_Factory\<close>:
    \<^verbatim>\<open>service_discovery.py\<close>. The watchers keep the table of engines well-formed under every event, an engine
    that is gone or not ready is not routable, and at most one discovery runs. The locale \<open>engine_table\<close> is the
    interface of the two watchers.
  \<^item> \<open>Request_Stats\<close>, \<open>Engine_Stats\<close>: \<^verbatim>\<open>stats/request_stats.py\<close>, \<^verbatim>\<open>stats/engine_stats.py\<close>. The counters
    refine the life cycle of the requests, the rate counts the requests of the window, and a scrape keeps exactly the
    engines that answered.
  \<^item> \<open>Hash_Trie\<close>, \<open>Routing_Logic\<close>, \<open>Routing_Properties\<close>, \<open>Router_Registry\<close>: \<^verbatim>\<open>prefix/hashtrie.py\<close>,
    \<^verbatim>\<open>routers/routing_logic.py\<close>. The trie finds the longest recorded prefix (locale \<open>prefix_index\<close>); round robin is
    fair; a session moves only to a new endpoint; a prompt follows its prefix; the KV router falls back to
    session routing.
  \<^item> \<open>Request_Service\<close>, \<open>Request_Properties\<close>: \<^verbatim>\<open>services/request_service/\<close>. A request is forwarded only to an eligible
    engine, transparently, and its life cycle is reported; an unserved model is answered with an error.
  \<^item> \<open>Yaml_Config\<close>, \<open>Router_Config\<close>, \<open>Feature_Gates\<close>, \<open>Dynamic_Config\<close>: \<^verbatim>\<open>parsers/\<close>,
    \<^verbatim>\<open>experimental/feature_gates.py\<close>, \<^verbatim>\<open>dynamic_config.py\<close>. The watcher reaches the configuration of the file and
    keeps the process consistent.
  \<^item> \<open>File_Storage\<close>, \<open>Batch_Service\<close>, \<open>Batch_Properties\<close>: \<^verbatim>\<open>services/files_service/\<close>, \<^verbatim>\<open>services/batch_service/\<close> and
    their routes. The store on a directory tree refines a map (locale \<open>file_store\<close>); the batch table stays
    well-typed and the worker drains its queue.
  \<^item> \<open>Semantic_Cache\<close>: \<^verbatim>\<open>experimental/semantic_cache/\<close> and \<^verbatim>\<open>experimental/semantic_cache_integration.py\<close>. A hit is
    a reply stored for the same model and near enough; index and metadata stay in step.
  \<^item> \<open>Pii_Detection\<close>: \<^verbatim>\<open>experimental/pii/\<close>. The check refuses exactly the bodies whose JSON text shows a selected type.
    \<open>Regex_Search\<close> is the search with groups it uses; \<open>ends_iff\<close> and \<open>finditer_iff\<close> tie it to the meaning of a pattern.
  \<^item> \<open>App_Startup\<close>, \<open>Main_Routes\<close>: \<^verbatim>\<open>app.py\<close>, \<^verbatim>\<open>routers/main_router.py\<close>, \<^verbatim>\<open>routers/metrics_router.py\<close>,
    \<^verbatim>\<open>stats/log_stats.py\<close>. What a started program has and what a shutdown stops.

  \<^bold>\<open>The operator\<close> (\<^verbatim>\<open>src/operator/internal/controller\<close>, with the types of \<^verbatim>\<open>src/operator/api/v1alpha1\<close>). A pass of a controller reads
  its resource and the objects it owns, and creates or updates one object or writes the status; its result asks for another
  pass or not. A pass is a program over the history of the calls made so far: a field of an environment, applied to that
  history, answers each call, so a theorem may speak of any cluster, and of what was called in which order.
  \<^item> \<open>Operator_Prelude\<close>: the programs, the objects, the steps the controllers share, and a cluster that keeps what was
    written (\<open>keeps_writes\<close>). \<open>two_objects_settle\<close> gives the results of all passes from those of three.
  \<^item> \<open>Cache_Controller\<close>, \<open>Router_Controller\<close>, \<open>Runtime_Controller\<close>: when repeated passes come to rest, and which changes of a
    resource they never carry out.
  \<^item> \<open>Operator_Router\<close>: the arguments that the operator writes, read by the parser of the router (\<open>Router_Config\<close>): which
    deployed routers start.
  \<^item> \<open>Lora_Controller\<close>, \<open>Lora_Properties\<close>, \<open>Lora_Convergence\<close>: the placement, and that one pass brings the ready pods to it, that
    the next changes nothing, and that a deletion unloads the ready pods. The engines are any that answer by what
    they were last asked to load or unload (\<open>engine_works\<close>).

  \<^bold>\<open>The programs around it.\<close>
  \<^item> \<open>Jev_Decide\<close>: \<^verbatim>\<open>src/skills/jev-decide/scripts/decide.py\<close>. An answer is printed only after it is in the audit log, which
    stays a hash chain; tries are bounded; the key reaches neither log nor output.
  \<^item> \<open>Nvlink_Log\<close>, \<open>Nvlink_Report\<close>, \<open>Nvlink_Properties\<close>: \<^verbatim>\<open>src/debug/issue-6/analyze_nvlink_nvdbg.py\<close>. Fields are read
    back, the evidence quotes the log, the nearest event is the nearest, the counts are right.
  \<^item> \<open>Mooncake_Verify\<close>: \<^verbatim>\<open>src/docker/mooncake/scripts/verify-install.py\<close>. What an image that passes has.
  \<^item> \<open>Gateway_Pickers\<close>: \<^verbatim>\<open>src/src/gateway_inference_extension/\<close>. The round-robin index at 64 bits, and why the prefix
    picker uses one endpoint only.

  \<^bold>\<open>Bounds.\<close> The hashes and counters that wrap are 64-bit words. The constants of the code (six tries, ten seconds,
  forty lines, 128 bytes) are those of the source. Texts of the searches have code points below 256.

  \<^bold>\<open>Not modelled.\<close> Of the operator: \<^verbatim>\<open>cmd/main.go\<close> and the registration of the controllers, which only call
  controller-runtime, and the generated copies of the types; of \<^verbatim>\<open>argparse\<close>: abbreviated option
  names. The module \<^verbatim>\<open>experimental/semantic_cache.py\<close>, which the package of the same name hides and which
  imports a module that does not exist. Abstract base classes and package files, which only declare or
  re-export. Logging, Sentry, the web server, and the locks inside an operation: each operation runs alone, as in the
  event loop; the steps between which others may come are separate definitions. Benchmarks, tests,
  examples and shell scripts. The sorted order of the keys in the JSON text of a dynamic configuration.
\<close>

end
